(* ===== verification/Rust_Prelude.thy ===== *)
theory Rust_Prelude
  imports Main "HOL-Library.Word"
begin

text \<open>
  Shared vocabulary of the development: the Rust standard-library operations the services
  use (checked indexing, stepping ranges, trimming, lower-casing, decimal printing, UTF-8
  bytes, \<open>as\<close> casts), a result-returning effect type with the combinators that stand for
  the question-mark operator, the relational-database world with its fault schedule, JSON
  values and the gRPC status type.

  Strings are lists of characters, read as the code points U+0000 to U+00FF.  On that
  alphabet the Unicode decimal digits are exactly \<open>0\<close> to \<open>9\<close> and the White_Space characters
  are U+0009 to U+000D, U+0020, U+0085 and U+00A0.
\<close>

named_theorems eff_simps \<open>unfolding rules of the effect combinators\<close>
named_theorems wire_simps \<open>unfolding rules of the wire-format conversions\<close>

section \<open>Machine values\<close>

type_synonym byte = "8 word"
type_synonym bytes = "byte list"
type_synonym uuid = "128 word"
type_synonym datetime = int

text \<open>\<open>Uuid::nil()\<close>.\<close>

abbreviation uuid_nil :: uuid where
  "uuid_nil \<equiv> 0"

text \<open>The \<open>as i32\<close> and \<open>as i64\<close> casts keep the low bits and read them as a signed number.\<close>

definition as_i32 :: "int \<Rightarrow> int" where
  "as_i32 x = (x + 2 ^ 31) mod 2 ^ 32 - 2 ^ 31"

definition as_i64 :: "int \<Rightarrow> int" where
  "as_i64 x = (x + 2 ^ 63) mod 2 ^ 64 - 2 ^ 63"

definition as_u32 :: "int \<Rightarrow> int" where
  "as_u32 x = x mod 2 ^ 32"

definition i32_max :: int where
  "i32_max = 2 ^ 31 - 1"

definition in_i32 :: "int \<Rightarrow> bool" where
  "in_i32 x \<longleftrightarrow> - (2 ^ 31) \<le> x \<and> x < 2 ^ 31"

definition in_i64 :: "int \<Rightarrow> bool" where
  "in_i64 x \<longleftrightarrow> - (2 ^ 63) \<le> x \<and> x < 2 ^ 63"

lemma i32_max_nonneg [simp]: "0 \<le> i32_max"
  by (simp add: i32_max_def)

lemma as_i32_id [simp]: "in_i32 x \<Longrightarrow> as_i32 x = x"
  by (simp add: as_i32_def in_i32_def)

lemma as_i64_id [simp]: "in_i64 x \<Longrightarrow> as_i64 x = x"
  by (simp add: as_i64_def in_i64_def)

lemma as_i32_range [simp]: "in_i32 (as_i32 x)"
  by (simp add: as_i32_def in_i32_def)

lemma as_i64_range [simp]: "in_i64 (as_i64 x)"
  by (simp add: as_i64_def in_i64_def)

section \<open>Slices and ranges\<close>

text \<open>Slice indexing panics out of range: \<open>None\<close> is the panic.\<close>

definition slice_index :: "'a list \<Rightarrow> nat \<Rightarrow> 'a option" where
  "slice_index xs i = (if i < length xs then Some (xs ! i) else None)"

lemma slice_index_in [simp]: "i < length xs \<Longrightarrow> slice_index xs i = Some (xs ! i)"
  by (simp add: slice_index_def)

lemma slice_index_out [simp]: "\<not> i < length xs \<Longrightarrow> slice_index xs i = None"
  by (simp add: slice_index_def)

text \<open>\<open>(0..n).step_by(k)\<close>.\<close>

definition step_by :: "nat \<Rightarrow> nat \<Rightarrow> nat list" where
  "step_by k n = map (\<lambda>j. k * j) [0..<(n + k - 1) div k]"

text \<open>An iterator of fallible steps collected into one result; the first failure ends it.\<close>

fun collect_opt :: "('a \<Rightarrow> 'b option) \<Rightarrow> 'a list \<Rightarrow> 'b list option" where
  "collect_opt f [] = Some []"
| "collect_opt f (x # xs) =
     (case f x of None \<Rightarrow> None
      | Some y \<Rightarrow> (case collect_opt f xs of None \<Rightarrow> None | Some ys \<Rightarrow> Some (y # ys)))"

lemma collect_opt_Some:
  "(\<And>x. x \<in> set xs \<Longrightarrow> f x = Some (g x)) \<Longrightarrow> collect_opt f xs = Some (map g xs)"
  by (induction xs) auto

lemma collect_opt_length: "collect_opt f xs = Some ys \<Longrightarrow> length ys = length xs"
  by (induction xs arbitrary: ys) (auto split: option.splits)

fun collect_result :: "('a \<Rightarrow> 'e + 'b) \<Rightarrow> 'a list \<Rightarrow> 'e + 'b list" where
  "collect_result f [] = Inr []"
| "collect_result f (x # xs) =
     (case f x of Inl e \<Rightarrow> Inl e
      | Inr y \<Rightarrow> (case collect_result f xs of Inl e \<Rightarrow> Inl e | Inr ys \<Rightarrow> Inr (y # ys)))"

lemma collect_result_Inr:
  "(\<And>x. x \<in> set xs \<Longrightarrow> f x = Inr (g x)) \<Longrightarrow> collect_result f xs = Inr (map g xs)"
  by (induction xs) auto

definition last_opt :: "'a list \<Rightarrow> 'a option" where
  "last_opt xs = (if xs = [] then None else Some (last xs))"

definition first_opt :: "'a list \<Rightarrow> 'a option" where
  "first_opt xs = (case xs of [] \<Rightarrow> None | x # _ \<Rightarrow> Some x)"

fun unwrap_or :: "'a option \<Rightarrow> 'a \<Rightarrow> 'a" where
  "unwrap_or None d = d"
| "unwrap_or (Some x) d = x"

lemma last_opt_simps [simp]:
  "last_opt [] = None" "last_opt (xs @ [x]) = Some x" "xs \<noteq> [] \<Longrightarrow> last_opt xs = Some (last xs)"
  by (auto simp: last_opt_def)

lemma first_opt_simps [simp]: "first_opt [] = None" "first_opt (x # xs) = Some x"
  by (auto simp: first_opt_def)

lemma find_eq_first_opt: "List.find P xs = first_opt (filter P xs)"
  by (induction xs) auto

section \<open>Strings\<close>

definition is_digit :: "char \<Rightarrow> bool" where
  "is_digit c \<longleftrightarrow> 48 \<le> (of_char c :: nat) \<and> (of_char c :: nat) \<le> 57"

definition is_whitespace :: "char \<Rightarrow> bool" where
  "is_whitespace c \<longleftrightarrow>
     (let n = (of_char c :: nat) in 9 \<le> n \<and> n \<le> 13 \<or> n = 32 \<or> n = 133 \<or> n = 160)"

definition str_trim :: "string \<Rightarrow> string" where
  "str_trim s = rev (dropWhile is_whitespace (rev (dropWhile is_whitespace s)))"

definition char_to_lower :: "char \<Rightarrow> char" where
  "char_to_lower c =
     (let n = (of_char c :: nat) in
      if 65 \<le> n \<and> n \<le> 90 \<or> 192 \<le> n \<and> n \<le> 222 \<and> n \<noteq> 215 then char_of (n + 32) else c)"

definition to_lowercase :: "string \<Rightarrow> string" where
  "to_lowercase s = map char_to_lower s"

definition starts_with :: "string \<Rightarrow> string \<Rightarrow> bool" where
  "starts_with s p \<longleftrightarrow> take (length p) s = p"

text \<open>Decimal printing, as \<open>format!("{}")\<close> prints an integer.\<close>

function show_nat :: "nat \<Rightarrow> string" where
  "show_nat n = (if n < 10 then [char_of (48 + n)] else show_nat (n div 10) @ [char_of (48 + n mod 10)])"
  by pat_completeness auto
termination by (relation "measure id") auto

declare show_nat.simps [simp del]

definition show_int :: "int \<Rightarrow> string" where
  "show_int i = (if i < 0 then ''-'' @ show_nat (nat (- i)) else show_nat (nat i))"

text \<open>\<open>str::parse::<i32>\<close>: an optional sign and at least one digit, in range.\<close>

definition digits_value :: "string \<Rightarrow> nat" where
  "digits_value s = foldl (\<lambda>n c. 10 * n + (of_char c - 48)) 0 s"

definition parse_digits :: "string \<Rightarrow> nat option" where
  "parse_digits s = (if s \<noteq> [] \<and> list_all is_digit s then Some (digits_value s) else None)"

definition parse_i32 :: "string \<Rightarrow> int option" where
  "parse_i32 s =
     (case (case s of
              [] \<Rightarrow> None
            | c # ds \<Rightarrow> if c = CHR ''-'' then map_option (\<lambda>n. - int n) (parse_digits ds)
                       else if c = CHR ''+'' then map_option int (parse_digits ds)
                       else map_option int (parse_digits s)) of
        Some i \<Rightarrow> if in_i32 i then Some i else None
      | None \<Rightarrow> None)"

text \<open>The UTF-8 bytes of a string, \<open>str::as_bytes\<close>.\<close>

definition utf8_char :: "char \<Rightarrow> bytes" where
  "utf8_char c =
     (let n = (of_char c :: nat) in
      if n < 128 then [of_nat n] else [of_nat (192 + n div 64), of_nat (128 + n mod 64)])"

definition as_bytes :: "string \<Rightarrow> bytes" where
  "as_bytes s = concat (map utf8_char s)"

lemma digits_value_snoc: "digits_value (s @ [c]) = 10 * digits_value s + (of_char c - 48)"
  by (simp add: digits_value_def)

lemma show_nat_digits: "show_nat n \<noteq> [] \<and> list_all is_digit (show_nat n) \<and> digits_value (show_nat n) = n"
proof (induction n rule: show_nat.induct)
  case (1 n)
  have d: "is_digit (char_of (48 + m))" if "m < 10" for m :: nat using that by (simp add: is_digit_def)
  show ?case
  proof (cases "n < 10")
    case True
    then show ?thesis using d [of n] by (simp add: show_nat.simps [of n] digits_value_def)
  next
    case False
    then have "show_nat n = show_nat (n div 10) @ [char_of (48 + n mod 10)]" by (simp add: show_nat.simps [of n])
    then show ?thesis using "1.IH" [OF False] d [of "n mod 10"] by (simp add: digits_value_snoc)
  qed
qed

lemma parse_digits_show_nat [simp]: "parse_digits (show_nat n) = Some n"
  using show_nat_digits [of n] by (simp add: parse_digits_def)

lemma parse_show_int: "in_i32 i \<Longrightarrow> parse_i32 (show_int i) = Some i"
proof (cases "i < 0")
  case False
  assume i: "in_i32 i"
  obtain c ds where s: "show_nat (nat i) = c # ds" using show_nat_digits [of "nat i"] by (cases "show_nat (nat i)") auto
  then have "is_digit c" using show_nat_digits [of "nat i"] by simp
  then have "c \<noteq> CHR ''-''" "c \<noteq> CHR ''+''" by (auto simp: is_digit_def)
  then show ?thesis using False i s parse_digits_show_nat [of "nat i"] by (simp add: show_int_def parse_i32_def)
qed (simp add: show_int_def parse_i32_def)

lemma starts_with_iff: "starts_with s p \<longleftrightarrow> (\<exists>t. s = p @ t)"
  by (metis append_eq_conv_conj append_take_drop_id starts_with_def)

lemma dropWhile_all_iff: "(\<forall>x\<in>set (dropWhile P xs). P x) \<longleftrightarrow> (\<forall>x\<in>set xs. P x)"
  by (induction xs) auto

lemma str_trim_empty_iff: "str_trim s = [] \<longleftrightarrow> list_all is_whitespace s"
  by (simp add: str_trim_def list_all_iff dropWhile_all_iff)

lemma of_nat_byte_inject: "a < 256 \<Longrightarrow> b < 256 \<Longrightarrow> (of_nat a :: byte) = of_nat b \<longleftrightarrow> a = b"
  by (simp add: word_of_nat_eq_iff take_bit_eq_mod)

lemma of_char_less: "(of_char c :: nat) < 256"
  by (cases c) (simp add: of_char_def)

lemma utf8_nat_inject:
  assumes m: "m < 256" and n: "n < 256"
  shows "(if m < 128 then [of_nat m] else [of_nat (192 + m div 64), of_nat (128 + m mod 64)]) @ x =
         (if n < 128 then [of_nat n] else [of_nat (192 + n div 64), of_nat (128 + n mod 64)]) @ (y :: bytes)
         \<longleftrightarrow> m = n \<and> x = y"
proof -
  have b: "192 + m div 64 < 256" "192 + n div 64 < 256" "128 + m mod 64 < 256" "128 + n mod 64 < 256"
    using m n by auto
  have split: "m = n \<longleftrightarrow> m div 64 = n div 64 \<and> m mod 64 = n mod 64"
    by (metis div_mult_mod_eq)
  show ?thesis
    using split
    by (cases "m < 128"; cases "n < 128")
      (simp_all only: if_True if_False append_Cons append_Nil list.inject refl
         of_nat_byte_inject [OF m n] of_nat_byte_inject [OF m b(2)] of_nat_byte_inject [OF b(1) n]
         of_nat_byte_inject [OF b(1,2)] of_nat_byte_inject [OF b(3,4)], auto)
qed

lemma utf8_char_append_inject:
  "utf8_char c @ x = utf8_char d @ y \<longleftrightarrow> c = d \<and> x = y"
  unfolding utf8_char_def Let_def utf8_nat_inject [OF of_char_less of_char_less] by simp

lemma as_bytes_Nil_iff [simp]: "as_bytes s = [] \<longleftrightarrow> s = []"
  by (cases s) (auto simp: as_bytes_def utf8_char_def Let_def)

lemma as_bytes_inject: "as_bytes s = as_bytes t \<longleftrightarrow> s = t"
proof (induction s arbitrary: t)
  case Nil
  show ?case by (metis as_bytes_Nil_iff)
next
  case (Cons c s)
  show ?case
  proof (cases t)
    case Nil
    then show ?thesis by (metis as_bytes_Nil_iff)
  next
    case (Cons d u)
    have "as_bytes (c # s) = utf8_char c @ as_bytes s" "as_bytes (d # u) = utf8_char d @ as_bytes u"
      by (simp_all add: as_bytes_def)
    then show ?thesis using Cons.IH Cons by (simp add: utf8_char_append_inject)
  qed
qed

section \<open>Effects\<close>

text \<open>
  An operation reads and updates a world and ends with a value or an error.  \<open>bindE m f\<close> is
  \<open>f(m?)\<close>: an error returns early with the world reached so far.
\<close>

type_synonym ('w, 'e, 'a) eff = "'w \<Rightarrow> ('e + 'a) \<times> 'w"

definition okE :: "'a \<Rightarrow> ('w, 'e, 'a) eff" where
  "okE a = (\<lambda>w. (Inr a, w))"

definition failE :: "'e \<Rightarrow> ('w, 'e, 'a) eff" where
  "failE e = (\<lambda>w. (Inl e, w))"

definition bindE :: "('w, 'e, 'a) eff \<Rightarrow> ('a \<Rightarrow> ('w, 'e, 'b) eff) \<Rightarrow> ('w, 'e, 'b) eff" where
  "bindE m f = (\<lambda>w. case m w of (Inl e, w') \<Rightarrow> (Inl e, w') | (Inr a, w') \<Rightarrow> f a w')"

text \<open>\<open>Result::map_err\<close>, \<open>Result::ok\<close> with the value dropped, and a pure result used as an effect.\<close>

definition map_errE :: "('e \<Rightarrow> 'f) \<Rightarrow> ('w, 'e, 'a) eff \<Rightarrow> ('w, 'f, 'a) eff" where
  "map_errE g m = (\<lambda>w. case m w of (Inl e, w') \<Rightarrow> (Inl (g e), w') | (Inr a, w') \<Rightarrow> (Inr a, w'))"

definition ignoreE :: "('w, 'e, 'a) eff \<Rightarrow> ('w, 'f, unit) eff" where
  "ignoreE m = (\<lambda>w. (Inr (), snd (m w)))"

definition attemptE :: "('w, 'e, 'a) eff \<Rightarrow> ('w, 'f, 'e + 'a) eff" where
  "attemptE m = (\<lambda>w. case m w of (r, w') \<Rightarrow> (Inr r, w'))"

definition liftE :: "'e + 'a \<Rightarrow> ('w, 'e, 'a) eff" where
  "liftE r = (\<lambda>w. (r, w))"

definition getE :: "('w \<Rightarrow> 'a) \<Rightarrow> ('w, 'e, 'a) eff" where
  "getE f = (\<lambda>w. (Inr (f w), w))"

definition modifyE :: "('w \<Rightarrow> 'w) \<Rightarrow> ('w, 'e, unit) eff" where
  "modifyE f = (\<lambda>w. (Inr (), f w))"

fun forE :: "('a \<Rightarrow> ('w, 'e, unit) eff) \<Rightarrow> 'a list \<Rightarrow> ('w, 'e, unit) eff" where
  "forE f [] = okE ()"
| "forE f (x # xs) = bindE (f x) (\<lambda>_. forE f xs)"

lemmas [eff_simps] = okE_def failE_def liftE_def getE_def modifyE_def map_errE_def ignoreE_def
  attemptE_def

lemma bindE_apply [eff_simps]:
  "bindE m f w = (case m w of (Inl e, w') \<Rightarrow> (Inl e, w') | (Inr a, w') \<Rightarrow> f a w')"
  by (simp add: bindE_def)

lemma bindE_Inr: "m w = (Inr a, w') \<Longrightarrow> bindE m f w = f a w'"
  by (simp add: bindE_def)

lemma bindE_Inl: "m w = (Inl e, w') \<Longrightarrow> bindE m f w = (Inl e, w')"
  by (simp add: bindE_def)

lemma bindE_okE [simp]: "bindE (okE a) f = f a"
  by (simp add: bindE_def okE_def)

lemma bindE_failE [simp]: "bindE (failE e) f = failE e"
  by (simp add: bindE_def failE_def)

lemma bindE_assoc: "bindE (bindE m f) g = bindE m (\<lambda>a. bindE (f a) g)"
  by (rule ext) (auto simp: bindE_def split: prod.splits sum.splits)

lemma bindE_Inr_cases:
  assumes "bindE m f w = (Inr b, w'')"
  obtains a w' where "m w = (Inr a, w')" "f a w' = (Inr b, w'')"
  using assms by (auto simp: bindE_def split: prod.splits sum.splits)

text \<open>A relation on worlds that every step of a program keeps is kept by the program.\<close>

definition keeps :: "('w \<Rightarrow> 'w \<Rightarrow> bool) \<Rightarrow> ('w, 'e, 'a) eff \<Rightarrow> bool" where
  "keeps R m \<longleftrightarrow> (\<forall>w. R w (snd (m w)))"

lemma keepsI: "(\<And>w. R w (snd (m w))) \<Longrightarrow> keeps R m"
  by (simp add: keeps_def)

lemma keepsD: "keeps R m \<Longrightarrow> m w = (r, w') \<Longrightarrow> R w w'"
  by (metis keeps_def snd_conv)

lemma keeps_bindE:
  "transp R \<Longrightarrow> keeps R m \<Longrightarrow> (\<And>a. keeps R (f a)) \<Longrightarrow> keeps R (bindE m f)"
proof (rule keepsI)
  fix w assume R: "transp R" "keeps R m" "\<And>a. keeps R (f a)"
  obtain r w' where m: "m w = (r, w')" by fastforce
  show "R w (snd (bindE m f w))"
  proof (cases r)
    case (Inl e)
    then show ?thesis using m keepsD [OF R(2) m] by (simp add: bindE_def)
  next
    case (Inr a)
    then show ?thesis
      using m keepsD [OF R(2) m] R(3) [of a] transpD [OF R(1)]
      by (fastforce simp: bindE_def keeps_def)
  qed
qed

lemma keeps_pure:
  "reflp R \<Longrightarrow> keeps R (okE a)" "reflp R \<Longrightarrow> keeps R (failE e)" "reflp R \<Longrightarrow> keeps R (liftE r)"
  "reflp R \<Longrightarrow> keeps R (getE g)"
  by (simp_all add: keeps_def eff_simps reflpD)

lemma keeps_wrap:
  "keeps R m \<Longrightarrow> keeps R (map_errE h m)" "keeps R m \<Longrightarrow> keeps R (ignoreE m)"
  "keeps R m \<Longrightarrow> keeps R (attemptE m)"
  by (simp_all add: keeps_def eff_simps split_beta split: sum.splits)

lemma keeps_forE: "reflp R \<Longrightarrow> transp R \<Longrightarrow> (\<And>x. keeps R (f x)) \<Longrightarrow> keeps R (forE f xs)"
  by (induction xs) (auto intro: keeps_bindE keeps_pure)

section \<open>The database world\<close>

text \<open>
  Every statement sent to PostgreSQL can fail.  The world carries the number of statements
  sent so far and a fault schedule that gives the error text of the statements that fail; a
  failed statement changes no table.  It also carries the readings of the clock and the random
  identifiers the process is going to see, with the number already used.  The services extend
  this record with their tables; the tables hold the rows visible to the service's connection.
\<close>

record db_world =
  db_calls :: nat
  db_fault :: "nat \<Rightarrow> string option"
  clock_reads :: nat
  clock :: "nat \<Rightarrow> datetime"
  uuids_made :: nat
  uuid_supply :: "nat \<Rightarrow> uuid"

text \<open>\<open>Utc::now()\<close> and \<open>Uuid::new_v4()\<close>.\<close>

definition utc_now :: "('x db_world_scheme, 'e, datetime) eff" where
  "utc_now = (\<lambda>w. (Inr (clock w (clock_reads w)), w\<lparr>clock_reads := Suc (clock_reads w)\<rparr>))"

definition new_v4 :: "('x db_world_scheme, 'e, uuid) eff" where
  "new_v4 = (\<lambda>w. (Inr (uuid_supply w (uuids_made w)), w\<lparr>uuids_made := Suc (uuids_made w)\<rparr>))"

definition db_op :: "('x db_world_scheme \<Rightarrow> 'a \<times> 'x db_world_scheme) \<Rightarrow> ('x db_world_scheme, string, 'a) eff" where
  "db_op f = (\<lambda>w. let w' = w\<lparr>db_calls := Suc (db_calls w)\<rparr> in
     case db_fault w (db_calls w) of
       Some msg \<Rightarrow> (Inl msg, w')
     | None \<Rightarrow> (case f w' of (a, w'') \<Rightarrow> (Inr a, w'')))"

definition db_query :: "('x db_world_scheme \<Rightarrow> 'a) \<Rightarrow> ('x db_world_scheme, string, 'a) eff" where
  "db_query q = db_op (\<lambda>w. (q w, w))"

text \<open>A statement PostgreSQL itself may reject, and \<open>LIMIT\<close>, which rejects a negative bound.\<close>

definition db_select :: "('x db_world_scheme \<Rightarrow> string + 'a) \<Rightarrow> ('x db_world_scheme, string, 'a) eff" where
  "db_select q = bindE (db_query q) liftE"

definition sql_limit :: "int \<Rightarrow> 'a list \<Rightarrow> string + 'a list" where
  "sql_limit n xs = (if n < 0 then Inl ''LIMIT must not be negative'' else Inr (take (nat n) xs))"

definition db_exec :: "('x db_world_scheme \<Rightarrow> 'x db_world_scheme) \<Rightarrow> ('x db_world_scheme, string, unit) eff" where
  "db_exec u = db_op (\<lambda>w. ((), u w))"

definition db_up :: "'x db_world_scheme \<Rightarrow> bool" where
  "db_up w \<longleftrightarrow> (\<forall>n \<ge> db_calls w. db_fault w n = None)"

lemma db_query_up [simp]:
  "db_fault w (db_calls w) = None \<Longrightarrow>
   db_query q w = (Inr (q (w\<lparr>db_calls := Suc (db_calls w)\<rparr>)), w\<lparr>db_calls := Suc (db_calls w)\<rparr>)"
  by (simp add: db_query_def db_op_def Let_def)

lemma db_exec_up [simp]:
  "db_fault w (db_calls w) = None \<Longrightarrow>
   db_exec u w = (Inr (), u (w\<lparr>db_calls := Suc (db_calls w)\<rparr>))"
  by (simp add: db_exec_def db_op_def Let_def)

lemma db_query_down [simp]:
  "db_fault w (db_calls w) = Some e \<Longrightarrow> db_query q w = (Inl e, w\<lparr>db_calls := Suc (db_calls w)\<rparr>)"
  by (simp add: db_query_def db_op_def Let_def)

lemma db_exec_down [simp]:
  "db_fault w (db_calls w) = Some e \<Longrightarrow> db_exec u w = (Inl e, w\<lparr>db_calls := Suc (db_calls w)\<rparr>)"
  by (simp add: db_exec_def db_op_def Let_def)

lemma db_up_now [simp]: "db_up w \<Longrightarrow> db_fault w (db_calls w) = None"
  by (simp add: db_up_def)

lemma db_up_later [simp]: "db_up w \<Longrightarrow> db_fault w (Suc (db_calls w)) = None"
  by (simp add: db_up_def)

lemma db_up_step [simp]: "db_up w \<Longrightarrow> db_up (w\<lparr>db_calls := Suc (db_calls w)\<rparr>)"
  by (simp add: db_up_def)

section \<open>Invariants of programs\<close>

text \<open>
  \<open>preserves I m Q\<close>: from a world satisfying \<open>I\<close>, the program \<open>m\<close> ends in a world satisfying \<open>I\<close>
  whether it returns or fails, and a value it returns satisfies \<open>Q\<close>.
\<close>

definition preserves :: "('w \<Rightarrow> bool) \<Rightarrow> ('w, 'e, 'a) eff \<Rightarrow> ('a \<Rightarrow> bool) \<Rightarrow> bool" where
  "preserves I m Q \<longleftrightarrow> (\<forall>w. I w \<longrightarrow> I (snd (m w)) \<and> (\<forall>a. fst (m w) = Inr a \<longrightarrow> Q a))"

lemma preservesI:
  "(\<And>w. I w \<Longrightarrow> I (snd (m w))) \<Longrightarrow> (\<And>w a. I w \<Longrightarrow> fst (m w) = Inr a \<Longrightarrow> Q a) \<Longrightarrow> preserves I m Q"
  by (simp add: preserves_def)

lemma preservesD: "preserves I m Q \<Longrightarrow> I w \<Longrightarrow> I (snd (m w))"
  by (simp add: preserves_def)

lemma preserves_bindE:
  assumes "preserves I m Q" "\<And>a. Q a \<Longrightarrow> preserves I (f a) Q'"
  shows "preserves I (bindE m f) Q'"
proof (unfold preserves_def, intro allI impI)
  fix w assume "I w"
  obtain r w' where m: "m w = (r, w')" by fastforce
  show "I (snd (bindE m f w)) \<and> (\<forall>a. fst (bindE m f w) = Inr a \<longrightarrow> Q' a)"
  proof (cases r)
    case (Inl e)
    then show ?thesis using assms(1) \<open>I w\<close> m by (auto simp: preserves_def bindE_def dest!: spec [of _ w])
  next
    case (Inr a)
    then have "I w'" "Q a" using assms(1) \<open>I w\<close> m by (auto simp: preserves_def dest!: spec [of _ w])
    then show ?thesis using assms(2) [of a] m Inr by (simp add: bindE_def preserves_def)
  qed
qed

lemma preserves_weaken: "preserves I m Q \<Longrightarrow> (\<And>a. Q a \<Longrightarrow> Q' a) \<Longrightarrow> preserves I m Q'"
  by (simp add: preserves_def)

lemma preserves_pure:
  "Q a \<Longrightarrow> preserves I (okE a) Q" "preserves I (failE e) Q"
  "(\<And>a. r = Inr a \<Longrightarrow> Q a) \<Longrightarrow> preserves I (liftE r) Q"
  by (simp_all add: preserves_def eff_simps)

lemma preserves_seq:
  "preserves I m (\<lambda>_. True) \<Longrightarrow> (\<And>a. preserves I (f a) Q) \<Longrightarrow> preserves I (bindE m f) Q"
  by (rule preserves_bindE)

lemma preserves_bind_liftE:
  "(\<And>a. r = Inr a \<Longrightarrow> preserves I (f a) Q) \<Longrightarrow> preserves I (bindE (liftE r) f) Q"
  by (rule preserves_bindE [of _ _ "\<lambda>a. r = Inr a"]) (simp_all add: preserves_pure)

lemma preserves_case:
  "(\<And>e. r = Inl e \<Longrightarrow> preserves I (f e) Q) \<Longrightarrow> (\<And>a. r = Inr a \<Longrightarrow> preserves I (g a) Q) \<Longrightarrow>
   preserves I (case r of Inl e \<Rightarrow> f e | Inr a \<Rightarrow> g a) Q"
  "(ov = None \<Longrightarrow> preserves I h Q) \<Longrightarrow> (\<And>b. ov = Some b \<Longrightarrow> preserves I (k b) Q) \<Longrightarrow>
   preserves I (case ov of None \<Rightarrow> h | Some b \<Rightarrow> k b) Q"
  "(c \<Longrightarrow> preserves I m Q) \<Longrightarrow> (\<not> c \<Longrightarrow> preserves I m' Q) \<Longrightarrow> preserves I (if c then m else m') Q"
  by (auto split: sum.splits option.splits)

lemma preserves_map_errE: "preserves I m Q \<Longrightarrow> preserves I (map_errE g m) Q"
  by (simp add: preserves_def map_errE_def split_beta split: sum.splits)

lemma preserves_attemptE:
  "preserves I m Q \<Longrightarrow> preserves I (attemptE m) (\<lambda>r. \<forall>a. r = Inr a \<longrightarrow> Q a)"
  by (simp add: preserves_def attemptE_def split_beta)

lemma preserves_ignoreE: "preserves I m Q \<Longrightarrow> preserves I (ignoreE m) (\<lambda>_. True)"
  by (simp add: preserves_def ignoreE_def)

lemma preserves_modifyE: "(\<And>w. I w \<Longrightarrow> I (f w)) \<Longrightarrow> preserves I (modifyE f) (\<lambda>_. True)"
  by (simp add: preserves_def modifyE_def)

text \<open>An invariant of the tables alone does not see the counters of the world.\<close>

definition table_inv :: "('x db_world_scheme \<Rightarrow> bool) \<Rightarrow> bool" where
  "table_inv I \<longleftrightarrow> (\<forall>w n. I (w\<lparr>db_calls := n\<rparr>) = I w) \<and> (\<forall>w n. I (w\<lparr>clock_reads := n\<rparr>) = I w) \<and>
     (\<forall>w n. I (w\<lparr>uuids_made := n\<rparr>) = I w)"

lemma preserves_utc_now: "table_inv I \<Longrightarrow> preserves I utc_now (\<lambda>_. True)"
  by (simp add: preserves_def utc_now_def table_inv_def)

lemma preserves_new_v4: "table_inv I \<Longrightarrow> preserves I new_v4 (\<lambda>_. True)"
  by (simp add: preserves_def new_v4_def table_inv_def)

lemma preserves_db_op:
  assumes "table_inv I" "\<And>w. I w \<Longrightarrow> I (snd (f w)) \<and> Q (fst (f w))"
  shows "preserves I (db_op f) Q"
  using assms
  by (simp add: preserves_def db_op_def table_inv_def Let_def split_beta split: option.splits)

lemma preserves_db_query:
  "table_inv I \<Longrightarrow> (\<And>w. I w \<Longrightarrow> Q (q w)) \<Longrightarrow> preserves I (db_query q) Q"
  unfolding db_query_def by (rule preserves_db_op) simp_all

lemma preserves_db_exec:
  "table_inv I \<Longrightarrow> (\<And>w. I w \<Longrightarrow> I (u w)) \<Longrightarrow> preserves I (db_exec u) (\<lambda>_. True)"
  unfolding db_exec_def by (rule preserves_db_op) simp_all

lemma preserves_db_select:
  "table_inv I \<Longrightarrow> (\<And>w a. I w \<Longrightarrow> q w = Inr a \<Longrightarrow> Q a) \<Longrightarrow> preserves I (db_select q) Q"
  unfolding db_select_def
  by (rule preserves_bindE [of _ _ "\<lambda>r. \<forall>a. r = Inr a \<longrightarrow> Q a"])
    (auto intro: preserves_db_query preserves_pure)

lemma preserves_forE:
  "(\<And>x. x \<in> set xs \<Longrightarrow> preserves I (f x) (\<lambda>_. True)) \<Longrightarrow> preserves I (forE f xs) (\<lambda>_. True)"
  by (induction xs) (auto intro: preserves_pure preserves_bindE [of _ _ "\<lambda>_. True"])

end
