(* ===== verification/Merkle.thy ===== *)
theory Merkle
  imports Rust_Prelude
begin

text \<open>
  Merkle trees of the audit service (audit/src/domain/merkle.rs): the level-order tree with
  its odd-node duplication, the sibling path of a leaf and its verification.  SHA-256 comes
  from the sha2 crate and is the parameter \<open>h\<close> of every definition.  The index-based loops
  of the code are related to a recursive reference (\<open>pair_up\<close>, \<open>levels\<close>, \<open>auth_path\<close>), from
  which completeness and binding of inclusion proofs follow.
\<close>

section \<open>The code\<close>

text \<open>
  \<open>build_merkle_tree\<close>: the body of the for loop over \<open>(0..level_len).step_by(2)\<close>, the while
  loop, and the function.  \<open>None\<close> is an out-of-range panic.
\<close>

definition merkle_node ::
  "(bytes \<Rightarrow> bytes) \<Rightarrow> bytes list \<Rightarrow> nat \<Rightarrow> nat \<Rightarrow> nat \<Rightarrow> bytes option" where
  "merkle_node h tree level_start level_len i =
     (case slice_index tree (level_start + i) of
        None \<Rightarrow> None
      | Some left \<Rightarrow>
          (case (if i + 1 < level_len then slice_index tree (level_start + i + 1) else Some left) of
             None \<Rightarrow> None
           | Some right \<Rightarrow> Some (h (left @ right))))"

function build_loop ::
  "(bytes \<Rightarrow> bytes) \<Rightarrow> bytes list \<Rightarrow> nat \<Rightarrow> nat \<Rightarrow> bytes list option" where
  "build_loop h tree level_start level_len =
     (if level_len > 1 then
        (case collect_opt (merkle_node h tree level_start level_len) (step_by 2 level_len) of
           None \<Rightarrow> None
         | Some next_level \<Rightarrow>
             build_loop h (tree @ next_level) (level_start + level_len) (length next_level))
      else Some tree)"
  by pat_completeness auto
termination
  by (relation "measure (\<lambda>(h, tree, level_start, level_len). level_len)")
    (auto dest!: collect_opt_length simp: step_by_def)

declare build_loop.simps [simp del]

definition build_merkle_tree ::
  "(bytes \<Rightarrow> bytes) \<Rightarrow> bytes list \<Rightarrow> (bytes \<times> bytes list) option" where
  "build_merkle_tree h leaves =
     (if leaves = [] then Some (h [], [h []])
      else (case build_loop h leaves 0 (length leaves) of
              None \<Rightarrow> None
            | Some tree \<Rightarrow> Some (unwrap_or (last_opt tree) (h []), tree)))"

function proof_loop ::
  "bytes list \<Rightarrow> nat \<Rightarrow> nat \<Rightarrow> nat \<Rightarrow> bytes list \<Rightarrow> bytes list option" where
  "proof_loop tree idx level_start level_len proof_acc =
     (if level_len > 1 then
        (let sibling_idx =
               (if idx mod 2 = 0 then (if idx + 1 < level_len then idx + 1 else idx) else idx - 1)
         in case slice_index tree (level_start + sibling_idx) of
              None \<Rightarrow> None
            | Some s \<Rightarrow>
                proof_loop tree (idx div 2) (level_start + level_len) ((level_len + 1) div 2)
                  (proof_acc @ [s]))
      else Some proof_acc)"
  by pat_completeness auto
termination
  by (relation "measure (\<lambda>(tree, idx, level_start, level_len, acc). level_len)") auto

declare proof_loop.simps [simp del]

definition merkle_proof :: "bytes list \<Rightarrow> nat \<Rightarrow> nat \<Rightarrow> bytes list option" where
  "merkle_proof tree leaf_count leaf_index =
     (if leaf_count = 0 \<or> tree = [] then Some [] else proof_loop tree leaf_index 0 leaf_count [])"

fun verify_loop :: "(bytes \<Rightarrow> bytes) \<Rightarrow> bytes \<Rightarrow> nat \<Rightarrow> bytes list \<Rightarrow> bytes" where
  "verify_loop h current idx [] = current"
| "verify_loop h current idx (sibling # proof_hashes) =
     verify_loop h (h (if idx mod 2 = 0 then current @ sibling else sibling @ current))
       (idx div 2) proof_hashes"

definition verify_merkle_proof ::
  "(bytes \<Rightarrow> bytes) \<Rightarrow> bytes \<Rightarrow> nat \<Rightarrow> bytes list \<Rightarrow> bytes \<Rightarrow> bool" where
  "verify_merkle_proof h leaf_hash leaf_index proof_hashes expected_root \<longleftrightarrow>
     verify_loop h leaf_hash leaf_index proof_hashes = expected_root"

section \<open>The reference tree\<close>

text \<open>One level of the tree from the level below, all levels, the root, and a leaf's path.\<close>

fun pair_up :: "(bytes \<Rightarrow> bytes) \<Rightarrow> bytes list \<Rightarrow> bytes list" where
  "pair_up h [] = []"
| "pair_up h [x] = [h (x @ x)]"
| "pair_up h (x # y # zs) = h (x @ y) # pair_up h zs"

lemma length_pair_up [simp]: "length (pair_up h xs) = (length xs + 1) div 2"
  by (induction h xs rule: pair_up.induct) auto

lemma pair_up_eq_Nil [simp]: "pair_up h xs = [] \<longleftrightarrow> xs = []"
  by (cases "(h, xs)" rule: pair_up.cases) auto

lemma nth_pair_up:
  "j < (length xs + 1) div 2 \<Longrightarrow>
   pair_up h xs ! j = h (xs ! (2 * j) @ xs ! (if 2 * j + 1 < length xs then 2 * j + 1 else 2 * j))"
proof (induction h xs arbitrary: j rule: pair_up.induct)
  case (3 h x y zs)
  then show ?case by (cases j) auto
qed auto

function levels :: "(bytes \<Rightarrow> bytes) \<Rightarrow> bytes list \<Rightarrow> bytes list list" where
  "levels h xs = (if length xs > 1 then xs # levels h (pair_up h xs) else [xs])"
  by pat_completeness auto
termination by (relation "measure (\<lambda>(h, xs). length xs)") auto

lemma levels_step [simp]: "length xs > 1 \<Longrightarrow> levels h xs = xs # levels h (pair_up h xs)"
  by simp

lemma levels_stop [simp]: "\<not> length xs > 1 \<Longrightarrow> levels h xs = [xs]"
  by simp

declare levels.simps [simp del]

definition merkle_root :: "(bytes \<Rightarrow> bytes) \<Rightarrow> bytes list \<Rightarrow> bytes" where
  "merkle_root h xs = (if xs = [] then h [] else hd (last (levels h xs)))"

function auth_path :: "(bytes \<Rightarrow> bytes) \<Rightarrow> bytes list \<Rightarrow> nat \<Rightarrow> bytes list" where
  "auth_path h xs i =
     (if length xs > 1 then
        xs ! (if even i then (if i + 1 < length xs then i + 1 else i) else i - 1)
          # auth_path h (pair_up h xs) (i div 2)
      else [])"
  by pat_completeness auto
termination by (relation "measure (\<lambda>(h, xs, i). length xs)") auto

lemma auth_path_step [simp]:
  "length xs > 1 \<Longrightarrow> auth_path h xs i =
     xs ! (if even i then (if i + 1 < length xs then i + 1 else i) else i - 1)
       # auth_path h (pair_up h xs) (i div 2)"
  by simp

lemma auth_path_stop [simp]: "\<not> length xs > 1 \<Longrightarrow> auth_path h xs i = []"
  by simp

declare auth_path.simps [simp del]

lemma levels_nonempty [simp]: "levels h xs \<noteq> []"
  by (cases "length xs > 1") simp_all

lemma merkle_root_step:
  "length xs > 1 \<Longrightarrow> merkle_root h xs = merkle_root h (pair_up h xs)"
  by (auto simp: merkle_root_def)

lemma merkle_root_single [simp]: "merkle_root h [x] = x"
  by (simp add: merkle_root_def)

lemma merkle_root_pair: "merkle_root h [x, y] = h (x @ y)"
  by (simp add: merkle_root_step)

lemma levels_snoc: "xs \<noteq> [] \<Longrightarrow> \<exists>ls. levels h xs = ls @ [[merkle_root h xs]]"
proof (induction h xs rule: levels.induct)
  case (1 h xs)
  show ?case
  proof (cases "length xs > 1")
    case True
    then obtain ls where "levels h (pair_up h xs) = ls @ [[merkle_root h (pair_up h xs)]]"
      using 1 by auto
    then have "levels h xs = (xs # ls) @ [[merkle_root h xs]]"
      by (simp only: levels_step [OF True] merkle_root_step [OF True] append_Cons)
    then show ?thesis ..
  next
    case False
    then obtain x where "xs = [x]" using "1.prems" by (cases xs) auto
    then show ?thesis by simp
  qed
qed

section \<open>Refinement: the loops compute the reference\<close>

lemma collect_level:
  assumes "level_start + level_len \<le> length tree"
  shows "collect_opt (merkle_node h tree level_start level_len) (step_by 2 level_len) =
         Some (pair_up h (take level_len (drop level_start tree)))"
    (is "_ = Some (pair_up h ?xs)")
proof -
  have len: "length ?xs = level_len" using assms by simp
  have nth: "?xs ! k = tree ! (level_start + k)" if "k < level_len" for k
    using assms that by simp
  have "collect_opt (merkle_node h tree level_start level_len) (step_by 2 level_len) =
        Some (map (\<lambda>i. pair_up h ?xs ! (i div 2)) (step_by 2 level_len))"
  proof (rule collect_opt_Some)
    fix i assume "i \<in> set (step_by 2 level_len)"
    then obtain j where i: "i = 2 * j" and j: "j < (level_len + 1) div 2"
      by (auto simp: step_by_def)
    then have lt: "2 * j < level_len" by auto
    show "merkle_node h tree level_start level_len i = Some (pair_up h ?xs ! (i div 2))"
      using assms lt j unfolding i merkle_node_def
      by (simp add: nth_pair_up len nth add.assoc)
  qed
  moreover have "map (\<lambda>i. pair_up h ?xs ! (i div 2)) (step_by 2 level_len) = pair_up h ?xs"
    by (rule nth_equalityI) (use assms in \<open>simp_all add: step_by_def\<close>)
  ultimately show ?thesis by simp
qed

lemma build_loop_levels:
  "build_loop h (pre @ xs) (length pre) (length xs) = Some (pre @ concat (levels h xs))"
proof (induction h xs arbitrary: pre rule: levels.induct)
  case (1 h xs)
  show ?case
  proof (cases "length xs > 1")
    case True
    then show ?thesis
      using 1 [OF True, of "pre @ xs"]
      by (simp add: build_loop.simps [of h "pre @ xs"] collect_level)
  next
    case False
    then show ?thesis by (simp add: build_loop.simps [of h "pre @ xs"])
  qed
qed

lemma build_merkle_tree_eq:
  "build_merkle_tree h leaves =
   Some (merkle_root h leaves, if leaves = [] then [h []] else concat (levels h leaves))"
proof (cases "leaves = []")
  case False
  then obtain ls where "levels h leaves = ls @ [[merkle_root h leaves]]"
    using levels_snoc by blast
  then show ?thesis
    using False build_loop_levels [of h "[]" leaves] by (simp add: build_merkle_tree_def)
qed (simp add: build_merkle_tree_def merkle_root_def)

lemma proof_loop_path:
  "i < length xs \<Longrightarrow>
   proof_loop (pre @ concat (levels h xs)) i (length pre) (length xs) acc =
   Some (acc @ auth_path h xs i)"
proof (induction h xs arbitrary: pre i acc rule: levels.induct)
  case (1 h xs)
  show ?case
  proof (cases "length xs > 1")
    case True
    let ?s = "if even i then (if i + 1 < length xs then i + 1 else i) else i - 1"
    have s: "?s < length xs" using 1 True by auto
    have "proof_loop (pre @ concat (levels h xs)) i (length pre) (length xs) acc =
          proof_loop ((pre @ xs) @ concat (levels h (pair_up h xs))) (i div 2) (length (pre @ xs))
            (length (pair_up h xs)) (acc @ [xs ! ?s])"
      using True s
      by (simp add: proof_loop.simps [of _ i] Let_def nth_append even_iff_mod_2_eq_zero)
    also have "\<dots> = Some ((acc @ [xs ! ?s]) @ auth_path h (pair_up h xs) (i div 2))"
      using 1 True by (intro "1.IH") auto
    finally show ?thesis using True by simp
  next
    case False
    then show ?thesis by (simp add: proof_loop.simps [of _ i])
  qed
qed

lemma merkle_proof_eq:
  assumes "i < length leaves" "build_merkle_tree h leaves = Some (root, tree)"
  shows "merkle_proof tree (length leaves) i = Some (auth_path h leaves i)"
proof -
  have ne: "leaves \<noteq> []" using assms(1) by auto
  then obtain ls where "levels h leaves = ls @ [[merkle_root h leaves]]"
    using levels_snoc by blast
  then have tree: "tree = concat (levels h leaves)" "concat (levels h leaves) \<noteq> []"
    using assms(2) ne by (auto simp: build_merkle_tree_eq)
  then show ?thesis
    using ne proof_loop_path [OF assms(1), of "[]" h "[]"]
    by (simp only: merkle_proof_def tree) simp
qed

lemma verify_auth_path:
  "i < length xs \<Longrightarrow> verify_loop h (xs ! i) i (auth_path h xs i) = merkle_root h xs"
proof (induction h xs arbitrary: i rule: levels.induct)
  case (1 h xs)
  show ?case
  proof (cases "length xs > 1")
    case True
    let ?s = "if even i then (if i + 1 < length xs then i + 1 else i) else i - 1"
    have lt: "i div 2 < (length xs + 1) div 2" using 1 by auto
    have "h (if i mod 2 = 0 then xs ! i @ xs ! ?s else xs ! ?s @ xs ! i) = pair_up h xs ! (i div 2)"
      unfolding nth_pair_up [OF lt] using "1.prems" by (cases "even i") (auto elim!: oddE)
    moreover have "verify_loop h (pair_up h xs ! (i div 2)) (i div 2) (auth_path h (pair_up h xs) (i div 2))
                   = merkle_root h (pair_up h xs)"
      using 1 True lt by simp
    ultimately show ?thesis using True by (simp add: merkle_root_step)
  next
    case False
    then obtain x where "xs = [x]" using "1.prems" by (cases xs) auto
    then show ?thesis using "1.prems" by simp
  qed
qed

section \<open>The interface of inclusion proofs\<close>

text \<open>
  What a user of inclusion proofs relies on: every list of leaves has a commitment, and every
  position of the list has a proof that checks against it.
\<close>

locale inclusion_proofs =
  fixes commit :: "'l list \<Rightarrow> 'r option"
    and prove :: "'l list \<Rightarrow> nat \<Rightarrow> 'p option"
    and check :: "'l \<Rightarrow> nat \<Rightarrow> 'p \<Rightarrow> 'r \<Rightarrow> bool"
  assumes commit_total: "\<exists>r. commit ls = Some r"
    and complete:
      "i < length ls \<Longrightarrow> commit ls = Some r \<Longrightarrow> \<exists>p. prove ls i = Some p \<and> check (ls ! i) i p r"
begin

lemma proof_at:
  assumes "i < length ls"
  obtains r p where "commit ls = Some r" "prove ls i = Some p" "check (ls ! i) i p r"
  using assms commit_total [of ls] complete [of i ls] by blast

text \<open>A user that searches the leaf list and proves the position found gets a valid proof.\<close>

lemma found_leaf_proved:
  assumes "commit ls = Some r" "i < length ls" "prove ls i = Some p"
  shows "check (ls ! i) i p r"
  using assms complete by fastforce

lemma all_leaves_proved:
  "\<exists>r. commit ls = Some r \<and> (\<forall>i < length ls. \<exists>p. prove ls i = Some p \<and> check (ls ! i) i p r)"
  using commit_total complete by blast

end

definition audit_commit :: "(bytes \<Rightarrow> bytes) \<Rightarrow> bytes list \<Rightarrow> bytes option" where
  "audit_commit h leaves = map_option fst (build_merkle_tree h leaves)"

definition audit_prove :: "(bytes \<Rightarrow> bytes) \<Rightarrow> bytes list \<Rightarrow> nat \<Rightarrow> bytes list option" where
  "audit_prove h leaves i =
     (case build_merkle_tree h leaves of None \<Rightarrow> None
      | Some (root, tree) \<Rightarrow> merkle_proof tree (length leaves) i)"

lemma audit_commit_eq: "audit_commit h leaves = Some (merkle_root h leaves)"
  by (simp add: audit_commit_def build_merkle_tree_eq)

lemma audit_prove_eq: "i < length leaves \<Longrightarrow> audit_prove h leaves i = Some (auth_path h leaves i)"
  using merkle_proof_eq [of i leaves h] by (simp add: audit_prove_def build_merkle_tree_eq)

interpretation audit_tree: inclusion_proofs "audit_commit h" "audit_prove h" "verify_merkle_proof h"
  for h
  by unfold_locales
    (auto simp: audit_commit_eq audit_prove_eq verify_merkle_proof_def verify_auth_path)

section \<open>Bounds and binding\<close>

lemma auth_path_length:
  "xs \<noteq> [] \<Longrightarrow> length xs \<le> 2 ^ length (auth_path h xs i) \<and>
               2 ^ length (auth_path h xs i) < 2 * length xs"
proof (induction h xs arbitrary: i rule: levels.induct)
  case (1 h xs)
  show ?case
  proof (cases "length xs > 1")
    case True
    let ?k = "length (auth_path h (pair_up h xs) (i div 2))"
    have k: "(length xs + 1) div 2 \<le> 2 ^ ?k" "2 ^ ?k < 2 * ((length xs + 1) div 2)"
      using "1.IH" [OF True, of "i div 2"] "1.prems" by auto
    have "2 ^ ?k = (1::nat) \<or> even ((2::nat) ^ ?k)" by (cases ?k) auto
    then have "2 ^ ?k < length xs" using k(2) True by presburger
    then show ?thesis using True k(1) by simp
  next
    case False
    then obtain x where "xs = [x]" using "1.prems" by (cases xs) auto
    then show ?thesis by simp
  qed
qed


fun pair_inputs :: "bytes list \<Rightarrow> bytes list" where
  "pair_inputs [] = []"
| "pair_inputs [x] = [x @ x]"
| "pair_inputs (x # y # zs) = (x @ y) # pair_inputs zs"

definition tree_inputs :: "(bytes \<Rightarrow> bytes) \<Rightarrow> bytes list \<Rightarrow> bytes set" where
  "tree_inputs h xs = (\<Union>l \<in> set (butlast (levels h xs)). set (pair_inputs l))"

lemma pair_up_inputs: "pair_up h xs = map h (pair_inputs xs)"
  by (induction h xs rule: pair_up.induct) auto


lemma pair_inputs_inject:
  "\<lbrakk> length xs = length ys; \<forall>x \<in> set xs \<union> set ys. length x = n; pair_inputs xs = pair_inputs ys \<rbrakk>
   \<Longrightarrow> xs = ys"
proof (induction xs arbitrary: ys rule: pair_inputs.induct)
  case (2 x)
  then show ?case by (cases ys) auto
next
  case (3 x y zs)
  obtain x' y' zs' where "ys = x' # y' # zs'"
    using "3.prems"(1) by (cases ys rule: pair_inputs.cases) auto
  then show ?case using "3.prems" "3.IH" [of zs'] by simp
qed auto

lemma tree_inputs_step:
  "length xs > 1 \<Longrightarrow> tree_inputs h xs = set (pair_inputs xs) \<union> tree_inputs h (pair_up h xs)"
  by (simp add: tree_inputs_def)

lemma merkle_root_binding:
  assumes n: "\<forall>x. length (h x) = n"
  shows "\<lbrakk> length xs = length ys; \<forall>x \<in> set xs \<union> set ys. length x = n;
     inj_on h (tree_inputs h xs \<union> tree_inputs h ys);
     merkle_root h xs = merkle_root h ys \<rbrakk> \<Longrightarrow> xs = ys"
proof (induction "length xs" arbitrary: xs ys rule: less_induct)
  case less
  show ?case
  proof (cases "length xs > 1")
    case True
    then have ty: "length ys > 1" using less.prems by simp
    have "pair_up h xs = pair_up h ys"
    proof (rule less.hyps)
      show "\<forall>x \<in> set (pair_up h xs) \<union> set (pair_up h ys). length x = n"
        using n by (auto simp: pair_up_inputs)
      show "inj_on h (tree_inputs h (pair_up h xs) \<union> tree_inputs h (pair_up h ys))"
        by (rule inj_on_subset [OF less.prems(3)]) (auto simp: tree_inputs_step [OF True] tree_inputs_step [OF ty])
    qed (use True ty less.prems in \<open>auto simp: merkle_root_step\<close>)
    then have "map h (pair_inputs xs) = map h (pair_inputs ys)" by (simp add: pair_up_inputs)
    moreover have "inj_on h (set (pair_inputs xs) \<union> set (pair_inputs ys))"
      by (rule inj_on_subset [OF less.prems(3)]) (auto simp: tree_inputs_step [OF True] tree_inputs_step [OF ty])
    ultimately have "pair_inputs xs = pair_inputs ys" by (rule map_inj_on)
    then show ?thesis using pair_inputs_inject less.prems(1,2) by blast
  next
    case False
    then have "xs = [] \<and> ys = [] \<or> (\<exists>x y. xs = [x] \<and> ys = [y])"
      using less.prems(1) by (cases xs; cases ys) auto
    then show ?thesis using less.prems(4) by auto
  qed
qed

lemma pair_up_snoc_odd: "odd (length xs) \<Longrightarrow> pair_up h (xs @ [last xs]) = pair_up h xs"
  by (induction h xs rule: pair_up.induct) auto

section \<open>Properties\<close>

text \<open>C1: every leaf of a tree built by \<open>build_merkle_tree\<close> has a proof by \<open>merkle_proof\<close>
  (which does not panic) that \<open>verify_merkle_proof\<close> accepts against the tree's root, whatever the
  hash function and the number of leaves; the proof has the length of the binary logarithm of
  the number of leaves, rounded up.\<close>

theorem merkle_proof_complete:
  assumes "i < length leaves"
  shows "\<exists>root tree p. build_merkle_tree h leaves = Some (root, tree) \<and>
           merkle_proof tree (length leaves) i = Some p \<and>
           verify_merkle_proof h (leaves ! i) i p root \<and>
           length leaves \<le> 2 ^ length p \<and> 2 ^ length p < 2 * length leaves"
proof -
  have "leaves \<noteq> []" using assms by auto
  then show ?thesis
    using merkle_proof_eq [OF assms] auth_path_length [of leaves h i]
      verify_auth_path [OF assms, of h]
    by (auto simp: build_merkle_tree_eq verify_merkle_proof_def)
qed

theorem merkle_proof_complete_witness:
  "\<exists>root tree p. build_merkle_tree (\<lambda>x. [of_nat (length x)]) [[1], [2], [3]] = Some (root, tree) \<and>
           merkle_proof tree 3 2 = Some p \<and>
           verify_merkle_proof (\<lambda>x. [of_nat (length x)]) [3] 2 p root \<and>
           3 \<le> (2::nat) ^ length p \<and> (2::nat) ^ length p < 6"
  using merkle_proof_complete [of 2 "[[1], [2], [3]]" "\<lambda>x. [of_nat (length x)]"]
  by (simp add: numeral_eq_Suc)



text \<open>With a hash function of fixed output length that is injective on the inputs hashed by
  the two constructions, \<open>build_merkle_tree\<close> gives different roots to different leaf lists of
  the same length.\<close>

lemma merkle_root_determines_leaves:
  assumes "\<forall>x. length (h x) = n"
    and "length xs = length ys" "\<forall>x \<in> set xs \<union> set ys. length x = n"
    and "inj_on h (tree_inputs h xs \<union> tree_inputs h ys)"
    and "build_merkle_tree h xs = Some (root, t)" "build_merkle_tree h ys = Some (root, t')"
  shows "xs = ys"
  using merkle_root_binding [OF assms(1-4)] assms(5,6) by (simp add: build_merkle_tree_eq)

lemma merkle_root_determines_leaves_example:
  "map_option fst (build_merkle_tree (\<lambda>x. if x = [1, 2] then [7] else [9]) [[1], [2]]) \<noteq>
   map_option fst (build_merkle_tree (\<lambda>x. if x = [1, 2] then [7] else [9]) [[1], [3]])"
    (is "map_option fst (build_merkle_tree ?h ?xs) \<noteq> map_option fst (build_merkle_tree ?h ?ys)")
proof
  assume "map_option fst (build_merkle_tree ?h ?xs) = map_option fst (build_merkle_tree ?h ?ys)"
  then obtain r t t' where b: "build_merkle_tree ?h ?xs = Some (r, t)" "build_merkle_tree ?h ?ys = Some (r, t')"
    by (simp add: build_merkle_tree_eq)
  have "?xs = ?ys"
    by (rule merkle_root_determines_leaves [OF _ _ _ _ b, of 1]) (auto simp: tree_inputs_def inj_on_def)
  then show False by simp
qed

text \<open>Because an odd level duplicates its last node, appending a copy of the last leaf to an
  odd list of at least three leaves does not change the root that \<open>build_merkle_tree\<close> returns:
  the root alone does not determine the number of events in a batch.\<close>

lemma merkle_root_duplicate_leaf:
  assumes "odd (length leaves)" "length leaves > 1"
  shows "map_option fst (build_merkle_tree h (leaves @ [last leaves])) =
         map_option fst (build_merkle_tree h leaves)"
proof -
  have "merkle_root h (leaves @ [last leaves]) = merkle_root h (pair_up h (leaves @ [last leaves]))"
    using assms(2) by (intro merkle_root_step) (cases leaves; simp)
  also have "\<dots> = merkle_root h leaves"
    by (simp only: pair_up_snoc_odd [OF assms(1)] merkle_root_step [OF assms(2)])
  finally show ?thesis by (simp add: build_merkle_tree_eq)
qed

lemma merkle_root_duplicate_leaf_example:
  "map_option fst (build_merkle_tree rev [[1], [2], [3], [3]]) =
   map_option fst (build_merkle_tree rev [[1], [2], [3]])"
  using merkle_root_duplicate_leaf [of "[[1], [2], [3]]" rev] by simp

end
