(* ===== verification/Wire.thy ===== *)
theory Wire
  imports Rust_Prelude
begin

text \<open>
  Types shared by the gRPC ports: JSON values (serde_json), protobuf well-known values
  (prost_types), the tonic status, and the record of the functions the services take from
  third-party crates.  A definition that uses one of those functions takes the record as an
  argument; what a theorem needs of a function is a hypothesis of the theorem.
\<close>

section \<open>JSON and protobuf values\<close>

text \<open>A JSON number is kept as the text of the number.\<close>

datatype json =
    JNull
  | JBool bool
  | JNumber string
  | JString string
  | JArray "json list"
  | JObject "(string \<times> json) list"

text \<open>\<open>Value::get\<close> with a string key, \<open>Value::as_str\<close>, and their composition.\<close>

fun json_get :: "json \<Rightarrow> string \<Rightarrow> json option" where
  "json_get (JObject kvs) k = map_of kvs k"
| "json_get _ k = None"

fun json_as_str :: "json \<Rightarrow> string option" where
  "json_as_str (JString s) = Some s"
| "json_as_str _ = None"

definition json_get_str :: "json \<Rightarrow> string \<Rightarrow> string option" where
  "json_get_str v k = Option.bind (json_get v k) json_as_str"

text \<open>An empty string of a message stands for a field that was not set.\<close>

definition non_empty :: "string \<Rightarrow> string option" where
  "non_empty s = (if s = [] then None else Some s)"

text \<open>\<open>prost_types::value::Kind\<close>; a number is kept as the text of the JSON number it came from.\<close>

datatype prost_kind =
    NullValue
  | NumberValue string
  | StringValue string
  | BoolValue bool
  | ListValue "prost_kind list"
  | StructValue "(string \<times> prost_kind) list"

record timestamp =
  seconds :: int
  nanos :: int

text \<open>An instant counts nanoseconds from the Unix epoch.\<close>

definition nanos_per_second :: int where
  "nanos_per_second = 1000000000"

definition to_timestamp :: "datetime \<Rightarrow> timestamp" where
  "to_timestamp dt = \<lparr>seconds = dt div nanos_per_second, nanos = dt mod nanos_per_second\<rparr>"

lemma to_timestamp_inject: "to_timestamp a = to_timestamp b \<longleftrightarrow> a = b"
  by (auto simp: to_timestamp_def) (metis div_mult_mod_eq)

lemma to_timestamp_normal: "0 \<le> nanos (to_timestamp dt) \<and> nanos (to_timestamp dt) < nanos_per_second"
  by (simp add: to_timestamp_def nanos_per_second_def)

text \<open>A day, and the date (days from the epoch) of an instant.\<close>

definition day_nanos :: int where
  "day_nanos = 86400000000000"

abbreviation date_naive :: "datetime \<Rightarrow> int" where
  "date_naive t \<equiv> t div day_nanos"

section \<open>gRPC status\<close>

datatype grpc_code =
    Code_InvalidArgument | Code_NotFound | Code_AlreadyExists | Code_FailedPrecondition
  | Code_Unimplemented | Code_Internal | Code_Unavailable | Code_DataLoss | Code_Unauthenticated
  | Code_ResourceExhausted

text \<open>The number of a code on the wire.\<close>

fun code_number :: "grpc_code \<Rightarrow> int" where
  "code_number Code_InvalidArgument = 3"
| "code_number Code_NotFound = 5"
| "code_number Code_AlreadyExists = 6"
| "code_number Code_ResourceExhausted = 8"
| "code_number Code_FailedPrecondition = 9"
| "code_number Code_Unimplemented = 12"
| "code_number Code_Internal = 13"
| "code_number Code_Unavailable = 14"
| "code_number Code_DataLoss = 15"
| "code_number Code_Unauthenticated = 16"

record status =
  code :: grpc_code
  message :: string

abbreviation mk_status :: "grpc_code \<Rightarrow> string \<Rightarrow> status" where
  "mk_status c m \<equiv> \<lparr>code = c, message = m\<rparr>"

text \<open>The error and money messages of common.proto.\<close>

record proto_error =
  pe_code :: int
  pe_message :: string
  pe_details :: "string \<rightharpoonup> string"
  pe_trace_id :: string
  pe_grpc_code :: int

record proto_money =
  pm_currency_code :: string
  pm_amount_cents :: int
  pm_currency :: int

text \<open>A handler ends early with a status, or unwinds when an index is out of range.\<close>

datatype rpc_error = RpcStatus status | RpcPanic

definition or_panic :: "'a option \<Rightarrow> ('w, rpc_error, 'a) eff" where
  "or_panic x = (case x of None \<Rightarrow> failE RpcPanic | Some a \<Rightarrow> okE a)"

lemma or_panic_simps [simp]: "or_panic (Some a) = okE a" "or_panic None = failE RpcPanic"
  by (simp_all add: or_panic_def)

definition never_panics :: "('w, rpc_error, 'a) eff \<Rightarrow> bool" where
  "never_panics m \<longleftrightarrow> (\<forall>w. fst (m w) \<noteq> Inl RpcPanic)"

lemma never_panics_bindE:
  assumes "never_panics m" "\<And>w a w'. m w = (Inr a, w') \<Longrightarrow> never_panics (f a)"
  shows "never_panics (bindE m f)"
  unfolding never_panics_def
proof
  fix w
  obtain r w' where m: "m w = (r, w')" by fastforce
  then show "fst (bindE m f w) \<noteq> Inl RpcPanic"
    using assms(1) assms(2) [of w _ w'] by (cases r) (auto simp: bindE_def never_panics_def dest: spec [of _ w])
qed

lemma never_panics_basic:
  "never_panics (okE a)" "never_panics (failE (RpcStatus s))" "never_panics (map_errE (RpcStatus \<circ> g) m)"
  "r \<noteq> Inl RpcPanic \<Longrightarrow> never_panics (liftE r)" "never_panics utc_now" "never_panics (attemptE n)"
  "never_panics (getE q)" "never_panics (modifyE u)" "never_panics new_v4"
  "x = Some y \<Longrightarrow> never_panics (or_panic x)"
  by (auto simp: never_panics_def eff_simps utc_now_def new_v4_def split: prod.splits sum.splits)

section \<open>Third-party functions\<close>

text \<open>
  sha2 (\<open>Sha256::digest\<close>), hex (\<open>encode\<close>, \<open>decode\<close>), serde_json (\<open>to_string\<close>), chrono
  (\<open>to_rfc3339\<close>) and uuid (\<open>parse_str\<close>, \<open>to_string\<close>).
\<close>

record crates =
  sha256_digest :: "bytes \<Rightarrow> bytes"
  hex_encode :: "bytes \<Rightarrow> string"
  hex_decode :: "string \<Rightarrow> bytes option"
  json_to_string :: "json \<Rightarrow> string option"
  to_rfc3339 :: "datetime \<Rightarrow> string"
  uuid_parse :: "string \<Rightarrow> uuid option"
  uuid_to_string :: "uuid \<Rightarrow> string"

text \<open>
  What the hex and uuid crates document: decoding is the inverse of encoding, and a byte is
  encoded by two characters.
\<close>

definition hex_laws :: "'x crates_scheme \<Rightarrow> bool" where
  "hex_laws cr \<longleftrightarrow> (\<forall>bs. hex_decode cr (hex_encode cr bs) = Some bs) \<and>
     (\<forall>bs. length (hex_encode cr bs) = 2 * length bs)"

definition uuid_laws :: "'x crates_scheme \<Rightarrow> bool" where
  "uuid_laws cr \<longleftrightarrow> (\<forall>u. uuid_parse cr (uuid_to_string cr u) = Some u)"

text \<open>Digests have a fixed length.\<close>

definition digest_laws :: "'x crates_scheme \<Rightarrow> nat \<Rightarrow> bool" where
  "digest_laws cr n \<longleftrightarrow> (\<forall>x. length (sha256_digest cr x) = n)"

lemma hex_decode_encode [simp]: "hex_laws cr \<Longrightarrow> hex_decode cr (hex_encode cr bs) = Some bs"
  by (simp add: hex_laws_def)

lemma length_hex_encode [simp]: "hex_laws cr \<Longrightarrow> length (hex_encode cr bs) = 2 * length bs"
  by (simp add: hex_laws_def)

lemma hex_encode_inject: "hex_laws cr \<Longrightarrow> hex_encode cr a = hex_encode cr b \<longleftrightarrow> a = b"
  by (metis hex_decode_encode option.inject)

section \<open>Concrete crates for examples\<close>

text \<open>
  Lower-case hexadecimal digits, and a digest that folds its input into one byte; they satisfy the
  laws above and evaluate the definitions on concrete inputs.
\<close>

definition hex_digit :: "nat \<Rightarrow> char" where
  "hex_digit n = (if n < 10 then char_of (48 + n) else char_of (87 + n))"

definition hex_value :: "char \<Rightarrow> nat option" where
  "hex_value c =
     (let n = (of_char c :: nat) in
      if 48 \<le> n \<and> n \<le> 57 then Some (n - 48) else if 97 \<le> n \<and> n \<le> 102 then Some (n - 87) else None)"

fun hex_encode_impl :: "bytes \<Rightarrow> string" where
  "hex_encode_impl [] = []"
| "hex_encode_impl (b # bs) = hex_digit (unat b div 16) # hex_digit (unat b mod 16) # hex_encode_impl bs"

fun hex_decode_impl :: "string \<Rightarrow> bytes option" where
  "hex_decode_impl [] = Some []"
| "hex_decode_impl [c] = None"
| "hex_decode_impl (c # d # s) =
     (case (hex_value c, hex_value d, hex_decode_impl s) of
        (Some x, Some y, Some bs) \<Rightarrow> Some (of_nat (16 * x + y) # bs)
      | _ \<Rightarrow> None)"

definition example_digest :: "bytes \<Rightarrow> bytes" where
  "example_digest x = [fold (\<lambda>b a. 31 * a + b) x 7]"

definition example_crates :: crates where
  "example_crates = \<lparr>sha256_digest = example_digest, hex_encode = hex_encode_impl,
     hex_decode = hex_decode_impl,
     json_to_string = (\<lambda>v. case v of JString s \<Rightarrow> Some s | JNumber s \<Rightarrow> Some s | _ \<Rightarrow> Some ''null''),
     to_rfc3339 = show_int,
     uuid_parse = (\<lambda>s. Some (of_nat (length s))), uuid_to_string = (\<lambda>u. replicate (unat u) CHR ''u'')\<rparr>"

lemma hex_value_digit [simp]: "n < 16 \<Longrightarrow> hex_value (hex_digit n) = Some n"
  by (simp add: hex_value_def hex_digit_def Let_def)

lemma hex_decode_encode_impl [simp]: "hex_decode_impl (hex_encode_impl bs) = Some bs"
proof (induction bs)
  case (Cons b bs)
  have "unat b div 16 < 16" using unsigned_less [of b, where 'a = nat] by simp
  then show ?case using Cons by (simp add: div_mult_mod_eq flip: of_nat_mult of_nat_add)
qed simp

lemma length_hex_encode_impl [simp]: "length (hex_encode_impl bs) = 2 * length bs"
  by (induction bs) auto

lemma example_hex_laws [simp]: "hex_laws example_crates"
  by (simp add: hex_laws_def example_crates_def)

lemma example_digest_laws [simp]: "digest_laws example_crates 1"
  by (simp add: digest_laws_def example_crates_def example_digest_def)

lemma example_uuid_laws [simp]: "uuid_laws example_crates"
  by (simp add: uuid_laws_def example_crates_def)

end
