(* ===== verification/Session.thy ===== *)
theory Session
  imports Merkle Wire
begin

text \<open>
  The session reconstructor (session-reconstructor/src): the fold of session events into a
  state map, the hash-chain check, Merkle proofs over event hashes, the event store query, the
  cached reconstruction, and the gRPC handlers.  The moka cache and the crates are parameters.
\<close>

section \<open>Domain: errors, events, the fold\<close>

datatype session_error =
    SessionNotFound
  | EventSequenceGap (gap_expected: int) (gap_found: int)
  | HashMismatch (mismatch_version: int)
  | InvalidEventType string
  | SInternal string

fun session_error_to_string :: "session_error \<Rightarrow> string" where
  "session_error_to_string SessionNotFound = ''session not found''"
| "session_error_to_string (EventSequenceGap expected found) =
     ''event sequence gap: expected '' @ show_int expected @ '', found '' @ show_int found"
| "session_error_to_string (HashMismatch version) = ''hash mismatch at version '' @ show_int version"
| "session_error_to_string (InvalidEventType t) = ''invalid event type: '' @ t"
| "session_error_to_string (SInternal m) = ''internal error: '' @ m"

type_synonym session_state = "string \<rightharpoonup> string"

record event_envelope =
  ev_event_id :: uuid
  ev_event_type :: string
  ev_version :: int
  ev_payload :: json
  ev_occurred_at :: datetime
  ev_record_hash :: string
  ev_previous_hash :: "string option"

text \<open>\<open>if let Some(v) = payload.get(field).and_then(as_str) { state.insert(key, v) }\<close>\<close>

definition insert_field :: "json \<Rightarrow> string \<Rightarrow> string \<Rightarrow> session_state \<Rightarrow> session_state" where
  "insert_field payload field key state =
     (case json_get_str payload field of Some v \<Rightarrow> state(key \<mapsto> v) | None \<Rightarrow> state)"

text \<open>The body of the match on the event type.\<close>

definition apply_event :: "event_envelope \<Rightarrow> session_state \<Rightarrow> session_error + session_state" where
  "apply_event event state =
     (let t = ev_event_type event; p = ev_payload event in
      if t = ''SessionCreated'' then
        Inr (insert_field p ''tenant_id'' ''tenant_id''
              (insert_field p ''phone_number'' ''phone_number'' (state(''status'' \<mapsto> ''active''))))
      else if t = ''MenuNavigated'' then Inr (insert_field p ''menu_id'' ''current_menu'' state)
      else if t = ''InputReceived'' then Inr (insert_field p ''input'' ''last_input'' state)
      else if t = ''PaymentInitiated'' then
        Inr (insert_field p ''currency'' ''currency''
              (insert_field p ''amount'' ''amount'' (state(''payment_status'' \<mapsto> ''initiated''))))
      else if t = ''PaymentConfirmed'' then
        Inr (insert_field p ''reference_id'' ''payment_reference''
              (state(''payment_status'' \<mapsto> ''confirmed'')))
      else if t = ''SessionEnded'' then
        Inr (insert_field p ''reason'' ''end_reason'' (state(''status'' \<mapsto> ''ended'')))
      else Inl (InvalidEventType t))"

fun fold_events :: "int \<Rightarrow> session_state \<Rightarrow> event_envelope list \<Rightarrow> session_error + session_state" where
  "fold_events expected_version state [] = Inr state"
| "fold_events expected_version state (event # events) =
     (if ev_version event \<noteq> expected_version
      then Inl (EventSequenceGap expected_version (ev_version event))
      else (case apply_event event state of
              Inl e \<Rightarrow> Inl e
            | Inr state' \<Rightarrow> fold_events (expected_version + 1) state' events))"

definition fold_session_state :: "event_envelope list \<Rightarrow> session_error + session_state" where
  "fold_session_state events =
     (if events = [] then Inl SessionNotFound else fold_events 1 Map.empty events)"

section \<open>Infrastructure: the event store\<close>

record db_event =
  de_event_id :: uuid
  de_event_type :: string
  de_aggregate_type :: string
  de_aggregate_id :: uuid
  de_version :: int
  de_payload :: json
  de_tenant_id :: uuid
  de_session_id :: uuid
  de_correlation_id :: "string option"
  de_causation_id :: "string option"
  de_idempotency_key :: "string option"
  de_record_hash :: string
  de_previous_hash :: "string option"
  de_occurred_at :: datetime
  de_tracing :: "json option"

record cached_session =
  cs_state :: session_state
  cs_event_count :: nat
  cs_integrity_hash :: string
  cs_last_activity :: "datetime option"

record 'm session_world = db_world +
  event_store :: "db_event list"
  cache :: 'm

text \<open>\<open>WHERE session_id = $1 ORDER BY version ASC\<close>.\<close>

definition session_rows :: "uuid \<Rightarrow> db_event list \<Rightarrow> db_event list" where
  "session_rows sid rows = sort_key de_version (filter (\<lambda>r. de_session_id r = sid) rows)"

text \<open>Begin, set the tenant, select, commit.\<close>

definition fetch_events ::
  "uuid \<Rightarrow> uuid \<Rightarrow> int \<Rightarrow> ('m session_world, string, db_event list) eff" where
  "fetch_events session_id tenant_id limit =
     bindE (db_exec id) (\<lambda>_.
     bindE (db_exec id) (\<lambda>_.
     bindE (db_select (\<lambda>w. sql_limit limit (session_rows session_id (event_store w)))) (\<lambda>events.
     bindE (db_exec id) (\<lambda>_.
     okE events))))"

section \<open>Infrastructure: the cache\<close>

text \<open>
  The operations of the moka cache, at the instant they run, and what moka documents of a
  cache built with a time to live and no capacity bound.
\<close>

record 'm moka =
  moka_new :: "int \<Rightarrow> 'm"
  moka_get :: "'m \<Rightarrow> uuid \<times> uuid \<Rightarrow> datetime \<Rightarrow> cached_session option"
  moka_insert :: "'m \<Rightarrow> uuid \<times> uuid \<Rightarrow> cached_session \<Rightarrow> datetime \<Rightarrow> 'm"
  moka_invalidate :: "'m \<Rightarrow> uuid \<times> uuid \<Rightarrow> 'm"

definition moka_laws :: "'m moka \<Rightarrow> bool" where
  "moka_laws mk \<longleftrightarrow>
     (\<forall>c k v t t'. moka_get mk (moka_insert mk c k v t) k t' \<in> {None, Some v}) \<and>
     (\<forall>c k k' v t t'. k \<noteq> k' \<longrightarrow> moka_get mk (moka_insert mk c k v t) k' t' = moka_get mk c k' t') \<and>
     (\<forall>c k t. moka_get mk (moka_invalidate mk c k) k t = None) \<and>
     (\<forall>c k k' t. k \<noteq> k' \<longrightarrow> moka_get mk (moka_invalidate mk c k) k' t = moka_get mk c k' t) \<and>
     (\<forall>ttl k t. moka_get mk (moka_new mk ttl) k t = None)"

definition cache_new :: "'m moka \<Rightarrow> 'm" where
  "cache_new mk = moka_new mk (180 * nanos_per_second)"

definition cache_get ::
  "'m moka \<Rightarrow> uuid \<Rightarrow> uuid \<Rightarrow> ('m session_world, 'e, cached_session option) eff" where
  "cache_get mk session_id tenant_id =
     bindE utc_now (\<lambda>t. getE (\<lambda>w. moka_get mk (cache w) (session_id, tenant_id) t))"

definition cache_insert ::
  "'m moka \<Rightarrow> uuid \<Rightarrow> uuid \<Rightarrow> cached_session \<Rightarrow> ('m session_world, 'e, unit) eff" where
  "cache_insert mk session_id tenant_id session =
     bindE utc_now (\<lambda>t. modifyE (\<lambda>w. w\<lparr>cache := moka_insert mk (cache w) (session_id, tenant_id) session t\<rparr>))"

definition cache_invalidate ::
  "'m moka \<Rightarrow> uuid \<Rightarrow> uuid \<Rightarrow> ('m session_world, 'e, unit) eff" where
  "cache_invalidate mk session_id tenant_id =
     modifyE (\<lambda>w. w\<lparr>cache := moka_invalidate mk (cache w) (session_id, tenant_id)\<rparr>)"

section \<open>Application: reconstruction\<close>

record reconstruct_session_result =
  rr_session_id :: uuid
  rr_state :: session_state
  rr_event_count :: nat
  rr_integrity_hash :: string
  rr_last_activity :: "datetime option"
  rr_current_version :: int

definition to_envelope :: "db_event \<Rightarrow> event_envelope" where
  "to_envelope e = \<lparr>ev_event_id = de_event_id e, ev_event_type = de_event_type e,
     ev_version = de_version e, ev_payload = de_payload e, ev_occurred_at = de_occurred_at e,
     ev_record_hash = de_record_hash e, ev_previous_hash = de_previous_hash e\<rparr>"

definition cached_result :: "uuid \<Rightarrow> cached_session \<Rightarrow> reconstruct_session_result" where
  "cached_result session_id cached = \<lparr>rr_session_id = session_id, rr_state = cs_state cached,
     rr_event_count = cs_event_count cached, rr_integrity_hash = cs_integrity_hash cached,
     rr_last_activity = cs_last_activity cached, rr_current_version = int (cs_event_count cached)\<rparr>"

definition reconstruct_session ::
  "'m moka \<Rightarrow> uuid \<Rightarrow> uuid \<Rightarrow> int \<Rightarrow>
   ('m session_world, session_error, reconstruct_session_result) eff" where
  "reconstruct_session mk session_id tenant_id max_events =
     bindE (cache_get mk session_id tenant_id) (\<lambda>c.
     case c of
       Some cached \<Rightarrow> okE (cached_result session_id cached)
     | None \<Rightarrow>
         bindE (map_errE SInternal (fetch_events session_id tenant_id max_events)) (\<lambda>db_events.
         if db_events = [] then failE SessionNotFound
         else
           let envelopes = map to_envelope db_events;
               last_activity = map_option ev_occurred_at (last_opt envelopes);
               current_version = unwrap_or (map_option ev_version (last_opt envelopes)) 0;
               integrity_hash = unwrap_or (map_option ev_record_hash (last_opt envelopes)) ''''
           in bindE (liftE (fold_session_state envelopes)) (\<lambda>state.
              let event_count = length db_events;
                  cached = \<lparr>cs_state = state, cs_event_count = event_count,
                            cs_integrity_hash = integrity_hash, cs_last_activity = last_activity\<rparr>
              in bindE (cache_insert mk session_id tenant_id cached) (\<lambda>_.
                 okE \<lparr>rr_session_id = session_id, rr_state = state, rr_event_count = event_count,
                      rr_integrity_hash = integrity_hash, rr_last_activity = last_activity,
                      rr_current_version = current_version\<rparr>))))"

section \<open>Application: integrity\<close>

record integrity_result =
  ir_is_valid :: bool
  ir_computed_hash :: string
  ir_event_count :: int
  ir_broken_at_version :: "int option"

definition compute_event_hash :: "'x crates_scheme \<Rightarrow> string \<Rightarrow> string \<Rightarrow> json \<Rightarrow> datetime \<Rightarrow> string" where
  "compute_event_hash cr previous_hash event_type payload occurred_at =
     hex_encode cr (sha256_digest cr (as_bytes
       (previous_hash @ event_type @ unwrap_or (json_to_string cr payload) '''' @
        to_rfc3339 cr occurred_at)))"

fun verify_chain ::
  "'x crates_scheme \<Rightarrow> int \<Rightarrow> int \<Rightarrow> string \<Rightarrow> db_event list \<Rightarrow> session_error + integrity_result" where
  "verify_chain cr n_events expected_version last_computed_hash [] =
     Inr \<lparr>ir_is_valid = True, ir_computed_hash = last_computed_hash, ir_event_count = n_events,
          ir_broken_at_version = None\<rparr>"
| "verify_chain cr n_events expected_version last_computed_hash (event # events) =
     (if de_version event \<noteq> expected_version
      then Inl (EventSequenceGap expected_version (de_version event))
      else
        let prev = unwrap_or (de_previous_hash event) '''' in
        if expected_version > 1 \<and> prev \<noteq> last_computed_hash
        then Inl (HashMismatch (de_version event))
        else
          let previous_hash = (if expected_version = 1 then prev else last_computed_hash);
              computed = compute_event_hash cr previous_hash (de_event_type event)
                           (de_payload event) (de_occurred_at event)
          in if computed \<noteq> de_record_hash event
             then Inr \<lparr>ir_is_valid = False, ir_computed_hash = computed, ir_event_count = n_events,
                       ir_broken_at_version = Some (de_version event)\<rparr>
             else verify_chain cr n_events (expected_version + 1) computed events)"

definition verify_integrity ::
  "'x crates_scheme \<Rightarrow> uuid \<Rightarrow> uuid \<Rightarrow> ('m session_world, session_error, integrity_result) eff" where
  "verify_integrity cr session_id tenant_id =
     bindE (map_errE SInternal (fetch_events session_id tenant_id i32_max)) (\<lambda>db_events.
     if db_events = [] then failE SessionNotFound
     else liftE (verify_chain cr (int (length db_events)) 1 '''' db_events))"

definition fetch_event_hashes ::
  "uuid \<Rightarrow> uuid \<Rightarrow> ('m session_world, session_error, string list) eff" where
  "fetch_event_hashes session_id tenant_id =
     bindE (map_errE SInternal (fetch_events session_id tenant_id i32_max)) (\<lambda>db_events.
     if db_events = [] then failE SessionNotFound
     else okE (map de_record_hash db_events))"

text \<open>\<open>compute_merkle_proof\<close>: one step of the inner loop, the while loop, the function.\<close>

definition session_node :: "(bytes \<Rightarrow> bytes) \<Rightarrow> bytes list \<Rightarrow> nat \<Rightarrow> bytes option" where
  "session_node h current i =
     (case slice_index current i of
        None \<Rightarrow> None
      | Some a \<Rightarrow> (case slice_index current (i + 1) of None \<Rightarrow> None | Some b \<Rightarrow> Some (h (a @ b))))"

definition push_if_odd :: "'a list \<Rightarrow> 'a list" where
  "push_if_odd current = (if length current mod 2 = 1 then current @ [last current] else current)"

lemma length_push_if_odd [simp]: "length (push_if_odd xs) = 2 * ((length xs + 1) div 2)"
  unfolding push_if_odd_def by (simp, presburger)

function session_proof_loop ::
  "'x crates_scheme \<Rightarrow> bytes list \<Rightarrow> string list \<Rightarrow> nat \<Rightarrow> (string \<times> string list) option" where
  "session_proof_loop cr current siblings idx =
     (if length current > 1 then
        let current' = push_if_odd current;
            sibling_idx = (if idx mod 2 = 0 then idx + 1 else idx - 1)
        in case slice_index current' sibling_idx of
             None \<Rightarrow> None
           | Some s \<Rightarrow>
               (case collect_opt (session_node (sha256_digest cr) current') (step_by 2 (length current')) of
                  None \<Rightarrow> None
                | Some next_level \<Rightarrow>
                    session_proof_loop cr next_level (siblings @ [hex_encode cr s]) (idx div 2))
      else
        (case slice_index current 0 of
           None \<Rightarrow> None
         | Some root \<Rightarrow> Some (hex_encode cr root, siblings)))"
  by pat_completeness auto
termination
  by (relation "measure (\<lambda>(cr, current, siblings, idx). length current)")
    (auto dest!: collect_opt_length simp: step_by_def)

declare session_proof_loop.simps [simp del]

definition compute_merkle_proof ::
  "'x crates_scheme \<Rightarrow> string list \<Rightarrow> nat \<Rightarrow> (string \<times> string list) option" where
  "compute_merkle_proof cr hashes target_index =
     (if hashes = [] then Some ([], [])
      else session_proof_loop cr (map (\<lambda>h. unwrap_or (hex_decode cr h) []) hashes) [] target_index)"

section \<open>Ports: the gRPC handlers\<close>

fun session_map_domain_error :: "session_error \<Rightarrow> status" where
  "session_map_domain_error (SInternal msg) = mk_status Code_Internal msg"
| "session_map_domain_error SessionNotFound =
     mk_status Code_NotFound (session_error_to_string SessionNotFound)"
| "session_map_domain_error (HashMismatch v) =
     mk_status Code_FailedPrecondition (session_error_to_string (HashMismatch v))"
| "session_map_domain_error (EventSequenceGap e f) =
     mk_status Code_DataLoss (session_error_to_string (EventSequenceGap e f))"
| "session_map_domain_error (InvalidEventType t) =
     mk_status Code_InvalidArgument (session_error_to_string (InvalidEventType t))"

definition session_parse_uuid :: "'x crates_scheme \<Rightarrow> string \<Rightarrow> rpc_error + uuid" where
  "session_parse_uuid cr s =
     (case uuid_parse cr s of
        Some u \<Rightarrow> Inr u
      | None \<Rightarrow> Inl (RpcStatus (mk_status Code_InvalidArgument (''invalid uuid: '' @ s))))"

definition hashmap_to_struct :: "session_state \<Rightarrow> (string \<rightharpoonup> prost_kind)" where
  "hashmap_to_struct m = (\<lambda>k. map_option StringValue (m k))"

record reconstruct_request =
  rq_session_id :: string
  rq_tenant_id :: string
  rq_max_events :: int
  rq_include_merkle_proof :: bool

record integrity_proof =
  ip_session_id :: string
  ip_event_version :: int
  ip_event_hash :: string
  ip_sibling_hashes :: "string list"
  ip_merkle_root :: string
  ip_proof_generated_at :: "timestamp option"
  ip_signature :: string

record reconstruct_response =
  rs_session_id :: string
  rs_state :: "(string \<rightharpoonup> prost_kind) option"
  rs_current_version :: int
  rs_events_replayed :: int
  rs_replay_time_ms :: int
  rs_is_valid :: bool
  rs_integrity_hash :: string
  rs_last_activity :: "timestamp option"
  rs_error :: "string option"
  rs_merkle_proof :: "integrity_proof option"

text \<open>The optional Merkle part of the response: a failed fetch is only logged.\<close>

definition reconstruct_merkle ::
  "'x crates_scheme \<Rightarrow> uuid \<Rightarrow> uuid \<Rightarrow> reconstruct_session_result \<Rightarrow>
   ('m session_world, rpc_error, integrity_proof option) eff" where
  "reconstruct_merkle cr session_id tenant_id result =
     bindE (attemptE (fetch_event_hashes session_id tenant_id)) (\<lambda>r.
     case r of
       Inl e \<Rightarrow> okE None
     | Inr hashes \<Rightarrow>
         if hashes = [] then okE None
         else bindE (or_panic (compute_merkle_proof cr hashes (length hashes - 1))) (\<lambda>(root, siblings).
              bindE utc_now (\<lambda>t.
              okE (Some \<lparr>ip_session_id = uuid_to_string cr session_id,
                ip_event_version = rr_current_version result,
                ip_event_hash = unwrap_or (last_opt hashes) [], ip_sibling_hashes = [],
                ip_merkle_root = root, ip_proof_generated_at = Some (to_timestamp t),
                ip_signature = []\<rparr>))))"

definition grpc_reconstruct_session ::
  "'x crates_scheme \<Rightarrow> 'm moka \<Rightarrow> reconstruct_request \<Rightarrow>
   ('m session_world, rpc_error, reconstruct_response) eff" where
  "grpc_reconstruct_session cr mk req =
     bindE (liftE (session_parse_uuid cr (rq_session_id req))) (\<lambda>session_id.
     bindE (liftE (session_parse_uuid cr (rq_tenant_id req))) (\<lambda>tenant_id.
     let max_events = (if rq_max_events req > 0 then rq_max_events req else 1000) in
     bindE utc_now (\<lambda>start.
     bindE (map_errE (RpcStatus \<circ> session_map_domain_error)
              (reconstruct_session mk session_id tenant_id max_events)) (\<lambda>result.
     bindE utc_now (\<lambda>stop.
     let resp = \<lparr>rs_session_id = uuid_to_string cr session_id,
                 rs_state = Some (hashmap_to_struct (rr_state result)),
                 rs_current_version = rr_current_version result,
                 rs_events_replayed = as_i32 (int (rr_event_count result)),
                 rs_replay_time_ms = as_i64 (max 0 (stop - start) div 1000000),
                 rs_is_valid = True, rs_integrity_hash = rr_integrity_hash result,
                 rs_last_activity = map_option to_timestamp (rr_last_activity result),
                 rs_error = None, rs_merkle_proof = None\<rparr>
     in if rq_include_merkle_proof req then
          bindE (reconstruct_merkle cr session_id tenant_id result) (\<lambda>p.
          okE (resp\<lparr>rs_merkle_proof := p\<rparr>))
        else okE resp)))))"

record verify_session_request =
  vq_session_id :: string
  vq_expected_hash :: string
  vq_baggage :: "(string \<rightharpoonup> string) option"

record verify_session_response =
  vs_is_valid :: bool
  vs_computed_hash :: string
  vs_expected_hash :: string
  vs_event_count :: int
  vs_broken_at_event_id :: string

text \<open>\<open>req.tracing\<close> is optional and carries the baggage map.\<close>

definition extract_tenant_id :: "'x crates_scheme \<Rightarrow> verify_session_request \<Rightarrow> uuid option" where
  "extract_tenant_id cr req =
     Option.bind (vq_baggage req) (\<lambda>b. Option.bind (b ''tenant_id'') (uuid_parse cr))"

definition verify_session_integrity ::
  "'x crates_scheme \<Rightarrow> verify_session_request \<Rightarrow>
   ('m session_world, rpc_error, verify_session_response) eff" where
  "verify_session_integrity cr req =
     bindE (liftE (session_parse_uuid cr (vq_session_id req))) (\<lambda>session_id.
     bindE (case extract_tenant_id cr req of
              Some t \<Rightarrow> okE t
            | None \<Rightarrow> failE (RpcStatus (mk_status Code_InvalidArgument
                        ''tenant_id is required but not provided in request''))) (\<lambda>tenant_id.
     bindE (map_errE (RpcStatus \<circ> session_map_domain_error)
              (verify_integrity cr session_id tenant_id)) (\<lambda>result.
     okE \<lparr>vs_is_valid = (ir_is_valid result \<and> ir_computed_hash result = vq_expected_hash req),
          vs_computed_hash = ir_computed_hash result, vs_expected_hash = vq_expected_hash req,
          vs_event_count = ir_event_count result, vs_broken_at_event_id = []\<rparr>)))"

record integrity_proof_request =
  iq_session_id :: string
  iq_tenant_id :: string
  iq_event_version :: int

definition get_integrity_proof ::
  "'x crates_scheme \<Rightarrow> integrity_proof_request \<Rightarrow> ('m session_world, rpc_error, integrity_proof) eff" where
  "get_integrity_proof cr req =
     bindE (liftE (session_parse_uuid cr (iq_session_id req))) (\<lambda>session_id.
     bindE (liftE (session_parse_uuid cr (iq_tenant_id req))) (\<lambda>tenant_id.
     bindE (map_errE (RpcStatus \<circ> session_map_domain_error)
              (fetch_event_hashes session_id tenant_id)) (\<lambda>hashes.
     if hashes = [] then failE (RpcStatus (mk_status Code_NotFound ''session not found''))
     else
       let target_index = (if iq_event_version req > 0 then nat (iq_event_version req) - 1
                           else length hashes - 1);
           clamped_index = min target_index (length hashes - 1)
       in bindE (or_panic (compute_merkle_proof cr hashes clamped_index)) (\<lambda>(merkle_root, siblings).
          bindE (or_panic (slice_index hashes clamped_index)) (\<lambda>event_hash.
          bindE utc_now (\<lambda>t.
          okE \<lparr>ip_session_id = uuid_to_string cr session_id,
               ip_event_version = int clamped_index + 1, ip_event_hash = event_hash,
               ip_sibling_hashes = siblings, ip_merkle_root = merkle_root,
               ip_proof_generated_at = Some (to_timestamp t), ip_signature = []\<rparr>))))))"

definition invalidate_cache ::
  "'x crates_scheme \<Rightarrow> 'm moka \<Rightarrow> string \<Rightarrow> string \<Rightarrow> ('m session_world, rpc_error, unit) eff" where
  "invalidate_cache cr mk session_id_s tenant_id_s =
     bindE (liftE (session_parse_uuid cr session_id_s)) (\<lambda>session_id.
     bindE (liftE (session_parse_uuid cr tenant_id_s)) (\<lambda>tenant_id.
     cache_invalidate mk session_id tenant_id))"

section \<open>The event store query\<close>

lemmas session_world_defs = session_world.defs

lemma fetch_events_up:
  assumes "db_up w" "0 \<le> limit"
  shows "fetch_events sid tid limit w =
         (Inr (take (nat limit) (session_rows sid (event_store w))),
          w\<lparr>db_calls := db_calls w + 4\<rparr>)"
  using assms
  by (simp add: fetch_events_def db_up_def bindE_apply db_select_def sql_limit_def okE_def liftE_def)

lemma keeps_fetch_events:
  "keeps (\<lambda>w w'. event_store w' = event_store w \<and> cache w' = cache w) (fetch_events sid tid limit)"
  by (rule keepsI)
    (simp add: fetch_events_def db_select_def eff_simps db_exec_def db_query_def db_op_def Let_def
      split: option.splits sum.splits)

text \<open>The contract of the event source that the handlers rely on.\<close>

locale ordered_event_source =
  fixes rows_of :: "'k \<Rightarrow> 'r list \<Rightarrow> 'r list"
    and version_of :: "'r \<Rightarrow> int"
    and key_of :: "'r \<Rightarrow> 'k"
  assumes rows_sorted: "sorted (map version_of (rows_of k tab))"
    and rows_set: "set (rows_of k tab) = {r \<in> set tab. key_of r = k}"
    and rows_length: "length (rows_of k tab) = length (filter (\<lambda>r. key_of r = k) tab)"
begin

lemma rows_empty_iff: "rows_of k tab = [] \<longleftrightarrow> (\<forall>r \<in> set tab. key_of r \<noteq> k)"
  using rows_set [of k tab] by (auto simp flip: set_empty2)

text \<open>Distinct versions make the order strict, so position determines version and back.\<close>

lemma rows_strict:
  assumes "inj_on version_of {r \<in> set tab. key_of r = k}" "distinct (rows_of k tab)"
  shows "sorted_wrt (<) (map version_of (rows_of k tab))"
  using assms rows_sorted [of k tab]
  by (simp add: strict_sorted_iff distinct_map rows_set)

text \<open>If the versions are exactly 1 to n, the i-th row has version i + 1.\<close>

lemma rows_numbered:
  assumes "version_of ` {r \<in> set tab. key_of r = k} = {1..int (length (rows_of k tab))}"
    and "i < length (rows_of k tab)"
  shows "version_of (rows_of k tab ! i) = int i + 1"
proof -
  let ?vs = "map version_of (rows_of k tab)"
  have set: "set ?vs = {1..int (length ?vs)}" using assms(1) rows_set by simp
  have "card (set ?vs) = length ?vs" by (subst set) simp
  then have "distinct ?vs" by (rule card_distinct)
  moreover have "sorted ?vs" by (rule rows_sorted)
  ultimately have "sorted_list_of_set (set ?vs) = ?vs"
    by (intro sorted_list_of_set.idem_if_sorted_distinct)
  then have "?vs = [1..int (length ?vs)]"
    using set sorted_lift_of_set_eq_upto by metis
  then have "?vs ! i = [1..int (length ?vs)] ! i" by (rule arg_cong)
  then show ?thesis using assms(2) by (simp add: nth_upto)
qed

end

interpretation store_rows: ordered_event_source session_rows de_version de_session_id
  by unfold_locales (auto simp: session_rows_def)

section \<open>The fold\<close>

definition known_event_type :: "string \<Rightarrow> bool" where
  "known_event_type t \<longleftrightarrow> t \<in> {''SessionCreated'', ''MenuNavigated'', ''InputReceived'',
     ''PaymentInitiated'', ''PaymentConfirmed'', ''SessionEnded''}"

text \<open>The key/value pairs an event writes, in order, and the replay of a log of writes.\<close>

definition field_write :: "json \<Rightarrow> string \<Rightarrow> string \<Rightarrow> (string \<times> string) list" where
  "field_write payload field key =
     (case json_get_str payload field of Some v \<Rightarrow> [(key, v)] | None \<Rightarrow> [])"

definition event_writes :: "event_envelope \<Rightarrow> (string \<times> string) list" where
  "event_writes event =
     (let t = ev_event_type event; p = ev_payload event in
      if t = ''SessionCreated'' then (''status'', ''active'') #
        field_write p ''phone_number'' ''phone_number'' @ field_write p ''tenant_id'' ''tenant_id''
      else if t = ''MenuNavigated'' then field_write p ''menu_id'' ''current_menu''
      else if t = ''InputReceived'' then field_write p ''input'' ''last_input''
      else if t = ''PaymentInitiated'' then (''payment_status'', ''initiated'') #
        field_write p ''amount'' ''amount'' @ field_write p ''currency'' ''currency''
      else if t = ''PaymentConfirmed'' then (''payment_status'', ''confirmed'') #
        field_write p ''reference_id'' ''payment_reference''
      else if t = ''SessionEnded'' then (''status'', ''ended'') # field_write p ''reason'' ''end_reason''
      else [])"

definition replay :: "event_envelope list \<Rightarrow> session_state" where
  "replay events = map_of (rev (concat (map event_writes events)))"

lemma insert_field_writes: "insert_field p f k st = st ++ map_of (rev (field_write p f k))"
  by (auto simp: insert_field_def field_write_def split: option.splits)

lemma apply_event_eq:
  "apply_event e st = (if known_event_type (ev_event_type e)
     then Inr (st ++ map_of (rev (event_writes e))) else Inl (InvalidEventType (ev_event_type e)))"
  by (simp add: apply_event_def event_writes_def known_event_type_def Let_def insert_field_writes
      map_add_assoc)

lemma fold_events_ok:
  assumes "\<forall>i < length es. ev_version (es ! i) = v + int i \<and> known_event_type (ev_event_type (es ! i))"
  shows "fold_events v st es = Inr (st ++ replay es)"
  using assms
proof (induction es arbitrary: v st)
  case (Cons e es)
  have "\<forall>i < length es. ev_version (es ! i) = (v + 1) + int i \<and> known_event_type (ev_event_type (es ! i))"
    using Cons.prems by (auto simp: nth_Cons' dest: spec [of _ "Suc _"])
  moreover have "ev_version e = v \<and> known_event_type (ev_event_type e)"
    using Cons.prems by (auto dest: spec [of _ 0])
  ultimately show ?case by (simp add: Cons.IH apply_event_eq replay_def map_add_assoc)
qed (simp add: replay_def)

lemma fold_events_bad:
  assumes "i < length es"
    and "\<forall>j < i. ev_version (es ! j) = v + int j \<and> known_event_type (ev_event_type (es ! j))"
    and "\<not> (ev_version (es ! i) = v + int i \<and> known_event_type (ev_event_type (es ! i)))"
  shows "fold_events v st es =
    Inl (if ev_version (es ! i) \<noteq> v + int i then EventSequenceGap (v + int i) (ev_version (es ! i))
         else InvalidEventType (ev_event_type (es ! i)))"
  using assms
proof (induction es arbitrary: v st i)
  case (Cons e es)
  show ?case
  proof (cases i)
    case 0
    then show ?thesis using Cons.prems by (auto simp: apply_event_eq)
  next
    case (Suc k)
    have "\<forall>j < k. ev_version (es ! j) = (v + 1) + int j \<and> known_event_type (ev_event_type (es ! j))"
      using Cons.prems(2) Suc by (auto dest: spec [of _ "Suc _"])
    moreover have "ev_version e = v \<and> known_event_type (ev_event_type e)"
      using Cons.prems(2) Suc by (auto dest: spec [of _ 0])
    moreover have "k < length es" "\<not> (ev_version (es ! k) = (v + 1) + int k \<and> known_event_type (ev_event_type (es ! k)))"
      using Cons.prems(1,3) Suc by (auto simp: algebra_simps)
    ultimately show ?thesis using Suc by (simp add: Cons.IH [of k] apply_event_eq algebra_simps)
  qed
qed simp

lemma replay_snoc: "replay (es @ [e]) = replay es ++ map_of (rev (event_writes e))"
  by (simp add: replay_def)

lemma field_write_other: "k \<noteq> key \<Longrightarrow> map_of (rev (field_write p f key)) k = None"
  by (simp add: field_write_def split: option.splits)

lemma status_writes:
  "map_of (rev (event_writes e)) ''status'' =
     (if ev_event_type e = ''SessionCreated'' then Some ''active''
      else if ev_event_type e = ''SessionEnded'' then Some ''ended'' else None)"
  "map_of (rev (event_writes e)) ''payment_status'' =
     (if ev_event_type e = ''PaymentInitiated'' then Some ''initiated''
      else if ev_event_type e = ''PaymentConfirmed'' then Some ''confirmed'' else None)"
  by (simp_all add: event_writes_def Let_def map_add_def field_write_other)

lemma fold_session_state_replay:
  assumes "fold_session_state es = Inr st"
  shows "es \<noteq> []" "\<forall>i < length es. ev_version (es ! i) = int i + 1 \<and> known_event_type (ev_event_type (es ! i))"
    "st = replay es"
proof -
  show ne: "es \<noteq> []" using assms by (auto simp: fold_session_state_def)
  let ?good = "\<lambda>i. ev_version (es ! i) = 1 + int i \<and> known_event_type (ev_event_type (es ! i))"
  have all: "\<forall>i < length es. ?good i"
  proof (rule ccontr)
    assume "\<not> (\<forall>i < length es. ?good i)"
    then obtain i where "i < length es" "\<not> ?good i" "\<forall>j < i. \<not> (j < length es \<and> \<not> ?good j)"
      using exists_least_iff [of "\<lambda>i. i < length es \<and> \<not> ?good i"] by blast
    then show False using assms ne fold_events_bad [of i es 1 Map.empty]
      by (auto simp: fold_session_state_def)
  qed
  then show "\<forall>i < length es. ev_version (es ! i) = int i + 1 \<and> known_event_type (ev_event_type (es ! i))"
    by (simp add: add.commute)
  show "st = replay es"
    using assms ne fold_events_ok [OF all, of Map.empty] by (simp add: fold_session_state_def)
qed

section \<open>The hash chain\<close>

definition event_text :: "'x crates_scheme \<Rightarrow> db_event \<Rightarrow> string" where
  "event_text cr e =
     de_event_type e @ unwrap_or (json_to_string cr (de_payload e)) [] @ to_rfc3339 cr (de_occurred_at e)"

abbreviation prev_text :: "db_event \<Rightarrow> string" where
  "prev_text e \<equiv> unwrap_or (de_previous_hash e) []"

text \<open>A log whose versions count from 1, whose links agree and whose record hashes are right.\<close>

definition chained :: "'x crates_scheme \<Rightarrow> db_event list \<Rightarrow> bool" where
  "chained cr es \<longleftrightarrow> (\<forall>i < length es.
     de_version (es ! i) = int i + 1 \<and>
     (0 < i \<longrightarrow> prev_text (es ! i) = de_record_hash (es ! (i - 1))) \<and>
     de_record_hash (es ! i) = hex_encode cr (sha256_digest cr (as_bytes (prev_text (es ! i) @ event_text cr (es ! i)))))"

fun chain_from :: "'x crates_scheme \<Rightarrow> int \<Rightarrow> string \<Rightarrow> db_event list \<Rightarrow> bool" where
  "chain_from cr v prev [] \<longleftrightarrow> True"
| "chain_from cr v prev (e # es) \<longleftrightarrow> de_version e = v \<and> (v > 1 \<longrightarrow> prev_text e = prev) \<and>
     de_record_hash e = hex_encode cr (sha256_digest cr (as_bytes (prev_text e @ event_text cr e))) \<and>
     chain_from cr (v + 1) (de_record_hash e) es"

lemma compute_event_hash_text:
  "compute_event_hash cr p (de_event_type e) (de_payload e) (de_occurred_at e) =
   hex_encode cr (sha256_digest cr (as_bytes (p @ event_text cr e)))"
  by (simp add: compute_event_hash_def event_text_def)

lemma verify_chain_valid:
  "chain_from cr v prev es \<Longrightarrow> 1 \<le> v \<Longrightarrow> verify_chain cr n v prev es =
     Inr \<lparr>ir_is_valid = True, ir_computed_hash = (if es = [] then prev else de_record_hash (last es)),
          ir_event_count = n, ir_broken_at_version = None\<rparr>"
  by (induction cr v prev es rule: chain_from.induct) (auto simp: Let_def compute_event_hash_text)

lemma verify_chain_sound:
  "verify_chain cr n v prev es = Inr r \<Longrightarrow> ir_is_valid r \<Longrightarrow> 1 \<le> v \<Longrightarrow> chain_from cr v prev es"
  by (induction cr v prev es rule: chain_from.induct)
    (auto simp: Let_def compute_event_hash_text split: if_splits)

definition link_ok :: "'x crates_scheme \<Rightarrow> int \<Rightarrow> string \<Rightarrow> db_event list \<Rightarrow> nat \<Rightarrow> bool" where
  "link_ok cr v prev es i \<longleftrightarrow> de_version (es ! i) = v + int i \<and>
     (v + int i > 1 \<longrightarrow> prev_text (es ! i) = (if i = 0 then prev else de_record_hash (es ! (i - 1)))) \<and>
     de_record_hash (es ! i) = hex_encode cr (sha256_digest cr (as_bytes (prev_text (es ! i) @ event_text cr (es ! i))))"

lemma link_ok_Suc: "link_ok cr v prev (e # es) (Suc i) \<longleftrightarrow> link_ok cr (v + 1) (de_record_hash e) es i"
  by (cases i) (auto simp: link_ok_def algebra_simps)

lemma chain_from_nth: "chain_from cr v prev es \<longleftrightarrow> (\<forall>i < length es. link_ok cr v prev es i)"
proof (induction cr v prev es rule: chain_from.induct)
  case (2 cr v prev e es)
  have "(\<forall>i < length (e # es). link_ok cr v prev (e # es) i) \<longleftrightarrow>
        link_ok cr v prev (e # es) 0 \<and> (\<forall>i < length es. link_ok cr (v + 1) (de_record_hash e) es i)"
    by (auto simp: less_Suc_eq_0_disj link_ok_Suc)
  then show ?case by (simp only: chain_from.simps "2.IH") (simp add: link_ok_def)
qed simp

lemma chained_chain_from: "chained cr es \<longleftrightarrow> chain_from cr 1 prev es"
  unfolding chained_def chain_from_nth link_ok_def by (auto simp: add.commute)

lemma fetch_events_Inr:
  "fetch_events sid tid limit w = (Inr es, w') \<Longrightarrow>
   0 \<le> limit \<and> es = take (nat limit) (session_rows sid (event_store w)) \<and>
   event_store w' = event_store w \<and> cache w' = cache w"
  by (simp add: fetch_events_def db_select_def eff_simps db_exec_def db_query_def db_op_def Let_def
      sql_limit_def split: option.splits sum.splits if_splits) auto

text \<open>The rows a whole-session read returns.\<close>

definition session_log :: "uuid \<Rightarrow> 'm session_world \<Rightarrow> db_event list" where
  "session_log sid w = take (nat i32_max) (session_rows sid (event_store w))"




section \<open>Tamper evidence\<close>








section \<open>The Merkle proof of the session service computes the audit tree\<close>

lemma nth_push_if_odd:
  "j < (length xs + 1) div 2 \<Longrightarrow> push_if_odd xs ! (2 * j) = xs ! (2 * j)"
  "j < (length xs + 1) div 2 \<Longrightarrow>
   push_if_odd xs ! (2 * j + 1) = xs ! (if 2 * j + 1 < length xs then 2 * j + 1 else 2 * j)"
proof -
  assume j: "j < (length xs + 1) div 2"
  then have lt: "2 * j < length xs" by auto
  then show "push_if_odd xs ! (2 * j) = xs ! (2 * j)" by (simp add: push_if_odd_def nth_append)
  show "push_if_odd xs ! (2 * j + 1) = xs ! (if 2 * j + 1 < length xs then 2 * j + 1 else 2 * j)"
  proof (cases "2 * j + 1 < length xs")
    case True
    then show ?thesis by (simp add: push_if_odd_def nth_append)
  next
    case False
    then have l: "length xs = 2 * j + 1" using lt by simp
    then have "last xs = xs ! (2 * j)" by (subst last_conv_nth) auto
    then show ?thesis using l by (simp add: push_if_odd_def nth_append)
  qed
qed

lemma collect_session_level:
  "collect_opt (session_node h (push_if_odd xs)) (step_by 2 (length (push_if_odd xs))) = Some (pair_up h xs)"
proof -
  define steps where "steps = map (\<lambda>j. 2 * j) [0..<(length xs + 1) div 2]"
  have "step_by 2 (length (push_if_odd xs)) = steps" by (simp add: step_by_def steps_def)
  moreover have "collect_opt (session_node h (push_if_odd xs)) steps = Some (map (\<lambda>i. pair_up h xs ! (i div 2)) steps)"
  proof (rule collect_opt_Some)
    fix i assume "i \<in> set steps"
    then obtain j where i: "i = 2 * j" and j: "j < (length xs + 1) div 2" by (auto simp: steps_def)
    then show "session_node h (push_if_odd xs) i = Some (pair_up h xs ! (i div 2))"
      using nth_push_if_odd [OF j] nth_pair_up [OF j, of h] by (simp add: session_node_def)
  qed
  moreover have "map (\<lambda>i. pair_up h xs ! (i div 2)) steps = pair_up h xs"
    by (rule nth_equalityI) (simp_all add: steps_def)
  ultimately show ?thesis by (simp only:)
qed

lemma session_sibling:
  assumes "i < length xs"
  shows "slice_index (push_if_odd xs) (if i mod 2 = 0 then i + 1 else i - 1) =
         Some (xs ! (if even i then (if i + 1 < length xs then i + 1 else i) else i - 1))"
proof (cases "even i")
  case True
  then obtain j where i: "i = 2 * j" by blast
  then have j: "j < (length xs + 1) div 2" using assms by presburger
  then have "2 * j + 1 < length (push_if_odd xs)" by simp
  then show ?thesis using nth_push_if_odd(2) [OF j] i by (simp add: slice_index_def)
next
  case False
  then obtain j where i: "i = 2 * j + 1" by (rule oddE)
  then have j: "j < (length xs + 1) div 2" using assms by presburger
  then have "2 * j < length (push_if_odd xs)" by simp
  then show ?thesis using nth_push_if_odd(1) [OF j] i by (simp add: slice_index_def)
qed

lemma session_proof_loop_eq:
  "i < length xs \<Longrightarrow> session_proof_loop cr xs sibs i =
     Some (hex_encode cr (merkle_root (sha256_digest cr) xs),
           sibs @ map (hex_encode cr) (auth_path (sha256_digest cr) xs i))"
proof (induction "sha256_digest cr" xs arbitrary: i sibs rule: levels.induct)
  case (1 xs)
  let ?h = "sha256_digest cr"
  show ?case
  proof (cases "length xs > 1")
    case True
    let ?s = "xs ! (if even i then (if i + 1 < length xs then i + 1 else i) else i - 1)"
    have lt: "i div 2 < length (pair_up ?h xs)" using "1.prems" by auto
    have "session_proof_loop cr xs sibs i =
          session_proof_loop cr (pair_up ?h xs) (sibs @ [hex_encode cr ?s]) (i div 2)"
      using True by (subst session_proof_loop.simps)
        (simp only: session_sibling [OF "1.prems"] collect_session_level Let_def if_True option.case)
    also have "\<dots> = Some (hex_encode cr (merkle_root ?h (pair_up ?h xs)),
        (sibs @ [hex_encode cr ?s]) @ map (hex_encode cr) (auth_path ?h (pair_up ?h xs) (i div 2)))"
      by (rule "1.hyps" [OF True lt])
    finally show ?thesis by (simp only: merkle_root_step [OF True] auth_path_step [OF True]) simp
  next
    case False
    then obtain x where "xs = [x]" using "1.prems" by (cases xs) auto
    then show ?thesis using "1.prems" by (simp add: session_proof_loop.simps [of cr "[x]"])
  qed
qed

text \<open>The leaves the service decodes from the stored hashes.\<close>

definition decoded_leaves :: "'x crates_scheme \<Rightarrow> string list \<Rightarrow> bytes list" where
  "decoded_leaves cr hashes = map (\<lambda>h. unwrap_or (hex_decode cr h) []) hashes"

lemma compute_merkle_proof_eq:
  "i < length hashes \<Longrightarrow> compute_merkle_proof cr hashes i =
     Some (hex_encode cr (merkle_root (sha256_digest cr) (decoded_leaves cr hashes)),
           map (hex_encode cr) (auth_path (sha256_digest cr) (decoded_leaves cr hashes) i))"
  by (auto simp: compute_merkle_proof_def session_proof_loop_eq decoded_leaves_def)

definition session_commit :: "'x crates_scheme \<Rightarrow> string list \<Rightarrow> string option" where
  "session_commit cr hashes = map_option fst (compute_merkle_proof cr hashes 0)"

definition session_prove :: "'x crates_scheme \<Rightarrow> string list \<Rightarrow> nat \<Rightarrow> string list option" where
  "session_prove cr hashes i = map_option snd (compute_merkle_proof cr hashes i)"

text \<open>The check a client of the service runs: decode everything and verify as the audit service does.\<close>

definition session_check :: "'x crates_scheme \<Rightarrow> string \<Rightarrow> nat \<Rightarrow> string list \<Rightarrow> string \<Rightarrow> bool" where
  "session_check cr hash i siblings root \<longleftrightarrow>
     (case hex_decode cr root of None \<Rightarrow> False
      | Some r \<Rightarrow> verify_merkle_proof (sha256_digest cr) (unwrap_or (hex_decode cr hash) []) i
                   (map (\<lambda>s. unwrap_or (hex_decode cr s) []) siblings) r)"

lemma session_check_proof:
  assumes "hex_laws cr" "i < length hashes"
    and "compute_merkle_proof cr hashes i = Some (root, siblings)"
  shows "session_check cr (hashes ! i) i siblings root"
proof -
  let ?h = "sha256_digest cr" and ?xs = "decoded_leaves cr hashes"
  have "unwrap_or (hex_decode cr (hashes ! i)) [] = ?xs ! i" "i < length ?xs"
    using assms(2) by (simp_all add: decoded_leaves_def)
  then show ?thesis
    using assms verify_auth_path [of i ?xs ?h]
    by (auto simp: compute_merkle_proof_eq session_check_def verify_merkle_proof_def o_def)
qed

lemma session_commit_total: "\<exists>r. session_commit cr hashes = Some r"
  by (cases hashes) (simp_all add: session_commit_def compute_merkle_proof_eq compute_merkle_proof_def [of cr "[]"])

lemma session_tree_laws:
  assumes "hex_laws cr"
  shows "inclusion_proofs (session_commit cr) (session_prove cr) (session_check cr)"
proof
  fix hashes :: "string list" and i r
  show "\<exists>r. session_commit cr hashes = Some r" by (rule session_commit_total)
  assume i: "i < length hashes" and r: "session_commit cr hashes = Some r"
  have "0 < length hashes" using i by auto
  then have "compute_merkle_proof cr hashes i = Some (r, map (hex_encode cr) (auth_path (sha256_digest cr) (decoded_leaves cr hashes) i))"
    using i r by (simp add: session_commit_def compute_merkle_proof_eq)
  then show "\<exists>p. session_prove cr hashes i = Some p \<and> session_check cr (hashes ! i) i p r"
    using session_check_proof [OF assms i] by (simp add: session_prove_def)
qed

text \<open>Crates whose hex codec satisfies its laws make the service an inclusion-proof provider.\<close>

locale hex_crates =
  fixes cr :: "'x crates_scheme"
  assumes hex: "hex_laws cr"

sublocale hex_crates \<subseteq> session_tree: inclusion_proofs "session_commit cr" "session_prove cr" "session_check cr"
  by (rule session_tree_laws [OF hex])

interpretation example_session: hex_crates example_crates
  by unfold_locales simp

section \<open>The cache\<close>

text \<open>What a reconstruction of a list of rows puts in the cache.\<close>

definition summary_of :: "db_event list \<Rightarrow> cached_session option" where
  "summary_of rows =
     (case fold_session_state (map to_envelope rows) of
        Inl _ \<Rightarrow> None
      | Inr st \<Rightarrow> Some \<lparr>cs_state = st, cs_event_count = length rows,
                      cs_integrity_hash = de_record_hash (last rows),
                      cs_last_activity = Some (de_occurred_at (last rows))\<rparr>)"

lemma summary_of_nonempty: "summary_of rows = Some c \<Longrightarrow> rows \<noteq> []"
  by (auto simp: summary_of_def fold_session_state_def)

lemma summary_of_version: "summary_of rows = Some c \<Longrightarrow> de_version (last rows) = int (cs_event_count c)"
proof -
  assume s: "summary_of rows = Some c"
  then have ne: "rows \<noteq> []" by (rule summary_of_nonempty)
  obtain st where st: "fold_session_state (map to_envelope rows) = Inr st" and c: "cs_event_count c = length rows"
    using s by (auto simp: summary_of_def split: sum.splits)
  have "ev_version (map to_envelope rows ! (length rows - 1)) = int (length rows - 1) + 1"
    using fold_session_state_replay(2) [OF st] ne by (auto dest: spec [of _ "length rows - 1"])
  then show ?thesis using ne c by (simp add: to_envelope_def last_conv_nth of_nat_diff Suc_leI)
qed

lemma reconstruct_session_miss:
  assumes run: "reconstruct_session mk sid tid m w = (r, w')"
    and get: "cache_get mk sid tid w = (Inr None :: session_error + cached_session option, w1)"
    and rows: "fetch_events sid tid m w1 = (Inr rows, w2)"
    and st: "fold_session_state (map to_envelope rows) = Inr st"
  obtains c t where "summary_of rows = Some c" "r = Inr (cached_result sid c)" "event_store w' = event_store w2"
    "cache w' = moka_insert mk (cache w2) (sid, tid) c t"
proof -
  have ne: "rows \<noteq> []" using st by (auto simp: fold_session_state_def)
  then have l: "last_opt (map to_envelope rows) = Some (to_envelope (last rows))" by (simp add: last_map)
  define c where "c = \<lparr>cs_state = st, cs_event_count = length rows, cs_integrity_hash = de_record_hash (last rows),
                      cs_last_activity = Some (de_occurred_at (last rows))\<rparr>"
  have s: "summary_of rows = Some c" using st by (simp add: summary_of_def c_def)
  have v: "de_version (last rows) = int (length rows)" using summary_of_version [OF s] by (simp add: c_def)
  have "r = Inr (cached_result sid c)" "event_store w' = event_store w2"
    "\<exists>t. cache w' = moka_insert mk (cache w2) (sid, tid) c t"
    using run rows st ne v
    by (auto simp: reconstruct_session_def bindE_apply get map_errE_def Let_def liftE_def okE_def
        cache_insert_def utc_now_def modifyE_def l to_envelope_def [of "last rows"] cached_result_def c_def)
  then show ?thesis using that s by blast
qed

lemma reconstruct_session_outcome:
  assumes "reconstruct_session mk sid tid m w = (r, w')"
  shows "event_store w' = event_store w"
    and "cache w' = cache w \<or>
      (\<exists>c t. summary_of (take (nat m) (session_rows sid (event_store w))) = Some c \<and>
             cache w' = moka_insert mk (cache w) (sid, tid) c t)"
    and "r = Inr res \<Longrightarrow> \<exists>c. res = cached_result sid c \<and>
      ((\<exists>t. moka_get mk (cache w) (sid, tid) t = Some c) \<or>
       summary_of (take (nat m) (session_rows sid (event_store w))) = Some c)"
proof -
  let ?w1 = "w\<lparr>clock_reads := Suc (clock_reads w)\<rparr>"
  have get: "cache_get mk sid tid w = (Inr (moka_get mk (cache w) (sid, tid) (clock w (clock_reads w))), ?w1)"
    by (simp add: cache_get_def utc_now_def eff_simps)
  obtain f w2 where f: "fetch_events sid tid m ?w1 = (f, w2)" by fastforce
  have w2: "event_store w2 = event_store w" "cache w2 = cache w"
    using keepsD [OF keeps_fetch_events f] by simp_all
  consider (hit) c where "moka_get mk (cache w) (sid, tid) (clock w (clock_reads w)) = Some c"
    | (fault) e where "moka_get mk (cache w) (sid, tid) (clock w (clock_reads w)) = None" "f = Inl e"
    | (miss) rows where "moka_get mk (cache w) (sid, tid) (clock w (clock_reads w)) = None" "f = Inr rows"
    by (cases "moka_get mk (cache w) (sid, tid) (clock w (clock_reads w))"; cases f) auto
  then have "event_store w' = event_store w \<and> (cache w' = cache w \<or>
      (\<exists>c t. summary_of (take (nat m) (session_rows sid (event_store w))) = Some c \<and>
             cache w' = moka_insert mk (cache w) (sid, tid) c t)) \<and>
      (\<forall>res. r = Inr res \<longrightarrow> (\<exists>c. res = cached_result sid c \<and>
      ((\<exists>t. moka_get mk (cache w) (sid, tid) t = Some c) \<or>
       summary_of (take (nat m) (session_rows sid (event_store w))) = Some c)))"
  proof cases
    case hit
    then show ?thesis using assms by (auto simp: reconstruct_session_def bindE_apply get okE_def)
  next
    case fault
    then show ?thesis using assms w2 by (auto simp: reconstruct_session_def bindE_apply get f map_errE_def)
  next
    case miss
    have rows: "rows = take (nat m) (session_rows sid (event_store w))"
      using fetch_events_Inr [OF f [unfolded miss]] by simp
    show ?thesis
    proof (cases "fold_session_state (map to_envelope rows)")
      case (Inl e)
      then show ?thesis using assms w2 miss
        by (auto simp: reconstruct_session_def bindE_apply get f map_errE_def Let_def liftE_def failE_def
            split: if_splits)
    next
      case (Inr st)
      have none: "cache_get mk sid tid w = (Inr None :: session_error + cached_session option, ?w1)"
        using miss(1) by (simp add: get)
      obtain c t where "summary_of rows = Some c" "r = Inr (cached_result sid c)" "event_store w' = event_store w2"
        "cache w' = moka_insert mk (cache w2) (sid, tid) c t"
        by (rule reconstruct_session_miss [OF assms none f [unfolded miss] Inr]) blast
      then show ?thesis using w2 rows by auto
    qed
  qed
  then show "event_store w' = event_store w"
    and "cache w' = cache w \<or>
      (\<exists>c t. summary_of (take (nat m) (session_rows sid (event_store w))) = Some c \<and>
             cache w' = moka_insert mk (cache w) (sid, tid) c t)"
    and "r = Inr res \<Longrightarrow> \<exists>c. res = cached_result sid c \<and>
      ((\<exists>t. moka_get mk (cache w) (sid, tid) t = Some c) \<or>
       summary_of (take (nat m) (session_rows sid (event_store w))) = Some c)"
    by blast+
qed

text \<open>
  The service over time: the store grows by events with the next version of their session, a
  request reconstructs or invalidates, and time, faults and identifiers change.
\<close>

inductive session_reachable :: "'m moka \<Rightarrow> 'm session_world \<Rightarrow> bool" for mk where
  start: "cache w = cache_new mk \<Longrightarrow> event_store w = [] \<Longrightarrow> session_reachable mk w"
| append: "session_reachable mk w \<Longrightarrow>
    (\<forall>r \<in> set (event_store w). de_session_id r = de_session_id e \<longrightarrow> de_version r \<le> de_version e) \<Longrightarrow>
    session_reachable mk (w\<lparr>event_store := event_store w @ [e]\<rparr>)"
| reconstruct: "session_reachable mk w \<Longrightarrow> reconstruct_session mk sid tid m w = (r, w') \<Longrightarrow>
    session_reachable mk w'"
| invalidate: "session_reachable mk w \<Longrightarrow> cache_invalidate mk sid tid w = (r :: rpc_error + unit, w') \<Longrightarrow>
    session_reachable mk w'"
| environment: "session_reachable mk w \<Longrightarrow> event_store w' = event_store w \<Longrightarrow> cache w' = cache w \<Longrightarrow>
    session_reachable mk w'"

definition cache_coherent :: "'m moka \<Rightarrow> 'm session_world \<Rightarrow> bool" where
  "cache_coherent mk w \<longleftrightarrow> (\<forall>sid tid t c. moka_get mk (cache w) (sid, tid) t = Some c \<longrightarrow>
     (\<exists>k. summary_of (take k (session_rows sid (event_store w))) = Some c))"

lemma insort_key_snoc: "f a \<le> f x \<Longrightarrow> insort_key f a (ys @ [x]) = insort_key f a ys @ [x]"
  by (induction ys) auto

lemma sort_key_snoc: "\<forall>y \<in> set xs. f y \<le> f x \<Longrightarrow> sort_key f (xs @ [x]) = sort_key f xs @ [x]"
  by (induction xs) (auto simp: insort_key_snoc)

lemma session_rows_append:
  assumes "\<forall>r \<in> set tab. de_session_id r = de_session_id e \<longrightarrow> de_version r \<le> de_version e"
  shows "session_rows sid (tab @ [e]) = session_rows sid tab @ (if de_session_id e = sid then [e] else [])"
  using assms by (auto simp: session_rows_def intro!: sort_key_snoc)

lemma moka_lawsD:
  assumes "moka_laws mk"
  shows "moka_get mk (moka_insert mk c k v t) k t' \<in> {None, Some v}"
    "k \<noteq> k' \<Longrightarrow> moka_get mk (moka_insert mk c k v t) k' t' = moka_get mk c k' t'"
    "moka_get mk (moka_invalidate mk c k) k t = None"
    "k \<noteq> k' \<Longrightarrow> moka_get mk (moka_invalidate mk c k) k' t = moka_get mk c k' t"
    "moka_get mk (moka_new mk ttl) k t = None"
  using assms unfolding moka_laws_def by metis+

lemma cache_coherent_reconstruct:
  assumes laws: "moka_laws mk" and coh: "cache_coherent mk w"
    and run: "reconstruct_session mk sid tid m w = (r, w')"
  shows "cache_coherent mk w'"
  unfolding cache_coherent_def
proof (intro allI impI)
  note out = reconstruct_session_outcome(1,2) [OF run]
  fix s u t' d assume d: "moka_get mk (cache w') (s, u) t' = Some d"
  from out(2) consider (same) "cache w' = cache w"
    | (new) c t where "summary_of (take (nat m) (session_rows sid (event_store w))) = Some c"
        "cache w' = moka_insert mk (cache w) (sid, tid) c t" by blast
  then show "\<exists>k. summary_of (take k (session_rows s (event_store w'))) = Some d"
  proof cases
    case same
    then show ?thesis using coh d out(1) by (simp add: cache_coherent_def)
  next
    case new
    have "moka_get mk (cache w') (sid, tid) t' \<in> {None, Some c}"
      unfolding new(2) by (rule moka_lawsD(1) [OF laws])
    moreover have "(s, u) \<noteq> (sid, tid) \<Longrightarrow> moka_get mk (cache w) (s, u) t' = Some d"
      using moka_lawsD(2) [OF laws, of "(sid, tid)" "(s, u)"] new(2) d by metis
    ultimately show ?thesis
      using new(1) d out(1) coh by (cases "(s, u) = (sid, tid)") (auto simp: cache_coherent_def)
  qed
qed

lemma reachable_cache_coherent:
  assumes "moka_laws mk"
  shows "session_reachable mk w \<Longrightarrow> cache_coherent mk w"
proof (induction rule: session_reachable.induct)
  case (start w)
  then show ?case using moka_lawsD(5) [OF assms] by (simp add: cache_coherent_def cache_new_def)
next
  case (append w e)
  have "\<exists>k'. take k' (session_rows sid (event_store w @ [e])) = take k (session_rows sid (event_store w))" for sid k
    by (rule exI [of _ "min k (length (session_rows sid (event_store w)))"])
      (simp add: session_rows_append [OF append.hyps(2)] min_def)
  then show ?case using append.IH unfolding cache_coherent_def by (simp, metis)
next
  case (reconstruct w sid tid m r w')
  then show ?case using cache_coherent_reconstruct [OF assms] by blast
next
  case (invalidate w sid tid r w')
  then have w': "event_store w' = event_store w" "cache w' = moka_invalidate mk (cache w) (sid, tid)"
    by (auto simp: cache_invalidate_def modifyE_def)
  have "moka_get mk (cache w') k t = Some c \<Longrightarrow> moka_get mk (cache w) k t = Some c" for k t c
    using moka_lawsD(3,4) [OF assms] w'(2) by (metis option.distinct(1))
  then show ?case using invalidate.IH w'(1) unfolding cache_coherent_def by metis
next
  case (environment w w')
  then show ?case by (simp add: cache_coherent_def)
qed

lemma reconstruct_hit_ignores_limit:
  assumes "moka_get mk (cache w) (sid, tid) (clock w (clock_reads w)) = Some c"
  shows "fst (reconstruct_session mk sid tid m w) = Inr (cached_result sid c)"
  using assms by (simp add: reconstruct_session_def cache_get_def utc_now_def eff_simps)

lemma compute_merkle_proof_no_panic:
  "i < length hashes \<Longrightarrow> \<exists>root sibs. compute_merkle_proof cr hashes i = Some (root, sibs)"
  by (simp add: compute_merkle_proof_eq)

lemma fetch_event_hashes_up:
  assumes "db_up w"
  shows "fetch_event_hashes sid tid w =
    (if session_log sid w = [] then Inl SessionNotFound else Inr (map de_record_hash (session_log sid w)),
     w\<lparr>db_calls := db_calls w + 4\<rparr>)"
  using assms by (simp add: fetch_event_hashes_def fetch_events_up session_log_def eff_simps)

text \<open>Renumbering a log from version 1, as an edit of the version column would.\<close>

fun renumber :: "int \<Rightarrow> db_event list \<Rightarrow> db_event list" where
  "renumber v [] = []"
| "renumber v (e # es) = e\<lparr>de_version := v\<rparr> # renumber (v + 1) es"

lemma event_text_version [simp]: "event_text cr (e\<lparr>de_version := v\<rparr>) = event_text cr e"
  by (simp add: event_text_def)

lemma chain_from_renumber: "1 < v \<Longrightarrow> 1 < u \<Longrightarrow> chain_from cr v prev es \<Longrightarrow> chain_from cr u prev (renumber u es)"
  by (induction cr v prev es arbitrary: u rule: chain_from.induct) auto

lemma renumber_simps [simp]:
  "length (renumber v es) = length es" "renumber v es = [] \<longleftrightarrow> es = []"
  by (induction es arbitrary: v) auto

lemma last_renumber_hash: "es \<noteq> [] \<Longrightarrow> de_record_hash (last (renumber v es)) = de_record_hash (last es)"
  by (induction es arbitrary: v) auto

lemma chained_renumber_tail:
  assumes "chained cr (e # es)"
  shows "chained cr (renumber 1 es)"
proof (cases es)
  case (Cons f fs)
  have "chain_from cr 1 [] (e # f # fs)" using assms Cons chained_chain_from by blast
  then have f: "de_record_hash f = hex_encode cr (sha256_digest cr (as_bytes (prev_text f @ event_text cr f)))"
    and fs: "chain_from cr (1 + 1 + 1) (de_record_hash f) fs"
    unfolding chain_from.simps by blast+
  have "chain_from cr (1 + 1) (de_record_hash f) (renumber (1 + 1) fs)"
    by (rule chain_from_renumber [OF _ _ fs]) simp_all
  with f have "chain_from cr 1 [] (renumber 1 (f # fs))"
    unfolding renumber.simps chain_from.simps by simp
  then show ?thesis using Cons chained_chain_from by blast
qed (simp add: chained_def)

lemma verify_chain_iff_chained:
  assumes "es \<noteq> []"
  shows "(\<exists>r. verify_chain cr n 1 prev es = Inr r \<and> ir_is_valid r) \<longleftrightarrow> chained cr es"
    and "chained cr es \<Longrightarrow> verify_chain cr n 1 prev es =
      Inr \<lparr>ir_is_valid = True, ir_computed_hash = de_record_hash (last es), ir_event_count = n,
           ir_broken_at_version = None\<rparr>"
  using assms chained_chain_from [of cr es prev] verify_chain_valid [of cr 1 prev es n]
    verify_chain_sound [of cr n 1 prev es] by auto

section \<open>Concrete inputs\<close>

definition example_moka :: "(int \<times> (uuid \<times> uuid \<rightharpoonup> cached_session \<times> datetime)) moka" where
  "example_moka = \<lparr>moka_new = (\<lambda>ttl. (ttl, Map.empty)),
     moka_get = (\<lambda>(ttl, m) k t. case m k of None \<Rightarrow> None | Some (v, t0) \<Rightarrow> if t < t0 + ttl then Some v else None),
     moka_insert = (\<lambda>(ttl, m) k v t. (ttl, m(k \<mapsto> (v, t)))),
     moka_invalidate = (\<lambda>(ttl, m) k. (ttl, m(k := None)))\<rparr>"

lemma example_moka_laws [simp]: "moka_laws example_moka"
  by (auto simp: moka_laws_def example_moka_def split: option.splits prod.splits if_splits)

definition example_event :: "int \<Rightarrow> string option \<Rightarrow> string \<Rightarrow> json \<Rightarrow> db_event" where
  "example_event v prev typ payload = \<lparr>de_event_id = 0, de_event_type = typ, de_aggregate_type = ''session'',
     de_aggregate_id = 1, de_version = v, de_payload = payload, de_tenant_id = 2, de_session_id = 1,
     de_correlation_id = None, de_causation_id = None, de_idempotency_key = None,
     de_record_hash = compute_event_hash example_crates (unwrap_or prev []) typ payload v,
     de_previous_hash = prev, de_occurred_at = v, de_tracing = None\<rparr>"

definition example_event1 :: db_event where
  "example_event1 = example_event 1 None ''SessionCreated'' (JObject [(''phone_number'', JString ''263771'')])"

definition example_event2 :: db_event where
  "example_event2 = example_event 2 (Some (de_record_hash example_event1)) ''SessionEnded'' JNull"

definition example_world ::
  "db_event list \<Rightarrow> (int \<times> (uuid \<times> uuid \<rightharpoonup> cached_session \<times> datetime)) session_world" where
  "example_world rows = \<lparr>db_calls = 0, db_fault = (\<lambda>_. None), clock_reads = 0, clock = int,
     uuids_made = 0, uuid_supply = of_nat, event_store = rows, cache = cache_new example_moka\<rparr>"

lemma example_world_simps [simp]:
  "db_up (example_world rows)" "event_store (example_world rows) = rows"
  "cache (example_world rows) = cache_new example_moka"
  by (simp_all add: example_world_def db_up_def)

lemma example_log [simp]:
  "session_rows 1 [example_event1, example_event2] = [example_event1, example_event2]"
  "session_log 1 (example_world [example_event1, example_event2]) = [example_event1, example_event2]"
  by (simp_all add: session_log_def session_rows_def i32_max_def example_event1_def example_event2_def
      example_event_def example_world_def)

lemma example_chained [simp]: "chained example_crates [example_event1, example_event2]"
  by (simp add: chained_chain_from [of _ _ "[]"] example_event1_def example_event2_def example_event_def
      event_text_def compute_event_hash_def)

section \<open>Properties\<close>

text \<open>C3: the outcome of \<open>fold_session_state\<close> on a non-empty event list: it succeeds exactly when the
  versions count 1, 2, 3 and so on and every event type is known, and then the state of a key is
  the last value written to it; otherwise the error names the first offending event, a version
  gap taking precedence over an unknown type.\<close>

theorem fold_session_state_outcome:
  assumes "es \<noteq> []"
  shows "if \<forall>i < length es. ev_version (es ! i) = int i + 1 \<and> known_event_type (ev_event_type (es ! i))
     then fold_session_state es = Inr (map_of (rev (concat (map event_writes es))))
     else \<exists>i < length es.
       (\<forall>j < i. ev_version (es ! j) = int j + 1 \<and> known_event_type (ev_event_type (es ! j))) \<and>
       fold_session_state es =
         Inl (if ev_version (es ! i) \<noteq> int i + 1 then EventSequenceGap (int i + 1) (ev_version (es ! i))
              else InvalidEventType (ev_event_type (es ! i))) \<and>
       \<not> (ev_version (es ! i) = int i + 1 \<and> known_event_type (ev_event_type (es ! i)))"
proof -
  let ?good = "\<lambda>i. ev_version (es ! i) = 1 + int i \<and> known_event_type (ev_event_type (es ! i))"
  show ?thesis
  proof (cases "\<forall>i < length es. ?good i")
    case True
    then show ?thesis
      using assms fold_events_ok [OF True, of Map.empty]
      by (simp add: fold_session_state_def replay_def add.commute)
  next
    case False
    then obtain i where i: "i < length es" "\<not> ?good i" "\<forall>j < i. ?good j"
      using exists_least_iff [of "\<lambda>i. i < length es \<and> \<not> ?good i"] by (meson less_trans)
    then have "fold_session_state es =
         Inl (if ev_version (es ! i) \<noteq> int i + 1 then EventSequenceGap (int i + 1) (ev_version (es ! i))
              else InvalidEventType (ev_event_type (es ! i)))"
      using assms fold_events_bad [OF i(1,3,2), of Map.empty]
      by (simp add: fold_session_state_def add.commute)
    then show ?thesis using i False by (simp add: add.commute) blast
  qed
qed

theorem fold_session_state_outcome_witness:
  "fold_session_state (map to_envelope [example_event1]) =
     Inr (map_of [(''phone_number'', ''263771''), (''status'', ''active'')])"
  using fold_session_state_outcome [of "map to_envelope [example_event1]"]
  by (simp add: to_envelope_def example_event1_def example_event_def known_event_type_def event_writes_def
      Let_def field_write_def json_get_str_def)

text \<open>After a successful fold the session's status is \<open>active\<close> or \<open>ended\<close> as the last of the
  SessionCreated and SessionEnded events says, and absent if there is none; the payment status
  follows the last of the PaymentInitiated and PaymentConfirmed events in the same way.\<close>

lemma session_status_last_event:
  assumes "fold_session_state es = Inr st"
  shows "st ''status'' = map_option (\<lambda>e. if ev_event_type e = ''SessionCreated'' then ''active'' else ''ended'')
           (List.find (\<lambda>e. ev_event_type e \<in> {''SessionCreated'', ''SessionEnded''}) (rev es)) \<and>
         st ''payment_status'' = map_option (\<lambda>e. if ev_event_type e = ''PaymentInitiated'' then ''initiated'' else ''confirmed'')
           (List.find (\<lambda>e. ev_event_type e \<in> {''PaymentInitiated'', ''PaymentConfirmed''}) (rev es))"
  unfolding fold_session_state_replay(3) [OF assms]
proof (induction es rule: rev_induct)
  case Nil
  show ?case by (simp add: replay_def)
next
  case (snoc e es)
  then show ?case by (simp add: replay_snoc map_add_def status_writes)
qed

lemma session_status_last_event_example:
  "\<exists>st. fold_session_state (map to_envelope [example_event1, example_event2]) = Inr st \<and>
        st ''status'' = Some ''ended'' \<and> st ''payment_status'' = None"
proof -
  obtain st where st: "fold_session_state (map to_envelope [example_event1, example_event2]) = Inr st"
    by (simp add: to_envelope_def example_event1_def example_event2_def example_event_def
        fold_session_state_def apply_event_def Let_def)
  show ?thesis using session_status_last_event [OF st] st
    by (simp add: to_envelope_def example_event1_def example_event2_def example_event_def)
qed





text \<open>The version is not part of the hashed text and the first event's previous hash is not
  checked, so dropping the first event of a valid log and renumbering the rest gives a log that
  \<open>verify_chain\<close> accepts with the same computed hash.\<close>

lemma session_chain_prefix_drop:
  assumes "verify_chain cr n 1 [] (e # es) = Inr r" "ir_is_valid r" "es \<noteq> []"
  shows "\<exists>r'. verify_chain cr n' 1 [] (renumber 1 es) = Inr r' \<and> ir_is_valid r' \<and>
              ir_computed_hash r' = ir_computed_hash r"
proof -
  have "chained cr (e # es)"
    using verify_chain_iff_chained(1) [of "e # es" cr n "[]"] assms(1,2) by blast
  then have "chained cr (renumber 1 es)" "ir_computed_hash r = de_record_hash (last es)"
    using chained_renumber_tail verify_chain_iff_chained(2) [of "e # es" cr n "[]"] assms(1,3) by auto
  then show ?thesis
    using verify_chain_iff_chained(2) [of "renumber 1 es" cr n' "[]"] assms(3) last_renumber_hash by simp
qed

lemma session_chain_prefix_drop_example:
  "\<exists>r'. verify_chain example_crates 1 1 [] (renumber 1 [example_event2]) = Inr r' \<and> ir_is_valid r' \<and>
        ir_computed_hash r' = de_record_hash example_event2"
  using session_chain_prefix_drop [of example_crates 2 example_event1 "[example_event2]" _ 1]
    verify_chain_iff_chained(2) [OF _ example_chained, of 2 "[]"]
  by (auto simp del: verify_chain.simps)

text \<open>C6: the two Merkle implementations agree.  For every index in range, \<open>compute_merkle_proof\<close> of the
  session service returns the hex encoding of the root and of the sibling path that
  \<open>build_merkle_tree\<close> and \<open>merkle_proof\<close> of the audit service give for the decoded hashes.\<close>

theorem compute_merkle_proof_is_audit_tree:
  assumes "i < length hashes"
  shows "\<exists>root tree path.
    build_merkle_tree (sha256_digest cr) (map (\<lambda>h. unwrap_or (hex_decode cr h) []) hashes) = Some (root, tree) \<and>
    merkle_proof tree (length hashes) i = Some path \<and>
    compute_merkle_proof cr hashes i = Some (hex_encode cr root, map (hex_encode cr) path)"
proof -
  have "i < length (decoded_leaves cr hashes)" using assms by (simp add: decoded_leaves_def)
  from merkle_proof_eq [OF this, of "sha256_digest cr"] show ?thesis
    using assms by (simp add: compute_merkle_proof_eq build_merkle_tree_eq decoded_leaves_def)
qed

theorem compute_merkle_proof_is_audit_tree_witness:
  "\<exists>root tree path.
    build_merkle_tree example_digest [[171], [18], [1]] = Some (root, tree) \<and>
    merkle_proof tree 3 2 = Some path \<and>
    compute_merkle_proof example_crates [''ab'', ''12'', ''01''] 2 =
      Some (hex_encode_impl root, map hex_encode_impl path)"
  using compute_merkle_proof_is_audit_tree [of 2 "[''ab'', ''12'', ''01'']" example_crates]
  by (simp add: example_crates_def hex_value_def Let_def numeral_3_eq_3)

text \<open>\<open>get_integrity_proof\<close> on a non-empty session answers, when the database does, with a proof for
  the requested event version clamped to the log: the returned hash is that event's stored
  record hash, and decoding the siblings and the root and verifying them as the audit service
  does succeeds.\<close>

lemma get_integrity_proof_verifies:
  assumes "hex_laws cr" "db_up w" "session_log sid w \<noteq> []"
    and "uuid_parse cr (iq_session_id req) = Some sid" "uuid_parse cr (iq_tenant_id req) = Some tid"
  shows "\<exists>p i. fst (get_integrity_proof cr req w) = Inr p \<and> i < length (session_log sid w) \<and>
     ip_event_version p = int i + 1 \<and> ip_event_hash p = de_record_hash (session_log sid w ! i) \<and>
     session_check cr (ip_event_hash p) i (ip_sibling_hashes p) (ip_merkle_root p) \<and>
     (1 \<le> iq_event_version req \<and> iq_event_version req \<le> int (length (session_log sid w)) \<longrightarrow>
        ip_event_version p = iq_event_version req)"
proof -
  let ?hs = "map de_record_hash (session_log sid w)"
  define i where "i = min (if iq_event_version req > 0 then nat (iq_event_version req) - 1
                           else length ?hs - 1) (length ?hs - 1)"
  have "i \<le> length ?hs - 1" by (simp add: i_def)
  then have i: "i < length ?hs" using assms(3) by (cases "session_log sid w") auto
  then obtain root sibs where p: "compute_merkle_proof cr ?hs i = Some (root, sibs)"
    using compute_merkle_proof_no_panic by blast
  have chk: "session_check cr (?hs ! i) i sibs root" by (rule session_check_proof [OF assms(1) i p])
  have ver: "1 \<le> iq_event_version req \<and> iq_event_version req \<le> int (length (session_log sid w)) \<Longrightarrow>
    int i + 1 = iq_event_version req" by (auto simp: i_def)
  have "\<exists>t. fst (get_integrity_proof cr req w) = Inr \<lparr>ip_session_id = uuid_to_string cr sid,
      ip_event_version = int i + 1, ip_event_hash = ?hs ! i, ip_sibling_hashes = sibs,
      ip_merkle_root = root, ip_proof_generated_at = t, ip_signature = []\<rparr>"
    using assms(3-5) i p fetch_event_hashes_up [OF assms(2), of sid tid]
    by (simp add: get_integrity_proof_def session_parse_uuid_def eff_simps Let_def utc_now_def
        i_def [symmetric, simplified])
  then show ?thesis using i chk ver by fastforce
qed

lemma get_integrity_proof_verifies_example:
  "\<exists>p. fst (get_integrity_proof example_crates \<lparr>iq_session_id = ''u'', iq_tenant_id = ''uu'', iq_event_version = 2\<rparr>
          (example_world [example_event1, example_event2])) = Inr p \<and>
       ip_event_version p = 2 \<and>
       session_check example_crates (ip_event_hash p) 1 (ip_sibling_hashes p) (ip_merkle_root p)"
proof -
  let ?w = "example_world [example_event1, example_event2]"
  let ?req = "\<lparr>iq_session_id = ''u'', iq_tenant_id = ''uu'', iq_event_version = 2\<rparr>"
  have "uuid_parse example_crates (iq_session_id ?req) = Some 1" "uuid_parse example_crates (iq_tenant_id ?req) = Some 2"
    by (simp_all add: example_crates_def)
  from get_integrity_proof_verifies [of example_crates ?w 1 ?req 2, OF _ _ _ this] show ?thesis
    by auto
qed

lemma fetch_event_hashes_no_panic:
  "fetch_event_hashes sid tid w = (Inr hashes, w') \<Longrightarrow> hashes \<noteq> []"
  by (auto simp: fetch_event_hashes_def okE_def failE_def elim!: bindE_Inr_cases split: if_splits)

lemma session_parse_uuid_no_panic: "never_panics (liftE (session_parse_uuid cr s))"
  by (rule never_panics_basic) (simp add: session_parse_uuid_def split: option.splits)

lemma clamp_in_range: "hs \<noteq> [] \<Longrightarrow> min k (length hs - Suc 0) < length hs"
  by (cases hs) (auto simp: min_def)

lemma reconstruct_merkle_no_panic: "never_panics (reconstruct_merkle cr sid tid res)"
  unfolding reconstruct_merkle_def
  by (rule never_panics_bindE, rule never_panics_basic)
    (auto simp: compute_merkle_proof_eq split: sum.splits prod.splits
      intro!: never_panics_bindE never_panics_basic)

lemma get_integrity_proof_no_panic: "never_panics (get_integrity_proof cr req)"
  unfolding get_integrity_proof_def
  by (intro never_panics_bindE session_parse_uuid_no_panic never_panics_basic)
    (auto simp: Let_def compute_merkle_proof_eq clamp_in_range split: prod.splits
      intro!: never_panics_bindE never_panics_basic)

text \<open>No request makes the session service's handlers unwind, whatever the store, the cache and
  the database faults: neither \<open>grpc_reconstruct_session\<close> nor \<open>get_integrity_proof\<close> indexes out of
  range in its Merkle computation.\<close>

lemma session_handlers_never_panic:
  "fst (grpc_reconstruct_session cr mk req w) \<noteq> Inl RpcPanic \<and>
   fst (get_integrity_proof cr req' w) \<noteq> Inl RpcPanic"
proof -
  have "never_panics (grpc_reconstruct_session cr mk req)"
    unfolding grpc_reconstruct_session_def Let_def
    by (intro never_panics_bindE session_parse_uuid_no_panic never_panics_basic)
      (auto intro!: never_panics_bindE reconstruct_merkle_no_panic never_panics_basic)
  then show ?thesis
    by (simp add: never_panics_def get_integrity_proof_no_panic [unfolded never_panics_def, rule_format])
qed

text \<open>C7: cache consistency over time.  In every world reachable by appending events, reconstructing and
  invalidating in any order, a successful \<open>reconstruct_session\<close> returns the fold of a non-empty
  prefix of the session's stored log, with that prefix's length as event count and as current
  version and its last record hash as integrity hash.\<close>

theorem reconstruct_session_prefix:
  assumes "moka_laws mk" "session_reachable mk w"
    and "reconstruct_session mk sid tid m w = (Inr res, w')"
  shows "\<exists>k > 0. k \<le> length (session_rows sid (event_store w)) \<and>
     fold_session_state (map to_envelope (take k (session_rows sid (event_store w)))) = Inr (rr_state res) \<and>
     rr_event_count res = k \<and> rr_current_version res = int k \<and>
     rr_integrity_hash res = de_record_hash (session_rows sid (event_store w) ! (k - 1))"
proof -
  let ?rows = "session_rows sid (event_store w)"
  obtain c where c: "res = cached_result sid c"
    "(\<exists>t. moka_get mk (cache w) (sid, tid) t = Some c) \<or> summary_of (take (nat m) ?rows) = Some c"
    using reconstruct_session_outcome(3) [OF assms(3) refl] by blast
  then obtain j where j: "summary_of (take j ?rows) = Some c"
    using reachable_cache_coherent [OF assms(1,2)] unfolding cache_coherent_def by blast
  define k where "k = min j (length ?rows)"
  have tk: "take j ?rows = take k ?rows" by (simp add: k_def min_def)
  then have s: "summary_of (take k ?rows) = Some c" using j by simp
  then have k: "0 < k" "k \<le> length ?rows" using summary_of_nonempty [OF s] by (auto simp: k_def)
  have last: "last (take k ?rows) = ?rows ! (k - 1)"
    using k by (subst last_conv_nth) auto
  from s show ?thesis
    using c(1) k last by (intro exI [of _ k]) (auto simp: summary_of_def cached_result_def split: sum.splits)
qed

theorem reconstruct_session_prefix_witness:
  "\<exists>res. fst (reconstruct_session example_moka 1 2 1000 (example_world [example_event1])) = Inr res \<and>
         rr_event_count res = 1 \<and> rr_current_version res = 1"
proof -
  let ?w = "example_world [example_event1]"
  have "session_reachable example_moka ((example_world [])\<lparr>event_store := event_store (example_world []) @ [example_event1]\<rparr>)"
    by (rule session_reachable.append [OF session_reachable.start]) simp_all
  then have re: "session_reachable example_moka ?w" by (simp add: example_world_def)
  have rows: "session_rows 1 (event_store ?w) = [example_event1]"
    by (simp add: session_rows_def example_event1_def example_event_def)
  have "\<exists>res. fst (reconstruct_session example_moka 1 2 1000 ?w) = Inr res"
    using rows by (simp add: reconstruct_session_def cache_get_def utc_now_def eff_simps cache_new_def example_moka_def
        fetch_events_up Let_def cache_insert_def fold_session_state_def to_envelope_def apply_event_def
        example_event1_def example_event_def example_world_def db_up_def)
  then obtain res w' where r: "reconstruct_session example_moka 1 2 1000 ?w = (Inr res, w')"
    by (metis prod.collapse)
  from reconstruct_session_prefix [OF example_moka_laws re this] show ?thesis
    using r rows by auto
qed

end
