(* ===== verification/Decimals.thy ===== *)
theory Decimals
  imports Complex_Main Rust_Prelude
begin

text \<open>
  Decimal amounts, as rust_decimal has them: a mantissa and a scale, with addition, subtraction,
  absolute value, comparison, product and truncation.  The arithmetic is exact; the 96-bit bound of
  the mantissa is not modelled.  The rational value of a decimal gives the operations their meaning.
\<close>

section \<open>Decimal amounts\<close>

text \<open>A decimal amount is a mantissa and a scale, \<open>Decimal::new(mantissa, scale)\<close>.\<close>

datatype decimal = Decimal (mantissa: int) (scale: nat)

text \<open>\<open>amount <= Decimal::ZERO\<close>, the product, and the truncating \<open>to_i64\<close>.\<close>

fun dec_le_zero :: "decimal \<Rightarrow> bool" where
  "dec_le_zero (Decimal m s) \<longleftrightarrow> m \<le> 0"

fun dec_mul :: "decimal \<Rightarrow> decimal \<Rightarrow> decimal" where
  "dec_mul (Decimal m s) (Decimal n t) = Decimal (m * n) (s + t)"

definition trunc_div :: "int \<Rightarrow> int \<Rightarrow> int" where
  "trunc_div a b = sgn a * (\<bar>a\<bar> div b)"

fun dec_to_i64 :: "decimal \<Rightarrow> int option" where
  "dec_to_i64 (Decimal m s) = (let q = trunc_div m (10 ^ s) in if in_i64 q then Some q else None)"

section \<open>Addition, subtraction and comparison\<close>

text \<open>The mantissas of two decimals at their larger scale.\<close>

definition rescaled :: "decimal \<Rightarrow> nat \<Rightarrow> int" where
  "rescaled d s = mantissa d * 10 ^ (s - scale d)"

definition dec_zero :: decimal where
  "dec_zero = Decimal 0 0"

definition dec_add :: "decimal \<Rightarrow> decimal \<Rightarrow> decimal" where
  "dec_add a b = (let s = max (scale a) (scale b) in Decimal (rescaled a s + rescaled b s) s)"

definition dec_sub :: "decimal \<Rightarrow> decimal \<Rightarrow> decimal" where
  "dec_sub a b = (let s = max (scale a) (scale b) in Decimal (rescaled a s - rescaled b s) s)"

fun dec_abs :: "decimal \<Rightarrow> decimal" where
  "dec_abs (Decimal m s) = Decimal \<bar>m\<bar> s"

definition dec_le :: "decimal \<Rightarrow> decimal \<Rightarrow> bool" where
  "dec_le a b \<longleftrightarrow> (let s = max (scale a) (scale b) in rescaled a s \<le> rescaled b s)"

definition dec_sum :: "decimal list \<Rightarrow> decimal" where
  "dec_sum ds = foldl dec_add dec_zero ds"

definition dec_value :: "decimal \<Rightarrow> rat" where
  "dec_value d = of_int (mantissa d) / 10 ^ scale d"

lemma rescaled_value: "scale d \<le> s \<Longrightarrow> of_int (rescaled d s) / 10 ^ s = dec_value d"
proof -
  assume "scale d \<le> s"
  then have "(10 :: rat) ^ s = 10 ^ scale d * 10 ^ (s - scale d)" by (simp flip: power_add)
  then show ?thesis by (simp add: rescaled_def dec_value_def field_simps)
qed

lemma dec_value_simps [simp]:
  "dec_value dec_zero = 0" "dec_value (dec_add a b) = dec_value a + dec_value b"
  "dec_value (dec_sub a b) = dec_value a - dec_value b" "dec_value (dec_abs d) = \<bar>dec_value d\<bar>"
proof -
  show "dec_value dec_zero = 0" by (simp add: dec_value_def dec_zero_def)
  let ?s = "max (scale a) (scale b)"
  have ab: "of_int (rescaled a ?s) / 10 ^ ?s = dec_value a" "of_int (rescaled b ?s) / 10 ^ ?s = dec_value b"
    by (simp_all only: rescaled_value max.cobounded1 max.cobounded2)
  have "dec_value (dec_add a b) = of_int (rescaled a ?s) / 10 ^ ?s + of_int (rescaled b ?s) / 10 ^ ?s"
    by (simp add: dec_add_def Let_def dec_value_def [of "Decimal _ _"] add_divide_distrib)
  then show "dec_value (dec_add a b) = dec_value a + dec_value b" unfolding ab .
  have "dec_value (dec_sub a b) = of_int (rescaled a ?s) / 10 ^ ?s - of_int (rescaled b ?s) / 10 ^ ?s"
    by (simp add: dec_sub_def Let_def dec_value_def [of "Decimal _ _"] diff_divide_distrib)
  then show "dec_value (dec_sub a b) = dec_value a - dec_value b" unfolding ab .
  show "dec_value (dec_abs d) = \<bar>dec_value d\<bar>" by (cases d) (simp add: dec_value_def)
qed

lemma dec_le_value: "dec_le a b \<longleftrightarrow> dec_value a \<le> dec_value b"
proof -
  let ?s = "max (scale a) (scale b)"
  have "dec_value a \<le> dec_value b \<longleftrightarrow>
      (of_int (rescaled a ?s) :: rat) / 10 ^ ?s \<le> of_int (rescaled b ?s) / 10 ^ ?s"
    by (simp only: rescaled_value max.cobounded1 max.cobounded2)
  also have "\<dots> \<longleftrightarrow> rescaled a ?s \<le> rescaled b ?s" by (simp add: divide_le_cancel)
  finally show ?thesis by (simp add: dec_le_def Let_def)
qed

lemma dec_value_foldl: "dec_value (foldl dec_add a ds) = dec_value a + sum_list (map dec_value ds)"
  by (induction ds arbitrary: a) simp_all

lemma dec_value_sum [simp]: "dec_value (dec_sum ds) = sum_list (map dec_value ds)"
  by (simp add: dec_sum_def dec_value_foldl)

lemma dec_le_zero_value: "dec_le_zero d \<longleftrightarrow> dec_value d \<le> 0"
proof -
  have "\<not> (10 :: rat) ^ n \<le> 0" for n by (simp add: not_le)
  then show ?thesis by (cases d) (simp add: dec_value_def divide_le_0_iff)
qed

section \<open>A text form\<close>

text \<open>A decimal as a sign, its mantissa in unary, a point and its scale in unary.\<close>

fun unary_decimal :: "decimal \<Rightarrow> string" where
  "unary_decimal (Decimal m s) =
     (if m < 0 then CHR ''-'' else CHR ''+'') # replicate (nat \<bar>m\<bar>) CHR ''1'' @ CHR ''.'' # replicate s CHR ''1''"

fun parse_unary_decimal :: "string \<Rightarrow> string + decimal" where
  "parse_unary_decimal [] = Inl ''empty''"
| "parse_unary_decimal (c # s) =
     (let m = int (length (takeWhile (\<lambda>d. d \<noteq> CHR ''.'') s)) in
      Inr (Decimal (if c = CHR ''-'' then - m else m) (length (dropWhile (\<lambda>d. d \<noteq> CHR ''.'') s) - 1)))"

lemma takeWhile_replicate_dot [simp]:
  "takeWhile (\<lambda>d. d \<noteq> CHR ''.'') (replicate n CHR ''1'' @ CHR ''.'' # s) = replicate n CHR ''1''"
  "dropWhile (\<lambda>d. d \<noteq> CHR ''.'') (replicate n CHR ''1'' @ CHR ''.'' # s) = CHR ''.'' # s"
  by (induction n) simp_all

lemma parse_unary_decimal_show [simp]: "parse_unary_decimal (unary_decimal d) = Inr d"
  by (cases d) (simp add: Let_def)

end
