(* ===== verification/Payment.thy ===== *)
theory Payment
  imports Wire Decimals
begin

text \<open>
  The payment domain (payment-engine/src/domain): statuses, providers, errors, the payment
  record, its validation and its status transitions.  An operation that stamps the current time
  takes the time it reads as an argument.  The transitions form a state machine whose reachable
  states satisfy the payment invariant.
\<close>

section \<open>Statuses, providers, errors\<close>

datatype payment_status = Pending | Processing | Completed | Failed | Cancelled | Refunded

fun status_as_str :: "payment_status \<Rightarrow> string" where
  "status_as_str Pending = ''pending''"
| "status_as_str Processing = ''processing''"
| "status_as_str Completed = ''completed''"
| "status_as_str Failed = ''failed''"
| "status_as_str Cancelled = ''cancelled''"
| "status_as_str Refunded = ''refunded''"

datatype mobile_money_provider = EcoCash | OneMoney | Telecash

fun provider_as_str :: "mobile_money_provider \<Rightarrow> string" where
  "provider_as_str EcoCash = ''ecocash''"
| "provider_as_str OneMoney = ''onemoney''"
| "provider_as_str Telecash = ''telecash''"

datatype provider_status = PsPending | PsProcessing | PsCompleted | PsFailed | PsCancelled | PsRefunded | PsUnknown

fun provider_status_as_str :: "provider_status \<Rightarrow> string" where
  "provider_status_as_str PsPending = ''pending''"
| "provider_status_as_str PsProcessing = ''processing''"
| "provider_status_as_str PsCompleted = ''completed''"
| "provider_status_as_str PsFailed = ''failed''"
| "provider_status_as_str PsCancelled = ''cancelled''"
| "provider_status_as_str PsRefunded = ''refunded''"
| "provider_status_as_str PsUnknown = ''unknown''"

record provider_response =
  pr_provider_reference :: string
  pr_status :: provider_status
  pr_message :: "string option"

datatype payment_error =
    InvalidPhoneNumber string
  | InvalidAmount string
  | InvalidReference string
  | ProviderError string
  | IdempotencyViolation
  | PNotFound string
  | InvalidStatusTransition string string
  | DatabaseError string

fun payment_error_to_string :: "payment_error \<Rightarrow> string" where
  "payment_error_to_string (InvalidPhoneNumber s) = ''Invalid phone number: '' @ s"
| "payment_error_to_string (InvalidAmount s) = ''Invalid amount: '' @ s"
| "payment_error_to_string (InvalidReference s) = ''Invalid reference: '' @ s"
| "payment_error_to_string (ProviderError s) = ''Provider error: '' @ s"
| "payment_error_to_string IdempotencyViolation = ''Idempotency violation''"
| "payment_error_to_string (PNotFound s) = ''Not found: '' @ s"
| "payment_error_to_string (InvalidStatusTransition f t) =
     ''Invalid status transition from '' @ f @ '' to '' @ t"
| "payment_error_to_string (DatabaseError s) = ''Database error: '' @ s"

section \<open>The payment\<close>

record payment =
  payment_id :: uuid
  tenant_id :: uuid
  idempotency_key :: string
  provider :: mobile_money_provider
  phone_number :: string
  amount :: decimal
  currency :: string
  reference :: string
  description :: string
  pay_status :: payment_status
  provider_reference :: "string option"
  failure_reason :: "string option"
  initiated_at :: datetime
  completed_at :: "datetime option"

text \<open>\<open>^2637[1378]\d{8}$\<close>\<close>

definition phone_re :: "string \<Rightarrow> bool" where
  "phone_re s \<longleftrightarrow> starts_with s ''2637'' \<and>
     (case drop 4 s of [] \<Rightarrow> False
      | c # ds \<Rightarrow> c \<in> {CHR ''1'', CHR ''3'', CHR ''7'', CHR ''8''} \<and> length ds = 8 \<and> list_all is_digit ds)"

definition payment_new ::
  "datetime \<Rightarrow> uuid \<Rightarrow> uuid \<Rightarrow> string \<Rightarrow> mobile_money_provider \<Rightarrow> string \<Rightarrow> decimal \<Rightarrow> string \<Rightarrow> string \<Rightarrow>
   string \<Rightarrow> payment_error + payment" where
  "payment_new now pid tid key prov phone amt cur ref desc =
     (if dec_le_zero amt then Inl (InvalidAmount ''Amount must be greater than zero'')
      else if str_trim ref = [] then Inl (InvalidReference ''Reference must not be empty'')
      else if \<not> phone_re phone then Inl (InvalidPhoneNumber phone)
      else Inr \<lparr>payment_id = pid, tenant_id = tid, idempotency_key = key, provider = prov,
                phone_number = phone, amount = amt, currency = cur, reference = ref,
                description = desc, pay_status = Pending, provider_reference = None,
                failure_reason = None, initiated_at = now, completed_at = None\<rparr>)"

definition validate :: "payment \<Rightarrow> payment_error + unit" where
  "validate p =
     (if dec_le_zero (amount p) then Inl (InvalidAmount ''Amount must be greater than zero'')
      else if str_trim (reference p) = [] then Inl (InvalidReference ''Reference must not be empty'')
      else if \<not> phone_re (phone_number p) then Inl (InvalidPhoneNumber (phone_number p))
      else Inr ())"

definition invalid_transition :: "payment \<Rightarrow> payment_status \<Rightarrow> payment_error" where
  "invalid_transition p target =
     InvalidStatusTransition (status_as_str (pay_status p)) (status_as_str target)"

definition mark_processing :: "payment \<Rightarrow> payment_error + payment" where
  "mark_processing p =
     (if pay_status p \<in> {Pending, Processing} then Inr (p\<lparr>pay_status := Processing\<rparr>)
      else Inl (invalid_transition p Processing))"

definition mark_completed :: "datetime \<Rightarrow> string \<Rightarrow> payment \<Rightarrow> payment_error + payment" where
  "mark_completed now provider_ref p =
     (if pay_status p \<in> {Pending, Processing}
      then Inr (p\<lparr>pay_status := Completed, provider_reference := Some provider_ref, completed_at := Some now\<rparr>)
      else Inl (invalid_transition p Completed))"

definition mark_failed :: "datetime \<Rightarrow> string \<Rightarrow> payment \<Rightarrow> payment_error + payment" where
  "mark_failed now reason p =
     (if pay_status p \<in> {Pending, Processing}
      then Inr (p\<lparr>pay_status := Failed, failure_reason := Some reason, completed_at := Some now\<rparr>)
      else Inl (invalid_transition p Failed))"

definition mark_refunded :: "datetime \<Rightarrow> payment \<Rightarrow> payment_error + payment" where
  "mark_refunded now p =
     (if pay_status p = Completed then Inr (p\<lparr>pay_status := Refunded, completed_at := Some now\<rparr>)
      else Inl (invalid_transition p Refunded))"

text \<open>\<open>let _ = self.mark_...\<close>: an error leaves the payment as it was.\<close>

definition or_same :: "payment_error + payment \<Rightarrow> payment \<Rightarrow> payment" where
  "or_same r p = (case r of Inl _ \<Rightarrow> p | Inr p' \<Rightarrow> p')"

fun apply_provider_status :: "datetime \<Rightarrow> provider_status \<Rightarrow> string option \<Rightarrow> payment \<Rightarrow> payment" where
  "apply_provider_status now PsCompleted pref p = or_same (mark_completed now (unwrap_or pref []) p) p"
| "apply_provider_status now PsFailed pref p = or_same (mark_failed now ''Provider reported failure'' p) p"
| "apply_provider_status now PsCancelled pref p =
     (if pay_status p = Pending \<or> pay_status p = Processing
      then p\<lparr>pay_status := Cancelled, completed_at := Some now\<rparr> else p)"
| "apply_provider_status now PsRefunded pref p = or_same (mark_refunded now p) p"
| "apply_provider_status now PsProcessing pref p = or_same (mark_processing p) p"
| "apply_provider_status now PsPending pref p = p"
| "apply_provider_status now PsUnknown pref p = p"

section \<open>The state machine\<close>

text \<open>
  What the service does with a payment: the four marks, a provider status, and the assignment of
  the provider's reference by the initiation handler, which happens on a processing payment.
\<close>

inductive pay_step :: "payment \<Rightarrow> payment \<Rightarrow> bool" where
  processing: "mark_processing p = Inr p' \<Longrightarrow> pay_step p p'"
| completed: "mark_completed now r p = Inr p' \<Longrightarrow> pay_step p p'"
| failed: "mark_failed now r p = Inr p' \<Longrightarrow> pay_step p p'"
| refunded: "mark_refunded now p = Inr p' \<Longrightarrow> pay_step p p'"
| reported: "apply_provider_status now s r p = p' \<Longrightarrow> pay_step p p'"
| referenced: "pay_status p = Processing \<Longrightarrow> pay_step p (p\<lparr>provider_reference := Some r\<rparr>)"

definition payment_created :: "payment \<Rightarrow> bool" where
  "payment_created p \<longleftrightarrow> (\<exists>now pid tid key prov phone amt cur ref desc.
     payment_new now pid tid key prov phone amt cur ref desc = Inr p)"

abbreviation payment_reachable :: "payment \<Rightarrow> bool" where
  "payment_reachable p \<equiv> (\<exists>p0. payment_created p0 \<and> pay_step\<^sup>*\<^sup>* p0 p)"

definition terminal :: "payment_status \<Rightarrow> bool" where
  "terminal s \<longleftrightarrow> s \<in> {Failed, Cancelled, Refunded}"

text \<open>The outcome fields that each status requires, and the columns that never change.\<close>

fun outcome_fields_ok :: "payment_status \<Rightarrow> string option \<Rightarrow> string option \<Rightarrow> datetime option \<Rightarrow> bool" where
  "outcome_fields_ok Pending pref reason done_at \<longleftrightarrow> pref = None \<and> reason = None \<and> done_at = None"
| "outcome_fields_ok Processing pref reason done_at \<longleftrightarrow> reason = None \<and> done_at = None"
| "outcome_fields_ok Completed pref reason done_at \<longleftrightarrow> pref \<noteq> None \<and> reason = None \<and> done_at \<noteq> None"
| "outcome_fields_ok Failed pref reason done_at \<longleftrightarrow> reason \<noteq> None \<and> done_at \<noteq> None"
| "outcome_fields_ok Cancelled pref reason done_at \<longleftrightarrow> reason = None \<and> done_at \<noteq> None"
| "outcome_fields_ok Refunded pref reason done_at \<longleftrightarrow> pref \<noteq> None \<and> reason = None \<and> done_at \<noteq> None"

definition payment_inv :: "payment \<Rightarrow> bool" where
  "payment_inv p \<longleftrightarrow> validate p = Inr () \<and>
     outcome_fields_ok (pay_status p) (provider_reference p) (failure_reason p) (completed_at p)"

definition fixed_fields ::
  "payment \<Rightarrow> uuid \<times> uuid \<times> string \<times> mobile_money_provider \<times> string \<times> decimal \<times> string \<times> string \<times> string \<times> datetime" where
  "fixed_fields p = (payment_id p, tenant_id p, idempotency_key p, provider p, phone_number p, amount p,
     currency p, reference p, description p, initiated_at p)"

lemmas mark_defs = mark_processing_def mark_completed_def mark_failed_def mark_refunded_def or_same_def

text \<open>What one step can do to a payment, in terms of its fields.\<close>

inductive pay_change :: "payment \<Rightarrow> payment \<Rightarrow> bool" where
  same: "pay_change p p"
| to_processing: "pay_status p \<in> {Pending, Processing} \<Longrightarrow> pay_change p (p\<lparr>pay_status := Processing\<rparr>)"
| to_completed: "pay_status p \<in> {Pending, Processing} \<Longrightarrow>
    pay_change p (p\<lparr>pay_status := Completed, provider_reference := Some r, completed_at := Some t\<rparr>)"
| to_failed: "pay_status p \<in> {Pending, Processing} \<Longrightarrow>
    pay_change p (p\<lparr>pay_status := Failed, failure_reason := Some r, completed_at := Some t\<rparr>)"
| to_cancelled: "pay_status p \<in> {Pending, Processing} \<Longrightarrow>
    pay_change p (p\<lparr>pay_status := Cancelled, completed_at := Some t\<rparr>)"
| to_refunded: "pay_status p = Completed \<Longrightarrow>
    pay_change p (p\<lparr>pay_status := Refunded, completed_at := Some t\<rparr>)"
| to_referenced: "pay_status p = Processing \<Longrightarrow> pay_change p (p\<lparr>provider_reference := Some r\<rparr>)"

lemma mark_change:
  "mark_processing p = Inr q \<Longrightarrow> pay_change p q"
  "mark_completed now r p = Inr q \<Longrightarrow> pay_change p q"
  "mark_failed now r p = Inr q \<Longrightarrow> pay_change p q"
  "mark_refunded now p = Inr q \<Longrightarrow> pay_change p q"
  by (auto simp only: mark_defs sum.inject sum.simps split: if_splits intro: pay_change.intros)

lemma or_same_change: "(\<And>q. m = Inr q \<Longrightarrow> pay_change p q) \<Longrightarrow> pay_change p (or_same m p)"
  by (cases m) (auto simp: or_same_def intro: pay_change.same)

lemma apply_provider_status_change: "pay_change p (apply_provider_status now s r p)"
proof (cases s)
  case PsCancelled
  then show ?thesis by (auto intro: pay_change.same pay_change.to_cancelled)
qed (auto intro: or_same_change mark_change pay_change.same)

lemma pay_step_change: "pay_step p q \<Longrightarrow> pay_change p q"
proof (induction rule: pay_step.induct)
  case (reported now s r p p')
  then show ?case using apply_provider_status_change by metis
qed (auto intro: mark_change pay_change.to_referenced)

lemma pay_change_fixed: "pay_change p q \<Longrightarrow> fixed_fields q = fixed_fields p"
  by (induction rule: pay_change.induct) (simp_all add: fixed_fields_def)

lemma validate_fixed: "fixed_fields q = fixed_fields p \<Longrightarrow> validate q = validate p"
  by (simp add: fixed_fields_def validate_def)

lemma pay_change_fields:
  "pay_change p q \<Longrightarrow> outcome_fields_ok (pay_status p) (provider_reference p) (failure_reason p) (completed_at p) \<Longrightarrow>
   outcome_fields_ok (pay_status q) (provider_reference q) (failure_reason q) (completed_at q)"
  by (induction rule: pay_change.induct) auto

lemma payment_inv_step: "payment_inv p \<Longrightarrow> pay_change p q \<Longrightarrow> payment_inv q"
  unfolding payment_inv_def using pay_change_fields pay_change_fixed validate_fixed by metis

lemma payment_new_inv: "payment_new now pid tid key prov phone amt cur ref desc = Inr p \<Longrightarrow> payment_inv p"
  by (auto simp: payment_new_def payment_inv_def validate_def split: if_splits)

lemma payment_steps_inv: "pay_step\<^sup>*\<^sup>* p q \<Longrightarrow> payment_inv p \<Longrightarrow> payment_inv q \<and> fixed_fields q = fixed_fields p"
  by (induction rule: rtranclp_induct) (auto intro: payment_inv_step dest!: pay_step_change simp: pay_change_fixed)

lemma pay_change_terminal: "pay_change p q \<Longrightarrow> terminal (pay_status p) \<Longrightarrow> q = p"
  by (induction rule: pay_change.induct) (auto simp: terminal_def)

text \<open>A measure of progress that status changes increase.\<close>

fun status_rank :: "payment_status \<Rightarrow> nat" where
  "status_rank Pending = 0"
| "status_rank Processing = 1"
| "status_rank Completed = 2"
| "status_rank _ = 3"

lemma pay_change_rank:
  "pay_change p q \<Longrightarrow> pay_status q = pay_status p \<or> status_rank (pay_status p) < status_rank (pay_status q)"
  by (induction rule: pay_change.induct) auto

lemma phone_re_shape:
  "phone_re s \<longleftrightarrow> (\<exists>c ds. s = ''2637'' @ c # ds \<and> c \<in> {CHR ''1'', CHR ''3'', CHR ''7'', CHR ''8''} \<and>
     length ds = 8 \<and> list_all is_digit ds)"
proof -
  have "phone_re s \<longleftrightarrow> (\<exists>t. s = ''2637'' @ t \<and> (case t of [] \<Rightarrow> False
      | c # ds \<Rightarrow> c \<in> {CHR ''1'', CHR ''3'', CHR ''7'', CHR ''8''} \<and> length ds = 8 \<and> list_all is_digit ds))"
    unfolding phone_re_def starts_with_iff by auto
  also have "\<dots> \<longleftrightarrow> (\<exists>c ds. s = ''2637'' @ c # ds \<and> c \<in> {CHR ''1'', CHR ''3'', CHR ''7'', CHR ''8''} \<and>
     length ds = 8 \<and> list_all is_digit ds)"
    by (rule iffI; elim exE; rename_tac t; (case_tac t)?; auto)
  finally show ?thesis .
qed

lemma phone_re_iff:
  "phone_re s \<longleftrightarrow> length s = 13 \<and> take 4 s = ''2637'' \<and>
     s ! 4 \<in> {CHR ''1'', CHR ''3'', CHR ''7'', CHR ''8''} \<and> list_all is_digit s"
proof
  assume "phone_re s"
  then show "length s = 13 \<and> take 4 s = ''2637'' \<and>
     s ! 4 \<in> {CHR ''1'', CHR ''3'', CHR ''7'', CHR ''8''} \<and> list_all is_digit s"
    unfolding phone_re_shape by (auto simp: is_digit_def)
next
  assume a: "length s = 13 \<and> take 4 s = ''2637'' \<and>
     s ! 4 \<in> {CHR ''1'', CHR ''3'', CHR ''7'', CHR ''8''} \<and> list_all is_digit s"
  then have "s = take 4 s @ s ! 4 # drop 5 s" by (intro id_take_nth_drop [of 4, simplified]) simp
  then have "s = ''2637'' @ s ! 4 # drop 5 s" using a by simp
  moreover have "length (drop 5 s) = 8" "list_all is_digit (drop 5 s)"
    using a by (auto simp: list_all_iff dest: in_set_dropD)
  ultimately show "phone_re s" using a unfolding phone_re_shape by blast
qed

definition example_payment :: payment where
  "example_payment = \<lparr>payment_id = 1, tenant_id = 2, idempotency_key = ''k'', provider = EcoCash,
     phone_number = ''2637123456789'', amount = Decimal 1000 2, currency = ''USD'', reference = ''r'',
     description = [], pay_status = Pending, provider_reference = None, failure_reason = None,
     initiated_at = 0, completed_at = None\<rparr>"

lemma example_phone [simp]: "phone_re ''2637123456789''"
  by (simp add: phone_re_def starts_with_def is_digit_def)

lemma example_payment_new:
  "payment_new 0 1 2 ''k'' EcoCash ''2637123456789'' (Decimal 1000 2) ''USD'' ''r'' [] = Inr example_payment"
  by (simp add: payment_new_def example_payment_def str_trim_def is_whitespace_def Let_def)

lemma twelve_digit_number_rejected:
  "length phone = 12 \<Longrightarrow> payment_new now pid tid key prov phone amt cur ref desc \<noteq> Inr p"
  by (auto simp: payment_new_def phone_re_iff)

text \<open>The payment that \<open>Payment::new\<close> builds from accepted input.\<close>

definition fresh_payment ::
  "datetime \<Rightarrow> uuid \<Rightarrow> uuid \<Rightarrow> string \<Rightarrow> mobile_money_provider \<Rightarrow> string \<Rightarrow> decimal \<Rightarrow> string \<Rightarrow> string \<Rightarrow>
   string \<Rightarrow> payment" where
  "fresh_payment now pid tid key prov phone amt cur ref desc =
     \<lparr>payment_id = pid, tenant_id = tid, idempotency_key = key, provider = prov, phone_number = phone,
      amount = amt, currency = cur, reference = ref, description = desc, pay_status = Pending,
      provider_reference = None, failure_reason = None, initiated_at = now, completed_at = None\<rparr>"

section \<open>Properties\<close>

text \<open>\<open>Payment::new\<close> accepts exactly a positive amount, a reference with a non-blank character, and a
  phone number of thirteen digits that starts with 2637 followed by 1, 3, 7 or 8; it rejects an
  input exactly when \<open>validate\<close> rejects the payment it would create, with the same error.\<close>

lemma payment_new_outcome:
  "((\<exists>p. payment_new now pid tid key prov phone amt cur ref desc = Inr p) \<longleftrightarrow>
     mantissa amt > 0 \<and> \<not> list_all is_whitespace ref \<and>
     length phone = 13 \<and> list_all is_digit phone \<and> take 4 phone = ''2637'' \<and>
     phone ! 4 \<in> {CHR ''1'', CHR ''3'', CHR ''7'', CHR ''8''}) \<and>
   payment_new now pid tid key prov phone amt cur ref desc =
     map_sum id (\<lambda>_. fresh_payment now pid tid key prov phone amt cur ref desc)
       (validate (fresh_payment now pid tid key prov phone amt cur ref desc))"
  by (cases amt)
    (auto simp: payment_new_def validate_def fresh_payment_def phone_re_iff str_trim_empty_iff)

text \<open>C8: every payment reachable from \<open>Payment::new\<close> by the service's operations is still valid and has
  the outcome fields its status requires: a completed or refunded payment has a provider
  reference and a completion time, a failed one a reason and a completion time, an open one no
  completion time; identity, amount, phone number and reference never change.\<close>

theorem payment_reachable_inv:
  assumes "payment_new now pid tid key prov phone amt cur ref desc = Inr p0" "pay_step\<^sup>*\<^sup>* p0 p"
  shows "payment_inv p \<and> fixed_fields p = fixed_fields p0"
  using payment_steps_inv [OF assms(2) payment_new_inv [OF assms(1)]] .

theorem payment_reachable_inv_witness:
  "payment_inv (example_payment\<lparr>pay_status := Completed, provider_reference := Some ''x'', completed_at := Some 5\<rparr>)"
proof -
  have "pay_step example_payment
      (example_payment\<lparr>pay_status := Completed, provider_reference := Some ''x'', completed_at := Some 5\<rparr>)"
    by (rule pay_step.completed [of 5 "''x''"]) (simp add: mark_completed_def example_payment_def)
  then show ?thesis using payment_reachable_inv [OF example_payment_new r_into_rtranclp] by blast
qed

text \<open>Statuses only move forward.  Along any sequence of operations the status is unchanged or its
  rank (pending, processing, completed, then failed, cancelled or refunded) increases, and a
  failed, cancelled or refunded payment never changes in any field again.\<close>

lemma payment_status_monotone:
  assumes "pay_step\<^sup>*\<^sup>* p q"
  shows "(pay_status q = pay_status p \<or> status_rank (pay_status p) < status_rank (pay_status q)) \<and>
         (terminal (pay_status p) \<longrightarrow> q = p)"
  using assms
proof (induction rule: rtranclp_induct)
  case (step q r)
  have "pay_change q r" by (rule pay_step_change [OF step.hyps(2)])
  from pay_change_rank [OF this] pay_change_terminal [OF this] show ?case using step.IH by auto
qed simp

lemma payment_status_monotone_example:
  "\<forall>q. pay_step\<^sup>*\<^sup>* (example_payment\<lparr>pay_status := Refunded\<rparr>) q = (q = example_payment\<lparr>pay_status := Refunded\<rparr>)"
  using payment_status_monotone [of "example_payment\<lparr>pay_status := Refunded\<rparr>"] by (auto simp: terminal_def)

text \<open>The effect of a provider status on the payment's status, for all forty-two combinations: only an
  open payment can be completed, failed, cancelled or set to processing, only a completed one
  refunded, and every other report leaves the payment exactly as it was.\<close>

lemma apply_provider_status_table:
  "pay_status (apply_provider_status now s pref p) =
     (if pay_status p \<in> {Pending, Processing} then
        (case s of PsCompleted \<Rightarrow> Completed | PsFailed \<Rightarrow> Failed | PsCancelled \<Rightarrow> Cancelled
         | PsProcessing \<Rightarrow> Processing | _ \<Rightarrow> pay_status p)
      else if pay_status p = Completed \<and> s = PsRefunded then Refunded else pay_status p) \<and>
   (pay_status (apply_provider_status now s pref p) = pay_status p) =
     (apply_provider_status now s pref p = p)"
  by (cases p; cases s; cases "pay_status p"; simp add: mark_defs)

end
