(* ===== verification/Tables.thy ===== *)
theory Tables
  imports Rust_Prelude
begin

text \<open>
  Relational tables as lists of rows: \<open>SELECT ... WHERE\<close> with \<open>fetch_optional\<close>, and
  \<open>INSERT ... ON CONFLICT (key) DO UPDATE\<close>, with the contract the repositories rely on.
\<close>

definition select_first :: "('r \<Rightarrow> bool) \<Rightarrow> 'r list \<Rightarrow> 'r option" where
  "select_first P tab = List.find P tab"

text \<open>\<open>merge new old\<close> is the row after \<open>DO UPDATE SET\<close>.\<close>

definition upsert_by :: "('r \<Rightarrow> 'k) \<Rightarrow> ('r \<Rightarrow> 'r \<Rightarrow> 'r) \<Rightarrow> 'r \<Rightarrow> 'r list \<Rightarrow> 'r list" where
  "upsert_by key merge r tab =
     (if key r \<in> key ` set tab then map (\<lambda>s. if key s = key r then merge r s else s) tab else tab @ [r])"

definition update_where :: "('r \<Rightarrow> bool) \<Rightarrow> ('r \<Rightarrow> 'r) \<Rightarrow> 'r list \<Rightarrow> 'r list" where
  "update_where P f tab = map (\<lambda>r. if P r then f r else r) tab"

lemma select_first_Some: "select_first P tab = Some r \<Longrightarrow> r \<in> set tab \<and> P r"
  by (auto simp: select_first_def find_Some_iff)

lemma select_first_None: "select_first P tab = None \<longleftrightarrow> (\<forall>r \<in> set tab. \<not> P r)"
  by (auto simp: select_first_def find_None_iff)

lemma select_first_append:
  "select_first P (xs @ ys) = (case select_first P xs of None \<Rightarrow> select_first P ys | Some r \<Rightarrow> Some r)"
  by (induction xs) (auto simp: select_first_def)

lemma select_first_map:
  "(\<And>r. P (f r) = P r) \<Longrightarrow> select_first P (map f tab) = map_option f (select_first P tab)"
  by (induction tab) (auto simp: select_first_def)

section \<open>The contract of a keyed table\<close>

locale keyed_table =
  fixes key :: "'r \<Rightarrow> 'k"
    and merge :: "'r \<Rightarrow> 'r \<Rightarrow> 'r"
    and lookup :: "'k \<Rightarrow> 'r list \<Rightarrow> 'r option"
    and upsert :: "'r \<Rightarrow> 'r list \<Rightarrow> 'r list"
  assumes lookup_upsert_same:
      "lookup (key r) (upsert r tab) =
         Some (case lookup (key r) tab of None \<Rightarrow> r | Some old \<Rightarrow> merge r old)"
    and lookup_upsert_other: "k \<noteq> key r \<Longrightarrow> lookup k (upsert r tab) = lookup k tab"
    and upsert_distinct: "distinct (map key tab) \<Longrightarrow> distinct (map key (upsert r tab))"
    and lookup_sound: "lookup k tab = Some r \<Longrightarrow> r \<in> set tab \<and> key r = k"
    and lookup_empty: "lookup k [] = None"
begin

text \<open>A row that was never stored is stored as it is; saving again merges.\<close>

lemma lookup_insert: "lookup (key r) tab = None \<Longrightarrow> lookup (key r) (upsert r tab) = Some r"
  by (simp add: lookup_upsert_same)

lemma lookup_update: "lookup (key r) tab = Some old \<Longrightarrow> lookup (key r) (upsert r tab) = Some (merge r old)"
  by (simp add: lookup_upsert_same)

lemma lookup_upsert:
  "lookup k (upsert r tab) =
     (if k = key r then Some (case lookup k tab of None \<Rightarrow> r | Some old \<Rightarrow> merge r old) else lookup k tab)"
  using lookup_upsert_same lookup_upsert_other by simp

text \<open>A sequence of saves keeps the keys distinct and loses no key.\<close>

lemma upserts_distinct: "distinct (map key tab) \<Longrightarrow> distinct (map key (fold upsert rs tab))"
  by (induction rs arbitrary: tab) (auto intro: upsert_distinct)

lemma upserts_keep_key: "lookup k tab \<noteq> None \<Longrightarrow> lookup k (fold upsert rs tab) \<noteq> None"
  by (induction rs arbitrary: tab) (auto simp: lookup_upsert)

text \<open>A property of all rows that \<open>merge\<close> keeps is an invariant of the table, seen through lookups.\<close>

lemma lookup_inv:
  assumes "\<And>k r. lookup k tab = Some r \<Longrightarrow> I r" "I new" "\<And>old. I old \<Longrightarrow> key old = key new \<Longrightarrow> I (merge new old)"
  shows "lookup k (upsert new tab) = Some r \<Longrightarrow> I r"
  using assms lookup_sound [of k tab] by (auto simp: lookup_upsert split: if_splits option.splits)

end

lemma keyed_table_upsert_by:
  assumes "\<And>r s. key s = key r \<Longrightarrow> key (merge r s) = key r"
  shows "keyed_table key merge (\<lambda>k. select_first (\<lambda>r. key r = k)) (upsert_by key merge)"
proof
  fix r :: 'a and tab :: "'a list" and k
  let ?f = "\<lambda>s. if key s = key r then merge r s else s"
  have kf: "key (?f s) = key s" for s using assms [of s r] by simp
  show "select_first (\<lambda>s. key s = key r) (upsert_by key merge r tab) =
    Some (case select_first (\<lambda>s. key s = key r) tab of None \<Rightarrow> r | Some old \<Rightarrow> merge r old)"
  proof (cases "key r \<in> key ` set tab")
    case True
    then obtain old where old: "select_first (\<lambda>s. key s = key r) tab = Some old"
      using select_first_None [of "\<lambda>s. key s = key r" tab] by fastforce
    then have "key old = key r" using select_first_Some by fastforce
    then show ?thesis using True old kf by (simp add: upsert_by_def select_first_map)
  next
    case False
    then have "select_first (\<lambda>s. key s = key r) tab = None"
      unfolding select_first_None by (metis imageI)
    then show ?thesis using False by (simp add: upsert_by_def select_first_append) (simp add: select_first_def)
  qed
  show "k \<noteq> key r \<Longrightarrow> select_first (\<lambda>s. key s = k) (upsert_by key merge r tab) = select_first (\<lambda>s. key s = k) tab"
  proof -
    assume k: "k \<noteq> key r"
    have "map_option ?f (select_first (\<lambda>s. key s = k) tab) = select_first (\<lambda>s. key s = k) tab"
      using k by (cases "select_first (\<lambda>s. key s = k) tab") (auto dest: select_first_Some)
    then show ?thesis
      using k kf by (auto simp: upsert_by_def select_first_map select_first_append select_first_def [of _ "[r]"]
          split: option.splits)
  qed
  show "distinct (map key tab) \<Longrightarrow> distinct (map key (upsert_by key merge r tab))"
    using kf by (simp add: upsert_by_def o_def)
  show "select_first (\<lambda>s. key s = k) tab = Some r \<Longrightarrow> r \<in> set tab \<and> key r = k"
    by (rule select_first_Some)
  show "select_first (\<lambda>s. key s = k) [] = None" by (simp add: select_first_def)
qed

lemma upsert_by_new: "key r \<notin> key ` set tab \<Longrightarrow> upsert_by key merge r tab = tab @ [r]"
  by (simp add: upsert_by_def)

lemma upsert_by_last:
  assumes "key r \<notin> key ` set tab" "key old = key r"
  shows "upsert_by key merge r (tab @ [old]) = tab @ [merge r old]"
proof -
  have "map (\<lambda>s. if key s = key r then merge r s else s) tab = tab"
    using assms(1) by (intro map_idI) (metis image_eqI)
  then show ?thesis using assms(2) by (simp add: upsert_by_def)
qed

end
