(* ===== verification/Payment_Store.thy ===== *)
theory Payment_Store
  imports Payment Tables
begin

text \<open>
  The PostgreSQL side of the payment engine (payment-engine/src/infrastructure): the payments
  table with its row conversion, the repository operations, and the change-data-capture outbox.
  Every statement is one database call and can fail.
\<close>

section \<open>Third-party functions and the world\<close>

text \<open>
  rust_decimal's text form, HMAC-SHA256, the constant-time comparison, serde_json's
  \<open>to_vec\<close>, and the derived deserialisers of the provider's two responses with the text of an HTTP status.  A response
  body that cannot be read is \<open>None\<close>.
\<close>

record pay_crates = crates +
  dec_to_string :: "decimal \<Rightarrow> string"
  dec_parse :: "string \<Rightarrow> string + decimal"
  hmac_sha256 :: "bytes \<Rightarrow> bytes \<Rightarrow> bytes"
  constant_time_eq :: "bytes \<Rightarrow> bytes \<Rightarrow> bool"
  json_to_vec :: "json \<Rightarrow> string + bytes"
  de_initiate_response :: "string option \<Rightarrow> string + (string \<times> string \<times> string option)"
  de_status_response :: "string option \<Rightarrow> string + (string \<times> string option)"
  show_http_status :: "nat \<Rightarrow> string"

definition decimal_laws :: "'x pay_crates_scheme \<Rightarrow> bool" where
  "decimal_laws pc \<longleftrightarrow> (\<forall>d. dec_parse pc (dec_to_string pc d) = Inr d)"

definition ct_eq_laws :: "'x pay_crates_scheme \<Rightarrow> bool" where
  "ct_eq_laws pc \<longleftrightarrow> (\<forall>a b. constant_time_eq pc a b \<longleftrightarrow> a = b)"

record payment_row =
  row_payment_id :: uuid
  row_tenant_id :: uuid
  row_idempotency_key :: string
  row_provider :: string
  row_phone_number :: string
  row_amount :: string
  row_currency :: string
  row_reference :: string
  row_description :: string
  row_status :: string
  row_provider_reference :: "string option"
  row_failure_reason :: "string option"
  row_initiated_at :: datetime
  row_completed_at :: "datetime option"

text \<open>\<open>events.cdc_outbox\<close>, with the defaults of its table definition.\<close>

record outbox_row =
  ob_outbox_id :: uuid
  ob_topic_id :: uuid
  ob_event_type :: string
  ob_aggregate_type :: string
  ob_aggregate_id :: uuid
  ob_payload :: json
  ob_created_at :: datetime
  ob_published :: bool
  ob_published_at :: "datetime option"

text \<open>
  The tables, the readings of the random jitter, the pauses taken, and what the provider's HTTP
  endpoint is going to answer.
\<close>

datatype http_reply = HttpFailure string | HttpReply nat "string option"

record payment_world = db_world +
  payments :: "payment_row list"
  cdc_topics :: "(uuid \<times> bool) list"
  cdc_outbox :: "outbox_row list"
  jitter :: "nat \<Rightarrow> nat"
  pauses :: "nat list"
  http_sent :: "(string \<times> (string \<times> string) list \<times> bytes) list"
  http_script :: "nat \<Rightarrow> http_reply"

section \<open>Rows\<close>

definition payment_to_row :: "'x pay_crates_scheme \<Rightarrow> payment \<Rightarrow> payment_row" where
  "payment_to_row pc p = \<lparr>row_payment_id = payment_id p, row_tenant_id = tenant_id p,
     row_idempotency_key = idempotency_key p, row_provider = provider_as_str (provider p),
     row_phone_number = phone_number p, row_amount = dec_to_string pc (amount p),
     row_currency = currency p, row_reference = reference p, row_description = description p,
     row_status = status_as_str (pay_status p), row_provider_reference = provider_reference p,
     row_failure_reason = failure_reason p, row_initiated_at = initiated_at p,
     row_completed_at = completed_at p\<rparr>"

definition provider_from_str :: "string \<Rightarrow> payment_error + mobile_money_provider" where
  "provider_from_str s =
     (if s = ''ecocash'' then Inr EcoCash else if s = ''onemoney'' then Inr OneMoney
      else if s = ''telecash'' then Inr Telecash
      else Inl (DatabaseError (''Unknown provider: '' @ s)))"

definition status_from_str :: "string \<Rightarrow> payment_error + payment_status" where
  "status_from_str s =
     (if s = ''pending'' then Inr Pending else if s = ''processing'' then Inr Processing
      else if s = ''completed'' then Inr Completed else if s = ''failed'' then Inr Failed
      else if s = ''cancelled'' then Inr Cancelled else if s = ''refunded'' then Inr Refunded
      else Inl (DatabaseError (''Unknown status: '' @ s)))"

definition payment_try_from :: "'x pay_crates_scheme \<Rightarrow> payment_row \<Rightarrow> payment_error + payment" where
  "payment_try_from pc row =
     (case provider_from_str (row_provider row) of Inl e \<Rightarrow> Inl e
      | Inr prov \<Rightarrow>
          (case status_from_str (row_status row) of Inl e \<Rightarrow> Inl e
           | Inr st \<Rightarrow>
               (case dec_parse pc (row_amount row) of
                  Inl e \<Rightarrow> Inl (DatabaseError (''Invalid amount in DB: '' @ e))
                | Inr amt \<Rightarrow> Inr \<lparr>payment_id = row_payment_id row, tenant_id = row_tenant_id row,
                     idempotency_key = row_idempotency_key row, provider = prov,
                     phone_number = row_phone_number row, amount = amt, currency = row_currency row,
                     reference = row_reference row, description = row_description row, pay_status = st,
                     provider_reference = row_provider_reference row,
                     failure_reason = row_failure_reason row, initiated_at = row_initiated_at row,
                     completed_at = row_completed_at row\<rparr>)))"

text \<open>\<open>row.map(TryInto::try_into).transpose()\<close>\<close>

definition transpose_row ::
  "'x pay_crates_scheme \<Rightarrow> payment_row option \<Rightarrow> payment_error + payment option" where
  "transpose_row pc row = (case row of None \<Rightarrow> Inr None | Some r \<Rightarrow> map_sum id Some (payment_try_from pc r))"

section \<open>The repository\<close>

definition set_tenant :: "uuid \<Rightarrow> (payment_world, payment_error, unit) eff" where
  "set_tenant tid = map_errE DatabaseError (db_exec id)"

definition find_by_idempotency_key ::
  "'x pay_crates_scheme \<Rightarrow> uuid \<Rightarrow> string \<Rightarrow> (payment_world, payment_error, payment option) eff" where
  "find_by_idempotency_key pc tid key =
     bindE (set_tenant tid) (\<lambda>_.
     bindE (map_errE DatabaseError
              (db_query (\<lambda>w. select_first (\<lambda>r. row_idempotency_key r = key) (payments w)))) (\<lambda>row.
     liftE (transpose_row pc row)))"

text \<open>\<open>ON CONFLICT (payment_id) DO UPDATE SET\<close> the four outcome columns.\<close>

definition merge_payment_row :: "payment_row \<Rightarrow> payment_row \<Rightarrow> payment_row" where
  "merge_payment_row new old = old\<lparr>row_status := row_status new,
     row_provider_reference := row_provider_reference new,
     row_failure_reason := row_failure_reason new, row_completed_at := row_completed_at new\<rparr>"

definition save_payment :: "'x pay_crates_scheme \<Rightarrow> payment \<Rightarrow> (payment_world, payment_error, unit) eff" where
  "save_payment pc p =
     bindE (set_tenant (tenant_id p)) (\<lambda>_.
     map_errE DatabaseError (db_exec (\<lambda>w. w\<lparr>payments :=
       upsert_by row_payment_id merge_payment_row (payment_to_row pc p) (payments w)\<rparr>)))"

definition get_payment_by_provider_ref ::
  "'x pay_crates_scheme \<Rightarrow> uuid option \<Rightarrow> string \<Rightarrow> (payment_world, payment_error, payment option) eff" where
  "get_payment_by_provider_ref pc tid pref =
     bindE (case tid of Some t \<Rightarrow> set_tenant t | None \<Rightarrow> okE ()) (\<lambda>_.
     bindE (map_errE DatabaseError
              (db_query (\<lambda>w. select_first (\<lambda>r. row_provider_reference r = Some pref) (payments w)))) (\<lambda>row.
     liftE (transpose_row pc row)))"

definition get_payment_by_id ::
  "'x pay_crates_scheme \<Rightarrow> uuid \<Rightarrow> uuid \<Rightarrow> (payment_world, payment_error, payment option) eff" where
  "get_payment_by_id pc tid pid =
     bindE (set_tenant tid) (\<lambda>_.
     bindE (map_errE DatabaseError
              (db_query (\<lambda>w. select_first (\<lambda>r. row_payment_id r = pid) (payments w)))) (\<lambda>row.
     liftE (transpose_row pc row)))"

definition get_payment_by_id_untenantized ::
  "'x pay_crates_scheme \<Rightarrow> uuid \<Rightarrow> (payment_world, payment_error, payment option) eff" where
  "get_payment_by_id_untenantized pc pid =
     bindE (map_errE DatabaseError
              (db_query (\<lambda>w. select_first (\<lambda>r. row_payment_id r = pid) (payments w)))) (\<lambda>row.
     liftE (transpose_row pc row))"

section \<open>The outbox\<close>

text \<open>
  \<open>SELECT topic_id ... WHERE is_active = true LIMIT 1\<close> and the insert.  The topic column references
  \<open>events.cdc_topics\<close>, so inserting the nil topic of an empty selection is rejected.
\<close>

definition fk_violation :: string where
  "fk_violation = ''insert or update on table cdc_outbox violates foreign key constraint''"

definition insert_outbox_row ::
  "uuid \<Rightarrow> string \<Rightarrow> string \<Rightarrow> uuid \<Rightarrow> json \<Rightarrow> (payment_world, string, unit) eff" where
  "insert_outbox_row topic ev_type agg_type agg_id payload =
     bindE new_v4 (\<lambda>oid.
     bindE utc_now (\<lambda>now.
     bindE (db_op (\<lambda>w.
       if topic \<in> fst ` set (cdc_topics w)
       then (Inr (), w\<lparr>cdc_outbox := cdc_outbox w @ [\<lparr>ob_outbox_id = oid, ob_topic_id = topic,
              ob_event_type = ev_type, ob_aggregate_type = agg_type, ob_aggregate_id = agg_id,
              ob_payload = payload, ob_created_at = now, ob_published = False, ob_published_at = None\<rparr>]\<rparr>)
       else (Inl fk_violation, w))) liftE))"

definition write_outbox ::
  "string \<Rightarrow> string \<Rightarrow> uuid \<Rightarrow> json \<Rightarrow> uuid \<Rightarrow> (payment_world, string, unit) eff" where
  "write_outbox ev_type agg_type agg_id payload tid =
     bindE (db_exec id) (\<lambda>_.
     bindE (db_query (\<lambda>w. map_option fst (select_first snd (cdc_topics w)))) (\<lambda>topic.
     insert_outbox_row (unwrap_or topic uuid_nil) ev_type agg_type agg_id payload))"

definition append_outbox ::
  "string \<Rightarrow> uuid \<Rightarrow> json \<Rightarrow> string \<Rightarrow> uuid \<Rightarrow> (payment_world, payment_error, unit) eff" where
  "append_outbox ev_type agg_id payload idem_key tid =
     bindE (map_errE DatabaseError (db_exec id)) (\<lambda>_.
     bindE (map_errE DatabaseError
              (db_query (\<lambda>w. map_option fst (select_first snd (cdc_topics w))))) (\<lambda>topic.
     map_errE DatabaseError
       (insert_outbox_row (unwrap_or topic uuid_nil) ev_type ''payment'' agg_id payload)))"

record outbox_entry =
  oe_outbox_id :: int
  oe_event_type :: string
  oe_payload :: json
  oe_aggregate_id :: uuid
  oe_idempotency_key :: string
  oe_tenant_id :: uuid
  oe_occurred_at :: datetime
  oe_processed_at :: "datetime option"

text \<open>The select list, then \<open>From<OutboxRow>\<close>: \<open>as_u128() as i64\<close> keeps the low 64 bits.\<close>

definition to_outbox_entry :: "outbox_row \<Rightarrow> outbox_entry" where
  "to_outbox_entry r = \<lparr>oe_outbox_id = as_i64 (uint (ob_outbox_id r)), oe_event_type = ob_event_type r,
     oe_payload = ob_payload r, oe_aggregate_id = ob_aggregate_id r, oe_idempotency_key = [],
     oe_tenant_id = ob_aggregate_id r, oe_occurred_at = ob_created_at r, oe_processed_at = ob_published_at r\<rparr>"

definition get_unprocessed :: "int \<Rightarrow> (payment_world, payment_error, outbox_entry list) eff" where
  "get_unprocessed limit =
     bindE (map_errE DatabaseError (db_select (\<lambda>w. sql_limit limit
       (sort_key ob_created_at (filter (\<lambda>r. \<not> ob_published r) (cdc_outbox w)))))) (\<lambda>rows.
     okE (map to_outbox_entry rows))"

section \<open>The payments table as a keyed table\<close>

interpretation payment_table: keyed_table row_payment_id merge_payment_row
    "\<lambda>k. select_first (\<lambda>r. row_payment_id r = k)" "upsert_by row_payment_id merge_payment_row"
  by (rule keyed_table_upsert_by) (simp add: merge_payment_row_def)

lemma provider_from_as_str [simp]: "provider_from_str (provider_as_str p) = Inr p"
  by (cases p) (simp_all add: provider_from_str_def)

lemma status_from_as_str [simp]: "status_from_str (status_as_str s) = Inr s"
  by (cases s) (simp_all add: status_from_str_def)

lemma payment_row_roundtrip:
  "decimal_laws pc \<Longrightarrow> payment_try_from pc (payment_to_row pc p) = Inr p"
  by (simp add: payment_try_from_def payment_to_row_def decimal_laws_def)

lemma merge_saved_row:
  "fixed_fields p = fixed_fields q \<Longrightarrow>
   merge_payment_row (payment_to_row pc p) (payment_to_row pc q) = payment_to_row pc p"
  by (simp add: merge_payment_row_def payment_to_row_def fixed_fields_def)

lemma row_payment_id_to_row [simp]: "row_payment_id (payment_to_row pc p) = payment_id p"
  by (simp add: payment_to_row_def)

end
