(* ===== verification/Payment_Service.thy ===== *)
theory Payment_Service
  imports Payment_Store
begin

text \<open>
  The payment engine's handlers (payment-engine/src/application), the EcoCash client
  (infrastructure/providers/ecocash.rs) and the gRPC port (ports/grpc.rs).  The provider is an
  interface: the handlers take a record of its operations, the EcoCash client is the
  implementation the repository has.  Logging, spans and metrics have no effect on the model.
\<close>

section \<open>The provider interface and the EcoCash client\<close>

record provider_client =
  pc_initiate :: "payment \<Rightarrow> (payment_world, payment_error, provider_response) eff"
  pc_check_status :: "string \<Rightarrow> (payment_world, payment_error, provider_status) eff"
  pc_verify_callback_signature :: "bytes \<Rightarrow> string \<Rightarrow> bool"

record provider_credentials =
  cred_base_url :: string
  cred_merchant_id :: string
  cred_api_key :: string
  cred_secret_key :: string

definition generate_signature :: "'x pay_crates_scheme \<Rightarrow> provider_credentials \<Rightarrow> bytes \<Rightarrow> string" where
  "generate_signature pc cred payload =
     hex_encode pc (hmac_sha256 pc (as_bytes (cred_secret_key cred)) payload)"

definition parse_provider_status :: "string \<Rightarrow> provider_status" where
  "parse_provider_status s =
     (let l = to_lowercase s in
      if l = ''pending'' then PsPending
      else if l = ''processing'' then PsProcessing
      else if l = ''completed'' \<or> l = ''success'' then PsCompleted
      else if l = ''failed'' \<or> l = ''failure'' then PsFailed
      else if l = ''cancelled'' then PsCancelled
      else if l = ''refunded'' then PsRefunded
      else PsUnknown)"

text \<open>Send a request and take the next scripted reply.\<close>

definition http_send ::
  "string \<Rightarrow> (string \<times> string) list \<Rightarrow> bytes \<Rightarrow> (payment_world, string, nat \<times> string option) eff" where
  "http_send url headers body = (\<lambda>w.
     let w' = w\<lparr>http_sent := http_sent w @ [(url, headers, body)]\<rparr> in
     case http_script w (length (http_sent w)) of
       HttpFailure e \<Rightarrow> (Inl e, w')
     | HttpReply st text \<Rightarrow> (Inr (st, text), w'))"

definition http_is_success :: "nat \<Rightarrow> bool" where
  "http_is_success st \<longleftrightarrow> 200 \<le> st \<and> st < 300"

definition ecocash_body :: "'x pay_crates_scheme \<Rightarrow> provider_credentials \<Rightarrow> payment \<Rightarrow> json" where
  "ecocash_body pc cred p = JObject [(''merchant_id'', JString (cred_merchant_id cred)),
     (''phone_number'', JString (phone_number p)), (''amount'', JString (dec_to_string pc (amount p))),
     (''currency'', JString (currency p)), (''reference'', JString (reference p)),
     (''description'', JString (description p)), (''callback_url'', JNull)]"

definition ecocash_initiate ::
  "'x pay_crates_scheme \<Rightarrow> provider_credentials \<Rightarrow> payment \<Rightarrow>
   (payment_world, payment_error, provider_response) eff" where
  "ecocash_initiate pc cred p =
     (let url = cred_base_url cred @ ''/v1/payments/initiate'' in
      bindE (map_errE ProviderError (liftE (json_to_vec pc (ecocash_body pc cred p)))) (\<lambda>payload.
      let signature = generate_signature pc cred payload in
      bindE (map_errE ProviderError (http_send url
               [(''X-Api-Key'', cred_api_key cred), (''X-Signature'', signature),
                (''Content-Type'', ''application/json'')] payload)) (\<lambda>(st, text).
      if \<not> http_is_success st
      then failE (ProviderError (''EcoCash error '' @ show_http_status pc st @ '': '' @ unwrap_or text []))
      else bindE (map_errE ProviderError (liftE (de_initiate_response pc text))) (\<lambda>(pref, status_s, msg).
        okE \<lparr>pr_provider_reference = pref, pr_status = parse_provider_status status_s,
             pr_message = msg\<rparr>))))"

definition ecocash_check_status ::
  "'x pay_crates_scheme \<Rightarrow> provider_credentials \<Rightarrow> string \<Rightarrow> (payment_world, payment_error, provider_status) eff" where
  "ecocash_check_status pc cred pref =
     (let url = cred_base_url cred @ ''/v1/payments/'' @ pref @ ''/status'' in
      bindE (map_errE ProviderError (http_send url [(''X-Api-Key'', cred_api_key cred)] [])) (\<lambda>(st, text).
      if \<not> http_is_success st
      then failE (ProviderError (''EcoCash status error '' @ show_http_status pc st @ '': '' @ unwrap_or text []))
      else bindE (map_errE (\<lambda>e. ProviderError (''Failed to parse status response: '' @ e))
                    (liftE (de_status_response pc text))) (\<lambda>(status_s, msg).
        okE (parse_provider_status status_s))))"

text \<open>\<open>str::len\<close> counts bytes.\<close>

definition ecocash_verify :: "'x pay_crates_scheme \<Rightarrow> provider_credentials \<Rightarrow> bytes \<Rightarrow> string \<Rightarrow> bool" where
  "ecocash_verify pc cred payload signature =
     (let expected = generate_signature pc cred payload in
      length (as_bytes signature) = length (as_bytes expected) \<and>
      constant_time_eq pc (as_bytes signature) (as_bytes expected))"

definition ecocash_client :: "'x pay_crates_scheme \<Rightarrow> provider_credentials \<Rightarrow> provider_client" where
  "ecocash_client pc cred = \<lparr>pc_initiate = ecocash_initiate pc cred,
     pc_check_status = ecocash_check_status pc cred,
     pc_verify_callback_signature = ecocash_verify pc cred\<rparr>"

section \<open>Application: initiating a payment\<close>

record initiate_command =
  ic_payment_id :: uuid
  ic_tenant_id :: uuid
  ic_idempotency_key :: string
  ic_provider :: mobile_money_provider
  ic_phone_number :: string
  ic_amount :: decimal
  ic_currency :: string
  ic_reference :: string
  ic_description :: string

record initiate_result =
  in_payment :: payment
  in_provider_reference :: "string option"

text \<open>\<open>sleep(backoff + jitter)\<close>, in milliseconds; \<open>gen_range(0..500)\<close> is the next jitter below 500.\<close>

definition pause :: "nat \<Rightarrow> (payment_world, 'e, unit) eff" where
  "pause attempt = (\<lambda>w. (Inr (), w\<lparr>pauses := pauses w @
     [2 ^ attempt * 1000 + jitter w (length (pauses w)) mod 500]\<rparr>))"

fun retry_loop ::
  "provider_client \<Rightarrow> payment \<Rightarrow> payment_error option \<Rightarrow> nat list \<Rightarrow>
   (payment_world, payment_error, provider_response) eff" where
  "retry_loop cl p last_error [] =
     failE (unwrap_or last_error (ProviderError ''Unknown provider error after retries''))"
| "retry_loop cl p last_error (attempt # attempts) =
     bindE (attemptE (pc_initiate cl p)) (\<lambda>r.
     case r of
       Inr response \<Rightarrow> okE response
     | Inl e \<Rightarrow> bindE (if attempt < 3 - 1 then pause attempt else okE ()) (\<lambda>_.
               retry_loop cl p (Some e) attempts))"

definition call_provider_with_retry ::
  "provider_client \<Rightarrow> payment \<Rightarrow> (payment_world, payment_error, provider_response) eff" where
  "call_provider_with_retry cl p = retry_loop cl p None [0..<3]"

definition initiated_payload :: "'x pay_crates_scheme \<Rightarrow> payment \<Rightarrow> string \<Rightarrow> json" where
  "initiated_payload pc p pref = JObject [(''event'', JString ''PaymentInitiated''),
     (''payment_id'', JString (uuid_to_string pc (payment_id p))),
     (''provider_reference'', JString pref), (''status'', JString (status_as_str (pay_status p)))]"

definition failed_payload :: "'x pay_crates_scheme \<Rightarrow> payment \<Rightarrow> string \<Rightarrow> json" where
  "failed_payload pc p reason = JObject [(''event'', JString ''PaymentFailed''),
     (''payment_id'', JString (uuid_to_string pc (payment_id p))),
     (''reason'', JString reason), (''status'', JString (status_as_str (pay_status p)))]"

definition initiate_handle ::
  "'x pay_crates_scheme \<Rightarrow> provider_client \<Rightarrow> initiate_command \<Rightarrow>
   (payment_world, payment_error, initiate_result) eff" where
  "initiate_handle pc cl cmd =
     bindE (find_by_idempotency_key pc (ic_tenant_id cmd) (ic_idempotency_key cmd)) (\<lambda>existing.
     case existing of
       Some _ \<Rightarrow> failE IdempotencyViolation
     | None \<Rightarrow>
         bindE utc_now (\<lambda>now.
         bindE (liftE (payment_new now (ic_payment_id cmd) (ic_tenant_id cmd) (ic_idempotency_key cmd)
                  (ic_provider cmd) (ic_phone_number cmd) (ic_amount cmd) (ic_currency cmd)
                  (ic_reference cmd) (ic_description cmd))) (\<lambda>payment.
         bindE (save_payment pc payment) (\<lambda>_.
         bindE (attemptE (call_provider_with_retry cl payment)) (\<lambda>provider_result.
         case provider_result of
           Inr response \<Rightarrow>
             bindE (liftE (mark_processing payment)) (\<lambda>p1.
             let p2 = p1\<lparr>provider_reference := Some (pr_provider_reference response)\<rparr> in
             bindE (save_payment pc p2) (\<lambda>_.
             bindE (append_outbox ''PaymentInitiated'' (payment_id p2)
                      (initiated_payload pc p2 (pr_provider_reference response))
                      (ic_idempotency_key cmd @ ''-initiated'') (tenant_id p2)) (\<lambda>_.
             okE \<lparr>in_payment = p2, in_provider_reference = Some (pr_provider_reference response)\<rparr>)))
         | Inl e \<Rightarrow>
             bindE utc_now (\<lambda>now'.
             let p1 = or_same (mark_failed now' (payment_error_to_string e) payment) payment in
             bindE (save_payment pc p1) (\<lambda>_.
             bindE (ignoreE (append_outbox ''PaymentFailed'' (payment_id p1)
                      (failed_payload pc p1 (payment_error_to_string e))
                      (ic_idempotency_key cmd @ ''-failed'') (tenant_id p1))) (\<lambda>_.
             failE e))))))))"

section \<open>Application: provider callbacks\<close>

record callback_command =
  cc_tenant_id :: uuid
  cc_provider_reference :: string
  cc_payment_id :: "uuid option"
  cc_status :: provider_status
  cc_signature :: string
  cc_raw_payload :: bytes

record callback_result =
  cb_payment :: payment
  cb_accepted :: bool
  cb_new_status :: string

fun callback_event_type :: "provider_status \<Rightarrow> string" where
  "callback_event_type PsCompleted = ''PaymentCompleted''"
| "callback_event_type PsFailed = ''PaymentFailed''"
| "callback_event_type PsCancelled = ''PaymentCancelled''"
| "callback_event_type PsRefunded = ''PaymentRefunded''"
| "callback_event_type _ = ''PaymentStatusUpdated''"

definition callback_lookup ::
  "'x pay_crates_scheme \<Rightarrow> callback_command \<Rightarrow> (payment_world, payment_error, payment) eff" where
  "callback_lookup pc cmd =
     bindE (get_payment_by_provider_ref pc (Some (cc_tenant_id cmd)) (cc_provider_reference cmd)) (\<lambda>r.
     case r of
       Some p \<Rightarrow> okE p
     | None \<Rightarrow>
         (case cc_payment_id cmd of
            Some pid \<Rightarrow>
              bindE (get_payment_by_id pc (cc_tenant_id cmd) pid) (\<lambda>r'.
              case r' of
                Some p \<Rightarrow> okE p
              | None \<Rightarrow> failE (PNotFound (''Payment with provider_reference '' @
                                         cc_provider_reference cmd @ '' not found'')))
          | None \<Rightarrow> failE (PNotFound (''Payment with provider_reference '' @
                                     cc_provider_reference cmd @ '' not found''))))"

definition callback_payload ::
  "'x pay_crates_scheme \<Rightarrow> string \<Rightarrow> payment_status \<Rightarrow> payment \<Rightarrow> string \<Rightarrow> json" where
  "callback_payload pc ev previous p pref = JObject [(''event'', JString ev),
     (''payment_id'', JString (uuid_to_string pc (payment_id p))),
     (''previous_status'', JString (status_as_str previous)),
     (''new_status'', JString (status_as_str (pay_status p))), (''provider_reference'', JString pref)]"

definition callback_handle ::
  "'x pay_crates_scheme \<Rightarrow> provider_client \<Rightarrow> callback_command \<Rightarrow>
   (payment_world, payment_error, callback_result) eff" where
  "callback_handle pc cl cmd =
     (if \<not> pc_verify_callback_signature cl (cc_raw_payload cmd) (cc_signature cmd)
      then failE (ProviderError ''Invalid callback signature'')
      else
        bindE (callback_lookup pc cmd) (\<lambda>payment.
        bindE utc_now (\<lambda>now.
        let previous_status = pay_status payment;
            p = apply_provider_status now (cc_status cmd) (Some (cc_provider_reference cmd)) payment;
            ev = callback_event_type (cc_status cmd)
        in bindE (save_payment pc p) (\<lambda>_.
           bindE (append_outbox ev (payment_id p)
                    (callback_payload pc ev previous_status p (cc_provider_reference cmd))
                    (cc_provider_reference cmd @ ''-'' @ ev) (tenant_id p)) (\<lambda>_.
           okE \<lparr>cb_payment = p, cb_accepted = True, cb_new_status = status_as_str (pay_status p)\<rparr>)))))"

section \<open>Ports: conversions\<close>

text \<open>The status and the \<open>ErrorCode\<close> of the shared protobuf error, by constructor.\<close>

fun payment_status_of_error :: "payment_error \<Rightarrow> grpc_code \<times> int" where
  "payment_status_of_error (InvalidPhoneNumber _) = (Code_InvalidArgument, 1)"
| "payment_status_of_error (InvalidAmount _) = (Code_InvalidArgument, 1)"
| "payment_status_of_error (InvalidReference _) = (Code_InvalidArgument, 1)"
| "payment_status_of_error (ProviderError _) = (Code_FailedPrecondition, 18)"
| "payment_status_of_error IdempotencyViolation = (Code_AlreadyExists, 12)"
| "payment_status_of_error (PNotFound _) = (Code_NotFound, 2)"
| "payment_status_of_error (InvalidStatusTransition _ _) = (Code_FailedPrecondition, 6)"
| "payment_status_of_error (DatabaseError _) = (Code_Internal, 8)"

definition payment_map_domain_error :: "payment_error \<Rightarrow> string \<Rightarrow> status \<times> proto_error option" where
  "payment_map_domain_error e trace =
     (case payment_status_of_error e of (c, proto_code) \<Rightarrow>
        (mk_status c (payment_error_to_string e),
         Some \<lparr>pe_code = proto_code, pe_message = payment_error_to_string e,
               pe_details = [''trace_id'' \<mapsto> trace], pe_trace_id = trace, pe_grpc_code = code_number c\<rparr>))"

definition map_proto_provider :: "int \<Rightarrow> status + mobile_money_provider" where
  "map_proto_provider n =
     (if n = 1 then Inr EcoCash else if n = 2 then Inr OneMoney else if n = 3 then Inr Telecash
      else Inl (mk_status Code_InvalidArgument (''Unsupported provider: '' @ show_int n)))"

fun map_domain_status :: "payment_status \<Rightarrow> int" where
  "map_domain_status Pending = 1"
| "map_domain_status Processing = 2"
| "map_domain_status Completed = 4"
| "map_domain_status Failed = 5"
| "map_domain_status Cancelled = 6"
| "map_domain_status Refunded = 7"

definition map_proto_money :: "decimal \<Rightarrow> string \<Rightarrow> proto_money option" where
  "map_proto_money amt cur = Some \<lparr>pm_currency_code = cur,
     pm_amount_cents = unwrap_or (dec_to_i64 (dec_mul amt (Decimal 100 0))) 0, pm_currency = 0\<rparr>"

definition proto_money_to_decimal :: "proto_money option \<Rightarrow> status + decimal" where
  "proto_money_to_decimal m =
     (case m of Some v \<Rightarrow> Inr (Decimal (pm_amount_cents v) 2)
      | None \<Rightarrow> Inl (mk_status Code_InvalidArgument ''Amount is required''))"

definition map_callback_status :: "int \<Rightarrow> status + provider_status" where
  "map_callback_status n =
     (if n = 1 then Inr PsCompleted else if n = 2 then Inr PsFailed else if n = 3 then Inr PsFailed
      else if n = 4 then Inr PsCancelled else if n = 5 then Inr PsPending
      else Inl (mk_status Code_InvalidArgument (''Unknown callback status: '' @ show_int n)))"

definition extract_trace_id :: "string option \<Rightarrow> string" where
  "extract_trace_id header = unwrap_or header ''unknown''"

definition payment_parse_uuid :: "'x pay_crates_scheme \<Rightarrow> string \<Rightarrow> status + uuid" where
  "payment_parse_uuid pc s =
     (case uuid_parse pc s of Some u \<Rightarrow> Inr u
      | None \<Rightarrow> Inl (mk_status Code_InvalidArgument (''Invalid UUID: '' @ s)))"

section \<open>Ports: the gRPC handlers\<close>

record initiate_request =
  iq_trace_header :: "string option"
  iq_payment_id :: string
  iq_tenant :: string
  iq_provider :: int
  iq_phone_number :: string
  iq_amount :: "proto_money option"
  iq_reference :: string
  iq_description :: string
  iq_idempotency_key :: "string option"

record initiate_response =
  ir_payment_id :: string
  ir_status :: int
  ir_provider_reference :: string
  ir_initiated_at :: "timestamp option"
  ir_estimated_completion_seconds :: int
  ir_message :: string
  ir_error :: "proto_error option"
  ir_total_amount :: "proto_money option"
  ir_ledger_transaction_id :: string

definition build_initiate_response ::
  "'x pay_crates_scheme \<Rightarrow> initiate_result \<Rightarrow> proto_error option \<Rightarrow> initiate_response" where
  "build_initiate_response pc result err =
     (let p = in_payment result in
      \<lparr>ir_payment_id = uuid_to_string pc (payment_id p), ir_status = map_domain_status (pay_status p),
       ir_provider_reference = unwrap_or (in_provider_reference result) [],
       ir_initiated_at = Some (to_timestamp (initiated_at p)), ir_estimated_completion_seconds = 30,
       ir_message = ''Payment initiated'', ir_error = err,
       ir_total_amount = map_proto_money (amount p) (currency p), ir_ledger_transaction_id = []\<rparr>)"

definition grpc_initiate_payment ::
  "'x pay_crates_scheme \<Rightarrow> provider_client \<Rightarrow> initiate_request \<Rightarrow>
   (payment_world, status, initiate_response) eff" where
  "grpc_initiate_payment pc cl req =
     (let trace = extract_trace_id (iq_trace_header req) in
      bindE (liftE (payment_parse_uuid pc (iq_tenant req))) (\<lambda>tid.
      bindE (case payment_parse_uuid pc (iq_payment_id req) of
               Inr u \<Rightarrow> okE u | Inl _ \<Rightarrow> new_v4) (\<lambda>pid.
      let key = unwrap_or (iq_idempotency_key req) (uuid_to_string pc pid) in
      bindE (liftE (map_proto_provider (iq_provider req))) (\<lambda>prov.
      bindE (liftE (proto_money_to_decimal (iq_amount req))) (\<lambda>amt.
      let cur = (case iq_amount req of Some m \<Rightarrow> pm_currency_code m | None \<Rightarrow> ''USD'');
          cmd = \<lparr>ic_payment_id = pid, ic_tenant_id = tid, ic_idempotency_key = key, ic_provider = prov,
                 ic_phone_number = iq_phone_number req, ic_amount = amt, ic_currency = cur,
                 ic_reference = iq_reference req, ic_description = iq_description req\<rparr>
      in bindE (map_errE (\<lambda>e. fst (payment_map_domain_error e trace)) (initiate_handle pc cl cmd)) (\<lambda>result.
         okE (build_initiate_response pc result None)))))))"

record status_request =
  sq_trace_header :: "string option"
  sq_tenant_id :: string
  sq_payment_id :: string

record status_response =
  sr_payment_id :: string
  sr_status :: int
  sr_previous_status :: int
  sr_amount :: "proto_money option"
  sr_provider_reference :: string
  sr_initiated_at :: "timestamp option"
  sr_completed_at :: "timestamp option"
  sr_failure_reason :: string
  sr_retry_count :: int
  sr_error :: "proto_error option"
  sr_ledger_transaction_id :: string

text \<open>\<open>..Default::default()\<close> with the payment id and the error set.\<close>

definition status_error_response :: "string \<Rightarrow> proto_error option \<Rightarrow> status_response" where
  "status_error_response pid err = \<lparr>sr_payment_id = pid, sr_status = 0, sr_previous_status = 0,
     sr_amount = None, sr_provider_reference = [], sr_initiated_at = None, sr_completed_at = None,
     sr_failure_reason = [], sr_retry_count = 0, sr_error = err, sr_ledger_transaction_id = []\<rparr>"

definition grpc_get_payment_status ::
  "'x pay_crates_scheme \<Rightarrow> status_request \<Rightarrow> (payment_world, status, status_response) eff" where
  "grpc_get_payment_status pc req =
     (let trace = extract_trace_id (sq_trace_header req) in
      bindE (liftE (payment_parse_uuid pc (sq_tenant_id req))) (\<lambda>tid.
      bindE (liftE (payment_parse_uuid pc (sq_payment_id req))) (\<lambda>pid.
      bindE (attemptE (get_payment_by_id pc tid pid)) (\<lambda>r.
      okE (case r of
        Inr (Some p) \<Rightarrow> \<lparr>sr_payment_id = uuid_to_string pc (payment_id p),
          sr_status = map_domain_status (pay_status p), sr_previous_status = 0,
          sr_amount = map_proto_money (amount p) (currency p),
          sr_provider_reference = unwrap_or (provider_reference p) [],
          sr_initiated_at = Some (to_timestamp (initiated_at p)),
          sr_completed_at = map_option to_timestamp (completed_at p),
          sr_failure_reason = unwrap_or (failure_reason p) [], sr_retry_count = 0, sr_error = None,
          sr_ledger_transaction_id = []\<rparr>
      | Inr None \<Rightarrow> status_error_response (uuid_to_string pc pid)
          (snd (payment_map_domain_error (PNotFound (sq_payment_id req)) trace))
      | Inl e \<Rightarrow> status_error_response (uuid_to_string pc pid) (snd (payment_map_domain_error e trace)))))))"

record callback_request =
  cq_trace_header :: "string option"
  cq_payment_id :: string
  cq_provider_reference :: string
  cq_status :: int
  cq_signature :: string
  cq_raw_payload :: bytes

record callback_response =
  cr_accepted :: bool
  cr_message :: string
  cr_payment_id :: string
  cr_new_status :: int
  cr_error :: "proto_error option"

definition payment_not_found_error :: "string \<Rightarrow> proto_error" where
  "payment_not_found_error trace = \<lparr>pe_code = 2, pe_message = ''Payment not found'',
     pe_details = Map.empty, pe_trace_id = trace, pe_grpc_code = code_number Code_NotFound\<rparr>"

definition rejected :: "string \<Rightarrow> string \<Rightarrow> proto_error option \<Rightarrow> callback_response" where
  "rejected msg pid err = \<lparr>cr_accepted = False, cr_message = msg, cr_payment_id = pid,
     cr_new_status = 0, cr_error = err\<rparr>"

text \<open>The lookup that precedes the handler: a payment, or the response to return at once.\<close>

definition grpc_callback_lookup ::
  "'x pay_crates_scheme \<Rightarrow> string \<Rightarrow> string \<Rightarrow> uuid option \<Rightarrow>
   (payment_world, status, callback_response + payment) eff" where
  "grpc_callback_lookup pc trace pref pid =
     bindE (attemptE (get_payment_by_provider_ref pc None pref)) (\<lambda>r.
     case r of
       Inr (Some p) \<Rightarrow> okE (Inr p)
     | Inr None \<Rightarrow>
         (case pid of
            Some u \<Rightarrow>
              bindE (attemptE (get_payment_by_id_untenantized pc u)) (\<lambda>r'.
              case r' of
                Inr (Some p) \<Rightarrow> okE (Inr p)
              | _ \<Rightarrow> okE (Inl (rejected ''Payment not found'' (uuid_to_string pc u)
                              (Some (payment_not_found_error trace)))))
          | None \<Rightarrow> okE (Inl (rejected ''Payment not found'' [] (Some (payment_not_found_error trace)))))
     | Inl e \<Rightarrow> okE (Inl (rejected ''Database error'' (unwrap_or (map_option (uuid_to_string pc) pid) [])
                   (snd (payment_map_domain_error e trace)))))"

definition grpc_process_callback ::
  "'x pay_crates_scheme \<Rightarrow> provider_client \<Rightarrow> callback_request \<Rightarrow>
   (payment_world, status, callback_response) eff" where
  "grpc_process_callback pc cl req =
     (let trace = extract_trace_id (cq_trace_header req) in
      bindE (if cq_payment_id req = [] then okE None
             else bindE (liftE (payment_parse_uuid pc (cq_payment_id req))) (\<lambda>u. okE (Some u))) (\<lambda>pid.
      bindE (liftE (map_callback_status (cq_status req))) (\<lambda>st.
      bindE (grpc_callback_lookup pc trace (cq_provider_reference req) pid) (\<lambda>found.
      case found of
        Inl resp \<Rightarrow> okE resp
      | Inr payment \<Rightarrow>
          bindE (attemptE (callback_handle pc cl \<lparr>cc_tenant_id = tenant_id payment,
                   cc_provider_reference = cq_provider_reference req,
                   cc_payment_id = Some (payment_id payment), cc_status = st,
                   cc_signature = cq_signature req, cc_raw_payload = cq_raw_payload req\<rparr>)) (\<lambda>r.
          okE (case r of
            Inr result \<Rightarrow> \<lparr>cr_accepted = cb_accepted result, cr_message = ''Callback processed'',
              cr_payment_id = uuid_to_string pc (payment_id (cb_payment result)),
              cr_new_status = map_domain_status (pay_status (cb_payment result)), cr_error = None\<rparr>
          | Inl e \<Rightarrow> rejected ''Callback processing failed'' (uuid_to_string pc (payment_id payment))
              (snd (payment_map_domain_error e trace))))))))"

end
