(* ===== verification/Payment_Correct.thy ===== *)
theory Payment_Correct
  imports Payment_Service
begin

text \<open>
  Correctness of the payment engine: the contract of a provider client and its implementation by
  the EcoCash client, the retry loop, the outcome of an initiation and of a callback, the
  invariant of the payments table under database faults, idempotency, and the wire conversions.
\<close>

section \<open>The contract of a provider client\<close>

text \<open>
  A provider client talks to the provider and leaves the service's tables, the database and the
  retry pauses alone; one call sends at most one request.
\<close>

definition client_frame :: "payment_world \<Rightarrow> payment_world \<Rightarrow> bool" where
  "client_frame w w' \<longleftrightarrow> payments w' = payments w \<and> cdc_topics w' = cdc_topics w \<and>
     cdc_outbox w' = cdc_outbox w \<and> db_calls w' = db_calls w \<and> db_fault w' = db_fault w \<and>
     pauses w' = pauses w \<and> jitter w' = jitter w \<and> length (http_sent w) \<le> length (http_sent w') \<and>
     length (http_sent w') \<le> Suc (length (http_sent w))"

text \<open>What the retry loop leaves alone.\<close>

definition tables_frame :: "payment_world \<Rightarrow> payment_world \<Rightarrow> bool" where
  "tables_frame w w' \<longleftrightarrow> payments w' = payments w \<and> cdc_topics w' = cdc_topics w \<and>
     cdc_outbox w' = cdc_outbox w \<and> db_calls w' = db_calls w \<and> db_fault w' = db_fault w"

locale provider_contract =
  fixes cl :: provider_client
  assumes initiate_frame: "client_frame w (snd (pc_initiate cl p w))"
    and status_frame: "client_frame w (snd (pc_check_status cl r w))"
begin

text \<open>
  However the calls end, the loop over \<open>n\<close> attempts sends at most \<open>n\<close> requests, pauses fewer than
  \<open>n\<close> times between them, and changes no table.
\<close>

lemma retry_loop_frame:
  "tables_frame w (snd (retry_loop cl p last_error attempts w)) \<and>
   length (http_sent (snd (retry_loop cl p last_error attempts w))) \<le> length (http_sent w) + length attempts"
proof (induction attempts arbitrary: w last_error)
  case (Cons a as)
  obtain r w1 where r: "pc_initiate cl p w = (r, w1)" by fastforce
  then have f: "client_frame w w1" using initiate_frame [of w p] by simp
  obtain w2 where w2: "(if a < 3 - 1 then pause a else okE ()) w1 = (Inr () :: payment_error + unit, w2)"
    "tables_frame w1 w2" "http_sent w2 = http_sent w1"
    by (cases "a < 2") (auto simp: pause_def okE_def tables_frame_def)
  show ?case
  proof (cases r)
    case (Inl e)
    then have "retry_loop cl p last_error (a # as) w = retry_loop cl p (Some e) as w2"
      using r w2(1) by (simp add: bindE_apply attemptE_def)
    then show ?thesis
      using Cons.IH [of w2 "Some e"] f w2(2,3) by (simp add: client_frame_def tables_frame_def)
  next
    case (Inr x)
    then show ?thesis using r f
      by (simp add: bindE_apply attemptE_def okE_def client_frame_def tables_frame_def)
  qed
qed (simp add: failE_def tables_frame_def)

lemma call_provider_frame:
  "tables_frame w (snd (call_provider_with_retry cl p w))"
  "length (http_sent (snd (call_provider_with_retry cl p w))) \<le> length (http_sent w) + 3"
  using retry_loop_frame [of w p None "[0..<3]"] by (simp_all add: call_provider_with_retry_def)

text \<open>After attempt \<open>k\<close> but the last, the loop pauses for \<open>2 ^ k\<close> seconds and less than half a second of jitter.\<close>

lemma retry_loop_pauses:
  "\<exists>n j. n \<le> max a 2 \<and> range j \<subseteq> {..<500} \<and>
     pauses (snd (retry_loop cl p last_error [a..<3] w)) = pauses w @ map (\<lambda>k. 2 ^ k * 1000 + j k) [a..<n]"
proof (induction "3 - a" arbitrary: a w last_error)
  case 0
  then show ?case by (intro exI [of _ a] exI [of _ "\<lambda>_. 0"]) (simp add: failE_def)
next
  case (Suc d)
  then have up: "[a..<3] = a # [Suc a..<3]" "a < 3" by (simp_all add: upt_rec)
  obtain r w1 where r: "pc_initiate cl p w = (r, w1)" by fastforce
  then have same: "pauses w1 = pauses w" using initiate_frame [of w p] by (simp add: client_frame_def)
  show ?case
  proof (cases r)
    case (Inr x)
    then show ?thesis using r same
      by (intro exI [of _ a] exI [of _ "\<lambda>_. 0"]) (simp add: up bindE_apply attemptE_def okE_def)
  next
    case (Inl e)
    obtain w2 where w2: "(if a < 3 - 1 then pause a else okE ()) w1 = (Inr () :: payment_error + unit, w2)"
      "pauses w2 = pauses w @ (if a < 2 then [2 ^ a * 1000 + jitter w1 (length (pauses w1)) mod 500] else [])"
      by (cases "a < 2") (auto simp: pause_def okE_def same)
    have loop: "retry_loop cl p last_error [a..<3] w = retry_loop cl p (Some e) [Suc a..<3] w2"
      using r w2(1) Inl by (simp add: up bindE_apply attemptE_def)
    have "d = 3 - Suc a" using Suc.hyps(2) by simp
    from Suc.hyps(1) [OF this] obtain n j where n: "n \<le> max (Suc a) 2" "range j \<subseteq> {..<500}"
      "pauses (snd (retry_loop cl p (Some e) [Suc a..<3] w2)) = pauses w2 @ map (\<lambda>k. 2 ^ k * 1000 + j k) [Suc a..<n]"
      by blast
    show ?thesis
    proof (cases "a < 2")
      case True
      let ?j = "j(a := jitter w1 (length (pauses w1)) mod 500)"
      have "[a..<max n (Suc a)] = a # [Suc a..<n]" by (cases "Suc a \<le> n") (auto simp: upt_conv_Cons max_def)
      moreover have "map (\<lambda>k. 2 ^ k * 1000 + ?j k) [Suc a..<n] = map (\<lambda>k. 2 ^ k * 1000 + j k) [Suc a..<n]" by simp
      ultimately have "map (\<lambda>k. 2 ^ k * 1000 + ?j k) [a..<max n (Suc a)] =
          [2 ^ a * 1000 + jitter w1 (length (pauses w1)) mod 500] @ map (\<lambda>k. 2 ^ k * 1000 + j k) [Suc a..<n]"
        by (simp only: list.map fun_upd_same append.simps)
      then have "pauses (snd (retry_loop cl p last_error [a..<3] w)) =
          pauses w @ map (\<lambda>k. 2 ^ k * 1000 + ?j k) [a..<max n (Suc a)]"
        unfolding loop n(3) w2(2) if_P [OF True] append_assoc by (simp only:)
      then show ?thesis using True n(1,2) by (intro exI [of _ "max n (Suc a)"] exI [of _ ?j]) auto
    next
      case False
      then show ?thesis using n w2(2) up(2)
        unfolding loop n(3) w2(2) if_not_P [OF False] by (intro exI [of _ a] exI [of _ j]) simp
    qed
  qed
qed

lemma call_provider_pauses:
  "\<exists>n j. n \<le> 2 \<and> range j \<subseteq> {..<500} \<and>
     pauses (snd (call_provider_with_retry cl p w)) = pauses w @ map (\<lambda>k. 2 ^ k * 1000 + j k) [0..<n]"
  using retry_loop_pauses [of 0 p None w] by (simp add: call_provider_with_retry_def)

end

section \<open>The EcoCash client\<close>

text \<open>What the client makes of a reply to an initiation request.\<close>

definition interpret_reply :: "'x pay_crates_scheme \<Rightarrow> http_reply \<Rightarrow> payment_error + provider_response" where
  "interpret_reply pc reply =
     (case reply of
        HttpFailure e \<Rightarrow> Inl (ProviderError e)
      | HttpReply st text \<Rightarrow>
          if \<not> http_is_success st
          then Inl (ProviderError (''EcoCash error '' @ show_http_status pc st @ '': '' @ unwrap_or text []))
          else (case de_initiate_response pc text of
                  Inl e \<Rightarrow> Inl (ProviderError e)
                | Inr (pref, s, msg) \<Rightarrow> Inr \<lparr>pr_provider_reference = pref,
                    pr_status = parse_provider_status s, pr_message = msg\<rparr>))"

lemma ecocash_initiate_eq:
  "ecocash_initiate pc cred p w =
     (case json_to_vec pc (ecocash_body pc cred p) of
        Inl e \<Rightarrow> (Inl (ProviderError e), w)
      | Inr payload \<Rightarrow> (interpret_reply pc (http_script w (length (http_sent w))),
          w\<lparr>http_sent := http_sent w @ [(cred_base_url cred @ ''/v1/payments/initiate'',
               [(''X-Api-Key'', cred_api_key cred), (''X-Signature'', generate_signature pc cred payload),
                (''Content-Type'', ''application/json'')], payload)]\<rparr>))"
  by (simp add: ecocash_initiate_def interpret_reply_def http_send_def eff_simps Let_def
      split: sum.splits http_reply.splits prod.splits)

lemma ecocash_check_status_frame: "client_frame w (snd (ecocash_check_status pc cred r w))"
  by (simp add: ecocash_check_status_def http_send_def eff_simps Let_def client_frame_def
      split: sum.splits http_reply.splits prod.splits)

interpretation eco: provider_contract "ecocash_client pc cred" for pc cred
  by unfold_locales
    (simp_all add: ecocash_client_def ecocash_check_status_frame,
     simp add: ecocash_initiate_eq client_frame_def split: sum.splits)

text \<open>The first success of a sequence of attempts, or the last error.\<close>

fun first_ok :: "('e + 'a) list \<Rightarrow> 'e + 'a" where
  "first_ok [r] = r"
| "first_ok (r # rs) = (case r of Inr a \<Rightarrow> Inr a | Inl _ \<Rightarrow> first_ok rs)"
| "first_ok [] = undefined"

definition ecocash_outcome :: "'x pay_crates_scheme \<Rightarrow> payment_world \<Rightarrow> payment_error + provider_response" where
  "ecocash_outcome pc w = first_ok (map (\<lambda>k. interpret_reply pc (http_script w (length (http_sent w) + k))) [0, 1, 2])"

lemma ecocash_retry_outcome:
  assumes "json_to_vec pc (ecocash_body pc cred p) = Inr payload"
  shows "fst (call_provider_with_retry (ecocash_client pc cred) p w) = ecocash_outcome pc w"
proof -
  have upt: "[0..<3] = [0, 1, 2::nat]" by (simp add: upt_rec)
  show ?thesis
    using assms
    by (simp add: call_provider_with_retry_def upt ecocash_outcome_def bindE_apply attemptE_def okE_def failE_def
        pause_def ecocash_client_def ecocash_initiate_eq split: sum.splits)
qed

section \<open>The payments table under faults\<close>

text \<open>
  The invariant of the payments table: identifiers are distinct and every row is the stored form
  of a payment that satisfies the payment invariant.
\<close>

definition payments_ok :: "'x pay_crates_scheme \<Rightarrow> payment_world \<Rightarrow> bool" where
  "payments_ok pc w \<longleftrightarrow> distinct (map row_payment_id (payments w)) \<and>
     (\<forall>r \<in> set (payments w). \<exists>p. r = payment_to_row pc p \<and> payment_inv p)"

text \<open>An invariant that reads the payments table only.\<close>

definition reads_payments :: "(payment_world \<Rightarrow> bool) \<Rightarrow> bool" where
  "reads_payments I \<longleftrightarrow> (\<forall>w w'. payments w' = payments w \<longrightarrow> I w \<longrightarrow> I w')"

lemma reads_paymentsD: "reads_payments I \<Longrightarrow> I w \<Longrightarrow> payments w' = payments w \<Longrightarrow> I w'"
  by (auto simp: reads_payments_def)

lemma reads_payments_table_inv: "reads_payments I \<Longrightarrow> table_inv I"
  unfolding table_inv_def reads_payments_def by (metis payment_world.select_convs(1) payment_world.surjective
      db_world.update_convs(1,3,5))

lemma payments_ok_reads: "reads_payments (payments_ok pc)"
  by (simp add: reads_payments_def payments_ok_def)

lemma preserves_set_tenant: "reads_payments I \<Longrightarrow> preserves I (set_tenant t) (\<lambda>_. True)"
  unfolding set_tenant_def
  by (intro preserves_map_errE preserves_db_exec reads_payments_table_inv) simp_all

text \<open>A selected row of a well-formed table is a payment of the invariant.\<close>

lemma transpose_row_ok:
  assumes "decimal_laws pc" "payments_ok pc w" "transpose_row pc (select_first P (payments w)) = Inr (Some p)"
  shows "payment_inv p \<and> payment_to_row pc p \<in> set (payments w) \<and> P (payment_to_row pc p)"
proof -
  obtain r where r: "select_first P (payments w) = Some r" "payment_try_from pc r = Inr p"
    using assms(3) by (auto simp: transpose_row_def map_sum_def split: option.splits sum.splits)
  then have "r \<in> set (payments w)" "P r" using select_first_Some by fastforce+
  moreover from this obtain q where "r = payment_to_row pc q" "payment_inv q"
    using assms(2) by (auto simp: payments_ok_def)
  ultimately show ?thesis using r(2) payment_row_roundtrip [OF assms(1), of q] by simp
qed

lemma transpose_row_total:
  assumes "decimal_laws pc" "payments_ok pc w"
  shows "\<exists>q. transpose_row pc (select_first P (payments w)) = Inr q \<and>
    (q = None \<longleftrightarrow> (\<forall>r \<in> set (payments w). \<not> P r))"
proof (cases "select_first P (payments w)")
  case (Some r)
  then have "r \<in> set (payments w)" "P r" using select_first_Some by fastforce+
  moreover from this obtain q where "r = payment_to_row pc q"
    using assms(2) by (auto simp: payments_ok_def)
  ultimately show ?thesis
    using Some payment_row_roundtrip [OF assms(1), of q] by (auto simp: transpose_row_def)
qed (use select_first_None [of P "payments w"] in \<open>simp add: transpose_row_def\<close>)

lemma preserves_select_payment:
  assumes "decimal_laws pc" "reads_payments I" "\<And>w. I w \<Longrightarrow> payments_ok pc w"
  shows "preserves I (bindE (map_errE DatabaseError (db_query (\<lambda>w. select_first P (payments w))))
           (\<lambda>row. liftE (transpose_row pc row))) (\<lambda>r. \<forall>p. r = Some p \<longrightarrow> payment_inv p)"
  by (rule preserves_bindE [of _ _ "\<lambda>row. \<forall>p. transpose_row pc row = Inr (Some p) \<longrightarrow> payment_inv p"])
    (auto intro!: preserves_map_errE preserves_db_query preserves_pure reads_payments_table_inv assms(2)
      dest: transpose_row_ok [OF assms(1) assms(3)])

lemma preserves_lookups:
  assumes "decimal_laws pc" "reads_payments I" "\<And>w. I w \<Longrightarrow> payments_ok pc w"
  shows "preserves I (find_by_idempotency_key pc t k) (\<lambda>r. \<forall>p. r = Some p \<longrightarrow> payment_inv p)"
    and "preserves I (get_payment_by_provider_ref pc ot pref) (\<lambda>r. \<forall>p. r = Some p \<longrightarrow> payment_inv p)"
    and "preserves I (get_payment_by_id pc t pid) (\<lambda>r. \<forall>p. r = Some p \<longrightarrow> payment_inv p)"
  unfolding find_by_idempotency_key_def get_payment_by_provider_ref_def get_payment_by_id_def
  by (auto intro!: preserves_bindE [of _ _ "\<lambda>_. True"] preserves_select_payment [OF assms]
      preserves_set_tenant assms(2) preserves_pure split: option.splits)

text \<open>Saving a payment of the invariant keeps the table well formed, also over an existing row.\<close>

lemma merge_row_inv:
  assumes "payment_inv p" "payment_inv q" "payment_id p = payment_id q"
  shows "\<exists>s. merge_payment_row (payment_to_row pc p) (payment_to_row pc q) = payment_to_row pc s \<and> payment_inv s"
proof (intro exI conjI)
  let ?s = "q\<lparr>pay_status := pay_status p, provider_reference := provider_reference p,
              failure_reason := failure_reason p, completed_at := completed_at p\<rparr>"
  show "merge_payment_row (payment_to_row pc p) (payment_to_row pc q) = payment_to_row pc ?s"
    by (simp add: merge_payment_row_def payment_to_row_def)
  show "payment_inv ?s" using assms(1,2) by (auto simp: payment_inv_def validate_def split: if_splits)
qed

lemma payments_ok_upsert:
  assumes "payments_ok pc w" "payment_inv p"
  shows "payments_ok pc (w\<lparr>payments := upsert_by row_payment_id merge_payment_row (payment_to_row pc p) (payments w)\<rparr>)"
proof -
  have "\<exists>s. r = payment_to_row pc s \<and> payment_inv s"
    if "r \<in> set (upsert_by row_payment_id merge_payment_row (payment_to_row pc p) (payments w))" for r
    using that assms merge_row_inv [OF assms(2), of _ pc]
    by (fastforce simp: upsert_by_def payments_ok_def split: if_splits)
  then show ?thesis
    using assms(1) payment_table.upsert_distinct by (simp add: payments_ok_def)
qed

lemma preserves_save_payment:
  assumes "reads_payments I"
    "\<And>w. I w \<Longrightarrow> I (w\<lparr>payments := upsert_by row_payment_id merge_payment_row (payment_to_row pc p) (payments w)\<rparr>)"
  shows "preserves I (save_payment pc p) (\<lambda>_. True)"
  unfolding save_payment_def
  by (auto intro!: preserves_bindE [of _ _ "\<lambda>_. True"] preserves_set_tenant preserves_map_errE
      preserves_db_exec reads_payments_table_inv assms)

lemma preserves_append_outbox:
  assumes "reads_payments I"
  shows "preserves I (append_outbox ev aid payload k t) (\<lambda>_. True)"
  unfolding append_outbox_def insert_outbox_row_def
  by (auto intro!: preserves_bindE [of _ _ "\<lambda>_. True"] preserves_map_errE preserves_db_exec preserves_db_query
      preserves_new_v4 preserves_utc_now preserves_db_op preserves_pure reads_payments_table_inv assms
      elim!: reads_paymentsD [OF assms] split: if_splits)

section \<open>The handlers keep the payments table\<close>

text \<open>The part of \<open>handle\<close> that follows the first save.\<close>

definition after_save ::
  "'x pay_crates_scheme \<Rightarrow> provider_client \<Rightarrow> initiate_command \<Rightarrow> payment \<Rightarrow>
   (payment_world, payment_error, initiate_result) eff" where
  "after_save pc cl cmd p =
     bindE (attemptE (call_provider_with_retry cl p)) (\<lambda>provider_result.
     case provider_result of
       Inr response \<Rightarrow>
         bindE (liftE (mark_processing p)) (\<lambda>p1.
         let p2 = p1\<lparr>provider_reference := Some (pr_provider_reference response)\<rparr> in
         bindE (save_payment pc p2) (\<lambda>_.
         bindE (append_outbox ''PaymentInitiated'' (payment_id p2)
                  (initiated_payload pc p2 (pr_provider_reference response))
                  (ic_idempotency_key cmd @ ''-initiated'') (tenant_id p2)) (\<lambda>_.
         okE \<lparr>in_payment = p2, in_provider_reference = Some (pr_provider_reference response)\<rparr>)))
     | Inl e \<Rightarrow>
         bindE utc_now (\<lambda>now'.
         let p1 = or_same (mark_failed now' (payment_error_to_string e) p) p in
         bindE (save_payment pc p1) (\<lambda>_.
         bindE (ignoreE (append_outbox ''PaymentFailed'' (payment_id p1)
                  (failed_payload pc p1 (payment_error_to_string e))
                  (ic_idempotency_key cmd @ ''-failed'') (tenant_id p1))) (\<lambda>_.
         failE e))))"

definition command_payment :: "datetime \<Rightarrow> initiate_command \<Rightarrow> payment_error + payment" where
  "command_payment now cmd = payment_new now (ic_payment_id cmd) (ic_tenant_id cmd) (ic_idempotency_key cmd)
     (ic_provider cmd) (ic_phone_number cmd) (ic_amount cmd) (ic_currency cmd) (ic_reference cmd)
     (ic_description cmd)"

lemma initiate_handle_eq:
  "initiate_handle pc cl cmd =
     bindE (find_by_idempotency_key pc (ic_tenant_id cmd) (ic_idempotency_key cmd)) (\<lambda>existing.
     case existing of
       Some _ \<Rightarrow> failE IdempotencyViolation
     | None \<Rightarrow>
         bindE utc_now (\<lambda>now.
         bindE (liftE (command_payment now cmd)) (\<lambda>p.
         bindE (save_payment pc p) (\<lambda>_. after_save pc cl cmd p))))"
  unfolding initiate_handle_def after_save_def command_payment_def by (rule refl)

lemma command_payment_inv: "command_payment now cmd = Inr p \<Longrightarrow> payment_inv p"
  by (auto simp: command_payment_def intro: payment_new_inv)

lemma command_payment_Inr:
  "command_payment now cmd = Inr p \<Longrightarrow>
   p = fresh_payment now (ic_payment_id cmd) (ic_tenant_id cmd) (ic_idempotency_key cmd) (ic_provider cmd)
     (ic_phone_number cmd) (ic_amount cmd) (ic_currency cmd) (ic_reference cmd) (ic_description cmd)"
  by (auto simp: command_payment_def payment_new_def fresh_payment_def split: if_splits)

lemma command_payment_pending: "command_payment now cmd = Inr p \<Longrightarrow> pay_status p = Pending"
  by (auto dest!: command_payment_Inr simp: fresh_payment_def)

text \<open>The payments the handler saves after the provider call satisfy the invariant too.\<close>

lemma processing_inv:
  assumes "payment_inv p" "mark_processing p = Inr p1"
  shows "payment_inv (p1\<lparr>provider_reference := Some r\<rparr>)"
proof -
  have "payment_inv p1" using payment_inv_step [OF assms(1)] mark_change(1) [OF assms(2)] by simp
  moreover have "pay_status p1 = Processing" using assms(2) by (auto simp: mark_processing_def split: if_splits)
  ultimately show ?thesis by (blast intro: payment_inv_step pay_change.to_referenced)
qed

lemma failed_inv: "payment_inv p \<Longrightarrow> payment_inv (or_same (mark_failed now r p) p)"
  by (blast intro: payment_inv_step or_same_change mark_change)

context provider_contract
begin

lemma preserves_call_provider:
  "reads_payments I \<Longrightarrow> preserves I (call_provider_with_retry cl p) (\<lambda>_. True)"
  using call_provider_frame(1)
  by (auto intro!: preservesI elim: reads_paymentsD simp: tables_frame_def)

text \<open>
  An invariant that saving payments of the invariant keeps is kept by both handlers, wherever a
  database statement fails and whatever the provider answers.
\<close>

lemma preserves_after_save:
  assumes "reads_payments I" "payment_inv p"
    and save: "\<And>q w. payment_inv q \<Longrightarrow> I w \<Longrightarrow>
      I (w\<lparr>payments := upsert_by row_payment_id merge_payment_row (payment_to_row pc q) (payments w)\<rparr>)"
  shows "preserves I (after_save pc cl cmd p) (\<lambda>_. True)"
proof -
  note rules = reads_payments_table_inv [OF assms(1)] preserves_append_outbox [OF assms(1)]
    preserves_save_payment [OF assms(1) save]
  show ?thesis
    unfolding after_save_def Let_def
    by (intro preserves_seq [OF preserves_weaken [OF preserves_attemptE [OF preserves_call_provider [OF assms(1)]]]]
        preserves_case preserves_bind_liftE preserves_seq preserves_utc_now preserves_pure rules
        preserves_ignoreE [OF preserves_append_outbox [OF assms(1)]]
        failed_inv processing_inv [OF assms(2)] assms(2) TrueI)
qed

lemma preserves_initiate_handle:
  assumes "decimal_laws pc" "reads_payments I" "\<And>w. I w \<Longrightarrow> payments_ok pc w"
    and save: "\<And>q w. payment_inv q \<Longrightarrow> I w \<Longrightarrow>
      I (w\<lparr>payments := upsert_by row_payment_id merge_payment_row (payment_to_row pc q) (payments w)\<rparr>)"
  shows "preserves I (initiate_handle pc cl cmd) (\<lambda>_. True)"
proof -
  note rules = reads_payments_table_inv [OF assms(2)] preserves_save_payment [OF assms(2) save]
    preserves_after_save [OF assms(2) _ save]
  show ?thesis
    unfolding initiate_handle_eq
    by (intro preserves_bindE [OF preserves_lookups(1) [OF assms(1-3)]] preserves_case preserves_bind_liftE
        preserves_seq preserves_utc_now preserves_pure rules TrueI)
      (auto intro: command_payment_inv save)
qed

lemma preserves_callback_handle:
  assumes "decimal_laws pc" "reads_payments I" "\<And>w. I w \<Longrightarrow> payments_ok pc w"
    and save: "\<And>q w. payment_inv q \<Longrightarrow> I w \<Longrightarrow>
      I (w\<lparr>payments := upsert_by row_payment_id merge_payment_row (payment_to_row pc q) (payments w)\<rparr>)"
  shows "preserves I (callback_handle pc cl cmd) (\<lambda>_. True)"
proof -
  have "preserves I (callback_lookup pc cmd) payment_inv"
    unfolding callback_lookup_def
    by (auto intro!: preserves_bindE [OF preserves_lookups(2) [OF assms(1-3)]]
        preserves_bindE [OF preserves_lookups(3) [OF assms(1-3)]] preserves_pure split: option.splits)
  note rules = preserves_bindE [OF this] reads_payments_table_inv [OF assms(2)]
    preserves_save_payment [OF assms(2) save] preserves_append_outbox [OF assms(2)]
  show ?thesis
    unfolding callback_handle_def Let_def
    by (intro preserves_case preserves_pure rules preserves_seq preserves_utc_now TrueI)
      (auto intro: payment_inv_step apply_provider_status_change save)
qed

end

section \<open>Runs of the service\<close>

text \<open>A step of the service is a request to one of its remote procedures.\<close>

inductive srv_step :: "'x pay_crates_scheme \<Rightarrow> provider_client \<Rightarrow> payment_world \<Rightarrow> payment_world \<Rightarrow> bool"
  for pc :: "'x pay_crates_scheme" and cl :: provider_client where
  rpc_initiate: "srv_step pc cl w (snd (grpc_initiate_payment pc cl req w))"
| rpc_callback: "srv_step pc cl w (snd (grpc_process_callback pc cl cb w))"
| rpc_status: "srv_step pc cl w (snd (grpc_get_payment_status pc st w))"

inductive_cases srv_step_elim: "srv_step pc cl w w'"

text \<open>An invariant of the payments table that every save of a valid payment keeps.\<close>

definition save_inv :: "'x pay_crates_scheme \<Rightarrow> (payment_world \<Rightarrow> bool) \<Rightarrow> bool" where
  "save_inv pc I \<longleftrightarrow> decimal_laws pc \<and> reads_payments I \<and> (\<forall>w. I w \<longrightarrow> payments_ok pc w) \<and>
     (\<forall>q w. payment_inv q \<longrightarrow> I w \<longrightarrow>
        I (w\<lparr>payments := upsert_by row_payment_id merge_payment_row (payment_to_row pc q) (payments w)\<rparr>))"

lemma payments_ok_save_inv: "decimal_laws pc \<Longrightarrow> save_inv pc (payments_ok pc)"
  by (simp add: save_inv_def payments_ok_reads payments_ok_upsert)

definition key_used :: "string \<Rightarrow> payment_world \<Rightarrow> bool" where
  "key_used k w \<longleftrightarrow> k \<in> row_idempotency_key ` set (payments w)"

lemma key_used_upsert:
  "key_used k w \<Longrightarrow>
   key_used k (w\<lparr>payments := upsert_by row_payment_id merge_payment_row r (payments w)\<rparr>)"
proof -
  have key: "row_idempotency_key (if row_payment_id s = i then merge_payment_row r s else s) = row_idempotency_key s"
    for s i by (simp add: merge_payment_row_def)
  have "row_idempotency_key ` (\<lambda>s. if row_payment_id s = i then merge_payment_row r s else s) ` A =
    row_idempotency_key ` A" for i A
    unfolding image_image key by (rule refl)
  then show "key_used k w \<Longrightarrow> ?thesis" by (simp add: key_used_def upsert_by_def)
qed

lemma key_used_save_inv: "decimal_laws pc \<Longrightarrow> save_inv pc (\<lambda>w. payments_ok pc w \<and> key_used k w)"
  by (simp add: save_inv_def payments_ok_upsert key_used_upsert)
    (auto simp: reads_payments_def payments_ok_def key_used_def)

context provider_contract
begin

lemma preserves_handlers:
  assumes "save_inv pc I"
  shows "preserves I (initiate_handle pc cl cmd) (\<lambda>_. True)"
    and "preserves I (callback_handle pc cl cb) (\<lambda>_. True)"
  using assms preserves_initiate_handle [of pc I cmd] preserves_callback_handle [of pc I cb]
  by (auto simp: save_inv_def)

lemma preserves_rpc:
  assumes "save_inv pc I"
  shows "preserves I (grpc_initiate_payment pc cl req) (\<lambda>_. True)"
    and "preserves I (grpc_process_callback pc cl cb) (\<lambda>_. True)"
    and "preserves I (grpc_get_payment_status pc st) (\<lambda>_. True)"
proof -
  have I: "decimal_laws pc" "reads_payments I" "\<And>w. I w \<Longrightarrow> payments_ok pc w"
    using assms by (auto simp: save_inv_def)
  note ti = reads_payments_table_inv [OF I(2)]
  note att = preserves_weaken [OF preserves_attemptE, of _ _ _ "\<lambda>_. True"]
  show "preserves I (grpc_initiate_payment pc cl req) (\<lambda>_. True)"
    unfolding grpc_initiate_payment_def Let_def
    by (intro preserves_bind_liftE preserves_seq preserves_case preserves_new_v4 preserves_pure ti
        preserves_map_errE preserves_handlers [OF assms] TrueI)
  have unt: "preserves I (get_payment_by_id_untenantized pc u) (\<lambda>_. True)" for u
    unfolding get_payment_by_id_untenantized_def
    by (rule preserves_weaken [OF preserves_select_payment [OF I]]) simp_all
  have look: "preserves I (grpc_callback_lookup pc tr pref pid) (\<lambda>_. True)" for tr pref pid
    unfolding grpc_callback_lookup_def
    by (intro preserves_seq preserves_case preserves_pure att [OF preserves_lookups(2) [OF I]] att [OF unt] TrueI)
  show "preserves I (grpc_process_callback pc cl cb) (\<lambda>_. True)"
    unfolding grpc_process_callback_def Let_def
    by (intro preserves_bind_liftE preserves_seq [OF look] preserves_seq preserves_case preserves_pure
        att [OF preserves_handlers(2) [OF assms]] TrueI)
  show "preserves I (grpc_get_payment_status pc st) (\<lambda>_. True)"
    unfolding grpc_get_payment_status_def Let_def
    by (intro preserves_bind_liftE preserves_seq preserves_pure att [OF preserves_lookups(3) [OF I]] TrueI)
qed

lemma srv_run_inv:
  assumes "save_inv pc I" "(srv_step pc cl)\<^sup>*\<^sup>* w w'" "I w"
  shows "I w'"
  using assms(2,3)
proof (induction rule: rtranclp_induct)
  case (step x y)
  then show ?case using preserves_rpc [OF assms(1)] by (auto elim!: srv_step_elim intro: preservesD)
qed

end

section \<open>One charge per idempotency key\<close>

text \<open>A key that is stored is found, or the lookup fails; no request is sent either way.\<close>

lemma find_stored_key:
  assumes "decimal_laws pc" "payments_ok pc w" "find_by_idempotency_key pc t k w = (r, w')"
  shows "(key_used k w \<longrightarrow> r \<noteq> Inr None) \<and> payments w' = payments w \<and> http_sent w' = http_sent w"
proof -
  have "key_used k w \<longleftrightarrow> \<not> (\<forall>r \<in> set (payments w). row_idempotency_key r \<noteq> k)"
    by (auto simp: key_used_def)
  with transpose_row_total [OF assms(1,2), of "\<lambda>r. row_idempotency_key r = k"] assms(3) show ?thesis
    by (auto simp: find_by_idempotency_key_def set_tenant_def eff_simps db_exec_def db_query_def db_op_def Let_def
        split: option.splits sum.splits)
qed

lemma initiate_used_key:
  assumes "decimal_laws pc" "payments_ok pc w" "key_used (ic_idempotency_key cmd) w"
    "initiate_handle pc cl cmd w = (r, w')"
  shows "(\<forall>x. r \<noteq> Inr x) \<and> payments w' = payments w \<and> http_sent w' = http_sent w"
proof -
  obtain f w1 where f: "find_by_idempotency_key pc (ic_tenant_id cmd) (ic_idempotency_key cmd) w = (f, w1)"
    by fastforce
  note found = find_stored_key [OF assms(1,2) f]
  show ?thesis
  proof (cases f)
    case (Inl e)
    then show ?thesis using found f assms(4) by (auto simp: initiate_handle_eq bindE_Inl)
  next
    case (Inr q)
    then obtain p where "f = Inr (Some p)" using found assms(3) by (cases q) auto
    then show ?thesis using found f assms(4) by (auto simp: initiate_handle_eq bindE_Inr failE_def)
  qed
qed

text \<open>Saving a payment whose identifier is new stores its key.\<close>

lemma save_payment_key:
  assumes "payment_id p \<notin> row_payment_id ` set (payments w)" "save_payment pc p w = (r, w')"
  shows "http_sent w' = http_sent w \<and> (r = Inr () \<longrightarrow> key_used (idempotency_key p) w')"
  using assms
  by (auto simp: save_payment_def set_tenant_def eff_simps db_exec_def db_op_def Let_def upsert_by_def key_used_def
      payment_to_row_def split: option.splits)

lemma save_payment_frame:
  "save_payment pc p w = (r, w') \<Longrightarrow> http_sent w' = http_sent w"
  by (auto simp: save_payment_def set_tenant_def eff_simps db_exec_def db_op_def Let_def split: option.splits)

context provider_contract
begin

text \<open>A request to the provider is sent only after the key was stored.\<close>

lemma sent_means_key_used:
  assumes "decimal_laws pc" "payments_ok pc w" "ic_payment_id cmd \<notin> row_payment_id ` set (payments w)"
    "initiate_handle pc cl cmd w = (r, w')" "http_sent w' \<noteq> http_sent w"
  shows "key_used (ic_idempotency_key cmd) w'"
proof -
  obtain f w1 where f: "find_by_idempotency_key pc (ic_tenant_id cmd) (ic_idempotency_key cmd) w = (f, w1)"
    by fastforce
  note found = find_stored_key [OF assms(1,2) f]
  have None: "f = Inr None"
    using assms(4,5) f found by (cases f) (auto simp: initiate_handle_eq bindE_def failE_def split: option.splits)
  define now where "now = clock w1 (clock_reads w1)"
  define w2 where "w2 = w1\<lparr>clock_reads := Suc (clock_reads w1)\<rparr>"
  have h: "initiate_handle pc cl cmd w =
      bindE (liftE (command_payment now cmd)) (\<lambda>p. bindE (save_payment pc p) (\<lambda>_. after_save pc cl cmd p)) w2"
    using f None by (simp add: initiate_handle_eq bindE_Inr utc_now_def now_def w2_def)
  have w2: "http_sent w2 = http_sent w" "payments w2 = payments w" using found by (simp_all add: w2_def)
  obtain p where p: "command_payment now cmd = Inr p"
    using h w2 assms(4,5) by (cases "command_payment now cmd") (auto simp: bindE_def liftE_def)
  have fields: "payment_id p = ic_payment_id cmd" "idempotency_key p = ic_idempotency_key cmd"
    using command_payment_Inr [OF p] by (simp_all add: fresh_payment_def)
  obtain s w3 where s: "save_payment pc p w2 = (s, w3)" by fastforce
  have h2: "initiate_handle pc cl cmd w = bindE (save_payment pc p) (\<lambda>_. after_save pc cl cmd p) w2"
    using h p by (simp add: bindE_def liftE_def)
  have ok: "s = Inr ()"
    using s h2 assms(4,5) w2 save_payment_frame [OF s] by (cases s) (auto simp: bindE_def)
  have "reads_payments (key_used k)" for k by (simp add: reads_payments_def key_used_def)
  from preserves_after_save [OF this command_payment_inv [OF p], of "ic_idempotency_key cmd" pc cmd]
  have "key_used (ic_idempotency_key cmd) (snd (after_save pc cl cmd p w3))"
    using key_used_upsert preservesD save_payment_key [OF _ s] ok fields assms(3) w2(2) by metis
  moreover have "after_save pc cl cmd p w3 = (r, w')" using h2 s ok assms(4) by (simp add: bindE_Inr)
  ultimately show ?thesis by simp
qed

lemma one_charge:
  assumes "decimal_laws pc" "payments_ok pc w" "ic_payment_id cmd \<notin> row_payment_id ` set (payments w)"
    "initiate_handle pc cl cmd w = (r, w1)" "http_sent w1 \<noteq> http_sent w" "(srv_step pc cl)\<^sup>*\<^sup>* w1 w2"
    "ic_idempotency_key cmd' = ic_idempotency_key cmd" "initiate_handle pc cl cmd' w2 = (r', w3)"
  shows "(\<forall>x. r' \<noteq> Inr x) \<and> payments w3 = payments w2 \<and> http_sent w3 = http_sent w2"
proof -
  have "payments_ok pc w1"
    using preservesD [OF preserves_handlers(1) [OF payments_ok_save_inv [OF assms(1)], of cmd] assms(2)] assms(4)
    by simp
  then have "payments_ok pc w1 \<and> key_used (ic_idempotency_key cmd) w1"
    using sent_means_key_used [OF assms(1-5)] by simp
  from srv_run_inv [OF key_used_save_inv [OF assms(1)] assms(6) this]
  show ?thesis using initiate_used_key [OF assms(1) _ _ assms(8)] assms(7) by simp
qed

end

section \<open>The outcome of an initiation and of a callback\<close>

text \<open>What the repository and outbox operations leave alone while the database answers.\<close>

definition db_frame :: "payment_world \<Rightarrow> payment_world \<Rightarrow> bool" where
  "db_frame w w' \<longleftrightarrow> db_up w' \<and> http_sent w' = http_sent w \<and> http_script w' = http_script w \<and>
     cdc_topics w' = cdc_topics w \<and> clock w' = clock w"

lemma db_up_mono: "db_up w \<Longrightarrow> db_fault w' = db_fault w \<Longrightarrow> db_calls w \<le> db_calls w' \<Longrightarrow> db_up w'"
  by (simp add: db_up_def)

lemma db_frame_trans: "db_frame w w' \<Longrightarrow> db_frame w' w'' \<Longrightarrow> db_frame w w''"
  by (simp add: db_frame_def)

lemma db_frameI:
  "db_up w \<Longrightarrow> db_fault w' = db_fault w \<Longrightarrow> db_calls w \<le> db_calls w' \<Longrightarrow> http_sent w' = http_sent w \<Longrightarrow>
   http_script w' = http_script w \<Longrightarrow> cdc_topics w' = cdc_topics w \<Longrightarrow> clock w' = clock w \<Longrightarrow> db_frame w w'"
  using db_up_mono by (simp add: db_frame_def)

lemma set_tenant_up: "db_up w \<Longrightarrow> set_tenant t w = (Inr (), w\<lparr>db_calls := Suc (db_calls w)\<rparr>)"
  by (simp add: set_tenant_def map_errE_def)

lemma select_up:
  "db_up w \<Longrightarrow> map_errE DatabaseError (db_query q) w = (Inr (q (w\<lparr>db_calls := Suc (db_calls w)\<rparr>)), w\<lparr>db_calls := Suc (db_calls w)\<rparr>)"
  by (simp add: map_errE_def)

lemma find_up:
  assumes "db_up w"
  shows "\<exists>w'. find_by_idempotency_key pc t k w =
      (transpose_row pc (select_first (\<lambda>r. row_idempotency_key r = k) (payments w)), w') \<and>
    db_frame w w' \<and> payments w' = payments w \<and> cdc_outbox w' = cdc_outbox w \<and> clock_reads w' = clock_reads w"
  using assms
  by (auto simp: find_by_idempotency_key_def bindE_apply set_tenant_up select_up liftE_def intro!: db_frameI)

lemma get_by_ref_up:
  assumes "db_up w"
  shows "\<exists>w'. get_payment_by_provider_ref pc ot k w =
      (transpose_row pc (select_first (\<lambda>r. row_provider_reference r = Some k) (payments w)), w') \<and>
    db_frame w w' \<and> payments w' = payments w \<and> cdc_outbox w' = cdc_outbox w"
  using assms
  by (cases ot) (auto simp: get_payment_by_provider_ref_def bindE_apply set_tenant_up select_up liftE_def okE_def
      intro!: db_frameI)

lemma get_by_id_up:
  assumes "db_up w"
  shows "\<exists>w'. get_payment_by_id pc t k w =
      (transpose_row pc (select_first (\<lambda>r. row_payment_id r = k) (payments w)), w') \<and>
    db_frame w w' \<and> payments w' = payments w \<and> cdc_outbox w' = cdc_outbox w"
  using assms
  by (auto simp: get_payment_by_id_def bindE_apply set_tenant_up select_up liftE_def intro!: db_frameI)

lemma save_up:
  assumes "db_up w"
  shows "\<exists>w'. save_payment pc p w = (Inr (), w') \<and> db_frame w w' \<and> cdc_outbox w' = cdc_outbox w \<and>
    payments w' = upsert_by row_payment_id merge_payment_row (payment_to_row pc p) (payments w)"
  using assms by (auto simp: save_payment_def bindE_apply set_tenant_up map_errE_def intro!: db_frameI)

text \<open>The row an outbox entry becomes, up to its random identifier and its time.\<close>

definition is_outbox_row :: "uuid \<Rightarrow> string \<Rightarrow> uuid \<Rightarrow> json \<Rightarrow> outbox_row \<Rightarrow> bool" where
  "is_outbox_row topic ev aid payload r \<longleftrightarrow> ob_topic_id r = topic \<and> ob_event_type r = ev \<and>
     ob_aggregate_type r = ''payment'' \<and> ob_aggregate_id r = aid \<and> ob_payload r = payload \<and> \<not> ob_published r"

lemma append_outbox_up:
  assumes "db_up w" "select_first snd (cdc_topics w) = Some (topic, active)"
  shows "\<exists>w' r. append_outbox ev aid payload k t w = (Inr (), w') \<and> db_frame w w' \<and> payments w' = payments w \<and>
    cdc_outbox w' = cdc_outbox w @ [r] \<and> is_outbox_row topic ev aid payload r"
proof -
  have "topic \<in> fst ` set (cdc_topics w)" using select_first_Some [OF assms(2)] by force
  moreover have "db_fault w (db_calls w) = None" "db_fault w (Suc (db_calls w)) = None"
    "db_fault w (Suc (Suc (db_calls w))) = None" using assms(1) by (simp_all add: db_up_def)
  ultimately show ?thesis
    using assms
    by (auto simp: append_outbox_def insert_outbox_row_def bindE_apply map_errE_def new_v4_def utc_now_def liftE_def
        db_op_def is_outbox_row_def intro!: db_frameI)
qed

text \<open>With no active topic the insert refers to the nil topic and is rejected.\<close>

lemma append_outbox_no_topic:
  assumes "db_up w" "select_first snd (cdc_topics w) = None" "uuid_nil \<notin> fst ` set (cdc_topics w)"
  shows "\<exists>w'. append_outbox ev aid payload k t w = (Inl (DatabaseError fk_violation), w') \<and> db_frame w w' \<and>
    payments w' = payments w \<and> cdc_outbox w' = cdc_outbox w"
proof -
  have "db_fault w (db_calls w) = None" "db_fault w (Suc (db_calls w)) = None"
    "db_fault w (Suc (Suc (db_calls w))) = None" using assms(1) by (simp_all add: db_up_def)
  then show ?thesis
    using assms
    by (auto simp: append_outbox_def insert_outbox_row_def bindE_apply map_errE_def new_v4_def utc_now_def liftE_def
        db_op_def intro!: db_frameI)
qed

lemma upsert_fresh:
  "row_payment_id r \<notin> row_payment_id ` set tab \<Longrightarrow> upsert_by row_payment_id merge_payment_row r tab = tab @ [r]"
  by (simp add: upsert_by_def)

lemma upsert_last:
  assumes "payment_id p \<notin> row_payment_id ` set tab" "fixed_fields q = fixed_fields p"
  shows "upsert_by row_payment_id merge_payment_row (payment_to_row pc q) (tab @ [payment_to_row pc p]) =
    tab @ [payment_to_row pc q]"
proof -
  have id: "payment_id q = payment_id p" using assms(2) by (simp add: fixed_fields_def)
  have "map (\<lambda>s. if row_payment_id s = payment_id p then merge_payment_row (payment_to_row pc q) s else s) tab = tab"
    using assms(1) by (intro map_idI) (metis image_eqI)
  then show ?thesis using id merge_saved_row [OF assms(2)] by (simp add: upsert_by_def)
qed

text \<open>The stored payment after a provider answer.\<close>

definition processing_payment :: "payment \<Rightarrow> provider_response \<Rightarrow> payment" where
  "processing_payment p resp = p\<lparr>pay_status := Processing, provider_reference := Some (pr_provider_reference resp)\<rparr>"

definition failed_payment :: "payment \<Rightarrow> datetime \<Rightarrow> payment_error \<Rightarrow> payment" where
  "failed_payment p now e = p\<lparr>pay_status := Failed, failure_reason := Some (payment_error_to_string e), completed_at := Some now\<rparr>"

lemma outcome_payment_fields [simp]:
  "payment_id (processing_payment p resp) = payment_id p" "payment_id (failed_payment p now e) = payment_id p"
  "fixed_fields (processing_payment p resp) = fixed_fields p" "fixed_fields (failed_payment p now e) = fixed_fields p"
  by (simp_all add: processing_payment_def failed_payment_def fixed_fields_def)

lemma ecocash_outcome_frame:
  "http_sent w' = http_sent w \<Longrightarrow> http_script w' = http_script w \<Longrightarrow> ecocash_outcome pc w' = ecocash_outcome pc w"
  by (simp add: ecocash_outcome_def)

text \<open>The retried call sends a request, at most three, and changes nothing the database holds.\<close>

lemma ecocash_call:
  assumes "json_to_vec pc (ecocash_body pc cred p) = Inr payload" "db_up w"
  shows "\<exists>w'. call_provider_with_retry (ecocash_client pc cred) p w = (ecocash_outcome pc w, w') \<and> db_up w' \<and>
    payments w' = payments w \<and> cdc_topics w' = cdc_topics w \<and> cdc_outbox w' = cdc_outbox w \<and>
    length (http_sent w) < length (http_sent w') \<and> length (http_sent w') \<le> length (http_sent w) + 3"
proof -
  obtain r w' where call: "call_provider_with_retry (ecocash_client pc cred) p w = (r, w')" by fastforce
  have upt: "[0..<3] = [0, 1, 2::nat]" by (simp add: upt_rec)
  have "length (http_sent w) < length (http_sent (snd (call_provider_with_retry (ecocash_client pc cred) p w)))"
    using assms(1)
    by (simp add: call_provider_with_retry_def upt bindE_apply attemptE_def okE_def failE_def
        pause_def ecocash_client_def ecocash_initiate_eq split: sum.splits)
  moreover have "r = ecocash_outcome pc w" using ecocash_retry_outcome [OF assms(1), of w] call by simp
  ultimately show ?thesis
    using eco.call_provider_frame(1) [of w pc cred p] eco.call_provider_frame(2) [of pc cred p w] call assms(2) by (auto simp: tables_frame_def intro: db_up_mono)
qed

text \<open>What the handler stores and publishes for the payment \<open>p\<close> when the provider's outcome is \<open>res\<close>.\<close>

definition published ::
  "'x pay_crates_scheme \<Rightarrow> uuid \<Rightarrow> payment \<Rightarrow> payment_error + provider_response \<Rightarrow> payment \<Rightarrow> outbox_row \<Rightarrow> bool" where
  "published pc topic p res q row \<longleftrightarrow>
     (case res of
        Inr resp \<Rightarrow> q = processing_payment p resp \<and>
          is_outbox_row topic ''PaymentInitiated'' (payment_id p)
            (initiated_payload pc q (pr_provider_reference resp)) row
      | Inl e \<Rightarrow> (\<exists>now. q = failed_payment p now e \<and>
          is_outbox_row topic ''PaymentFailed'' (payment_id p)
            (failed_payload pc q (payment_error_to_string e)) row))"

lemma published_fixed: "published pc topic p res q row \<Longrightarrow> fixed_fields q = fixed_fields p \<and> payment_id q = payment_id p"
  by (auto simp: published_def split: sum.splits)

definition initiate_answer ::
  "payment \<Rightarrow> payment_error + provider_response \<Rightarrow> payment_error + initiate_result" where
  "initiate_answer p res = map_sum id (\<lambda>resp. \<lparr>in_payment = processing_payment p resp,
     in_provider_reference = Some (pr_provider_reference resp)\<rparr>) res"

text \<open>The end of the handler: save the outcome and publish it.\<close>

lemma save_and_publish_up:
  assumes "db_up w" "select_first snd (cdc_topics w) = Some (topic, active)"
  shows "\<exists>w1 w' row. save_payment pc q w = (Inr (), w1) \<and> append_outbox ev aid payload k t w1 = (Inr (), w') \<and>
    db_up w' \<and> cdc_topics w' = cdc_topics w \<and> http_sent w' = http_sent w \<and> clock w' = clock w \<and>
    payments w' = upsert_by row_payment_id merge_payment_row (payment_to_row pc q) (payments w) \<and>
    cdc_outbox w' = cdc_outbox w @ [row] \<and> is_outbox_row topic ev aid payload row"
proof -
  obtain w1 where s: "save_payment pc q w = (Inr (), w1)" "db_frame w w1" "cdc_outbox w1 = cdc_outbox w"
      "payments w1 = upsert_by row_payment_id merge_payment_row (payment_to_row pc q) (payments w)"
    using save_up [OF assms(1), of pc q] by blast
  then have "db_up w1" "select_first snd (cdc_topics w1) = Some (topic, active)"
    using assms(2) by (simp_all add: db_frame_def)
  from append_outbox_up [OF this, of ev aid payload k t] show ?thesis
    using s by (auto simp: db_frame_def)
qed

lemma after_save_outcome:
  assumes "db_up w" "select_first snd (cdc_topics w) = Some (topic, active)" "pay_status p = Pending"
    "json_to_vec pc (ecocash_body pc cred p) = Inr payload"
  shows "\<exists>w' q row. after_save pc (ecocash_client pc cred) cmd p w = (initiate_answer p (ecocash_outcome pc w), w') \<and>
    db_up w' \<and> cdc_topics w' = cdc_topics w \<and>
    length (http_sent w) < length (http_sent w') \<and> length (http_sent w') \<le> length (http_sent w) + 3 \<and>
    payments w' = upsert_by row_payment_id merge_payment_row (payment_to_row pc q) (payments w) \<and>
    cdc_outbox w' = cdc_outbox w @ [row] \<and> published pc topic p (ecocash_outcome pc w) q row"
proof -
  obtain w1 where call: "call_provider_with_retry (ecocash_client pc cred) p w = (ecocash_outcome pc w, w1)" "db_up w1"
      "payments w1 = payments w" "cdc_topics w1 = cdc_topics w" "cdc_outbox w1 = cdc_outbox w"
      "length (http_sent w) < length (http_sent w1)" "length (http_sent w1) \<le> length (http_sent w) + 3"
    using ecocash_call [OF assms(4,1)] by blast
  show ?thesis
  proof (cases "ecocash_outcome pc w")
    case (Inr resp)
    have t: "select_first snd (cdc_topics w1) = Some (topic, active)" using call(4) assms(2) by simp
    from save_and_publish_up [OF call(2) t, of pc "processing_payment p resp" "''PaymentInitiated''" "payment_id p"
        "initiated_payload pc (processing_payment p resp) (pr_provider_reference resp)"
        "ic_idempotency_key cmd @ ''-initiated''" "tenant_id (processing_payment p resp)"]
    show ?thesis
      using call assms(3) unfolding Inr published_def initiate_answer_def sum.case
      by (fastforce simp: after_save_def bindE_apply attemptE_def liftE_def okE_def Let_def mark_processing_def
          processing_payment_def)
  next
    case (Inl e)
    define now where "now = clock w1 (clock_reads w1)"
    define w2 where "w2 = w1\<lparr>clock_reads := Suc (clock_reads w1)\<rparr>"
    have w2: "db_up w2" "select_first snd (cdc_topics w2) = Some (topic, active)" "payments w2 = payments w"
        "cdc_topics w2 = cdc_topics w" "cdc_outbox w2 = cdc_outbox w" "http_sent w2 = http_sent w1"
      using call assms(2) by (simp_all add: w2_def db_up_def)
    from save_and_publish_up [OF w2(1,2), of pc "failed_payment p now e" "''PaymentFailed''" "payment_id p"
        "failed_payload pc (failed_payment p now e) (payment_error_to_string e)"
        "ic_idempotency_key cmd @ ''-failed''" "tenant_id (failed_payment p now e)"]
    obtain w3 w4 row where e: "save_payment pc (failed_payment p now e) w2 = (Inr (), w3)"
        "append_outbox ''PaymentFailed'' (payment_id p)
           (failed_payload pc (failed_payment p now e) (payment_error_to_string e))
           (ic_idempotency_key cmd @ ''-failed'') (tenant_id (failed_payment p now e)) w3 = (Inr (), w4)"
        "db_up w4 \<and> cdc_topics w4 = cdc_topics w \<and> http_sent w4 = http_sent w1 \<and>
         payments w4 = upsert_by row_payment_id merge_payment_row (payment_to_row pc (failed_payment p now e)) (payments w) \<and>
         cdc_outbox w4 = cdc_outbox w @ [row]"
        "is_outbox_row topic ''PaymentFailed'' (payment_id p)
           (failed_payload pc (failed_payment p now e) (payment_error_to_string e)) row"
      using w2 by auto
    have "after_save pc (ecocash_client pc cred) cmd p w = (Inl e, w4)"
      using call(1) e(1,2) assms(3) unfolding Inl
      by (simp add: after_save_def bindE_apply attemptE_def failE_def ignoreE_def Let_def utc_now_def mark_failed_def
          or_same_def failed_payment_def flip: now_def w2_def)
    then show ?thesis
      using e(3,4) call(6,7) unfolding Inl published_def initiate_answer_def sum.case by auto
  qed
qed

text \<open>The handler up to its first save, for a command with an unused key.\<close>

lemma initiate_until_save:
  assumes "db_up w" "\<not> key_used (ic_idempotency_key cmd) w" "command_payment (clock w (clock_reads w)) cmd = Inr p"
  shows "\<exists>w'. (\<forall>cl. initiate_handle pc cl cmd w = after_save pc cl cmd p w') \<and> db_frame w w' \<and>
    cdc_outbox w' = cdc_outbox w \<and>
    payments w' = upsert_by row_payment_id merge_payment_row (payment_to_row pc p) (payments w)"
proof -
  have "select_first (\<lambda>r. row_idempotency_key r = ic_idempotency_key cmd) (payments w) = None"
    unfolding select_first_None using assms(2) unfolding key_used_def by (metis image_eqI)
  then obtain w1 where f: "find_by_idempotency_key pc (ic_tenant_id cmd) (ic_idempotency_key cmd) w = (Inr None, w1)"
      "db_frame w w1" "payments w1 = payments w" "cdc_outbox w1 = cdc_outbox w" "clock_reads w1 = clock_reads w"
    using find_up [OF assms(1), of pc "ic_tenant_id cmd" "ic_idempotency_key cmd"] by (auto simp: transpose_row_def)
  define w2 where "w2 = w1\<lparr>clock_reads := Suc (clock_reads w1)\<rparr>"
  have w2: "db_up w2" "payments w2 = payments w" "cdc_outbox w2 = cdc_outbox w" "db_frame w w2"
    using f(2-4) by (simp_all add: w2_def db_frame_def db_up_def)
  obtain w3 where s: "save_payment pc p w2 = (Inr (), w3)" "db_frame w2 w3" "cdc_outbox w3 = cdc_outbox w2"
      "payments w3 = upsert_by row_payment_id merge_payment_row (payment_to_row pc p) (payments w2)"
    using save_up [OF w2(1), of pc p] by blast
  have "initiate_handle pc cl cmd w = after_save pc cl cmd p w3" for cl
    using f s(1) assms(3) unfolding w2_def
    by (simp add: initiate_handle_eq bindE_apply utc_now_def liftE_def db_frame_def)
  then show ?thesis using s w2 db_frame_trans by metis
qed

text \<open>The whole handler, for a command with an unused key, whether or not its payment id is stored.\<close>

lemma initiate_run:
  assumes "db_up w" "select_first snd (cdc_topics w) = Some (topic, active)"
    "\<not> key_used (ic_idempotency_key cmd) w" "command_payment (clock w (clock_reads w)) cmd = Inr p"
    "json_to_vec pc (ecocash_body pc cred p) = Inr payload"
  shows "\<exists>w' q row. initiate_handle pc (ecocash_client pc cred) cmd w = (initiate_answer p (ecocash_outcome pc w), w') \<and>
    db_up w' \<and> cdc_topics w' = cdc_topics w \<and>
    length (http_sent w) < length (http_sent w') \<and> length (http_sent w') \<le> length (http_sent w) + 3 \<and>
    payments w' = upsert_by row_payment_id merge_payment_row (payment_to_row pc q)
      (upsert_by row_payment_id merge_payment_row (payment_to_row pc p) (payments w)) \<and>
    cdc_outbox w' = cdc_outbox w @ [row] \<and> published pc topic p (ecocash_outcome pc w) q row"
proof -
  obtain w3 where run: "\<And>cl. initiate_handle pc cl cmd w = after_save pc cl cmd p w3" and s: "db_frame w w3"
      "cdc_outbox w3 = cdc_outbox w"
      "payments w3 = upsert_by row_payment_id merge_payment_row (payment_to_row pc p) (payments w)"
    using initiate_until_save [OF assms(1,3,4)] by metis
  have w3: "db_up w3" "select_first snd (cdc_topics w3) = Some (topic, active)"
    "ecocash_outcome pc w3 = ecocash_outcome pc w" "cdc_topics w3 = cdc_topics w" "http_sent w3 = http_sent w"
    using s(1) assms(2) by (simp_all add: db_frame_def ecocash_outcome_def)
  show ?thesis
    unfolding run
    using after_save_outcome [OF w3(1,2) command_payment_pending [OF assms(4)] assms(5), of cmd] w3 s by simp
qed

text \<open>The row a callback refers to: by provider reference first, then by payment id.\<close>

definition callback_target :: "callback_command \<Rightarrow> payment_row list \<Rightarrow> payment_row option" where
  "callback_target cmd tab =
     (case select_first (\<lambda>r. row_provider_reference r = Some (cc_provider_reference cmd)) tab of
        Some r \<Rightarrow> Some r
      | None \<Rightarrow> (case cc_payment_id cmd of
                   Some pid \<Rightarrow> select_first (\<lambda>r. row_payment_id r = pid) tab
                 | None \<Rightarrow> None))"

lemma callback_target_mem: "callback_target cmd tab = Some r \<Longrightarrow> r \<in> set tab"
  by (auto simp: callback_target_def dest: select_first_Some split: option.splits)

lemma payments_ok_row:
  assumes "decimal_laws pc" "payments_ok pc w" "select_first P (payments w) = Some r"
  obtains p where "payment_inv p" "r = payment_to_row pc p" "transpose_row pc (Some r) = Inr (Some p)"
proof -
  have "r \<in> set (payments w)" using select_first_Some [OF assms(3)] by simp
  then obtain p where p: "payment_inv p" "r = payment_to_row pc p" using assms(2) by (auto simp: payments_ok_def)
  then have "transpose_row pc (Some r) = Inr (Some p)"
    using payment_row_roundtrip [OF assms(1), of p] by (simp add: transpose_row_def)
  with p that show thesis by blast
qed

lemma callback_lookup_found:
  assumes "decimal_laws pc" "payments_ok pc w" "db_up w" "callback_target cmd (payments w) = Some r"
  shows "\<exists>p w'. payment_inv p \<and> r = payment_to_row pc p \<and> callback_lookup pc cmd w = (Inr p, w') \<and>
    db_frame w w' \<and> payments w' = payments w \<and> cdc_outbox w' = cdc_outbox w"
proof -
  let ?by_ref = "select_first (\<lambda>r. row_provider_reference r = Some (cc_provider_reference cmd)) (payments w)"
  obtain w1 where g: "get_payment_by_provider_ref pc (Some (cc_tenant_id cmd)) (cc_provider_reference cmd) w =
      (transpose_row pc ?by_ref, w1)" "db_frame w w1" "payments w1 = payments w" "cdc_outbox w1 = cdc_outbox w"
    using get_by_ref_up [OF assms(3)] by blast
  show ?thesis
  proof (cases ?by_ref)
    case (Some r')
    then have r': "r' = r" using assms(4) by (simp add: callback_target_def)
    obtain p where p: "payment_inv p" "r' = payment_to_row pc p" "transpose_row pc (Some r') = Inr (Some p)"
      using payments_ok_row [OF assms(1,2) Some] .
    have "callback_lookup pc cmd w = (Inr p, w1)"
      using g(1) p(3) unfolding Some by (simp add: callback_lookup_def bindE_apply okE_def)
    then show ?thesis using p(1,2) r' g(2-4) by blast
  next
    case None
    then obtain pid where pid: "cc_payment_id cmd = Some pid" "select_first (\<lambda>r. row_payment_id r = pid) (payments w) = Some r"
      using assms(4) by (auto simp: callback_target_def split: option.splits)
    obtain p where p: "payment_inv p" "r = payment_to_row pc p" "transpose_row pc (Some r) = Inr (Some p)"
      using payments_ok_row [OF assms(1,2) pid(2)] .
    have up: "db_up w1" using g(2) by (simp add: db_frame_def)
    obtain w2 where h: "get_payment_by_id pc (cc_tenant_id cmd) pid w1 =
        (transpose_row pc (select_first (\<lambda>r. row_payment_id r = pid) (payments w1)), w2)"
      "db_frame w1 w2" "payments w2 = payments w1" "cdc_outbox w2 = cdc_outbox w1"
      using get_by_id_up [OF up] by blast
    have "get_payment_by_id pc (cc_tenant_id cmd) pid w1 = (Inr (Some p), w2)"
      using h(1) p(3) pid(2) g(3) by simp
    moreover have "get_payment_by_provider_ref pc (Some (cc_tenant_id cmd)) (cc_provider_reference cmd) w = (Inr None, w1)"
      using g(1) unfolding None by (simp add: transpose_row_def)
    ultimately have "callback_lookup pc cmd w = (Inr p, w2)"
      using pid(1) by (simp add: callback_lookup_def bindE_apply okE_def)
    moreover have "db_frame w w2" by (rule db_frame_trans [OF g(2) h(2)])
    ultimately show ?thesis using p(1,2) g(3,4) h(3,4) by (metis (no_types))
  qed
qed

lemma callback_lookup_missing:
  assumes "db_up w" "callback_target cmd (payments w) = None"
  shows "\<exists>w'. callback_lookup pc cmd w =
      (Inl (PNotFound (''Payment with provider_reference '' @ cc_provider_reference cmd @ '' not found'')), w') \<and>
    payments w' = payments w \<and> cdc_outbox w' = cdc_outbox w"
proof -
  have none: "select_first (\<lambda>r. row_provider_reference r = Some (cc_provider_reference cmd)) (payments w) = None"
    "\<And>pid. cc_payment_id cmd = Some pid \<Longrightarrow> select_first (\<lambda>r. row_payment_id r = pid) (payments w) = None"
    using assms(2) by (auto simp: callback_target_def split: option.splits)
  obtain w1 where g: "get_payment_by_provider_ref pc (Some (cc_tenant_id cmd)) (cc_provider_reference cmd) w = (Inr None, w1)"
      "db_frame w w1" "payments w1 = payments w" "cdc_outbox w1 = cdc_outbox w"
    using get_by_ref_up [OF assms(1), of pc "Some (cc_tenant_id cmd)" "cc_provider_reference cmd"] none(1)
    by (auto simp: transpose_row_def)
  show ?thesis
  proof (cases "cc_payment_id cmd")
    case None
    then show ?thesis using g by (simp add: callback_lookup_def bindE_apply failE_def)
  next
    case (Some pid)
    have up: "db_up w1" using g(2) by (simp add: db_frame_def)
    obtain w2 where "get_payment_by_id pc (cc_tenant_id cmd) pid w1 = (Inr None, w2)"
        "payments w2 = payments w" "cdc_outbox w2 = cdc_outbox w"
      using get_by_id_up [OF up, of pc "cc_tenant_id cmd" pid] none(2) [OF Some] g(3,4)
      by (auto simp: transpose_row_def)
    then show ?thesis using g(1) Some by (simp add: callback_lookup_def bindE_apply failE_def)
  qed
qed

text \<open>Saving a changed payment over its own row replaces exactly that row.\<close>

lemma upsert_own_row:
  assumes "payments_ok pc w" "payment_to_row pc p \<in> set (payments w)" "fixed_fields q = fixed_fields p"
  shows "upsert_by row_payment_id merge_payment_row (payment_to_row pc q) (payments w) =
    map (\<lambda>r. if row_payment_id r = payment_id p then payment_to_row pc q else r) (payments w)"
proof -
  have id: "payment_id q = payment_id p" using assms(3) by (simp add: fixed_fields_def)
  have own: "r = payment_to_row pc p" if "r \<in> set (payments w)" "row_payment_id r = payment_id p" for r
    using assms(1,2) that inj_onD [of row_payment_id "set (payments w)" r "payment_to_row pc p"]
    by (simp add: payments_ok_def distinct_map)
  have "payment_id p \<in> row_payment_id ` set (payments w)" using assms(2) by force
  then show ?thesis
    using own merge_saved_row [OF assms(3), of pc] id by (auto simp: upsert_by_def)
qed

lemma callback_run:
  assumes "decimal_laws pc" "payments_ok pc w" "db_up w" "select_first snd (cdc_topics w) = Some (topic, active)"
    "pc_verify_callback_signature cl (cc_raw_payload cmd) (cc_signature cmd)"
    "callback_target cmd (payments w) = Some r"
  shows "\<exists>p now q w' row. payment_inv p \<and> r = payment_to_row pc p \<and>
    q = apply_provider_status now (cc_status cmd) (Some (cc_provider_reference cmd)) p \<and>
    callback_handle pc cl cmd w =
      (Inr \<lparr>cb_payment = q, cb_accepted = True, cb_new_status = status_as_str (pay_status q)\<rparr>, w') \<and>
    payments w' = map (\<lambda>s. if row_payment_id s = payment_id p then payment_to_row pc q else s) (payments w) \<and>
    cdc_outbox w' = cdc_outbox w @ [row] \<and>
    is_outbox_row topic (callback_event_type (cc_status cmd)) (payment_id p)
      (callback_payload pc (callback_event_type (cc_status cmd)) (pay_status p) q (cc_provider_reference cmd)) row"
proof -
  obtain w1 p where l: "db_frame w w1" "payments w1 = payments w" "cdc_outbox w1 = cdc_outbox w" "payment_inv p"
      "r = payment_to_row pc p" "callback_lookup pc cmd w = (Inr p, w1)"
    using callback_lookup_found [OF assms(1-3,6)] by blast
  define now where "now = clock w1 (clock_reads w1)"
  define w2 where "w2 = w1\<lparr>clock_reads := Suc (clock_reads w1)\<rparr>"
  define q where "q = apply_provider_status now (cc_status cmd) (Some (cc_provider_reference cmd)) p"
  have fixed: "fixed_fields q = fixed_fields p"
    unfolding q_def by (rule pay_change_fixed [OF apply_provider_status_change])
  have id: "payment_id q = payment_id p" using fixed by (simp add: fixed_fields_def)
  have w2: "db_up w2" "select_first snd (cdc_topics w2) = Some (topic, active)" "payments w2 = payments w"
      "cdc_outbox w2 = cdc_outbox w"
    using l(1-3) assms(4) by (simp_all add: w2_def db_frame_def db_up_def)
  have up: "upsert_by row_payment_id merge_payment_row (payment_to_row pc q) (payments w2) =
      map (\<lambda>s. if row_payment_id s = payment_id p then payment_to_row pc q else s) (payments w)"
    using upsert_own_row [OF assms(2) _ fixed] callback_target_mem [OF assms(6)] l(5) w2(3) by simp
  define ev where "ev = callback_event_type (cc_status cmd)"
  from save_and_publish_up [OF w2(1,2), of pc q ev "payment_id p"
      "callback_payload pc ev (pay_status p) q (cc_provider_reference cmd)"
      "cc_provider_reference cmd @ ''-'' @ ev" "tenant_id q"]
  obtain w3 w4 row where e: "save_payment pc q w2 = (Inr (), w3)"
      "append_outbox ev (payment_id p) (callback_payload pc ev (pay_status p) q (cc_provider_reference cmd))
        (cc_provider_reference cmd @ ''-'' @ ev) (tenant_id q) w3 = (Inr (), w4)"
      "payments w4 = map (\<lambda>s. if row_payment_id s = payment_id p then payment_to_row pc q else s) (payments w)"
      "cdc_outbox w4 = cdc_outbox w @ [row]"
      "is_outbox_row topic ev (payment_id p) (callback_payload pc ev (pay_status p) q (cc_provider_reference cmd)) row"
    using up w2(4) by auto
  have "callback_handle pc cl cmd w =
      (Inr \<lparr>cb_payment = q, cb_accepted = True, cb_new_status = status_as_str (pay_status q)\<rparr>, w4)"
    using l(6) e(1,2) assms(5) id unfolding q_def now_def w2_def ev_def
    by (simp add: callback_handle_def bindE_apply utc_now_def okE_def Let_def)
  with l(4,5) e(3-5) show ?thesis unfolding q_def ev_def by blast
qed

end
