(* ===== verification/Payment_Properties.thy ===== *)
theory Payment_Properties
  imports Payment_Correct
begin

text \<open>
  The properties of the payment engine as a service, with concrete crates and worlds on which
  their hypotheses hold.
\<close>

section \<open>Concrete crates and worlds\<close>

definition example_pay_crates :: pay_crates where
  "example_pay_crates = \<lparr>sha256_digest = example_digest, hex_encode = hex_encode_impl,
     hex_decode = hex_decode_impl, json_to_string = (\<lambda>_. Some ''null''), to_rfc3339 = show_int,
     uuid_parse = (\<lambda>s. Some (of_nat (length s))), uuid_to_string = (\<lambda>u. replicate (unat u) CHR ''u''),
     dec_to_string = unary_decimal, dec_parse = parse_unary_decimal,
     hmac_sha256 = (\<lambda>k x. example_digest (k @ x)), constant_time_eq = (=), json_to_vec = (\<lambda>_. Inr [1, 2]),
     de_initiate_response = (\<lambda>t. case t of None \<Rightarrow> Inl ''no body'' | Some s \<Rightarrow> Inr (s, ''pending'', None)),
     de_status_response = (\<lambda>t. case t of None \<Rightarrow> Inl ''no body'' | Some s \<Rightarrow> Inr (s, None)),
     show_http_status = show_nat\<rparr>"

lemma example_decimal_laws [simp]: "decimal_laws example_pay_crates"
  by (simp add: decimal_laws_def example_pay_crates_def)

lemma example_ct_eq_laws [simp]: "ct_eq_laws example_pay_crates"
  by (simp add: ct_eq_laws_def example_pay_crates_def)

lemma example_pay_hex_laws [simp]: "hex_laws example_pay_crates"
  by (simp add: hex_laws_def example_pay_crates_def)

lemma example_json_to_vec [simp]: "json_to_vec example_pay_crates j = Inr [1, 2]"
  by (simp add: example_pay_crates_def)

text \<open>A world with the given payments and one active topic, a working database and a provider that answers.\<close>

definition example_pay_world :: "payment_row list \<Rightarrow> payment_world" where
  "example_pay_world rows = \<lparr>db_calls = 0, db_fault = (\<lambda>_. None), clock_reads = 0, clock = (\<lambda>n. int n),
     uuids_made = 0, uuid_supply = (\<lambda>n. of_nat (100 + n)), payments = rows, cdc_topics = [(9, True)],
     cdc_outbox = [], jitter = (\<lambda>_. 7), pauses = [], http_sent = [],
     http_script = (\<lambda>n. if n = 0 then HttpReply 503 None else HttpReply 200 (Some ''ref''))\<rparr>"

definition example_command :: initiate_command where
  "example_command = \<lparr>ic_payment_id = 1, ic_tenant_id = 2, ic_idempotency_key = ''k'', ic_provider = EcoCash,
     ic_phone_number = ''2637123456789'', ic_amount = Decimal 1000 2, ic_currency = ''USD'',
     ic_reference = ''r'', ic_description = []\<rparr>"

definition example_cred :: provider_credentials where
  "example_cred = \<lparr>cred_base_url = ''u'', cred_merchant_id = ''m'', cred_api_key = ''a'', cred_secret_key = ''s''\<rparr>"

definition example_callback :: callback_command where
  "example_callback = \<lparr>cc_tenant_id = 2, cc_provider_reference = ''ref'', cc_payment_id = Some 1,
     cc_status = PsCompleted,
     cc_signature = generate_signature example_pay_crates example_cred [4], cc_raw_payload = [4]\<rparr>"

lemma example_pay_world_simps [simp]:
  "db_up (example_pay_world rows)" "payments (example_pay_world rows) = rows"
  "cdc_topics (example_pay_world rows) = [(9, True)]" "cdc_outbox (example_pay_world rows) = []"
  "select_first snd [(9 :: uuid, True)] = Some (9, True)" "http_sent (example_pay_world rows) = []"
  "clock (example_pay_world rows) n = int n" "clock_reads (example_pay_world rows) = 0"
  by (simp_all add: example_pay_world_def db_up_def select_first_def)

lemma example_command_payment [simp]: "command_payment t example_command = Inr (example_payment\<lparr>initiated_at := t\<rparr>)"
  by (simp add: command_payment_def example_command_def payment_new_def example_payment_def str_trim_def
      is_whitespace_def Let_def)

lemma example_command_fields [simp]:
  "ic_payment_id example_command = 1" "ic_idempotency_key example_command = ''k''"
  by (simp_all add: example_command_def)

lemma example_payment_inv [simp]: "payment_inv example_payment"
  by (rule payment_new_inv [OF example_payment_new])

lemma example_outcome: "ecocash_outcome example_pay_crates (example_pay_world rows) =
    Inr \<lparr>pr_provider_reference = ''ref'', pr_status = PsPending, pr_message = None\<rparr>"
  by (simp add: ecocash_outcome_def interpret_reply_def example_pay_world_def http_is_success_def example_pay_crates_def
      parse_provider_status_def to_lowercase_def char_to_lower_def Let_def)

section \<open>Properties\<close>



text \<open>C11: an initiation with an unused key and a new payment id, while the database answers and a topic is
  active, makes between one and three requests to EcoCash and ends with the first successful answer
  or the last error.  On success the payment is stored as processing with the provider's reference,
  one PaymentInitiated event is published and the payment is returned; otherwise it is stored as
  failed with the error text, one PaymentFailed event is published and the error is returned.\<close>

theorem initiate_payment_outcome:
  assumes "db_up w" "select_first snd (cdc_topics w) = Some (topic, active)"
    "\<not> key_used (ic_idempotency_key cmd) w" "ic_payment_id cmd \<notin> row_payment_id ` set (payments w)"
    "command_payment (clock w (clock_reads w)) cmd = Inr p"
    "json_to_vec pc (ecocash_body pc cred p) = Inr payload"
    "initiate_handle pc (ecocash_client pc cred) cmd w = (r, w')"
  shows "r = initiate_answer p (ecocash_outcome pc w) \<and>
    (\<exists>q row. payments w' = payments w @ [payment_to_row pc q] \<and> cdc_outbox w' = cdc_outbox w @ [row] \<and>
       published pc topic p (ecocash_outcome pc w) q row) \<and>
    length (http_sent w) < length (http_sent w') \<and> length (http_sent w') \<le> length (http_sent w) + 3"
proof -
  have id: "payment_id p \<notin> row_payment_id ` set (payments w)"
    using command_payment_Inr [OF assms(5)] assms(4) by (simp add: fresh_payment_def)
  obtain q row where run: "r = initiate_answer p (ecocash_outcome pc w)"
      "length (http_sent w) < length (http_sent w')" "length (http_sent w') \<le> length (http_sent w) + 3"
      "payments w' = upsert_by row_payment_id merge_payment_row (payment_to_row pc q)
        (upsert_by row_payment_id merge_payment_row (payment_to_row pc p) (payments w))"
      "cdc_outbox w' = cdc_outbox w @ [row]" "published pc topic p (ecocash_outcome pc w) q row"
    using initiate_run [OF assms(1-3,5,6)] assms(7) by auto
  have "payments w' = payments w @ [payment_to_row pc q]"
    using run(4) upsert_fresh [of "payment_to_row pc p"] id published_fixed [OF run(6)]
      upsert_last [OF id, where q = q and pc = pc] by simp
  then show ?thesis using run by blast
qed

theorem initiate_payment_outcome_witness:
  "\<exists>row. payments (snd (initiate_handle example_pay_crates (ecocash_client example_pay_crates example_cred)
       example_command (example_pay_world []))) = [row] \<and>
     row_status row = ''processing'' \<and> row_provider_reference row = Some ''ref''"
proof -
  obtain r w' where run: "initiate_handle example_pay_crates (ecocash_client example_pay_crates example_cred)
      example_command (example_pay_world []) = (r, w')" by fastforce
  have "\<not> key_used k (example_pay_world [])" for k by (simp add: key_used_def)
  from initiate_payment_outcome [OF example_pay_world_simps(1) _ this _ example_command_payment example_json_to_vec run,
      of 9 True]
  show ?thesis using run by (auto simp: example_outcome published_def processing_payment_def payment_to_row_def)
qed

text \<open>C12: whatever requests the service handles and wherever database statements fail, the payments table
  stays well formed: identifiers are distinct and every stored row reads back as a valid payment
  whose outcome fields fit its status.\<close>

theorem payments_table_invariant:
  assumes "decimal_laws pc" "payments w = []" "(srv_step pc (ecocash_client pc cred))\<^sup>*\<^sup>* w w'"
  shows "distinct (map row_payment_id (payments w')) \<and>
    (\<forall>r \<in> set (payments w'). \<exists>p. payment_try_from pc r = Inr p \<and> payment_inv p)"
proof -
  have "payments_ok pc w" using assms(2) by (simp add: payments_ok_def)
  then have "payments_ok pc w'"
    using eco.srv_run_inv [OF payments_ok_save_inv [OF assms(1)] assms(3)] by simp
  then show ?thesis using payment_row_roundtrip [OF assms(1)] by (auto simp: payments_ok_def)
qed

text \<open>A request that runs the example command, in a world whose fourth statement fails.\<close>

definition example_request :: initiate_request where
  "example_request = \<lparr>iq_trace_header = None, iq_payment_id = ''i'', iq_tenant = ''ab'', iq_provider = 1,
     iq_phone_number = ''2637123456789'', iq_amount = Some \<lparr>pm_currency_code = ''USD'', pm_amount_cents = 1000, pm_currency = 0\<rparr>,
     iq_reference = ''r'', iq_description = [], iq_idempotency_key = Some ''k''\<rparr>"

theorem payments_table_invariant_witness:
  "distinct (map row_payment_id (payments (snd (grpc_initiate_payment example_pay_crates
     (ecocash_client example_pay_crates example_cred) example_request
     ((example_pay_world [])\<lparr>db_fault := (\<lambda>n. if n = 3 then Some ''down'' else None)\<rparr>)))))"
  using payments_table_invariant [OF example_decimal_laws _ r_into_rtranclp
    [where r = "srv_step example_pay_crates (ecocash_client example_pay_crates example_cred)", OF srv_step.rpc_initiate]]
  by simp

text \<open>C13: a customer is charged at most once per idempotency key.  Once an initiation with a new payment id
  has sent a request to the provider, every later initiation with the same key, after any further
  requests and with database statements failing anywhere, fails without sending a request and
  without changing the payments table.\<close>

theorem one_charge_per_key:
  assumes "decimal_laws pc" "payments_ok pc w" "ic_payment_id cmd \<notin> row_payment_id ` set (payments w)"
    "initiate_handle pc (ecocash_client pc cred) cmd w = (r, w1)" "http_sent w1 \<noteq> http_sent w"
    "(srv_step pc (ecocash_client pc cred))\<^sup>*\<^sup>* w1 w2"
    "ic_idempotency_key cmd' = ic_idempotency_key cmd"
    "initiate_handle pc (ecocash_client pc cred) cmd' w2 = (r', w3)"
  shows "(\<forall>x. r' \<noteq> Inr x) \<and> payments w3 = payments w2 \<and> http_sent w3 = http_sent w2"
  by (rule eco.one_charge [OF assms])

lemma example_first_run:
  obtains w1 where "initiate_handle example_pay_crates (ecocash_client example_pay_crates example_cred)
      example_command (example_pay_world []) =
    (initiate_answer (example_payment\<lparr>initiated_at := 0\<rparr>) (ecocash_outcome example_pay_crates (example_pay_world [])), w1)"
    "http_sent w1 \<noteq> []"
proof -
  have "\<not> key_used k (example_pay_world [])" for k by (simp add: key_used_def)
  from initiate_run [OF example_pay_world_simps(1) _ this example_command_payment example_json_to_vec,
      where topic = 9 and active = True and cred = example_cred]
  show thesis using that by fastforce
qed

theorem one_charge_per_key_witness:
  "let run = initiate_handle example_pay_crates (ecocash_client example_pay_crates example_cred) example_command;
       w1 = snd (run (example_pay_world []))
   in http_sent w1 \<noteq> [] \<and> http_sent (snd (run w1)) = http_sent w1"
proof -
  obtain w1 where w1: "initiate_handle example_pay_crates (ecocash_client example_pay_crates example_cred)
      example_command (example_pay_world []) =
    (initiate_answer (example_payment\<lparr>initiated_at := 0\<rparr>) (ecocash_outcome example_pay_crates (example_pay_world [])), w1)"
    "http_sent w1 \<noteq> []" using example_first_run .
  have "payments_ok example_pay_crates (example_pay_world [])" by (simp add: payments_ok_def)
  from one_charge_per_key [OF example_decimal_laws this _ w1(1) _ rtranclp.rtrancl_refl refl prod.collapse [symmetric]]
  show ?thesis using w1 by (simp add: Let_def)
qed

text \<open>Saving over an existing row changes neither the identifiers nor the keys of the table.\<close>

lemma upsert_existing:
  assumes "row_payment_id r \<in> row_payment_id ` set tab"
  shows "row_payment_id ` set (upsert_by row_payment_id merge_payment_row r tab) = row_payment_id ` set tab"
    and "row_idempotency_key ` set (upsert_by row_payment_id merge_payment_row r tab) = row_idempotency_key ` set tab"
proof -
  have f: "row_payment_id (if row_payment_id s = i then merge_payment_row r s else s) = row_payment_id s"
    "row_idempotency_key (if row_payment_id s = i then merge_payment_row r s else s) = row_idempotency_key s" for s i
    by (simp_all add: merge_payment_row_def)
  show "row_payment_id ` set (upsert_by row_payment_id merge_payment_row r tab) = row_payment_id ` set tab"
    using assms by (simp only: upsert_by_def if_True set_map image_image f)
  show "row_idempotency_key ` set (upsert_by row_payment_id merge_payment_row r tab) = row_idempotency_key ` set tab"
    using assms by (simp only: upsert_by_def if_True set_map image_image f)
qed

lemma initiate_reused_id:
  assumes "db_up w" "select_first snd (cdc_topics w) = Some (topic, active)"
    "\<not> key_used (ic_idempotency_key cmd) w" "ic_payment_id cmd \<in> row_payment_id ` set (payments w)"
    "command_payment (clock w (clock_reads w)) cmd = Inr p"
    "json_to_vec pc (ecocash_body pc cred p) = Inr payload"
    "initiate_handle pc (ecocash_client pc cred) cmd w = (r, w')"
  shows "db_up w' \<and> select_first snd (cdc_topics w') = Some (topic, active) \<and>
    length (http_sent w) < length (http_sent w') \<and> \<not> key_used (ic_idempotency_key cmd) w' \<and>
    ic_payment_id cmd \<in> row_payment_id ` set (payments w')"
proof -
  have id: "payment_id p = ic_payment_id cmd" using command_payment_Inr [OF assms(5)] by (simp add: fresh_payment_def)
  obtain q row where run: "db_up w'" "cdc_topics w' = cdc_topics w" "length (http_sent w) < length (http_sent w')"
      "payments w' = upsert_by row_payment_id merge_payment_row (payment_to_row pc q)
        (upsert_by row_payment_id merge_payment_row (payment_to_row pc p) (payments w))"
      "published pc topic p (ecocash_outcome pc w) q row"
    using initiate_run [OF assms(1-3,5,6)] assms(7) by auto
  then show ?thesis
    using assms(2-4) id published_fixed [OF run(5)] upsert_existing [of "payment_to_row pc p" "payments w"]
      upsert_existing [of "payment_to_row pc q" "upsert_by row_payment_id merge_payment_row (payment_to_row pc p) (payments w)"]
    by (simp add: key_used_def)
qed

lemma command_payment_time:
  assumes "command_payment t cmd = Inr p"
  shows "command_payment t' cmd = Inr (p\<lparr>initiated_at := t'\<rparr>)"
    and "ecocash_body pc cred (p\<lparr>initiated_at := t'\<rparr>) = ecocash_body pc cred p"
  using assms by (auto simp: command_payment_def payment_new_def ecocash_body_def split: if_splits)

text \<open>C15: the payment id is chosen by the caller, and the upsert keeps the key of the row it overwrites.
  So an initiation that reuses a stored payment id with an unused key does not record its key, and
  submitting the very same command twice sends a request to the provider both times.\<close>

theorem reused_payment_id_charges_again:
  assumes "db_up w" "select_first snd (cdc_topics w) = Some (topic, active)"
    "\<not> key_used (ic_idempotency_key cmd) w" "ic_payment_id cmd \<in> row_payment_id ` set (payments w)"
    "command_payment t cmd = Inr p" "json_to_vec pc (ecocash_body pc cred p) = Inr payload"
    "initiate_handle pc (ecocash_client pc cred) cmd w = (r1, w1)"
    "initiate_handle pc (ecocash_client pc cred) cmd w1 = (r2, w2)"
  shows "length (http_sent w) < length (http_sent w1) \<and> length (http_sent w1) < length (http_sent w2) \<and>
    \<not> key_used (ic_idempotency_key cmd) w2"
proof -
  note time = command_payment_time [OF assms(5)]
  have body: "json_to_vec pc (ecocash_body pc cred (p\<lparr>initiated_at := t'\<rparr>)) = Inr payload" for t'
    using assms(6) by (simp add: command_payment_time(2) [OF assms(5)])
  have one: "db_up w1 \<and> select_first snd (cdc_topics w1) = Some (topic, active) \<and>
    length (http_sent w) < length (http_sent w1) \<and> \<not> key_used (ic_idempotency_key cmd) w1 \<and>
    ic_payment_id cmd \<in> row_payment_id ` set (payments w1)"
    by (rule initiate_reused_id [OF assms(1-4) time(1) body assms(7)])
  then show ?thesis
    using initiate_reused_id [OF _ _ _ _ time(1) body assms(8)] by blast
qed

theorem reused_payment_id_charges_again_witness:
  "let run = initiate_handle example_pay_crates (ecocash_client example_pay_crates example_cred)
         (example_command\<lparr>ic_idempotency_key := ''new''\<rparr>);
       w1 = snd (run (example_pay_world [payment_to_row example_pay_crates example_payment]))
   in 0 < length (http_sent w1) \<and> length (http_sent w1) < length (http_sent (snd (run w1)))"
proof -
  let ?cmd = "example_command\<lparr>ic_idempotency_key := ''new''\<rparr>"
  let ?w = "example_pay_world [payment_to_row example_pay_crates example_payment]"
  have cmd: "command_payment 0 ?cmd = Inr (example_payment\<lparr>idempotency_key := ''new''\<rparr>)"
    by (simp add: command_payment_def example_command_def payment_new_def example_payment_def str_trim_def
        is_whitespace_def Let_def)
  have pre: "\<not> key_used (ic_idempotency_key ?cmd) ?w" "ic_payment_id ?cmd \<in> row_payment_id ` set (payments ?w)"
    "select_first snd (cdc_topics ?w) = Some (9, True)"
    by (simp_all add: key_used_def payment_to_row_def example_payment_def)
  from reused_payment_id_charges_again [OF example_pay_world_simps(1) pre(3,1,2) cmd example_json_to_vec
      prod.collapse [symmetric] prod.collapse [symmetric]]
  show ?thesis by (simp add: Let_def)
qed

text \<open>C16: with a valid signature, while the database answers and a topic is active, a callback for a stored
  payment, found by provider reference or else by payment id, is accepted: exactly that payment's
  row becomes the payment updated by the reported status, every other row is untouched, and one
  event with the previous and the new status is published.  In particular a failed, cancelled or
  refunded payment keeps its row whatever is reported.\<close>

theorem callback_outcome:
  assumes "decimal_laws pc" "payments_ok pc w" "db_up w" "select_first snd (cdc_topics w) = Some (topic, active)"
    "pc_verify_callback_signature cl (cc_raw_payload cmd) (cc_signature cmd)"
    "callback_target cmd (payments w) = Some r" "callback_handle pc cl cmd w = (res, w')"
  shows "\<exists>p now q row. r = payment_to_row pc p \<and>
    q = apply_provider_status now (cc_status cmd) (Some (cc_provider_reference cmd)) p \<and>
    res = Inr \<lparr>cb_payment = q, cb_accepted = True, cb_new_status = status_as_str (pay_status q)\<rparr> \<and>
    payments w' = map (\<lambda>s. if row_payment_id s = payment_id p then payment_to_row pc q else s) (payments w) \<and>
    (terminal (pay_status p) \<longrightarrow> payments w' = payments w) \<and>
    cdc_outbox w' = cdc_outbox w @ [row] \<and>
    is_outbox_row topic (callback_event_type (cc_status cmd)) (payment_id p)
      (callback_payload pc (callback_event_type (cc_status cmd)) (pay_status p) q (cc_provider_reference cmd)) row"
proof -
  obtain p now q row where run: "payment_inv p" "r = payment_to_row pc p"
      "q = apply_provider_status now (cc_status cmd) (Some (cc_provider_reference cmd)) p"
      "res = Inr \<lparr>cb_payment = q, cb_accepted = True, cb_new_status = status_as_str (pay_status q)\<rparr>"
      "payments w' = map (\<lambda>s. if row_payment_id s = payment_id p then payment_to_row pc q else s) (payments w)"
      "cdc_outbox w' = cdc_outbox w @ [row]"
      "is_outbox_row topic (callback_event_type (cc_status cmd)) (payment_id p)
        (callback_payload pc (callback_event_type (cc_status cmd)) (pay_status p) q (cc_provider_reference cmd)) row"
    using callback_run [OF assms(1-6)] unfolding assms(7) prod.inject by blast
  have mem: "payment_to_row pc p \<in> set (payments w)" using callback_target_mem [OF assms(6)] run(2) by simp
  have "payments w' = payments w" if "terminal (pay_status p)"
  proof -
    have "q = p" unfolding run(3) by (rule pay_change_terminal [OF apply_provider_status_change that])
    moreover have "s = payment_to_row pc p" if "s \<in> set (payments w)" "row_payment_id s = payment_id p" for s
      using assms(2) mem that inj_onD [of row_payment_id "set (payments w)" s "payment_to_row pc p"]
      by (simp add: payments_ok_def distinct_map)
    ultimately show ?thesis unfolding run(5) by (intro map_idI) auto
  qed
  then show ?thesis using run(2-7) by (intro exI conjI impI) assumption+
qed

definition example_open :: payment where
  "example_open = example_payment\<lparr>pay_status := Processing, provider_reference := Some ''ref''\<rparr>"

lemma example_open_ok: "payments_ok example_pay_crates (example_pay_world [payment_to_row example_pay_crates example_open])"
proof -
  have "payment_inv example_open"
    using example_payment_inv by (simp add: example_open_def payment_inv_def validate_def example_payment_def split: if_splits)
  then show ?thesis by (auto simp: payments_ok_def)
qed

theorem callback_outcome_witness:
  "\<exists>row. payments (snd (callback_handle example_pay_crates (ecocash_client example_pay_crates example_cred)
       example_callback (example_pay_world [payment_to_row example_pay_crates example_open]))) = [row] \<and>
     row_status row = ''completed''"
proof -
  let ?w = "example_pay_world [payment_to_row example_pay_crates example_open]"
  obtain res w' where run: "callback_handle example_pay_crates (ecocash_client example_pay_crates example_cred)
      example_callback ?w = (res, w')" by fastforce
  have sig: "pc_verify_callback_signature (ecocash_client example_pay_crates example_cred)
      (cc_raw_payload example_callback) (cc_signature example_callback)"
    by (simp add: ecocash_client_def ecocash_verify_def example_callback_def Let_def example_pay_crates_def)
  have target: "callback_target example_callback (payments ?w) = Some (payment_to_row example_pay_crates example_open)"
    by (simp add: callback_target_def example_callback_def select_first_def payment_to_row_def example_open_def)
  have topic: "select_first snd (cdc_topics ?w) = Some (9, True)" by simp
  obtain p now q where "payment_to_row example_pay_crates example_open = payment_to_row example_pay_crates p"
      "q = apply_provider_status now (cc_status example_callback) (Some (cc_provider_reference example_callback)) p"
      "payments w' = map (\<lambda>s. if row_payment_id s = payment_id p then payment_to_row example_pay_crates q else s) (payments ?w)"
    using callback_outcome [OF example_decimal_laws example_open_ok example_pay_world_simps(1) topic sig target run] by blast
  moreover from this have "p = example_open"
    using payment_row_roundtrip [OF example_decimal_laws] by (metis sum.inject(2))
  ultimately show ?thesis
    using run by (simp add: example_callback_def example_open_def payment_to_row_def mark_defs)
qed

text \<open>C17: EcoCash callbacks are authenticated.  A callback whose signature is not the hexadecimal
  HMAC-SHA256 of its raw payload under the merchant's secret is rejected, with nothing looked up,
  stored or published; the check covers the raw payload only, so it accepts the same signature for
  every status and provider reference.\<close>

theorem callback_authentication:
  assumes "ct_eq_laws pc"
  shows "(if cc_signature cmd = hex_encode pc (hmac_sha256 pc (as_bytes (cred_secret_key cred)) (cc_raw_payload cmd))
     then \<forall>st pref. callback_handle pc (ecocash_client pc cred) (cmd\<lparr>cc_status := st, cc_provider_reference := pref\<rparr>) w =
       callback_handle pc ((ecocash_client pc cred)\<lparr>pc_verify_callback_signature := \<lambda>_ _. True\<rparr>)
         (cmd\<lparr>cc_status := st, cc_provider_reference := pref\<rparr>) w
     else callback_handle pc (ecocash_client pc cred) cmd w =
       (Inl (ProviderError ''Invalid callback signature''), w))"
proof -
  have "pc_verify_callback_signature (ecocash_client pc cred) payload sig \<longleftrightarrow>
      sig = hex_encode pc (hmac_sha256 pc (as_bytes (cred_secret_key cred)) payload)" for payload sig
    using assms by (auto simp: ecocash_client_def ecocash_verify_def generate_signature_def Let_def ct_eq_laws_def
        as_bytes_inject)
  then show ?thesis by (simp add: callback_handle_def failE_def Let_def)
qed

theorem callback_authentication_witness:
  "callback_handle example_pay_crates (ecocash_client example_pay_crates example_cred)
     (example_callback\<lparr>cc_signature := []\<rparr>) (example_pay_world []) =
   (Inl (ProviderError ''Invalid callback signature''), example_pay_world [])"
  using callback_authentication [OF example_ct_eq_laws, of "example_callback\<lparr>cc_signature := []\<rparr>" example_cred "example_pay_world []"]
  by (simp add: example_pay_crates_def example_digest_def)

text \<open>Without an active change-data topic the outbox insert names the nil topic and violates its foreign
  key, so an initiation that EcoCash accepted answers with a database error, although the customer
  was charged and the payment is stored as processing, and no event is published.\<close>

lemma initiate_without_topic:
  assumes "db_up w" "select_first snd (cdc_topics w) = None" "uuid_nil \<notin> fst ` set (cdc_topics w)"
    "\<not> key_used (ic_idempotency_key cmd) w" "ic_payment_id cmd \<notin> row_payment_id ` set (payments w)"
    "command_payment (clock w (clock_reads w)) cmd = Inr p"
    "json_to_vec pc (ecocash_body pc cred p) = Inr payload" "ecocash_outcome pc w = Inr resp"
  shows "\<exists>w'. initiate_handle pc (ecocash_client pc cred) cmd w = (Inl (DatabaseError fk_violation), w') \<and>
    payments w' = payments w @ [payment_to_row pc (processing_payment p resp)] \<and> cdc_outbox w' = cdc_outbox w"
proof -
  have id: "payment_id p \<notin> row_payment_id ` set (payments w)"
    using command_payment_Inr [OF assms(6)] assms(5) by (simp add: fresh_payment_def)
  obtain w3 where run: "\<And>cl. initiate_handle pc cl cmd w = after_save pc cl cmd p w3" "db_frame w w3"
      "cdc_outbox w3 = cdc_outbox w" "payments w3 = payments w @ [payment_to_row pc p]"
    using initiate_until_save [OF assms(1,4,6)] upsert_fresh [of "payment_to_row pc p"] id by (metis row_payment_id_to_row)
  have w3: "db_up w3" "ecocash_outcome pc w3 = Inr resp" "cdc_topics w3 = cdc_topics w"
    using run(2) assms(8) ecocash_outcome_frame [of w3 w pc] by (simp_all add: db_frame_def)
  obtain w4 where call: "call_provider_with_retry (ecocash_client pc cred) p w3 = (Inr resp, w4)" "db_up w4"
      "payments w4 = payments w3" "cdc_topics w4 = cdc_topics w3" "cdc_outbox w4 = cdc_outbox w3"
    using ecocash_call [OF assms(7) w3(1)] w3(2) by auto
  obtain w5 where s: "save_payment pc (processing_payment p resp) w4 = (Inr (), w5)" "db_frame w4 w5"
      "cdc_outbox w5 = cdc_outbox w4" "payments w5 = payments w @ [payment_to_row pc (processing_payment p resp)]"
    using save_up [OF call(2), of pc "processing_payment p resp"] call(3) run(4)
      upsert_last [OF id, where q = "processing_payment p resp" and pc = pc] by auto
  have w5: "db_up w5" "select_first snd (cdc_topics w5) = None" "uuid_nil \<notin> fst ` set (cdc_topics w5)"
    using s(2) call(4) w3(3) assms(2,3) by (simp_all add: db_frame_def)
  obtain w6 where "append_outbox ''PaymentInitiated'' (payment_id p)
      (initiated_payload pc (processing_payment p resp) (pr_provider_reference resp))
      (ic_idempotency_key cmd @ ''-initiated'') (tenant_id (processing_payment p resp)) w5 =
      (Inl (DatabaseError fk_violation), w6)" "payments w6 = payments w5" "cdc_outbox w6 = cdc_outbox w5"
    using append_outbox_no_topic [OF w5] by blast
  moreover from this have "after_save pc (ecocash_client pc cred) cmd p w3 = (Inl (DatabaseError fk_violation), w6)"
    using call(1) s(1) command_payment_pending [OF assms(6)]
    by (simp add: after_save_def bindE_apply attemptE_def liftE_def Let_def mark_processing_def processing_payment_def)
  ultimately show ?thesis using run(1,3) s(3,4) call(5) by simp
qed

lemma initiate_without_topic_example:
  "fst (initiate_handle example_pay_crates (ecocash_client example_pay_crates example_cred) example_command
     ((example_pay_world [])\<lparr>cdc_topics := []\<rparr>)) = Inl (DatabaseError fk_violation)"
proof -
  let ?w = "(example_pay_world [])\<lparr>cdc_topics := []\<rparr>"
  have pre: "db_up ?w" "select_first snd (cdc_topics ?w) = None" "uuid_nil \<notin> fst ` set (cdc_topics ?w)"
    "\<not> key_used (ic_idempotency_key example_command) ?w"
    "ic_payment_id example_command \<notin> row_payment_id ` set (payments ?w)"
    by (simp_all add: example_pay_world_def db_up_def select_first_def key_used_def)
  have "ecocash_outcome example_pay_crates ?w =
      Inr \<lparr>pr_provider_reference = ''ref'', pr_status = PsPending, pr_message = None\<rparr>"
    using example_outcome [of "[]"] by (simp add: ecocash_outcome_def)
  from initiate_without_topic [OF pre example_command_payment example_json_to_vec this, of example_cred] show ?thesis
    by (elim exE conjE) simp
qed

text \<open>Amounts survive the wire.  An amount in cents read from a request and sent back in a response is the
  same number of cents, for every 64-bit amount, and a request without an amount is rejected.\<close>

lemma money_cents_roundtrip:
  assumes "in_i64 (pm_amount_cents m)" "proto_money_to_decimal (Some m) = Inr d"
  shows "map_proto_money d (pm_currency_code m) = Some (m\<lparr>pm_currency := 0\<rparr>) \<and>
    (mantissa d > 0) = (pm_amount_cents m > 0) \<and>
    proto_money_to_decimal None = Inl (mk_status Code_InvalidArgument ''Amount is required'')"
proof -
  have d: "d = Decimal (pm_amount_cents m) 2" using assms(2) by (simp add: proto_money_to_decimal_def)
  have "trunc_div (x * 100) 100 = x" for x by (simp add: trunc_div_def abs_mult sgn_mult sgn_mult_abs)
  then show ?thesis using assms(1) d by (simp add: map_proto_money_def proto_money_to_decimal_def Let_def)
qed

lemma money_cents_roundtrip_example:
  "map_proto_money (Decimal (- 1234) 2) ''USD'' = Some \<lparr>pm_currency_code = ''USD'', pm_amount_cents = - 1234, pm_currency = 0\<rparr>"
  using money_cents_roundtrip [of "\<lparr>pm_currency_code = ''USD'', pm_amount_cents = - 1234, pm_currency = 5\<rparr>" "Decimal (- 1234) 2"]
  by (simp add: in_i64_def proto_money_to_decimal_def)

text \<open>C14: whatever the provider answers, the retried call of the EcoCash client ends: it sends at most three requests,
  pauses at most twice, for one and two seconds and less than half a second of jitter each, so for less
  than four seconds in all, and leaves the payments and the outbox alone.\<close>

theorem provider_retry_terminates:
  "\<exists>w' n j. snd (call_provider_with_retry (ecocash_client pc cred) p w) = w' \<and> n \<le> 2 \<and> range j \<subseteq> {..<500} \<and>
     pauses w' = pauses w @ map (\<lambda>k. 2 ^ k * 1000 + j k) [0..<n] \<and>
     sum_list (map (\<lambda>k. 2 ^ k * 1000 + j k) [0..<n]) < 4000 \<and>
     length (http_sent w') \<le> length (http_sent w) + 3 \<and> payments w' = payments w \<and> cdc_outbox w' = cdc_outbox w"
proof -
  let ?w = "snd (call_provider_with_retry (ecocash_client pc cred) p w)"
  obtain n j where nj: "n \<le> 2" "range j \<subseteq> {..<500}" "pauses ?w = pauses w @ map (\<lambda>k. 2 ^ k * 1000 + j k) [0..<n]"
    using eco.call_provider_pauses [of pc cred p w] by blast
  have "j 0 < 500" "j (Suc 0) < 500" using nj(2) by auto
  moreover have "n = 0 \<or> n = 1 \<or> n = 2" using nj(1) by auto
  ultimately have "sum_list (map (\<lambda>k. 2 ^ k * 1000 + j k) [0..<n]) < 4000" by (auto simp: numeral_2_eq_2)
  then show ?thesis
    using nj eco.call_provider_frame [where pc = pc and cred = cred and p = p and w = w]
    by (intro exI [of _ ?w] exI [of _ n] exI [of _ j]) (simp add: tables_frame_def)
qed

end
