(* ===== verification/Payment_Refinement.thy ===== *)
theory Payment_Refinement
  imports Payment_Properties
begin

text \<open>
  The payment engine as an implementation of an abstract machine.  The machine holds a payment per
  identifier and has two moves: a new identifier gets a valid pending payment, and a payment it
  holds goes through one transition of its life cycle.  The service's remote procedures, over the
  rows of the payments table, with database statements failing anywhere and any answers of the
  provider, make such moves only, as long as initiations come with new identifiers.
\<close>

section \<open>Triples\<close>

text \<open>From \<open>P\<close>, the program returns a value with \<open>Q\<close> or fails with \<open>E\<close>.\<close>

definition triple :: "('w \<Rightarrow> bool) \<Rightarrow> ('w, 'e, 'a) eff \<Rightarrow> ('a \<Rightarrow> 'w \<Rightarrow> bool) \<Rightarrow> ('w \<Rightarrow> bool) \<Rightarrow> bool" where
  "triple P m Q E \<longleftrightarrow> (\<forall>w. P w \<longrightarrow> (case m w of (Inr a, w') \<Rightarrow> Q a w' | (Inl _, w') \<Rightarrow> E w'))"

lemma triple_bindE:
  "triple P m R E \<Longrightarrow> (\<And>a. triple (R a) (f a) Q E) \<Longrightarrow> triple P (bindE m f) Q E"
  by (fastforce simp: triple_def bindE_def split: prod.splits sum.splits)

lemma triple_okE: "(\<And>w. P w \<Longrightarrow> Q a w) \<Longrightarrow> triple P (okE a) Q E"
  by (simp add: triple_def okE_def)

lemma triple_failE: "(\<And>w. P w \<Longrightarrow> E w) \<Longrightarrow> triple P (failE e) Q E"
  by (simp add: triple_def failE_def)

lemma triple_bind_liftE:
  "(\<And>w. P w \<Longrightarrow> E w) \<Longrightarrow> (\<And>a. r = Inr a \<Longrightarrow> triple P (f a) Q E) \<Longrightarrow> triple P (bindE (liftE r) f) Q E"
  by (cases r) (simp_all add: triple_def liftE_def bindE_def)

lemma triple_map_errE: "triple P m Q E \<Longrightarrow> triple P (map_errE g m) Q E"
  by (fastforce simp: triple_def map_errE_def split: prod.splits sum.splits)

lemma triple_attemptE: "triple P m (\<lambda>_. E) E \<Longrightarrow> triple P (attemptE m) (\<lambda>_. E) E"
  by (fastforce simp: triple_def attemptE_def split: prod.splits sum.splits)

lemma triple_pre: "triple P m Q E \<Longrightarrow> (\<And>w. P' w \<Longrightarrow> P w) \<Longrightarrow> triple P' m Q E"
  by (simp add: triple_def)

lemma triple_case:
  "(\<And>e. r = Inl e \<Longrightarrow> triple P (f e) Q E) \<Longrightarrow> (\<And>a. r = Inr a \<Longrightarrow> triple P (g a) Q E) \<Longrightarrow>
   triple P (case r of Inl e \<Rightarrow> f e | Inr a \<Rightarrow> g a) Q E"
  "(ov = None \<Longrightarrow> triple P h Q E) \<Longrightarrow> (\<And>b. ov = Some b \<Longrightarrow> triple P (k b) Q E) \<Longrightarrow>
   triple P (case ov of None \<Rightarrow> h | Some b \<Rightarrow> k b) Q E"
  by (auto split: sum.splits option.splits)

text \<open>Programs that do not touch the payments table keep every predicate on it.\<close>

definition same_payments :: "payment_world \<Rightarrow> payment_world \<Rightarrow> bool" where
  "same_payments w w' \<longleftrightarrow> payments w' = payments w"

lemma same_payments_rel: "reflp same_payments" "transp same_payments"
  by (auto simp: same_payments_def intro!: reflpI transpI)

lemma triple_frame:
  assumes "keeps same_payments m" "reads_payments P" "\<And>w. P w \<Longrightarrow> E w" "reads_payments E"
  shows "triple P m (\<lambda>_. P) E"
  unfolding triple_def
proof (intro allI impI)
  fix w assume P: "P w"
  obtain r w' where m: "m w = (r, w')" by fastforce
  have "payments w' = payments w" using keepsD [OF assms(1) m] by (simp add: same_payments_def)
  then have "P w'" "E w'" using reads_paymentsD [OF assms(2) P] reads_paymentsD [OF assms(4) assms(3) [OF P]] by blast+
  then show "case m w of (Inr a, w') \<Rightarrow> P w' | (Inl _, w') \<Rightarrow> E w'" using m by (cases r) simp_all
qed

lemma same_payments_db_op: "(\<And>w. payments (snd (f w)) = payments w) \<Longrightarrow> keeps same_payments (db_op f)"
  by (simp add: keeps_def same_payments_def db_op_def Let_def split_beta split: option.splits)

lemma same_payments_steps:
  "keeps same_payments utc_now" "keeps same_payments new_v4" "keeps same_payments (db_query q)"
  "keeps same_payments (db_exec id)" "keeps same_payments (set_tenant t)"
  by (auto simp: keeps_def same_payments_def set_tenant_def db_exec_def db_query_def db_op_def utc_now_def new_v4_def
      map_errE_def Let_def split: option.splits)

lemmas same_payments_rules = keeps_bindE [OF same_payments_rel(2)] keeps_pure [OF same_payments_rel(1)] keeps_wrap
  same_payments_steps same_payments_db_op

lemma same_payments_lookups:
  "keeps same_payments (find_by_idempotency_key pc t k)" "keeps same_payments (get_payment_by_provider_ref pc ot pref)"
  "keeps same_payments (get_payment_by_id pc t pid)" "keeps same_payments (get_payment_by_id_untenantized pc pid)"
  unfolding find_by_idempotency_key_def get_payment_by_provider_ref_def get_payment_by_id_def get_payment_by_id_untenantized_def
  by (auto intro!: same_payments_rules split: option.splits)

lemma same_payments_outbox: "keeps same_payments (append_outbox ev aid payload k t)"
  unfolding append_outbox_def insert_outbox_row_def by (intro same_payments_rules) simp

context provider_contract
begin

lemma same_payments_provider: "keeps same_payments (call_provider_with_retry cl p)"
  using call_provider_frame(1) by (auto simp: keeps_def same_payments_def tables_frame_def)

end

section \<open>The abstract machine\<close>

inductive machine_step :: "(uuid \<rightharpoonup> payment) \<Rightarrow> (uuid \<rightharpoonup> payment) \<Rightarrow> bool" where
  create: "A (payment_id p) = None \<Longrightarrow> payment_inv p \<Longrightarrow> pay_status p = Pending \<Longrightarrow> machine_step A (A(payment_id p \<mapsto> p))"
| change: "A (payment_id p) = Some p \<Longrightarrow> pay_change p q \<Longrightarrow> machine_step A (A(payment_id p \<mapsto> q))"

text \<open>The payments the table holds, read the way the repository reads its rows.\<close>

definition stored :: "'x pay_crates_scheme \<Rightarrow> payment_world \<Rightarrow> uuid \<rightharpoonup> payment" where
  "stored pc w pid =
     (case transpose_row pc (select_first (\<lambda>r. row_payment_id r = pid) (payments w)) of Inr p \<Rightarrow> p | Inl _ \<Rightarrow> None)"

lemma stored_iff:
  assumes "decimal_laws pc" "payments_ok pc w"
  shows "stored pc w pid = Some p \<longleftrightarrow> payment_to_row pc p \<in> set (payments w) \<and> payment_id p = pid"
proof
  assume "stored pc w pid = Some p"
  then have "transpose_row pc (select_first (\<lambda>r. row_payment_id r = pid) (payments w)) = Inr (Some p)"
    by (auto simp: stored_def split: sum.splits)
  from transpose_row_ok [OF assms this] show "payment_to_row pc p \<in> set (payments w) \<and> payment_id p = pid"
    by (auto simp: payment_to_row_def)
next
  assume p: "payment_to_row pc p \<in> set (payments w) \<and> payment_id p = pid"
  have id: "row_payment_id (payment_to_row pc p) = pid" using p by (simp add: payment_to_row_def)
  have inj: "inj_on row_payment_id (set (payments w))" using assms(2) by (simp add: payments_ok_def distinct_map)
  have "select_first (\<lambda>r. row_payment_id r = pid) (payments w) = Some r \<Longrightarrow> r = payment_to_row pc p" for r
    using select_first_Some [of "\<lambda>r. row_payment_id r = pid" "payments w" r] p id inj_onD [OF inj, of r "payment_to_row pc p"]
    by auto
  moreover have "select_first (\<lambda>r. row_payment_id r = pid) (payments w) \<noteq> None"
    using p id unfolding select_first_None by blast
  ultimately have "select_first (\<lambda>r. row_payment_id r = pid) (payments w) = Some (payment_to_row pc p)" by auto
  then show "stored pc w pid = Some p"
    using payment_row_roundtrip [OF assms(1), of p] by (simp add: stored_def transpose_row_def)
qed

lemma stored_None:
  assumes "decimal_laws pc" "payments_ok pc w"
  shows "stored pc w pid = None \<longleftrightarrow> pid \<notin> row_payment_id ` set (payments w)"
proof -
  have "(\<exists>p. stored pc w pid = Some p) \<longleftrightarrow> pid \<in> row_payment_id ` set (payments w)"
  proof
    assume "pid \<in> row_payment_id ` set (payments w)"
    then obtain r where r: "r \<in> set (payments w)" "row_payment_id r = pid" by blast
    moreover from this obtain p where "r = payment_to_row pc p" using assms(2) by (auto simp: payments_ok_def)
    ultimately show "\<exists>p. stored pc w pid = Some p" unfolding stored_iff [OF assms] by auto
  qed (auto simp: stored_iff [OF assms] image_iff intro: bexI [of _ "payment_to_row pc _"])
  then show ?thesis by auto
qed

lemma stored_cong: "payments w' = payments w \<Longrightarrow> stored pc w' = stored pc w"
  by (simp add: stored_def fun_eq_iff)

lemma to_row_inject: "decimal_laws pc \<Longrightarrow> payment_to_row pc p = payment_to_row pc q \<longleftrightarrow> p = q"
  using payment_row_roundtrip by (metis sum.inject(2))

lemma option_eqI: "(\<And>a. x = Some a \<longleftrightarrow> y = Some a) \<Longrightarrow> x = y"
  by (metis not_None_eq)

text \<open>Saving a payment under a new identifier, and over its own row.\<close>

lemma stored_save_new:
  assumes "decimal_laws pc" "payments_ok pc w" "stored pc w (payment_id p) = None" "payment_inv p"
    "payments w' = upsert_by row_payment_id merge_payment_row (payment_to_row pc p) (payments w)"
  shows "payments_ok pc w' \<and> stored pc w' = (stored pc w)(payment_id p \<mapsto> p)"
proof -
  have ok: "payments_ok pc w'" using payments_ok_upsert [OF assms(2,4)] assms(5) by (simp add: payments_ok_def)
  have tab: "payments w' = payments w @ [payment_to_row pc p]"
    using assms(3,5) stored_None [OF assms(1,2)] by (simp add: upsert_by_new)
  have new: "payment_id q \<noteq> payment_id p" if "payment_to_row pc q \<in> set (payments w)" for q
    using assms(3) that stored_iff [OF assms(1,2), of "payment_id p" q] by auto
  have "stored pc w' pid = ((stored pc w)(payment_id p \<mapsto> p)) pid" for pid
  proof (rule option_eqI)
    fix q show "stored pc w' pid = Some q \<longleftrightarrow> ((stored pc w)(payment_id p \<mapsto> p)) pid = Some q"
      using new by (auto simp: stored_iff [OF assms(1) ok] stored_iff [OF assms(1,2)] tab to_row_inject [OF assms(1)])
  qed
  then show ?thesis using ok by blast
qed

lemma stored_save_change:
  assumes "decimal_laws pc" "payments_ok pc w" "stored pc w (payment_id p) = Some p" "fixed_fields q = fixed_fields p" "payment_inv q"
    "payments w' = upsert_by row_payment_id merge_payment_row (payment_to_row pc q) (payments w)"
  shows "payments_ok pc w' \<and> stored pc w' = (stored pc w)(payment_id p \<mapsto> q)"
proof -
  have ok: "payments_ok pc w'" using payments_ok_upsert [OF assms(2,5)] assms(6) by (simp add: payments_ok_def)
  have id: "payment_id q = payment_id p" using assms(4) by (simp add: fixed_fields_def)
  have mem: "payment_to_row pc p \<in> set (payments w)" using assms(3) stored_iff [OF assms(1,2)] by blast
  then have tab: "payments w' = map (\<lambda>r. if row_payment_id r = payment_id p then payment_to_row pc q else r) (payments w)"
    using upsert_own_row [OF assms(2) _ assms(4)] assms(6) by simp
  have rows: "r \<in> set (payments w') \<longleftrightarrow> r = payment_to_row pc q \<or> row_payment_id r \<noteq> payment_id p \<and> r \<in> set (payments w)" for r
    using mem id unfolding tab by (force simp: image_iff)
  have "stored pc w' pid = ((stored pc w)(payment_id p \<mapsto> q)) pid" for pid
  proof (rule option_eqI)
    fix s show "stored pc w' pid = Some s \<longleftrightarrow> ((stored pc w)(payment_id p \<mapsto> q)) pid = Some s"
      using id by (auto simp: stored_iff [OF assms(1) ok] stored_iff [OF assms(1,2)] rows to_row_inject [OF assms(1)])
  qed
  then show ?thesis using ok by blast
qed

section \<open>The simulation\<close>

text \<open>The table stands for a state the machine reaches from \<open>A\<close>; with a payment in it, or an identifier not in it.\<close>

definition simulated :: "'x pay_crates_scheme \<Rightarrow> (uuid \<rightharpoonup> payment) \<Rightarrow> payment_world \<Rightarrow> bool" where
  "simulated pc A w \<longleftrightarrow> payments_ok pc w \<and> machine_step\<^sup>*\<^sup>* A (stored pc w)"

definition holding :: "'x pay_crates_scheme \<Rightarrow> (uuid \<rightharpoonup> payment) \<Rightarrow> payment \<Rightarrow> payment_world \<Rightarrow> bool" where
  "holding pc A p w \<longleftrightarrow> simulated pc A w \<and> stored pc w (payment_id p) = Some p"

definition lacking :: "'x pay_crates_scheme \<Rightarrow> (uuid \<rightharpoonup> payment) \<Rightarrow> uuid \<Rightarrow> payment_world \<Rightarrow> bool" where
  "lacking pc A pid w \<longleftrightarrow> simulated pc A w \<and> stored pc w pid = None"

lemma simulation_reads:
  "reads_payments (simulated pc A)" "reads_payments (holding pc A p)" "reads_payments (lacking pc A pid)"
  by (simp_all add: reads_payments_def simulated_def holding_def lacking_def payments_ok_def)
    (metis stored_cong)+

lemma simulation_weaken: "holding pc A p w \<Longrightarrow> simulated pc A w" "lacking pc A pid w \<Longrightarrow> simulated pc A w"
  by (simp_all add: holding_def lacking_def)

lemma simulation_frame:
  assumes "keeps same_payments m"
  shows "triple (simulated pc A) m (\<lambda>_. simulated pc A) (simulated pc A)"
    "triple (holding pc A p) m (\<lambda>_. holding pc A p) (simulated pc A)"
    "triple (lacking pc A pid) m (\<lambda>_. lacking pc A pid) (simulated pc A)"
  by (rule triple_frame [OF assms simulation_reads(1) _ simulation_reads(1)]
      triple_frame [OF assms simulation_reads(2) _ simulation_reads(1)]
      triple_frame [OF assms simulation_reads(3) _ simulation_reads(1)]; simp add: simulation_weaken)+

text \<open>Both statements of a save may fail; only the second changes the table.\<close>

lemma triple_save:
  assumes "reads_payments P" "\<And>w. P w \<Longrightarrow> E w" "reads_payments E" "reads_payments Q"
    "\<And>w. P w \<Longrightarrow> Q (w\<lparr>payments := upsert_by row_payment_id merge_payment_row (payment_to_row pc p) (payments w)\<rparr>)"
  shows "triple P (save_payment pc p) (\<lambda>_. Q) E"
  unfolding save_payment_def
proof (rule triple_bindE [OF triple_frame [OF same_payments_steps(5) assms(1-3)]])
  let ?u = "\<lambda>w. w\<lparr>payments := upsert_by row_payment_id merge_payment_row (payment_to_row pc p) (payments w)\<rparr>"
  have "P (w\<lparr>db_calls := n\<rparr>)" "E (w\<lparr>db_calls := n\<rparr>)" if "P w" for w n
    using reads_paymentsD [OF assms(1) that, of "w\<lparr>db_calls := n\<rparr>"] assms(2) by simp_all
  moreover from this(1) have "Q (?u (w\<lparr>db_calls := n\<rparr>))" if "P w" for w n using assms(5) that by blast
  ultimately show "triple P (map_errE DatabaseError (db_exec ?u)) (\<lambda>_. Q) E"
    by (auto simp: triple_def map_errE_def db_exec_def db_op_def Let_def split: option.splits)
qed

lemma triple_save_new:
  assumes "decimal_laws pc" "payment_inv p" "pay_status p = Pending"
  shows "triple (lacking pc A (payment_id p)) (save_payment pc p) (\<lambda>_. holding pc A p) (simulated pc A)"
proof (rule triple_save [OF simulation_reads(3) simulation_weaken(2) simulation_reads(1,2)])
  fix w :: payment_world
  let ?w' = "w\<lparr>payments := upsert_by row_payment_id merge_payment_row (payment_to_row pc p) (payments w)\<rparr>"
  assume w: "lacking pc A (payment_id p) w"
  then have "payments_ok pc w" "stored pc w (payment_id p) = None" by (simp_all add: lacking_def simulated_def)
  then have s: "payments_ok pc ?w' \<and> stored pc ?w' = (stored pc w)(payment_id p \<mapsto> p)"
    by (rule stored_save_new [OF assms(1) _ _ assms(2)]) simp
  have "machine_step (stored pc w) ((stored pc w)(payment_id p \<mapsto> p))"
    using w assms(2,3) by (auto simp: lacking_def intro: machine_step.create)
  then show "holding pc A p ?w'"
    using w s by (auto simp: lacking_def holding_def simulated_def intro: rtranclp.rtrancl_into_rtrancl)
qed

lemma machine_changes:
  "pay_change\<^sup>*\<^sup>* p q \<Longrightarrow> A (payment_id p) = Some p \<Longrightarrow> machine_step\<^sup>*\<^sup>* A (A(payment_id p \<mapsto> q))"
proof (induction rule: rtranclp_induct)
  case base
  then show ?case by (simp add: fun_upd_idem)
next
  case (step q r)
  have "payment_id q = payment_id p"
    using step.hyps(1) by (induction rule: rtranclp_induct) (use pay_change_fixed in \<open>auto simp: fixed_fields_def\<close>)
  then have "machine_step (A(payment_id p \<mapsto> q)) (A(payment_id p \<mapsto> r))"
    using machine_step.change [of "A(payment_id p \<mapsto> q)" q r] step.hyps(2) by simp
  then show ?case by (rule rtranclp_trans [OF step.IH [OF step.prems] r_into_rtranclp])
qed

lemma changes_inv: "pay_change\<^sup>*\<^sup>* p q \<Longrightarrow> payment_inv p \<Longrightarrow> payment_inv q \<and> fixed_fields q = fixed_fields p"
  by (induction rule: rtranclp_induct) (auto dest: payment_inv_step pay_change_fixed)

lemma triple_save_change:
  assumes "decimal_laws pc" "pay_change\<^sup>*\<^sup>* p q"
  shows "triple (holding pc A p) (save_payment pc q) (\<lambda>_. simulated pc A) (simulated pc A)"
proof (rule triple_save [OF simulation_reads(2) simulation_weaken(1) simulation_reads(1,1)])
  fix w :: payment_world
  let ?w' = "w\<lparr>payments := upsert_by row_payment_id merge_payment_row (payment_to_row pc q) (payments w)\<rparr>"
  assume w: "holding pc A p w"
  then have ok: "payments_ok pc w" "stored pc w (payment_id p) = Some p" by (simp_all add: holding_def simulated_def)
  then have "payment_inv p"
    using stored_iff [OF assms(1) ok(1), of "payment_id p" p] to_row_inject [OF assms(1)] by (auto simp: payments_ok_def)
  then have "payment_inv q" "fixed_fields q = fixed_fields p" using changes_inv [OF assms(2)] by simp_all
  then have "payments_ok pc ?w' \<and> stored pc ?w' = (stored pc w)(payment_id p \<mapsto> q)"
    by (intro stored_save_change [OF assms(1) ok]) simp_all
  then show "simulated pc A ?w'"
    using w machine_changes [OF assms(2), of "stored pc w"] ok(2) by (auto simp: holding_def simulated_def intro: rtranclp_trans)
qed

lemma lookup_holding:
  assumes "decimal_laws pc" "simulated pc A w" "transpose_row pc (select_first P (payments w)) = Inr (Some p)"
  shows "holding pc A p w"
proof -
  have ok: "payments_ok pc w" using assms(2) by (simp add: simulated_def)
  from transpose_row_ok [OF assms(1) ok assms(3)] show ?thesis
    using assms(2) stored_iff [OF assms(1) ok] by (simp add: holding_def)
qed

text \<open>A lookup returns a payment the table holds.\<close>

lemma triple_select:
  assumes "decimal_laws pc"
  shows "triple (simulated pc A) (bindE (map_errE DatabaseError (db_query (\<lambda>w. select_first P (payments w))))
      (\<lambda>row. liftE (transpose_row pc row))) (\<lambda>r w. simulated pc A w \<and> (\<forall>p. r = Some p \<longrightarrow> holding pc A p w)) (simulated pc A)"
  unfolding triple_def
proof (intro allI impI)
  fix w :: payment_world assume w: "simulated pc A w"
  let ?w' = "w\<lparr>db_calls := Suc (db_calls w)\<rparr>"
  have w': "simulated pc A ?w'" by (rule reads_paymentsD [OF simulation_reads(1) w]) simp
  show "case bindE (map_errE DatabaseError (db_query (\<lambda>w. select_first P (payments w)))) (\<lambda>row. liftE (transpose_row pc row)) w of
      (Inr a, w') \<Rightarrow> simulated pc A w' \<and> (\<forall>p. a = Some p \<longrightarrow> holding pc A p w') | (Inl _, w') \<Rightarrow> simulated pc A w'"
    using w' lookup_holding [OF assms w', of P]
    by (cases "db_fault w (db_calls w)") (auto simp: bindE_apply map_errE_def liftE_def split: sum.splits)
qed

lemma triple_lookups:
  assumes "decimal_laws pc"
  shows "triple (simulated pc A) (get_payment_by_provider_ref pc ot pref)
      (\<lambda>r w. simulated pc A w \<and> (\<forall>p. r = Some p \<longrightarrow> holding pc A p w)) (simulated pc A)"
    and "triple (simulated pc A) (get_payment_by_id pc t pid)
      (\<lambda>r w. simulated pc A w \<and> (\<forall>p. r = Some p \<longrightarrow> holding pc A p w)) (simulated pc A)"
  unfolding get_payment_by_provider_ref_def get_payment_by_id_def
  by (auto intro!: triple_bindE [OF simulation_frame(1)] triple_select [OF assms] same_payments_rules split: option.splits)

lemma triple_callback_lookup:
  assumes "decimal_laws pc"
  shows "triple (simulated pc A) (callback_lookup pc cmd) (holding pc A) (simulated pc A)"
  unfolding callback_lookup_def
  by (intro triple_bindE [OF triple_lookups(1) [OF assms]] triple_case triple_okE triple_failE
      triple_bindE [OF triple_pre [OF triple_lookups(2) [OF assms]]]) auto

context provider_contract
begin

lemma triple_after_save:
  assumes "decimal_laws pc"
  shows "triple (holding pc A p) (after_save pc cl cmd p) (\<lambda>_. simulated pc A) (simulated pc A)"
proof -
  have ok: "pay_change\<^sup>*\<^sup>* p (p1\<lparr>provider_reference := Some x\<rparr>)" if "mark_processing p = Inr p1" for p1 x
  proof -
    have "pay_status p1 = Processing" using that by (auto simp: mark_processing_def split: if_splits)
    then show ?thesis using mark_change(1) [OF that] pay_change.to_referenced by (meson converse_rtranclp_into_rtranclp r_into_rtranclp)
  qed
  have bad: "pay_change\<^sup>*\<^sup>* p (or_same (mark_failed now e p) p)" for now e
    by (blast intro: or_same_change mark_change)
  note save = triple_bindE [OF triple_save_change [OF assms]]
  note frame = triple_bindE [OF simulation_frame(1) [OF same_payments_outbox]]
    triple_bindE [OF simulation_frame(1) [OF keeps_wrap(2) [OF same_payments_outbox]]]
    triple_bindE [OF simulation_frame(2) [OF same_payments_steps(1)]]
    triple_bindE [OF simulation_frame(2) [OF keeps_wrap(3) [OF same_payments_provider]]]
  show ?thesis
    unfolding after_save_def Let_def
    by (intro frame triple_case triple_bind_liftE save triple_okE triple_failE ok bad) (auto simp: simulation_weaken(1))
qed

lemma triple_initiate_handle:
  assumes "decimal_laws pc"
  shows "triple (lacking pc A (ic_payment_id cmd)) (initiate_handle pc cl cmd) (\<lambda>_. simulated pc A) (simulated pc A)"
proof -
  have save: "triple (lacking pc A (ic_payment_id cmd)) (save_payment pc p) (\<lambda>_. holding pc A p) (simulated pc A)"
    if "command_payment now cmd = Inr p" for now p
  proof -
    have "payment_id p = ic_payment_id cmd" using command_payment_Inr [OF that] by (simp add: fresh_payment_def)
    then show ?thesis
      using triple_save_new [OF assms command_payment_inv [OF that] command_payment_pending [OF that], of A] by simp
  qed
  note frame = triple_bindE [OF simulation_frame(3) [OF same_payments_lookups(1)]]
    triple_bindE [OF simulation_frame(3) [OF same_payments_steps(1)]]
  show ?thesis
    unfolding initiate_handle_eq
    by (intro frame triple_case triple_bind_liftE triple_bindE [OF save] triple_after_save [OF assms] triple_failE)
      (auto simp: simulation_weaken(2))
qed

lemma triple_callback_handle:
  assumes "decimal_laws pc"
  shows "triple (simulated pc A) (callback_handle pc cl cb) (\<lambda>_. simulated pc A) (simulated pc A)"
proof -
  have change: "pay_change\<^sup>*\<^sup>* p (apply_provider_status now s r p)" for p now s r
    by (blast intro: apply_provider_status_change)
  note frame = triple_bindE [OF triple_callback_lookup [OF assms]] triple_bindE [OF simulation_frame(2) [OF same_payments_steps(1)]]
    triple_bindE [OF simulation_frame(1) [OF same_payments_outbox]]
  have "triple (simulated pc A) (failE e :: (payment_world, payment_error, callback_result) eff) (\<lambda>_. simulated pc A) (simulated pc A)" for e
    by (rule triple_failE)
  then show ?thesis
    unfolding callback_handle_def Let_def
    by (auto intro!: frame triple_bindE [OF triple_save_change [OF assms change]] triple_okE)
qed

end

section \<open>Requests\<close>

text \<open>The identifier an initiation request is going to use, its own or a random one.\<close>

definition request_payment_id :: "'x pay_crates_scheme \<Rightarrow> initiate_request \<Rightarrow> payment_world \<Rightarrow> uuid" where
  "request_payment_id pc req w =
     (case payment_parse_uuid pc (iq_payment_id req) of Inr u \<Rightarrow> u | Inl _ \<Rightarrow> uuid_supply w (uuids_made w))"

text \<open>The requests a client makes that never names the identifier of a stored payment again.\<close>

inductive fresh_step :: "'x pay_crates_scheme \<Rightarrow> provider_client \<Rightarrow> payment_world \<Rightarrow> payment_world \<Rightarrow> bool"
  for pc :: "'x pay_crates_scheme" and cl :: provider_client where
  initiate: "request_payment_id pc req w \<notin> row_payment_id ` set (payments w) \<Longrightarrow>
    fresh_step pc cl w (snd (grpc_initiate_payment pc cl req w))"
| callback: "fresh_step pc cl w (snd (grpc_process_callback pc cl cb w))"
| query: "fresh_step pc cl w (snd (grpc_get_payment_status pc st w))"

lemma tripleD: "triple P m (\<lambda>_. E) E \<Longrightarrow> P w \<Longrightarrow> E (snd (m w))"
  by (cases "m w"; cases "fst (m w)") (auto simp: triple_def dest!: spec [of _ w])

context provider_contract
begin

lemma simulated_initiate:
  assumes "decimal_laws pc" "simulated pc A w" "stored pc w (request_payment_id pc req w) = None"
  shows "simulated pc A (snd (grpc_initiate_payment pc cl req w))"
proof -
  let ?pid = "request_payment_id pc req w"
  have "triple (\<lambda>v. v = w) (case payment_parse_uuid pc (iq_payment_id req) of Inr u \<Rightarrow> okE u | Inl _ \<Rightarrow> new_v4)
      (lacking pc A) (simulated pc A)"
    using assms(2,3) reads_paymentsD [OF simulation_reads(3) [of pc A ?pid], of w]
    by (auto simp: triple_def request_payment_id_def okE_def new_v4_def lacking_def split: sum.splits)
  then have "triple (\<lambda>v. v = w) (grpc_initiate_payment pc cl req) (\<lambda>_. simulated pc A) (simulated pc A)"
    unfolding grpc_initiate_payment_def Let_def
    by (intro triple_bind_liftE triple_bindE [OF _ triple_bind_liftE]
        triple_bindE [OF triple_map_errE [OF triple_pre [OF triple_initiate_handle [OF assms(1)]]]] triple_okE)
      (auto simp: assms(2) simulation_weaken(2))
  then show ?thesis by (rule tripleD) simp
qed

lemma simulated_callback:
  assumes "decimal_laws pc" "simulated pc A w"
  shows "simulated pc A (snd (grpc_process_callback pc cl cb w))"
proof -
  have look: "keeps same_payments (grpc_callback_lookup pc tr pref pid)" for tr pref pid
    unfolding grpc_callback_lookup_def by (auto intro!: same_payments_rules same_payments_lookups split: sum.splits option.splits)
  have pid: "keeps same_payments (if cq_payment_id cb = [] then okE None
      else bindE (liftE (payment_parse_uuid pc (cq_payment_id cb))) (\<lambda>u. okE (Some u)))"
    by (auto intro!: same_payments_rules)
  have "triple (simulated pc A) (grpc_process_callback pc cl cb) (\<lambda>_. simulated pc A) (simulated pc A)"
    unfolding grpc_process_callback_def Let_def
    by (intro triple_bindE [OF simulation_frame(1) [OF pid]] triple_bind_liftE triple_bindE [OF simulation_frame(1) [OF look]]
        triple_case triple_okE triple_bindE [OF triple_attemptE [OF triple_callback_handle [OF assms(1)]]])
  then show ?thesis using assms(2) by (rule tripleD)
qed

lemma simulated_query:
  assumes "simulated pc A w"
  shows "simulated pc A (snd (grpc_get_payment_status pc st w))"
proof -
  have "keeps same_payments (grpc_get_payment_status pc st)"
    unfolding grpc_get_payment_status_def Let_def by (intro same_payments_rules same_payments_lookups)
  then have "triple (simulated pc A) (grpc_get_payment_status pc st) (\<lambda>_. simulated pc A) (simulated pc A)"
    by (rule simulation_frame(1))
  then show ?thesis using assms by (rule tripleD)
qed

lemma fresh_run_simulated:
  assumes "decimal_laws pc" "(fresh_step pc cl)\<^sup>*\<^sup>* w w'" "payments_ok pc w"
  shows "payments_ok pc w' \<and> machine_step\<^sup>*\<^sup>* (stored pc w) (stored pc w')"
proof -
  have "simulated pc (stored pc w) w'"
    using assms(2)
  proof (induction rule: rtranclp_induct)
    case base
    then show ?case using assms(3) by (simp add: simulated_def)
  next
    case (step x y)
    from step.hyps(2) show ?case
    proof (cases rule: fresh_step.cases)
      case (initiate req)
      then have "stored pc x (request_payment_id pc req x) = None"
        using stored_None [OF assms(1)] step.IH by (simp add: simulated_def)
      then show ?thesis using simulated_initiate [OF assms(1) step.IH] initiate by simp
    qed (use simulated_callback [OF assms(1) step.IH] simulated_query [OF step.IH] in simp_all)
  qed
  then show ?thesis by (simp add: simulated_def)
qed

end

section \<open>Property\<close>

lemma machine_run_keeps:
  "machine_step\<^sup>*\<^sup>* A B \<Longrightarrow> A pid = Some p \<Longrightarrow> \<exists>q. B pid = Some q \<and> pay_change\<^sup>*\<^sup>* p q"
proof (induction rule: rtranclp_induct)
  case (step B C)
  then obtain q where q: "B pid = Some q" "pay_change\<^sup>*\<^sup>* p q" by blast
  from step.hyps(2) show ?case
  proof (cases rule: machine_step.cases)
    case (change p' q')
    then show ?thesis using q by (cases "pid = payment_id p'") (auto intro: rtranclp.rtrancl_into_rtrancl)
  qed (use q in auto)
qed auto

lemma changes_terminal: "pay_change\<^sup>*\<^sup>* p q \<Longrightarrow> terminal (pay_status p) \<Longrightarrow> q = p"
  by (induction rule: rtranclp_induct) (auto dest: pay_change_terminal)

text \<open>C9: the payment service refines the abstract machine.  Whatever requests arrive, as long as
  initiations come with new identifiers, and wherever database statements fail in between, the
  payments table goes only through states the machine reaches: new payments start valid and
  pending, no stored payment is lost, each of them only ever moves along its life cycle, and one
  that failed, was cancelled or was refunded never changes again.\<close>

theorem payment_service_refines_machine:
  assumes "decimal_laws pc" "payments_ok pc w" "(fresh_step pc (ecocash_client pc cred))\<^sup>*\<^sup>* w w'"
  shows "machine_step\<^sup>*\<^sup>* (stored pc w) (stored pc w') \<and>
    (\<forall>pid p. stored pc w pid = Some p \<longrightarrow> (\<exists>q. stored pc w' pid = Some q \<and> pay_change\<^sup>*\<^sup>* p q \<and>
       (terminal (pay_status p) \<longrightarrow> q = p)))"
  using eco.fresh_run_simulated [OF assms(1,3,2)] machine_run_keeps changes_terminal by metis

theorem payment_service_refines_machine_witness:
  "machine_step\<^sup>*\<^sup>* Map.empty (stored example_pay_crates (snd (grpc_initiate_payment example_pay_crates
     (ecocash_client example_pay_crates example_cred) example_request (example_pay_world []))))"
proof -
  let ?w = "example_pay_world []"
  have empty: "payments ?w = []" by simp
  then have none: "payments_ok example_pay_crates ?w" "stored example_pay_crates ?w = Map.empty"
    by (auto simp: payments_ok_def stored_def select_first_def transpose_row_def)
  have "fresh_step example_pay_crates (ecocash_client example_pay_crates example_cred) ?w
      (snd (grpc_initiate_payment example_pay_crates (ecocash_client example_pay_crates example_cred) example_request ?w))"
    by (rule fresh_step.initiate) (simp add: empty)
  from payment_service_refines_machine [OF example_decimal_laws none(1)
      r_into_rtranclp [where r = "fresh_step example_pay_crates (ecocash_client example_pay_crates example_cred)", OF this]] none(2)
  show ?thesis by simp
qed

end
