(* ===== verification/Audit_Engine.thy ===== *)
theory Audit_Engine
  imports Merkle Wire Tables
begin

text \<open>
  The audit service (audit/src): the event store, the transaction log and the batch hashes it reads
  and writes (infrastructure/postgres.rs), the signing backends (signing.rs, signing_backend.rs), the
  handlers (application/audit.rs), the gRPC port (ports/grpc.rs) and the daily job of main.rs.
\<close>

section \<open>Errors, crates and tables\<close>

datatype audit_error =
    Database string
  | EventNotFound string
  | BatchNotFound string
  | HashChainBroken string
  | InvalidDateRange string
  | ExportFailed string
  | Serialization string
  | Internal string

fun audit_error_to_string :: "audit_error \<Rightarrow> string" where
  "audit_error_to_string (Database e) = ''Database error: '' @ e"
| "audit_error_to_string (EventNotFound e) = ''Event not found: '' @ e"
| "audit_error_to_string (BatchNotFound e) = ''Batch not found for date: '' @ e"
| "audit_error_to_string (HashChainBroken e) = ''Hash chain broken at transaction: '' @ e"
| "audit_error_to_string (InvalidDateRange e) = ''Invalid date range: '' @ e"
| "audit_error_to_string (ExportFailed e) = ''Export generation failed: '' @ e"
| "audit_error_to_string (Serialization e) = ''Serialization error: '' @ e"
| "audit_error_to_string (Internal e) = ''Internal error: '' @ e"

definition audit_status :: "audit_error \<Rightarrow> status" where
  "audit_status err = mk_status
     (case err of
        EventNotFound _ \<Rightarrow> Code_NotFound
      | BatchNotFound _ \<Rightarrow> Code_NotFound
      | HashChainBroken _ \<Rightarrow> Code_FailedPrecondition
      | InvalidDateRange _ \<Rightarrow> Code_InvalidArgument
      | _ \<Rightarrow> Code_Internal) (audit_error_to_string err)"

text \<open>A handler fails with an error or panics on an index out of range.\<close>

datatype audit_fail = AuditErr audit_error | AuditPanic

definition or_audit_panic :: "'a option \<Rightarrow> ('w, audit_fail, 'a) eff" where
  "or_audit_panic x = (case x of None \<Rightarrow> failE AuditPanic | Some a \<Rightarrow> okE a)"

text \<open>
  What the service takes from elsewhere: PostgreSQL's hexadecimal SHA-256 of the text of a JSON
  document, chrono's \<open>from_timestamp\<close>, the text of a UUID parse error, and ed25519-dalek's signing,
  strict verification and verifying key.
\<close>

record audit_crates = crates +
  payload_digest :: "json \<Rightarrow> string"
  from_timestamp :: "int \<Rightarrow> int \<Rightarrow> datetime option"
  uuid_error :: "string \<Rightarrow> string"
  ed_sign :: "bytes \<Rightarrow> bytes \<Rightarrow> bytes"
  ed_verifying_key :: "bytes \<Rightarrow> bytes"
  ed_verify_strict :: "bytes \<Rightarrow> bytes \<Rightarrow> bytes \<Rightarrow> bool"

text \<open>A signature is 64 bytes long and verifies under the key that made it.\<close>

definition ed25519_laws :: "'x audit_crates_scheme \<Rightarrow> bool" where
  "ed25519_laws ac \<longleftrightarrow> (\<forall>k x. length (ed_sign ac k x) = 64) \<and>
     (\<forall>k x. ed_verify_strict ac (ed_verifying_key ac k) x (ed_sign ac k x))"

record event_row =
  es_event_id :: uuid
  es_event_type :: string
  es_sequence_number :: int
  es_payload :: json
  es_occurred_at :: datetime

record event_record =
  er_event_id :: uuid
  er_event_type :: string
  er_sequence_number :: int
  er_payload :: json
  er_record_hash :: string
  er_previous_hash :: "string option"
  er_occurred_at :: datetime

record transaction_record =
  tx_transaction_id :: int
  tx_transaction_uuid :: uuid
  tx_record_hash :: string
  tx_previous_hash :: "string option"
  tx_committed_at :: datetime

text \<open>A date counts days from the Unix epoch.  The row has the signature columns as well.\<close>

record batch_hash_record =
  bh_batch_id :: uuid
  bh_batch_date :: int
  bh_batch_hash :: string
  bh_record_count :: int
  bh_source_data_hash :: string
  bh_computed_at :: datetime
  bh_previous_batch_hash :: "string option"

record batch_row = batch_hash_record +
  br_signature :: "bytes option"
  br_key_id :: "string option"

record change_row =
  cl_table_name :: string
  cl_record_id :: uuid
  cl_audit_id :: uuid
  cl_operation :: string
  cl_old_data :: "json option"
  cl_new_data :: "json option"
  cl_changed_at :: datetime
  cl_record_hash :: string
  cl_previous_hash :: "string option"

record export_row =
  ex_export_id :: uuid
  ex_reference :: string
  ex_application_id :: uuid
  ex_requested_by :: uuid
  ex_scope_type :: string
  ex_scope_criteria :: json
  ex_file_location :: string
  ex_file_checksum :: string
  ex_signature :: bytes

record check_row =
  ck_check_type :: string
  ck_date_from :: int
  ck_date_to :: int
  ck_status :: string
  ck_records_checked :: int
  ck_records_failed :: int
  ck_failure_details :: "json option"
  ck_at :: datetime
  ck_duration_ms :: int

text \<open>
  \<open>batch_update_guard\<close> is the error a trigger on \<open>integrity.batch_hashes\<close> raises for an update, if
  the schema has such a trigger; \<open>pg_random\<close> supplies \<open>gen_random_bytes\<close>.
\<close>

record audit_world = db_world +
  event_store :: "event_row list"
  transaction_log :: "transaction_record list"
  batch_hashes :: "batch_row list"
  batch_update_guard :: "string option"
  change_log :: "change_row list"
  audit_exports :: "export_row list"
  consistency_checks :: "check_row list"
  pg_random :: "nat \<Rightarrow> bytes"

text \<open>A query whose failure is \<open>AuditError::Database\<close>.\<close>

abbreviation queryA :: "(audit_world \<Rightarrow> 'a) \<Rightarrow> (audit_world, audit_fail, 'a) eff" where
  "queryA q \<equiv> map_errE (AuditErr \<circ> Database) (db_query q)"

abbreviation execA :: "(audit_world \<Rightarrow> audit_world) \<Rightarrow> (audit_world, audit_fail, unit) eff" where
  "execA u \<equiv> map_errE (AuditErr \<circ> Database) (db_exec u)"

section \<open>The repository\<close>

definition to_event_record :: "'x audit_crates_scheme \<Rightarrow> event_row \<Rightarrow> event_record" where
  "to_event_record ac r = \<lparr>er_event_id = es_event_id r, er_event_type = es_event_type r,
     er_sequence_number = es_sequence_number r, er_payload = es_payload r,
     er_record_hash = payload_digest ac (es_payload r), er_previous_hash = None,
     er_occurred_at = es_occurred_at r\<rparr>"

text \<open>\<open>lag(...) over (order by sequence_number)\<close>, on records in that order.\<close>

fun lag_hashes :: "string option \<Rightarrow> event_record list \<Rightarrow> event_record list" where
  "lag_hashes prev [] = []"
| "lag_hashes prev (e # es) = e\<lparr>er_previous_hash := prev\<rparr> # lag_hashes (Some (er_record_hash e)) es"

text \<open>Rows with equal sequence numbers are read in table order.\<close>

definition fetch_events_for_range ::
  "'x audit_crates_scheme \<Rightarrow> datetime \<Rightarrow> datetime \<Rightarrow> (audit_world, audit_fail, event_record list) eff" where
  "fetch_events_for_range ac fr to =
     queryA (\<lambda>w. lag_hashes None (map (to_event_record ac) (sort_key es_sequence_number
       (filter (\<lambda>r. fr \<le> es_occurred_at r \<and> es_occurred_at r < to) (event_store w)))))"

definition fetch_events_by_ids ::
  "'x audit_crates_scheme \<Rightarrow> uuid list \<Rightarrow> (audit_world, audit_fail, event_record list) eff" where
  "fetch_events_by_ids ac ids =
     (if ids = [] then okE []
      else queryA (\<lambda>w. map (to_event_record ac) (sort_key es_sequence_number
        (filter (\<lambda>r. es_event_id r \<in> set ids) (event_store w)))))"

definition fetch_event ::
  "'x audit_crates_scheme \<Rightarrow> uuid option \<Rightarrow> int option \<Rightarrow> (audit_world, audit_fail, event_record option) eff" where
  "fetch_event ac eid seq =
     (case eid of
        Some i \<Rightarrow> queryA (\<lambda>w. map_option (to_event_record ac)
                     (select_first (\<lambda>r. es_event_id r = i) (event_store w)))
      | None \<Rightarrow>
          (case seq of
             Some s \<Rightarrow> queryA (\<lambda>w. map_option (to_event_record ac)
                          (select_first (\<lambda>r. es_sequence_number r = s) (event_store w)))
           | None \<Rightarrow> okE None))"

text \<open>
  \<open>WITH RECURSIVE\<close>: the working table of depth \<open>n + 1\<close> joins every row of depth \<open>n\<close> with the
  transactions whose record hash is its previous hash, while \<open>n < max_depth\<close>.
\<close>

definition chain_step :: "transaction_record list \<Rightarrow> transaction_record list \<Rightarrow> transaction_record list" where
  "chain_step log level = concat (map (\<lambda>c. filter (\<lambda>t. tx_previous_hash c = Some (tx_record_hash t)) log) level)"

function chain_levels ::
  "transaction_record list \<Rightarrow> int \<Rightarrow> int \<Rightarrow> transaction_record list \<Rightarrow> transaction_record list" where
  "chain_levels log max_depth depth level =
     (if level = [] then []
      else level @ (if depth < max_depth then chain_levels log max_depth (depth + 1) (chain_step log level) else []))"
  by pat_completeness auto
termination by (relation "measure (\<lambda>(log, m, d, level). nat (m - d))") auto

declare chain_levels.simps [simp del]

definition fetch_transactions_for_chain ::
  "uuid \<Rightarrow> int \<Rightarrow> (audit_world, audit_fail, transaction_record list) eff" where
  "fetch_transactions_for_chain tx max_depth =
     queryA (\<lambda>w. chain_levels (transaction_log w) max_depth 1
       (filter (\<lambda>t. tx_transaction_uuid t = tx) (transaction_log w)))"

definition leaf_hashes :: "'x audit_crates_scheme \<Rightarrow> event_record list \<Rightarrow> bytes list" where
  "leaf_hashes ac events = map (\<lambda>e. sha256_digest ac (as_bytes (er_record_hash e))) events"

definition source_hash :: "'x audit_crates_scheme \<Rightarrow> event_record list \<Rightarrow> string" where
  "source_hash ac events =
     (if events = [] then hex_encode ac (sha256_digest ac [])
      else hex_encode ac (sha256_digest ac (concat (map (\<lambda>e. as_bytes (er_record_hash e)) events))))"

text \<open>\<open>ORDER BY batch_date DESC LIMIT 1\<close> below the date.\<close>

definition previous_batch :: "int \<Rightarrow> batch_row list \<Rightarrow> string option" where
  "previous_batch date rows = map_option bh_batch_hash
     (last_opt (sort_key bh_batch_date (filter (\<lambda>r. bh_batch_date r < date) rows)))"

definition merge_batch_row :: "batch_row \<Rightarrow> batch_row \<Rightarrow> batch_row" where
  "merge_batch_row new old = old\<lparr>bh_batch_hash := bh_batch_hash new, bh_record_count := bh_record_count new,
     bh_source_data_hash := bh_source_data_hash new, bh_computed_at := bh_computed_at new,
     bh_previous_batch_hash := bh_previous_batch_hash new\<rparr>"

text \<open>The insert; a conflict would be an update, which the guard may reject.\<close>

definition insert_batch :: "batch_row \<Rightarrow> (audit_world, audit_fail, unit) eff" where
  "insert_batch row =
     map_errE (AuditErr \<circ> Database) (bindE (db_op (\<lambda>w.
       if bh_batch_date row \<in> bh_batch_date ` set (batch_hashes w) \<and> batch_update_guard w \<noteq> None
       then (Inl (the (batch_update_guard w)), w)
       else (Inr (), w\<lparr>batch_hashes := upsert_by bh_batch_date merge_batch_row row (batch_hashes w)\<rparr>))) liftE)"

definition get_or_compute_batch_hash ::
  "'x audit_crates_scheme \<Rightarrow> int \<Rightarrow> (audit_world, audit_fail, batch_hash_record) eff" where
  "get_or_compute_batch_hash ac date =
     bindE (queryA (\<lambda>w. select_first (\<lambda>r. bh_batch_date r = date) (batch_hashes w))) (\<lambda>existing.
     case existing of
       Some row \<Rightarrow> okE (batch_hash_record.truncate row)
     | None \<Rightarrow>
         (let fr = date * day_nanos; to = fr + day_nanos in
          bindE (fetch_events_for_range ac fr to) (\<lambda>events.
          bindE (or_audit_panic (build_merkle_tree (sha256_digest ac) (leaf_hashes ac events))) (\<lambda>(root, _).
          bindE (queryA (\<lambda>w. previous_batch date (batch_hashes w))) (\<lambda>prev.
          bindE new_v4 (\<lambda>batch_id.
          bindE utc_now (\<lambda>computed_at.
          let rec = \<lparr>bh_batch_id = batch_id, bh_batch_date = date, bh_batch_hash = hex_encode ac root,
                     bh_record_count = as_i32 (int (length events)),
                     bh_source_data_hash = source_hash ac events, bh_computed_at = computed_at,
                     bh_previous_batch_hash = prev\<rparr>
          in bindE (insert_batch (batch_hash_record.extend rec \<lparr>br_signature = None, br_key_id = None\<rparr>)) (\<lambda>_.
             okE rec))))))))"

text \<open>\<open>LIMIT\<close> and \<open>OFFSET\<close>; PostgreSQL rejects a negative one.\<close>

definition sql_page :: "int \<Rightarrow> int \<Rightarrow> 'a list \<Rightarrow> string + 'a list" where
  "sql_page limit offset xs =
     (if limit < 0 then Inl ''LIMIT must not be negative''
      else if offset < 0 then Inl ''OFFSET must not be negative''
      else Inr (take (nat limit) (drop (nat offset) xs)))"

record audit_trail_record =
  at_audit_id :: uuid
  at_event_type :: string
  at_action :: string
  at_old_data :: "json option"
  at_new_data :: "json option"
  at_timestamp :: datetime
  at_record_hash :: string
  at_previous_hash :: "string option"

definition to_trail_record :: "change_row \<Rightarrow> audit_trail_record" where
  "to_trail_record r = \<lparr>at_audit_id = cl_audit_id r, at_event_type = cl_operation r, at_action = cl_operation r,
     at_old_data = cl_old_data r, at_new_data = cl_new_data r, at_timestamp = cl_changed_at r,
     at_record_hash = cl_record_hash r, at_previous_hash = cl_previous_hash r\<rparr>"

definition fetch_audit_trail ::
  "uuid \<Rightarrow> string \<Rightarrow> int \<Rightarrow> int \<Rightarrow> (audit_world, audit_fail, audit_trail_record list) eff" where
  "fetch_audit_trail record_id table limit offset =
     map_errE (AuditErr \<circ> Database) (bindE (db_select (\<lambda>w. sql_page limit offset
       (sort_key (\<lambda>r. - cl_changed_at r)
         (filter (\<lambda>r. cl_record_id r = record_id \<and> cl_table_name r = table) (change_log w))))) (\<lambda>rows.
     okE (map to_trail_record rows)))"

definition repo_stream_audit_events ::
  "'x audit_crates_scheme \<Rightarrow> datetime \<Rightarrow> string list \<Rightarrow> (audit_world, audit_fail, event_record list) eff" where
  "repo_stream_audit_events ac fr types =
     (if types = []
      then queryA (\<lambda>w. map (to_event_record ac) (sort_key es_sequence_number
             (filter (\<lambda>r. fr \<le> es_occurred_at r) (event_store w))))
      else queryA (\<lambda>w. map (to_event_record ac) (sort_key es_sequence_number
             (filter (\<lambda>r. fr \<le> es_occurred_at r \<and> es_event_type r \<in> set types) (event_store w)))))"

text \<open>The sixteen bytes of a UUID, most significant first, and a reference made of eight of them.\<close>

definition uuid_as_bytes :: "uuid \<Rightarrow> bytes" where
  "uuid_as_bytes u = map (\<lambda>i. ucast (drop_bit (8 * (15 - i)) u)) [0..<16]"

definition fresh_reference :: "'x audit_crates_scheme \<Rightarrow> string \<Rightarrow> uuid \<Rightarrow> string" where
  "fresh_reference ac prefix u = prefix @ take 16 (hex_encode ac (uuid_as_bytes u))"

definition create_audit_export ::
  "'x audit_crates_scheme \<Rightarrow> uuid \<Rightarrow> uuid \<Rightarrow> string \<Rightarrow> json \<Rightarrow> string \<Rightarrow> (audit_world, audit_fail, uuid \<times> string) eff" where
  "create_audit_export ac application_id requested_by scope_type criteria file_checksum =
     bindE (execA id) (\<lambda>_.
     bindE new_v4 (\<lambda>export_id.
     bindE new_v4 (\<lambda>u.
     let reference = fresh_reference ac ''AUD-'' u;
         file_location = ''/exports/'' @ reference @ ''.json''
     in bindE (execA (\<lambda>w. w\<lparr>audit_exports := audit_exports w @ [\<lparr>ex_export_id = export_id,
             ex_reference = reference, ex_application_id = application_id, ex_requested_by = requested_by,
             ex_scope_type = scope_type, ex_scope_criteria = criteria, ex_file_location = file_location,
             ex_file_checksum = file_checksum, ex_signature = pg_random w (length (audit_exports w))\<rparr>]\<rparr>)) (\<lambda>_.
        okE (export_id, reference)))))"

definition update_batch_signature :: "uuid \<Rightarrow> bytes \<Rightarrow> string \<Rightarrow> (audit_world, audit_fail, unit) eff" where
  "update_batch_signature batch_id signature key_id =
     bindE utc_now (\<lambda>now.
     map_errE (AuditErr \<circ> Database) (bindE (db_op (\<lambda>w.
       if batch_id \<in> bh_batch_id ` set (batch_hashes w) \<and> batch_update_guard w \<noteq> None
       then (Inl (the (batch_update_guard w)), w)
       else (Inr (), w\<lparr>batch_hashes := update_where (\<lambda>r. bh_batch_id r = batch_id)
              (\<lambda>r. r\<lparr>br_signature := Some signature, br_key_id := Some key_id, bh_computed_at := now\<rparr>)
              (batch_hashes w)\<rparr>))) liftE))"

definition record_consistency_check ::
  "string \<Rightarrow> int \<Rightarrow> int \<Rightarrow> string \<Rightarrow> int \<Rightarrow> int \<Rightarrow> json option \<Rightarrow> int \<Rightarrow> (audit_world, audit_fail, unit) eff" where
  "record_consistency_check check_type date_from date_to st checked failed details duration =
     bindE utc_now (\<lambda>now.
     execA (\<lambda>w. w\<lparr>consistency_checks := consistency_checks w @ [\<lparr>ck_check_type = check_type,
       ck_date_from = date_from, ck_date_to = date_to, ck_status = st, ck_records_checked = checked,
       ck_records_failed = failed, ck_failure_details = details, ck_at = now, ck_duration_ms = duration\<rparr>]\<rparr>))"

section \<open>Signing\<close>

record signing_backend =
  sb_sign :: "bytes \<Rightarrow> audit_error + bytes"
  sb_verify :: "bytes \<Rightarrow> bytes \<Rightarrow> audit_error + bool"
  sb_public_key_fingerprint :: string
  sb_key_id :: string

definition software_verify :: "'x audit_crates_scheme \<Rightarrow> bytes \<Rightarrow> bytes \<Rightarrow> bytes \<Rightarrow> audit_error + bool" where
  "software_verify ac signing_key msg signature =
     (if length signature \<noteq> 64 then Inr False
      else Inr (ed_verify_strict ac (ed_verifying_key ac signing_key) msg signature))"

definition software_backend :: "'x audit_crates_scheme \<Rightarrow> string \<Rightarrow> bytes \<Rightarrow> signing_backend" where
  "software_backend ac key_id signing_key = \<lparr>sb_sign = (\<lambda>msg. Inr (ed_sign ac signing_key msg)),
     sb_verify = software_verify ac signing_key,
     sb_public_key_fingerprint = hex_encode ac (take 16 (ed_verifying_key ac signing_key)),
     sb_key_id = key_id\<rparr>"

definition hsm_backend :: "string \<Rightarrow> signing_backend" where
  "hsm_backend key_id = \<lparr>sb_sign = (\<lambda>_. Inl (Internal ''HSM signing not yet implemented'')),
     sb_verify = (\<lambda>_ _. Inl (Internal ''HSM verify not yet implemented'')),
     sb_public_key_fingerprint = ''hsm-stub-fingerprint'', sb_key_id = key_id\<rparr>"

definition sign_batch_hash :: "signing_backend \<Rightarrow> string \<Rightarrow> audit_error + bytes \<times> string" where
  "sign_batch_hash sb batch_hash =
     (case sb_sign sb (as_bytes batch_hash) of
        Inl e \<Rightarrow> Inl e
      | Inr signature \<Rightarrow> Inr (signature, sb_public_key_fingerprint sb))"

definition verify_batch_hash :: "signing_backend \<Rightarrow> string \<Rightarrow> bytes \<Rightarrow> audit_error + bool" where
  "verify_batch_hash sb batch_hash signature = sb_verify sb (as_bytes batch_hash) signature"

section \<open>Handlers\<close>

definition compute_daily_batch ::
  "'x audit_crates_scheme \<Rightarrow> signing_backend \<Rightarrow> int \<Rightarrow> (audit_world, audit_fail, batch_hash_record) eff" where
  "compute_daily_batch ac sb date =
     bindE (get_or_compute_batch_hash ac date) (\<lambda>rec.
     bindE (map_errE AuditErr (liftE (sign_batch_hash sb (bh_batch_hash rec)))) (\<lambda>(signature, key_id).
     bindE (update_batch_signature (bh_batch_id rec) signature key_id) (\<lambda>_.
     okE rec)))"

record merkle_proof_result =
  mp_event_id :: string
  mp_target_id :: string
  mp_sequence_number :: int
  mp_merkle_root :: bytes
  mp_proof_hashes :: "bytes list"
  mp_valid :: bool
  mp_computed_at :: datetime
  mp_signature :: string
  mp_signer_key_id :: string

text \<open>\<open>Iterator::position\<close>\<close>

fun position :: "('a \<Rightarrow> bool) \<Rightarrow> 'a list \<Rightarrow> nat option" where
  "position P [] = None"
| "position P (x # xs) = (if P x then Some 0 else map_option Suc (position P xs))"

definition parse_event_id :: "'x audit_crates_scheme \<Rightarrow> string option \<Rightarrow> audit_error + uuid option" where
  "parse_event_id ac event_id =
     (case event_id of
        None \<Rightarrow> Inr None
      | Some s \<Rightarrow> (case uuid_parse ac s of Some u \<Rightarrow> Inr (Some u) | None \<Rightarrow> Inl (Internal (uuid_error ac s))))"

definition lookup_key :: "string option \<Rightarrow> int option \<Rightarrow> string" where
  "lookup_key event_id seq =
     (case event_id of Some s \<Rightarrow> s | None \<Rightarrow> (case seq of Some n \<Rightarrow> show_int n | None \<Rightarrow> []))"

definition audit_get_merkle_proof ::
  "'x audit_crates_scheme \<Rightarrow> string option \<Rightarrow> string option \<Rightarrow> int option \<Rightarrow>
   (audit_world, audit_fail, merkle_proof_result) eff" where
  "audit_get_merkle_proof ac transaction_id event_id seq =
     bindE (map_errE AuditErr (liftE (parse_event_id ac event_id))) (\<lambda>target.
     bindE (fetch_event ac target seq) (\<lambda>found.
     bindE (liftE (case found of None \<Rightarrow> Inl (AuditErr (EventNotFound (lookup_key event_id seq)))
                   | Some e \<Rightarrow> Inr e)) (\<lambda>event.
     let fr = er_occurred_at event div day_nanos * day_nanos; to = fr + day_nanos in
     bindE (fetch_events_for_range ac fr to) (\<lambda>day_events.
     if day_events = [] then failE (AuditErr (EventNotFound (uuid_to_string ac (er_event_id event))))
     else
       let leaves = leaf_hashes ac day_events in
       bindE (or_audit_panic (build_merkle_tree (sha256_digest ac) leaves)) (\<lambda>(root, tree).
       bindE (liftE (case position (\<lambda>e. er_event_id e = er_event_id event) day_events of
                None \<Rightarrow> Inl (AuditErr (EventNotFound (uuid_to_string ac (er_event_id event))))
              | Some i \<Rightarrow> Inr i)) (\<lambda>leaf_index.
       bindE (or_audit_panic (merkle_proof tree (length leaves) leaf_index)) (\<lambda>proof_hashes.
       let valid = verify_merkle_proof (sha256_digest ac)
             (sha256_digest ac (as_bytes (er_record_hash event))) leaf_index proof_hashes root in
       bindE utc_now (\<lambda>now.
       okE \<lparr>mp_event_id = uuid_to_string ac (er_event_id event),
            mp_target_id = unwrap_or transaction_id (uuid_to_string ac (er_event_id event)),
            mp_sequence_number = er_sequence_number event, mp_merkle_root = root,
            mp_proof_hashes = proof_hashes, mp_valid = valid, mp_computed_at = now,
            mp_signature = [], mp_signer_key_id = []\<rparr>))))))))"

record ledger_checksum_result =
  lc_merkle_root :: bytes
  lc_event_count :: int
  lc_computed_at :: datetime
  lc_checksum_id :: string
  lc_latest_sequence_number :: int
  lc_total_events :: int
  lc_signature :: string
  lc_signer_key_id :: string

definition audit_get_ledger_checksum ::
  "'x audit_crates_scheme \<Rightarrow> datetime \<Rightarrow> datetime \<Rightarrow> (audit_world, audit_fail, ledger_checksum_result) eff" where
  "audit_get_ledger_checksum ac from_date to_date =
     (if from_date > to_date
      then failE (AuditErr (InvalidDateRange ''from_date must be before to_date''))
      else
        bindE (fetch_events_for_range ac from_date to_date) (\<lambda>events.
        bindE (or_audit_panic (build_merkle_tree (sha256_digest ac) (leaf_hashes ac events))) (\<lambda>(root, _).
        let max_seq = (if events = [] then 0 else Max (set (map er_sequence_number events))) in
        bindE utc_now (\<lambda>now.
        bindE new_v4 (\<lambda>u.
        okE \<lparr>lc_merkle_root = root, lc_event_count = as_i64 (int (length events)), lc_computed_at = now,
             lc_checksum_id = fresh_reference ac ''CHK-'' u, lc_latest_sequence_number = max_seq,
             lc_total_events = as_i64 (int (length events)), lc_signature = [], lc_signer_key_id = []\<rparr>)))))"

record integrity_violation =
  iv_transaction_id :: string
  iv_expected_hash :: string
  iv_actual_hash :: string
  iv_violation_type :: string

record batch_integrity_result =
  bi_valid :: bool
  bi_computed_root :: string
  bi_period_start :: "datetime option"
  bi_period_end :: "datetime option"
  bi_total_transactions :: int
  bi_verified_transactions :: int
  bi_failed_transactions :: int
  bi_is_fully_valid :: bool
  bi_previous_batch_hash :: "string option"
  bi_violations :: "integrity_violation list"

definition audit_verify_batch_integrity ::
  "'x audit_crates_scheme \<Rightarrow> int \<Rightarrow> int \<Rightarrow> string option \<Rightarrow> (audit_world, audit_fail, batch_integrity_result) eff" where
  "audit_verify_batch_integrity ac start_event_id end_event_id expected_root_hex =
     (if start_event_id > end_event_id
      then failE (AuditErr (InvalidDateRange ''start_event_id must be <= end_event_id''))
      else
        bindE utc_now (\<lambda>now.
        bindE (fetch_events_for_range ac 0 (now + 365 * 10 * day_nanos)) (\<lambda>all_events.
        let events = filter (\<lambda>e. start_event_id \<le> er_sequence_number e \<and> er_sequence_number e \<le> end_event_id) all_events in
        bindE (or_audit_panic (build_merkle_tree (sha256_digest ac) (leaf_hashes ac events))) (\<lambda>(computed_root, _).
        let computed_root_hex = hex_encode ac computed_root;
            valid = (case expected_root_hex of
                       None \<Rightarrow> True | Some exp \<Rightarrow> to_lowercase exp = to_lowercase computed_root_hex);
            n = as_i64 (int (length events)) in
        okE \<lparr>bi_valid = valid, bi_computed_root = computed_root_hex,
             bi_period_start = map_option er_occurred_at (first_opt events),
             bi_period_end = map_option er_occurred_at (last_opt events),
             bi_total_transactions = n, bi_verified_transactions = (if valid then n else 0),
             bi_failed_transactions = (if valid then 0 else n), bi_is_fully_valid = valid,
             bi_previous_batch_hash = None,
             bi_violations = (if \<not> valid then
               [\<lparr>iv_transaction_id = unwrap_or (map_option (\<lambda>e. uuid_to_string ac (er_event_id e)) (first_opt events)) [],
                 iv_expected_hash = unwrap_or expected_root_hex [], iv_actual_hash = computed_root_hex,
                 iv_violation_type = ''ROOT_MISMATCH''\<rparr>] else [])\<rparr>))))"

record chain_report_result =
  ch_start_transaction_id :: string
  ch_is_valid :: bool
  ch_chain_length :: int
  ch_broken_at_transaction_id :: "string option"
  ch_expected_hash :: "string option"
  ch_actual_hash :: "string option"

text \<open>The loop over the records: the first one whose previous hash is not its predecessor's record hash.\<close>

fun first_broken :: "transaction_record list \<Rightarrow> (transaction_record \<times> transaction_record) option" where
  "first_broken (prev # rec # recs) =
     (if tx_previous_hash rec \<noteq> Some (tx_record_hash prev) then Some (prev, rec) else first_broken (rec # recs))"
| "first_broken _ = None"

definition audit_verify_transaction_chain ::
  "'x audit_crates_scheme \<Rightarrow> string \<Rightarrow> int \<Rightarrow> (audit_world, audit_fail, chain_report_result) eff" where
  "audit_verify_transaction_chain ac transaction_id max_depth =
     bindE (liftE (case uuid_parse ac transaction_id of
              None \<Rightarrow> Inl (AuditErr (Internal (uuid_error ac transaction_id))) | Some u \<Rightarrow> Inr u)) (\<lambda>tx.
     bindE (fetch_transactions_for_chain tx max_depth) (\<lambda>records.
     if records = [] then failE (AuditErr (EventNotFound transaction_id))
     else okE (case first_broken records of
         None \<Rightarrow> \<lparr>ch_start_transaction_id = transaction_id, ch_is_valid = True,
           ch_chain_length = as_i32 (int (length records)), ch_broken_at_transaction_id = None,
           ch_expected_hash = None, ch_actual_hash = None\<rparr>
       | Some (prev, rec) \<Rightarrow> \<lparr>ch_start_transaction_id = transaction_id, ch_is_valid = False,
           ch_chain_length = as_i32 (int (length records)),
           ch_broken_at_transaction_id = Some (uuid_to_string ac (tx_transaction_uuid rec)),
           ch_expected_hash = Some (tx_record_hash prev), ch_actual_hash = tx_previous_hash rec\<rparr>)))"

record audit_trail_result =
  ar_audit_id :: string
  ar_event_type :: string
  ar_action :: string
  ar_old_data :: "json option"
  ar_new_data :: "json option"
  ar_timestamp :: datetime
  ar_record_hash :: string
  ar_previous_hash :: "string option"

definition audit_get_audit_trail ::
  "'x audit_crates_scheme \<Rightarrow> string \<Rightarrow> string \<Rightarrow> int \<Rightarrow> string \<Rightarrow> (audit_world, audit_fail, audit_trail_result list) eff" where
  "audit_get_audit_trail ac record_id table page_size page_token =
     bindE (liftE (case uuid_parse ac record_id of
              None \<Rightarrow> Inl (AuditErr (Internal (uuid_error ac record_id))) | Some u \<Rightarrow> Inr u)) (\<lambda>rid.
     let offset = unwrap_or (parse_i32 page_token) 0;
         limit = (if page_size > 0 then page_size else 50) in
     bindE (fetch_audit_trail rid table limit offset) (\<lambda>records.
     okE (map (\<lambda>r. \<lparr>ar_audit_id = uuid_to_string ac (at_audit_id r), ar_event_type = at_event_type r,
       ar_action = at_action r, ar_old_data = at_old_data r, ar_new_data = at_new_data r,
       ar_timestamp = at_timestamp r, ar_record_hash = at_record_hash r,
       ar_previous_hash = at_previous_hash r\<rparr>) records)))"

text \<open>The types of the report are collected through a hash set, so they are a set here.\<close>

record audit_report_result =
  rp_report_id :: string
  rp_total_events :: int
  rp_included_event_types :: "string set"
  rp_generated_at :: datetime
  rp_checksum :: string

definition audit_get_audit_report ::
  "'x audit_crates_scheme \<Rightarrow> string \<Rightarrow> datetime \<Rightarrow> datetime \<Rightarrow> string list \<Rightarrow> (audit_world, audit_fail, audit_report_result) eff" where
  "audit_get_audit_report ac tenant_id from_date to_date event_types =
     bindE (fetch_events_for_range ac from_date to_date) (\<lambda>events.
     let filtered = (if event_types = [] then events
                     else filter (\<lambda>e. er_event_type e \<in> set event_types) events);
         checksum = hex_encode ac (sha256_digest ac (concat (map (\<lambda>e. as_bytes (er_record_hash e)) filtered))) in
     bindE new_v4 (\<lambda>u.
     bindE utc_now (\<lambda>now.
     okE \<lparr>rp_report_id = fresh_reference ac ''RPT-'' u, rp_total_events = as_i64 (int (length filtered)),
          rp_included_event_types = set (map er_event_type filtered), rp_generated_at = now,
          rp_checksum = checksum\<rparr>)))"

record audit_export_result =
  xr_report_id :: string
  xr_download_url :: string
  xr_checksum :: string
  xr_signature :: bytes
  xr_expires_at :: datetime

definition audit_export_audit_report ::
  "'x audit_crates_scheme \<Rightarrow> string \<Rightarrow> string \<Rightarrow> (audit_world, audit_fail, audit_export_result) eff" where
  "audit_export_audit_report ac report_id tenant_id =
     (let checksum = hex_encode ac (sha256_digest ac (as_bytes report_id));
          download_url = ''https://api.ussd-kernel.org/exports/'' @ report_id @ ''.json'';
          signature = sha256_digest ac (as_bytes checksum) in
      bindE utc_now (\<lambda>now.
      okE \<lparr>xr_report_id = report_id, xr_download_url = download_url, xr_checksum = checksum,
           xr_signature = signature, xr_expires_at = now + 7 * day_nanos\<rparr>))"

definition audit_stream_audit_events ::
  "'x audit_crates_scheme \<Rightarrow> datetime \<Rightarrow> string list \<Rightarrow> (audit_world, audit_fail, event_record list) eff" where
  "audit_stream_audit_events ac fr event_types =
     repo_stream_audit_events ac fr (if event_types = [] then [] else event_types)"

section \<open>The gRPC port\<close>

text \<open>
  Response fields that are always empty or \<open>None\<close> (the error field, tracing context, actor) are left
  out of the response records.
\<close>

definition audit_rpc :: "('w, audit_fail, 'a) eff \<Rightarrow> ('w, rpc_error, 'a) eff" where
  "audit_rpc m = map_errE (\<lambda>f. case f of AuditErr e \<Rightarrow> RpcStatus (audit_status e) | AuditPanic \<Rightarrow> RpcPanic) m"

text \<open>
  A requested instant; \<open>bad\<close> and \<open>missing\<close> are the days before now that stand for a timestamp out of
  range and for none.
\<close>

definition request_time ::
  "'x audit_crates_scheme \<Rightarrow> int \<Rightarrow> int \<Rightarrow> timestamp option \<Rightarrow> (audit_world, rpc_error, datetime) eff" where
  "request_time ac bad missing ts =
     (case ts of
        Some t \<Rightarrow>
          (case from_timestamp ac (seconds t) (as_u32 (nanos t)) of
             Some d \<Rightarrow> okE d
           | None \<Rightarrow> bindE utc_now (\<lambda>now. okE (now - bad * day_nanos)))
      | None \<Rightarrow> bindE utc_now (\<lambda>now. okE (now - missing * day_nanos)))"

datatype merkle_target = TransactionId string | EventId string | SequenceNumber int

record get_merkle_proof_response =
  gm_event_id :: string
  gm_merkle_root :: bytes
  gm_proof_hashes :: "bytes list"
  gm_computed_at :: timestamp
  gm_valid :: bool
  gm_target_id :: string
  gm_sequence_number :: int
  gm_block_number :: int
  gm_signature :: string
  gm_signer_key_id :: string

definition merkle_target_args :: "merkle_target option \<Rightarrow> string option \<times> string option \<times> int option" where
  "merkle_target_args target =
     (case target of
        Some (TransactionId i) \<Rightarrow> (Some i, None, None)
      | Some (EventId i) \<Rightarrow> (None, Some i, None)
      | Some (SequenceNumber s) \<Rightarrow> (None, None, Some s)
      | None \<Rightarrow> (None, None, None))"

definition grpc_get_merkle_proof ::
  "'x audit_crates_scheme \<Rightarrow> merkle_target option \<Rightarrow> (audit_world, rpc_error, get_merkle_proof_response) eff" where
  "grpc_get_merkle_proof ac target =
     (case merkle_target_args target of (target_id, event_id, seq) \<Rightarrow>
        bindE (audit_rpc (audit_get_merkle_proof ac target_id event_id seq)) (\<lambda>r.
        okE \<lparr>gm_event_id = mp_event_id r, gm_merkle_root = mp_merkle_root r,
             gm_proof_hashes = mp_proof_hashes r, gm_computed_at = to_timestamp (mp_computed_at r),
             gm_valid = mp_valid r, gm_target_id = unwrap_or target_id (mp_event_id r),
             gm_sequence_number = mp_sequence_number r, gm_block_number = mp_sequence_number r,
             gm_signature = mp_signature r, gm_signer_key_id = mp_signer_key_id r\<rparr>))"

record get_ledger_checksum_response =
  gl_merkle_root :: bytes
  gl_event_count :: int
  gl_computed_at :: timestamp
  gl_checksum_id :: string
  gl_latest_sequence_number :: int
  gl_total_events :: int
  gl_signature :: string
  gl_signer_key_id :: string

definition grpc_get_ledger_checksum ::
  "'x audit_crates_scheme \<Rightarrow> timestamp option \<Rightarrow> timestamp option \<Rightarrow> (audit_world, rpc_error, get_ledger_checksum_response) eff" where
  "grpc_get_ledger_checksum ac from_date to_date =
     bindE (request_time ac 0 1 from_date) (\<lambda>fr.
     bindE (request_time ac 0 0 to_date) (\<lambda>to.
     bindE (audit_rpc (audit_get_ledger_checksum ac fr to)) (\<lambda>r.
     okE \<lparr>gl_merkle_root = lc_merkle_root r, gl_event_count = lc_event_count r,
          gl_computed_at = to_timestamp (lc_computed_at r), gl_checksum_id = lc_checksum_id r,
          gl_latest_sequence_number = lc_latest_sequence_number r, gl_total_events = lc_total_events r,
          gl_signature = lc_signature r, gl_signer_key_id = lc_signer_key_id r\<rparr>)))"

record verify_batch_response =
  vb_valid :: bool
  vb_computed_root :: string
  vb_period_start :: "timestamp option"
  vb_period_end :: "timestamp option"
  vb_total_transactions :: int
  vb_verified_transactions :: int
  vb_failed_transactions :: int
  vb_is_fully_valid :: bool
  vb_previous_batch_hash :: string
  vb_violations :: "integrity_violation list"

definition grpc_verify_batch_integrity ::
  "'x audit_crates_scheme \<Rightarrow> int \<Rightarrow> int \<Rightarrow> bytes \<Rightarrow> (audit_world, rpc_error, verify_batch_response) eff" where
  "grpc_verify_batch_integrity ac start_event_id end_event_id expected =
     (let expected_root = (if expected = [] then None else Some (hex_encode ac expected)) in
      bindE (audit_rpc (audit_verify_batch_integrity ac start_event_id end_event_id expected_root)) (\<lambda>r.
      okE \<lparr>vb_valid = bi_valid r, vb_computed_root = bi_computed_root r,
           vb_period_start = map_option to_timestamp (bi_period_start r),
           vb_period_end = map_option to_timestamp (bi_period_end r),
           vb_total_transactions = bi_total_transactions r,
           vb_verified_transactions = bi_verified_transactions r,
           vb_failed_transactions = bi_failed_transactions r, vb_is_fully_valid = bi_is_fully_valid r,
           vb_previous_batch_hash = unwrap_or (bi_previous_batch_hash r) [],
           vb_violations = bi_violations r\<rparr>))"

fun json_to_prost_value :: "json \<Rightarrow> prost_kind" where
  "json_to_prost_value JNull = NullValue"
| "json_to_prost_value (JBool b) = BoolValue b"
| "json_to_prost_value (JNumber n) = NumberValue n"
| "json_to_prost_value (JString s) = StringValue s"
| "json_to_prost_value (JArray vs) = ListValue (map json_to_prost_value vs)"
| "json_to_prost_value (JObject kvs) = StructValue (map (\<lambda>kv. (fst kv, json_to_prost_value (snd kv))) kvs)"

text \<open>\<open>from_value::<Map<String, Value>>(v).unwrap_or_default()\<close>, each member converted.\<close>

fun json_to_struct :: "json \<Rightarrow> (string \<times> prost_kind) list" where
  "json_to_struct (JObject kvs) = map (\<lambda>kv. (fst kv, json_to_prost_value (snd kv))) kvs"
| "json_to_struct _ = []"

record stream_envelope =
  ee_event_id :: string
  ee_event_type :: string
  ee_aggregate_type :: string
  ee_aggregate_id :: string
  ee_version :: int
  ee_payload :: "(string \<times> prost_kind) list"
  ee_occurred_at :: timestamp
  ee_record_hash :: string
  ee_previous_hash :: string

definition grpc_stream_audit_events ::
  "'x audit_crates_scheme \<Rightarrow> timestamp option \<Rightarrow> string list \<Rightarrow> (audit_world, rpc_error, stream_envelope list) eff" where
  "grpc_stream_audit_events ac from_ts event_types =
     bindE (request_time ac 1 1 from_ts) (\<lambda>fr.
     bindE (audit_rpc (audit_stream_audit_events ac fr event_types)) (\<lambda>events.
     okE (map (\<lambda>e. \<lparr>ee_event_id = uuid_to_string ac (er_event_id e), ee_event_type = er_event_type e,
       ee_aggregate_type = ''EVENT'', ee_aggregate_id = uuid_to_string ac (er_event_id e),
       ee_version = er_sequence_number e, ee_payload = json_to_struct (er_payload e),
       ee_occurred_at = to_timestamp (er_occurred_at e), ee_record_hash = er_record_hash e,
       ee_previous_hash = unwrap_or (er_previous_hash e) []\<rparr>) events)))"

record transaction_chain_report =
  tc_start_transaction_id :: string
  tc_is_valid :: bool
  tc_chain_length :: int
  tc_broken_at_transaction_id :: string
  tc_expected_hash :: string
  tc_actual_hash :: string

definition grpc_verify_transaction_chain ::
  "'x audit_crates_scheme \<Rightarrow> string \<Rightarrow> int \<Rightarrow> (audit_world, rpc_error, transaction_chain_report) eff" where
  "grpc_verify_transaction_chain ac transaction_id max_depth =
     bindE (audit_rpc (audit_verify_transaction_chain ac transaction_id max_depth)) (\<lambda>r.
     okE \<lparr>tc_start_transaction_id = ch_start_transaction_id r, tc_is_valid = ch_is_valid r,
          tc_chain_length = ch_chain_length r,
          tc_broken_at_transaction_id = unwrap_or (ch_broken_at_transaction_id r) [],
          tc_expected_hash = unwrap_or (ch_expected_hash r) [],
          tc_actual_hash = unwrap_or (ch_actual_hash r) []\<rparr>)"

record audit_entry =
  ae_audit_id :: string
  ae_event_type :: string
  ae_action :: string
  ae_old_data :: "(string \<times> prost_kind) list option"
  ae_new_data :: "(string \<times> prost_kind) list option"
  ae_timestamp :: timestamp
  ae_record_hash :: string
  ae_previous_hash :: string

definition grpc_get_audit_trail ::
  "'x audit_crates_scheme \<Rightarrow> string \<Rightarrow> string \<Rightarrow> (int \<times> string) option \<Rightarrow> (audit_world, rpc_error, audit_entry list) eff" where
  "grpc_get_audit_trail ac record_id table pagination =
     (let page_size = unwrap_or (map_option fst pagination) 50;
          page_token = unwrap_or (map_option snd pagination) [] in
      bindE (audit_rpc (audit_get_audit_trail ac record_id table page_size page_token)) (\<lambda>records.
      okE (map (\<lambda>r. \<lparr>ae_audit_id = ar_audit_id r, ae_event_type = ar_event_type r, ae_action = ar_action r,
        ae_old_data = map_option json_to_struct (ar_old_data r),
        ae_new_data = map_option json_to_struct (ar_new_data r),
        ae_timestamp = to_timestamp (ar_timestamp r), ae_record_hash = ar_record_hash r,
        ae_previous_hash = unwrap_or (ar_previous_hash r) []\<rparr>) records)))"

record get_audit_report_response =
  gr_report_id :: string
  gr_total_events :: int
  gr_included_event_types :: "string set"
  gr_generated_at :: timestamp
  gr_checksum :: string

definition grpc_get_audit_report ::
  "'x audit_crates_scheme \<Rightarrow> string \<Rightarrow> timestamp option \<Rightarrow> timestamp option \<Rightarrow> string list \<Rightarrow>
   (audit_world, rpc_error, get_audit_report_response) eff" where
  "grpc_get_audit_report ac tenant_id from_date to_date event_types =
     bindE (request_time ac 1 1 from_date) (\<lambda>fr.
     bindE (request_time ac 0 0 to_date) (\<lambda>to.
     bindE (audit_rpc (audit_get_audit_report ac tenant_id fr to event_types)) (\<lambda>r.
     okE \<lparr>gr_report_id = rp_report_id r, gr_total_events = rp_total_events r,
          gr_included_event_types = rp_included_event_types r,
          gr_generated_at = to_timestamp (rp_generated_at r), gr_checksum = rp_checksum r\<rparr>)))"

record export_audit_report_response =
  gx_report_id :: string
  gx_download_url :: string
  gx_checksum :: string
  gx_signature :: bytes
  gx_expires_at :: timestamp

definition grpc_export_audit_report ::
  "'x audit_crates_scheme \<Rightarrow> string \<Rightarrow> string \<Rightarrow> (audit_world, rpc_error, export_audit_report_response) eff" where
  "grpc_export_audit_report ac report_id tenant_id =
     bindE (audit_rpc (audit_export_audit_report ac report_id tenant_id)) (\<lambda>r.
     okE \<lparr>gx_report_id = xr_report_id r, gx_download_url = xr_download_url r, gx_checksum = xr_checksum r,
          gx_signature = xr_signature r, gx_expires_at = to_timestamp (xr_expires_at r)\<rparr>)"

record signing_key_info =
  sk_key_id :: string
  sk_algorithm :: string
  sk_created_at :: timestamp
  sk_expires_at :: timestamp
  sk_is_active :: bool
  sk_public_key_pem :: string

definition grpc_get_signing_keys :: "(audit_world, rpc_error, signing_key_info list) eff" where
  "grpc_get_signing_keys =
     bindE utc_now (\<lambda>created.
     bindE utc_now (\<lambda>now.
     okE [\<lparr>sk_key_id = ''primary-audit-key-001'', sk_algorithm = ''ed25519'',
           sk_created_at = to_timestamp created, sk_expires_at = to_timestamp (now + 365 * day_nanos),
           sk_is_active = True, sk_public_key_pem = []\<rparr>]))"

section \<open>The daily job\<close>

text \<open>The backfill at start-up; a failure is logged and the next day is tried.\<close>

definition backfill :: "'x audit_crates_scheme \<Rightarrow> signing_backend \<Rightarrow> (audit_world, audit_fail, unit) eff" where
  "backfill ac sb =
     bindE utc_now (\<lambda>now.
     forE (\<lambda>days_back. ignoreE (compute_daily_batch ac sb (now div day_nanos - days_back))) [1, 2, 3, 4, 5, 6, 7])"

text \<open>The wait until the next 02:00 UTC; \<open>to_std\<close> fails on a negative duration.\<close>

definition schedule_wait :: "datetime \<Rightarrow> int" where
  "schedule_wait now =
     (let at_two = now div day_nanos * day_nanos + 2 * 3600 * nanos_per_second;
          next_run = (if at_two \<le> now then at_two + day_nanos else at_two)
      in if next_run - now < 0 then 60 * nanos_per_second else next_run - now)"

text \<open>One tick of the loop.\<close>

definition daily_tick :: "'x audit_crates_scheme \<Rightarrow> signing_backend \<Rightarrow> (audit_world, audit_fail, unit) eff" where
  "daily_tick ac sb =
     bindE utc_now (\<lambda>now. ignoreE (compute_daily_batch ac sb (now div day_nanos - 1)))"

end
