(* ===== verification/Audit_Correct.thy ===== *)
theory Audit_Correct
  imports Audit_Engine
begin

text \<open>
  Correctness of the audit service: Merkle proofs of stored events, the chain of daily batch hashes
  and its signatures, batch verification, and what the transaction chain report says about an
  intact log.
\<close>

section \<open>Events of a range\<close>

definition range_rows :: "datetime \<Rightarrow> datetime \<Rightarrow> audit_world \<Rightarrow> event_row list" where
  "range_rows fr to w =
     sort_key es_sequence_number (filter (\<lambda>r. fr \<le> es_occurred_at r \<and> es_occurred_at r < to) (event_store w))"

definition range_leaves :: "'x audit_crates_scheme \<Rightarrow> datetime \<Rightarrow> datetime \<Rightarrow> audit_world \<Rightarrow> bytes list" where
  "range_leaves ac fr to w =
     map (\<lambda>r. sha256_digest ac (as_bytes (payload_digest ac (es_payload r)))) (range_rows fr to w)"

lemma lag_hashes_fields [simp]:
  "map er_record_hash (lag_hashes p es) = map er_record_hash es"
  "map er_event_id (lag_hashes p es) = map er_event_id es"
  "map er_event_type (lag_hashes p es) = map er_event_type es"
  "map er_sequence_number (lag_hashes p es) = map er_sequence_number es"
  "length (lag_hashes p es) = length es"
  by (induction es arbitrary: p) auto

lemma lag_hashes_Nil [simp]: "lag_hashes p es = [] \<longleftrightarrow> es = []"
  by (cases es) auto

lemma leaf_hashes_lag:
  "leaf_hashes ac (lag_hashes p es) = map (\<lambda>h. sha256_digest ac (as_bytes h)) (map er_record_hash es)"
  by (induction es arbitrary: p) (simp_all add: leaf_hashes_def)

definition range_records :: "'x audit_crates_scheme \<Rightarrow> datetime \<Rightarrow> datetime \<Rightarrow> audit_world \<Rightarrow> event_record list" where
  "range_records ac fr to w = lag_hashes None (map (to_event_record ac) (range_rows fr to w))"

lemma range_records_leaves: "leaf_hashes ac (range_records ac fr to w) = range_leaves ac fr to w"
  by (simp add: range_records_def leaf_hashes_lag range_leaves_def to_event_record_def)

lemma length_range_records [simp]: "length (range_records ac fr to w) = length (range_rows fr to w)"
  by (simp add: range_records_def)

abbreviation ticked :: "audit_world \<Rightarrow> audit_world" where
  "ticked w \<equiv> w\<lparr>db_calls := Suc (db_calls w)\<rparr>"

lemma range_rows_ticked [simp]:
  "range_rows fr to (w\<lparr>db_calls := n\<rparr>) = range_rows fr to w"
  "range_records ac fr to (w\<lparr>db_calls := n\<rparr>) = range_records ac fr to w"
  by (simp_all add: range_rows_def range_records_def)

lemma queryA_up [simp]: "db_up w \<Longrightarrow> queryA q w = (Inr (q (ticked w)), ticked w)"
  by (simp add: map_errE_def)

lemma fetch_events_for_range_up:
  "db_up w \<Longrightarrow> fetch_events_for_range ac fr to w = (Inr (range_records ac fr to w), ticked w)"
  by (simp add: fetch_events_for_range_def range_records_def range_rows_def)

text \<open>A query that fails leaves only its count behind.\<close>

lemma fetch_events_for_range_any:
  "fetch_events_for_range ac fr to w = (Inr (range_records ac fr to w), ticked w) \<or>
   (\<exists>e. fetch_events_for_range ac fr to w = (Inl (AuditErr (Database e)), ticked w))"
  by (cases "db_fault w (db_calls w)")
    (simp_all add: fetch_events_for_range_def range_records_def range_rows_def map_errE_def)

lemma position_Some:
  "position P xs = Some i \<Longrightarrow> i < length xs \<and> P (xs ! i)"
  by (induction xs arbitrary: i) (auto split: if_splits)

lemma position_None: "position P xs = None \<longleftrightarrow> (\<forall>x \<in> set xs. \<not> P x)"
  by (induction xs) auto

section \<open>Proofs of stored events\<close>

definition event_target :: "uuid option \<Rightarrow> int option \<Rightarrow> event_row list \<Rightarrow> event_row option" where
  "event_target target seq rows =
     (case target of
        Some i \<Rightarrow> select_first (\<lambda>r. es_event_id r = i) rows
      | None \<Rightarrow> (case seq of Some s \<Rightarrow> select_first (\<lambda>r. es_sequence_number r = s) rows | None \<Rightarrow> None))"

lemma event_target_mem: "event_target target seq rows = Some r \<Longrightarrow> r \<in> set rows"
  by (auto simp: event_target_def dest: select_first_Some split: option.splits)

lemma fetch_event_up:
  assumes "db_up w"
  shows "\<exists>w'. fetch_event ac target seq w =
      (Inr (map_option (to_event_record ac) (event_target target seq (event_store w))), w') \<and>
    db_up w' \<and> event_store w' = event_store w"
proof (cases target)
  case None
  then show ?thesis using assms by (cases seq) (auto simp: fetch_event_def event_target_def okE_def)
next
  case (Some i)
  then show ?thesis using assms by (auto simp: fetch_event_def event_target_def)
qed

abbreviation day_start :: "datetime \<Rightarrow> datetime" where
  "day_start t \<equiv> t div day_nanos * day_nanos"

lemma in_day: "day_start t \<le> t \<and> t < day_start t + day_nanos"
proof -
  have "t = t div day_nanos * day_nanos + t mod day_nanos" by simp
  moreover have "0 \<le> t mod day_nanos \<and> t mod day_nanos < day_nanos" by (simp add: day_nanos_def)
  ultimately show ?thesis by linarith
qed

text \<open>The leaf of a stored event in its day's tree, and its proof.\<close>

lemma stored_event_leaf:
  assumes "distinct (map es_event_id (event_store w))" "r \<in> set (event_store w)"
    and fr: "fr = day_start (es_occurred_at r)"
  obtains i where "position (\<lambda>e. er_event_id e = es_event_id r) (range_records ac fr (fr + day_nanos) w) = Some i"
    "i < length (range_leaves ac fr (fr + day_nanos) w)"
    "range_leaves ac fr (fr + day_nanos) w ! i = sha256_digest ac (as_bytes (payload_digest ac (es_payload r)))"
proof -
  let ?rows = "range_rows fr (fr + day_nanos) w" and ?recs = "range_records ac fr (fr + day_nanos) w"
  have "r \<in> set ?rows" using assms(2) in_day [of "es_occurred_at r"] by (simp add: range_rows_def fr)
  then obtain k where k: "k < length ?rows" "?rows ! k = r" by (auto simp: in_set_conv_nth)
  have ids: "map er_event_id ?recs = map es_event_id ?rows" by (simp add: range_records_def to_event_record_def)
  have nth: "er_event_id (?recs ! j) = es_event_id (?rows ! j)" if "j < length ?rows" for j
    using arg_cong [OF ids, of "\<lambda>xs. xs ! j"] that by simp
  have "position (\<lambda>e. er_event_id e = es_event_id r) ?recs \<noteq> None"
    unfolding position_None using k nth [of k] by (metis length_range_records nth_mem)
  then obtain i where i: "position (\<lambda>e. er_event_id e = es_event_id r) ?recs = Some i" by blast
  from position_Some [OF i] have il: "i < length ?rows" "es_event_id (?rows ! i) = es_event_id r"
    using nth [of i] by auto
  have "?rows ! i \<in> set (event_store w)" using nth_mem [OF il(1)] by (auto simp: range_rows_def)
  then have "?rows ! i = r"
    using inj_onD [of es_event_id "set (event_store w)"] assms(1,2) il(2) by (auto simp: distinct_map)
  then show thesis using that [of i] i il(1) by (simp add: range_leaves_def)
qed

lemma build_leaves: "build_merkle_tree h ls = Some (root, tree) \<Longrightarrow> audit_commit h ls = Some root"
  by (simp add: audit_commit_def)

lemma audit_proof_of_event:
  assumes "i < length ls" "build_merkle_tree h ls = Some (root, tree)"
  obtains p where "merkle_proof tree (length ls) i = Some p" "verify_merkle_proof h (ls ! i) i p root"
proof -
  obtain p where "audit_prove h ls i = Some p" "verify_merkle_proof h (ls ! i) i p root"
    using audit_tree.complete [OF assms(1) build_leaves [OF assms(2)]] by blast
  then show thesis using that assms(2) by (simp add: audit_prove_def)
qed

lemma get_merkle_proof_found:
  assumes "db_up w" "distinct (map es_event_id (event_store w))" "parse_event_id ac eid = Inr target"
    "event_target target seq (event_store w) = Some r" "fr = day_start (es_occurred_at r)"
  shows "\<exists>p. fst (audit_get_merkle_proof ac tx eid seq w) = Inr p \<and> mp_valid p \<and>
    mp_event_id p = uuid_to_string ac (es_event_id r) \<and> mp_sequence_number p = es_sequence_number r \<and>
    Some (mp_merkle_root p) = map_option fst (build_merkle_tree (sha256_digest ac) (range_leaves ac fr (fr + day_nanos) w))"
proof -
  obtain w1 where f: "fetch_event ac target seq w = (Inr (Some (to_event_record ac r)), w1)" "db_up w1"
      "event_store w1 = event_store w"
    using fetch_event_up [OF assms(1), of ac target seq] assms(4) by auto
  have same: "range_records ac fr to w1 = range_records ac fr to w" for to
    by (simp add: range_records_def range_rows_def f(3))
  let ?recs = "range_records ac fr (fr + day_nanos) w" and ?leaves = "range_leaves ac fr (fr + day_nanos) w"
  obtain i where i: "position (\<lambda>e. er_event_id e = es_event_id r) ?recs = Some i" "i < length ?leaves"
      "?leaves ! i = sha256_digest ac (as_bytes (payload_digest ac (es_payload r)))"
    using stored_event_leaf [OF assms(2) event_target_mem [OF assms(4)] assms(5)] .
  obtain root tree where b: "build_merkle_tree (sha256_digest ac) ?leaves = Some (root, tree)"
    using build_merkle_tree_eq by blast
  obtain p where p: "merkle_proof tree (length ?leaves) i = Some p"
      "verify_merkle_proof (sha256_digest ac) (?leaves ! i) i p root"
    using audit_proof_of_event [OF i(2) b] .
  have day: "fetch_events_for_range ac fr (fr + day_nanos) w1 = (Inr ?recs, ticked w1)"
    by (simp add: fetch_events_for_range_up [OF f(2)] same)
  have ne: "?recs \<noteq> []" using i(1) by auto
  show ?thesis
    using f(1) day ne i p b assms(3)
    by (simp add: audit_get_merkle_proof_def bindE_apply map_errE_def liftE_def or_audit_panic_def okE_def
        utc_now_def Let_def range_records_leaves to_event_record_def assms(5))
qed

section \<open>Daily batches\<close>

text \<open>The record a day's events give, apart from its identifier and time.\<close>

definition is_batch_of :: "'x audit_crates_scheme \<Rightarrow> int \<Rightarrow> audit_world \<Rightarrow> batch_hash_record \<Rightarrow> bool" where
  "is_batch_of ac date w rec \<longleftrightarrow>
     (let leaves = range_leaves ac (date * day_nanos) (date * day_nanos + day_nanos) w in
      bh_batch_date rec = date \<and>
      Some (bh_batch_hash rec) = map_option (hex_encode ac \<circ> fst) (build_merkle_tree (sha256_digest ac) leaves) \<and>
      bh_record_count rec = as_i32 (int (length leaves)) \<and>
      bh_previous_batch_hash rec = previous_batch date (batch_hashes w))"

abbreviation unsigned_row :: "batch_hash_record \<Rightarrow> batch_row" where
  "unsigned_row rec \<equiv> batch_hash_record.extend rec \<lparr>br_signature = None, br_key_id = None\<rparr>"

lemma unsigned_row_fields [simp]:
  "bh_batch_date (unsigned_row rec) = bh_batch_date rec" "bh_batch_hash (unsigned_row rec) = bh_batch_hash rec"
  "bh_batch_id (unsigned_row rec) = bh_batch_id rec" "br_signature (unsigned_row rec) = None"
  "bh_previous_batch_hash (unsigned_row rec) = bh_previous_batch_hash rec"
  "batch_hash_record.truncate (unsigned_row rec) = rec"
  by (simp_all add: batch_hash_record.defs)

text \<open>The part after the events of the day are read.\<close>

definition store_batch ::
  "'x audit_crates_scheme \<Rightarrow> int \<Rightarrow> event_record list \<Rightarrow> (audit_world, audit_fail, batch_hash_record) eff" where
  "store_batch ac date events =
     bindE (or_audit_panic (build_merkle_tree (sha256_digest ac) (leaf_hashes ac events))) (\<lambda>(root, _).
     bindE (queryA (\<lambda>w. previous_batch date (batch_hashes w))) (\<lambda>prev.
     bindE new_v4 (\<lambda>batch_id.
     bindE utc_now (\<lambda>computed_at.
     let rec = \<lparr>bh_batch_id = batch_id, bh_batch_date = date, bh_batch_hash = hex_encode ac root,
                bh_record_count = as_i32 (int (length events)),
                bh_source_data_hash = source_hash ac events, bh_computed_at = computed_at,
                bh_previous_batch_hash = prev\<rparr>
     in bindE (insert_batch (unsigned_row rec)) (\<lambda>_. okE rec)))))"

lemma get_or_compute_eq:
  "get_or_compute_batch_hash ac date =
     bindE (queryA (\<lambda>w. select_first (\<lambda>r. bh_batch_date r = date) (batch_hashes w))) (\<lambda>existing.
     case existing of
       Some row \<Rightarrow> okE (batch_hash_record.truncate row)
     | None \<Rightarrow> bindE (fetch_events_for_range ac (date * day_nanos) (date * day_nanos + day_nanos)) (store_batch ac date))"
  unfolding get_or_compute_batch_hash_def store_batch_def Let_def by (rule refl)

text \<open>What the audit operations leave alone.\<close>

definition audit_frame :: "audit_world \<Rightarrow> audit_world \<Rightarrow> bool" where
  "audit_frame w w' \<longleftrightarrow> event_store w' = event_store w \<and> db_fault w' = db_fault w \<and> db_calls w \<le> db_calls w' \<and>
     batch_update_guard w' = batch_update_guard w \<and> uuid_supply w' = uuid_supply w \<and>
     uuids_made w \<le> uuids_made w' \<and> transaction_log w' = transaction_log w \<and> clock w' = clock w"

lemma audit_frame_refl [simp]: "audit_frame w w"
  by (simp add: audit_frame_def)

lemma audit_frame_ticked [simp]: "audit_frame w (ticked w)"
  by (simp add: audit_frame_def)

lemma audit_frame_trans: "audit_frame w w' \<Longrightarrow> audit_frame w' w'' \<Longrightarrow> audit_frame w w''"
  by (auto simp: audit_frame_def)

lemma audit_frame_up: "db_up w \<Longrightarrow> audit_frame w w' \<Longrightarrow> db_up w'"
  by (simp add: db_up_def audit_frame_def)

lemma insert_batch_new:
  assumes "bh_batch_date row \<notin> bh_batch_date ` set (batch_hashes w)"
  shows "\<exists>r w'. insert_batch row w = (r, w') \<and> audit_frame w w' \<and>
    (if \<exists>e. db_fault w (db_calls w) = Some e
     then (\<exists>e. r = Inl (AuditErr (Database e))) \<and> batch_hashes w' = batch_hashes w
     else r = Inr () \<and> batch_hashes w' = batch_hashes w @ [row])"
  using assms
  by (cases "db_fault w (db_calls w)")
    (auto simp: insert_batch_def db_op_def bindE_apply map_errE_def liftE_def upsert_by_def audit_frame_def Let_def)

lemma store_batch_cases:
  assumes "date \<notin> bh_batch_date ` set (batch_hashes w)" "store_batch ac date events w = (res, w')"
  shows "audit_frame w w' \<and>
    ((\<exists>e. res = Inl (AuditErr (Database e)) \<and> batch_hashes w' = batch_hashes w \<and> \<not> db_up w) \<or>
     (\<exists>rec. res = Inr rec \<and> batch_hashes w' = batch_hashes w @ [unsigned_row rec] \<and>
        bh_batch_id rec = uuid_supply w (uuids_made w) \<and> uuids_made w' = Suc (uuids_made w) \<and>
        bh_batch_date rec = date \<and> bh_previous_batch_hash rec = previous_batch date (batch_hashes w) \<and>
        bh_record_count rec = as_i32 (int (length events)) \<and>
        Some (bh_batch_hash rec) =
          map_option (hex_encode ac \<circ> fst) (build_merkle_tree (sha256_digest ac) (leaf_hashes ac events))))"
proof (cases "db_fault w (db_calls w)")
  case (Some e)
  then have "\<not> db_up w" by (auto simp: db_up_def)
  then show ?thesis using assms(2) Some
    by (auto simp: store_batch_def bindE_apply or_audit_panic_def okE_def build_merkle_tree_eq map_errE_def)
next
  case None
  define w1 where "w1 = (ticked w)\<lparr>uuids_made := Suc (uuids_made w), clock_reads := Suc (clock_reads w)\<rparr>"
  define rec where "rec = \<lparr>bh_batch_id = uuid_supply w (uuids_made w), bh_batch_date = date,
      bh_batch_hash = hex_encode ac (merkle_root (sha256_digest ac) (leaf_hashes ac events)),
      bh_record_count = as_i32 (int (length events)), bh_source_data_hash = source_hash ac events,
      bh_computed_at = clock w (clock_reads w), bh_previous_batch_hash = previous_batch date (batch_hashes w)\<rparr>"
  have run: "store_batch ac date events w = bindE (insert_batch (unsigned_row rec)) (\<lambda>_. okE rec) w1"
    using None
    by (simp add: store_batch_def bindE_apply or_audit_panic_def okE_def build_merkle_tree_eq map_errE_def new_v4_def
        utc_now_def Let_def rec_def w1_def cong del: sum.case_cong_weak prod.case_cong_weak)
  have f1: "audit_frame w w1" "batch_hashes w1 = batch_hashes w" "uuids_made w1 = Suc (uuids_made w)"
    by (simp_all add: w1_def audit_frame_def)
  have "bh_batch_date (unsigned_row rec) \<notin> bh_batch_date ` set (batch_hashes w1)"
    using assms(1) f1(2) by (simp add: rec_def)
  from insert_batch_new [OF this] obtain r where ins: "insert_batch (unsigned_row rec) w1 = (r, w')" "audit_frame w1 w'"
      "if \<exists>e. db_fault w1 (db_calls w1) = Some e
       then (\<exists>e. r = Inl (AuditErr (Database e))) \<and> batch_hashes w' = batch_hashes w1
       else r = Inr () \<and> batch_hashes w' = batch_hashes w1 @ [unsigned_row rec]"
    using assms(2) run by (auto simp: bindE_apply okE_def split: sum.splits)
  have made: "uuids_made w' = Suc (uuids_made w)"
    using ins(1) f1(3)
    by (auto simp: insert_batch_def db_op_def bindE_apply map_errE_def liftE_def Let_def split: option.splits if_splits sum.splits)
  have frame: "audit_frame w w'" by (rule audit_frame_trans [OF f1(1) ins(2)])
  show ?thesis
  proof (cases "\<exists>e. db_fault w1 (db_calls w1) = Some e")
    case True
    then have "\<not> db_up w" using audit_frame_up [OF _ f1(1)] by auto
    then show ?thesis using True ins assms(2) run frame f1(2) by (auto simp: bindE_apply)
  next
    case False
    then have "res = Inr rec" "batch_hashes w' = batch_hashes w @ [unsigned_row rec]"
      using ins assms(2) run f1(2) by (auto simp: bindE_apply okE_def)
    then show ?thesis using frame made by (auto simp: rec_def build_merkle_tree_eq)
  qed
qed

lemma find_date_None: "select_first (\<lambda>r. bh_batch_date r = date) rows = None \<longleftrightarrow> date \<notin> bh_batch_date ` set rows"
  unfolding select_first_None by (auto simp: image_iff)

lemma get_or_compute_cases:
  assumes "get_or_compute_batch_hash ac date w = (res, w')"
  shows "audit_frame w w' \<and>
    ((\<exists>e. res = Inl (AuditErr (Database e)) \<and> batch_hashes w' = batch_hashes w \<and> \<not> db_up w) \<or>
     (\<exists>row. select_first (\<lambda>r. bh_batch_date r = date) (batch_hashes w) = Some row \<and>
        res = Inr (batch_hash_record.truncate row) \<and> batch_hashes w' = batch_hashes w) \<or>
     (\<exists>rec. date \<notin> bh_batch_date ` set (batch_hashes w) \<and> res = Inr rec \<and>
        batch_hashes w' = batch_hashes w @ [unsigned_row rec] \<and> is_batch_of ac date w rec \<and>
        bh_batch_id rec = uuid_supply w (uuids_made w) \<and> uuids_made w' = Suc (uuids_made w)))"
proof (cases "db_fault w (db_calls w)")
  case (Some e)
  then have "\<not> db_up w" by (auto simp: db_up_def)
  then show ?thesis using assms Some by (auto simp: get_or_compute_eq bindE_apply map_errE_def)
next
  case None
  show ?thesis
  proof (cases "select_first (\<lambda>r. bh_batch_date r = date) (batch_hashes w)")
    case (Some row)
    then show ?thesis using assms None by (auto simp: get_or_compute_eq bindE_apply map_errE_def okE_def)
  next
    case no_row: None
    let ?recs = "range_records ac (date * day_nanos) (date * day_nanos + day_nanos) w"
    have run: "get_or_compute_batch_hash ac date w =
        bindE (fetch_events_for_range ac (date * day_nanos) (date * day_nanos + day_nanos)) (store_batch ac date) (ticked w)"
      using None no_row by (simp add: get_or_compute_eq bindE_apply map_errE_def)
    consider "fetch_events_for_range ac (date * day_nanos) (date * day_nanos + day_nanos) (ticked w) =
          (Inr ?recs, ticked (ticked w))" |
        e where "fetch_events_for_range ac (date * day_nanos) (date * day_nanos + day_nanos) (ticked w) =
          (Inl (AuditErr (Database e)), ticked (ticked w))" "\<not> db_up w"
      using fetch_events_for_range_any [of ac "date * day_nanos" "date * day_nanos + day_nanos" "ticked w"]
        fetch_events_for_range_up [OF db_up_step, of w ac] by fastforce
    then show ?thesis
    proof cases
      case 1
      then have s: "store_batch ac date ?recs (ticked (ticked w)) = (res, w')"
        using assms run by (simp add: bindE_Inr)
      have f: "audit_frame w (ticked (ticked w))" by (simp add: audit_frame_def)
      have up: "db_up w \<Longrightarrow> db_up (ticked (ticked w))" using audit_frame_up f by blast
      show ?thesis
        using store_batch_cases [OF _ s] no_row audit_frame_trans [OF f] up
        unfolding find_date_None is_batch_of_def Let_def range_records_leaves
        by (auto simp: range_leaves_def)
    next
      case 2
      then show ?thesis using assms run by (auto simp: bindE_Inl audit_frame_def)
    qed
  qed
qed

lemma update_batch_signature_cases:
  assumes "update_batch_signature bid sig key w = (res, w')"
  shows "audit_frame w w' \<and>
    ((\<exists>e. res = Inl (AuditErr (Database e)) \<and> batch_hashes w' = batch_hashes w \<and>
        (\<not> db_up w \<or> bid \<in> bh_batch_id ` set (batch_hashes w) \<and> batch_update_guard w = Some e)) \<or>
     (\<exists>now. res = Inr () \<and> batch_hashes w' = update_where (\<lambda>r. bh_batch_id r = bid)
        (\<lambda>r. r\<lparr>br_signature := Some sig, br_key_id := Some key, bh_computed_at := now\<rparr>) (batch_hashes w) \<and>
        (bid \<notin> bh_batch_id ` set (batch_hashes w) \<or> batch_update_guard w = None)))"
proof (cases "db_fault w (db_calls w)")
  case (Some e)
  then have "\<not> db_up w" by (auto simp: db_up_def)
  then show ?thesis using assms Some
    by (auto simp: update_batch_signature_def bindE_apply utc_now_def map_errE_def db_op_def audit_frame_def Let_def)
next
  case None
  then show ?thesis using assms
    by (auto simp: update_batch_signature_def bindE_apply utc_now_def map_errE_def db_op_def liftE_def audit_frame_def
        Let_def split: if_splits)
qed

text \<open>The date, hash and link of every row; signing changes none of them.\<close>

abbreviation batch_links :: "batch_row list \<Rightarrow> (int \<times> string \<times> string option) list" where
  "batch_links rows \<equiv> map (\<lambda>r. (bh_batch_date r, bh_batch_hash r, bh_previous_batch_hash r)) rows"

lemma update_where_links:
  "batch_links (update_where P (\<lambda>r. r\<lparr>br_signature := s, br_key_id := k, bh_computed_at := t\<rparr>) rows) = batch_links rows"
  by (simp add: update_where_def)

lemma compute_daily_batch_links:
  assumes "compute_daily_batch ac sb date w = (res, w')"
  shows "audit_frame w w' \<and>
    (batch_links (batch_hashes w') = batch_links (batch_hashes w) \<and>
       (db_up w \<longrightarrow> date \<in> bh_batch_date ` set (batch_hashes w)) \<or>
     (\<exists>rec. date \<notin> bh_batch_date ` set (batch_hashes w) \<and> is_batch_of ac date w rec \<and>
        batch_links (batch_hashes w') = batch_links (batch_hashes w @ [unsigned_row rec])))"
proof -
  obtain r1 w1 where g: "get_or_compute_batch_hash ac date w = (r1, w1)" by fastforce
  note gc = get_or_compute_cases [OF g]
  have rest: "audit_frame w1 w' \<and> batch_links (batch_hashes w') = batch_links (batch_hashes w1)" if "r1 = Inr rec" for rec
  proof (cases "sign_batch_hash sb (bh_batch_hash rec)")
    case (Inl e)
    then show ?thesis using assms g that
      by (auto simp: compute_daily_batch_def bindE_apply liftE_def map_errE_def)
  next
    case (Inr sk)
    obtain sig key where sk: "sk = (sig, key)" by fastforce
    obtain r2 w2 where u: "update_batch_signature (bh_batch_id rec) sig key w1 = (r2, w2)" by fastforce
    have "w2 = w'" using assms g that Inr sk u
      by (cases r2) (auto simp: compute_daily_batch_def bindE_apply liftE_def map_errE_def okE_def)
    then show ?thesis using update_batch_signature_cases [OF u] update_where_links by auto
  qed
  show ?thesis
  proof (cases r1)
    case (Inl e)
    then have "w' = w1" using assms g by (auto simp: compute_daily_batch_def bindE_apply)
    then show ?thesis using gc Inl by auto
  next
    case (Inr rec)
    note r = rest [OF Inr]
    have fr: "audit_frame w w'" using gc r audit_frame_trans by blast
    show ?thesis
    proof (cases "date \<in> bh_batch_date ` set (batch_hashes w)")
      case True
      then have "batch_hashes w1 = batch_hashes w" using gc Inr by auto
      then show ?thesis using fr r True by simp
    next
      case False
      then have "batch_hashes w1 = batch_hashes w @ [unsigned_row rec] \<and> is_batch_of ac date w rec"
        using gc Inr find_date_None [of date "batch_hashes w"] by auto
      then show ?thesis using fr r False by auto
    qed
  qed
qed

text \<open>A chain of batches: dates increase and each row names the hash of the row before it.\<close>

definition batch_linked :: "batch_row list \<Rightarrow> bool" where
  "batch_linked rows \<longleftrightarrow> sorted_wrt (<) (map bh_batch_date rows) \<and>
     (\<forall>i < length rows. bh_previous_batch_hash (rows ! i) =
        (if i = 0 then None else Some (bh_batch_hash (rows ! (i - 1)))))"

lemma batch_linked_links:
  assumes "batch_links rows' = batch_links rows"
  shows "batch_linked rows' = batch_linked rows"
proof -
  have len: "length rows' = length rows" using assms map_eq_imp_length_eq by blast
  have nth: "bh_batch_date (rows' ! i) = bh_batch_date (rows ! i) \<and> bh_batch_hash (rows' ! i) = bh_batch_hash (rows ! i) \<and>
      bh_previous_batch_hash (rows' ! i) = bh_previous_batch_hash (rows ! i)" if "i < length rows" for i
    using arg_cong [OF assms, of "\<lambda>xs. xs ! i"] that len by simp
  have "map bh_batch_date rows' = map bh_batch_date rows"
    using nth len by (intro nth_equalityI) simp_all
  then show ?thesis unfolding batch_linked_def using nth len by auto
qed

lemma previous_batch_latest:
  assumes "batch_linked rows" "\<forall>r \<in> set rows. bh_batch_date r < date"
  shows "previous_batch date rows = map_option bh_batch_hash (last_opt rows)"
proof -
  have "filter (\<lambda>r. bh_batch_date r < date) rows = rows" using assms(2) by simp
  moreover have "sorted (map bh_batch_date rows)"
    using assms(1) unfolding batch_linked_def by (simp add: strict_sorted_iff)
  then have "sort_key bh_batch_date rows = rows" by (simp add: sorted_sort_id sort_key_id_if_sorted)
  ultimately show ?thesis by (simp add: previous_batch_def)
qed

lemma batch_linked_snoc:
  assumes "batch_linked rows" "\<forall>r \<in> set rows. bh_batch_date r < bh_batch_date row"
    "bh_previous_batch_hash row = map_option bh_batch_hash (last_opt rows)"
  shows "batch_linked (rows @ [row])"
  using assms unfolding batch_linked_def
  by (auto simp: sorted_wrt_append nth_append last_opt_def last_conv_nth less_Suc_eq)

lemma compute_daily_batch_linked:
  assumes "batch_linked (batch_hashes w)" "\<forall>r \<in> set (batch_hashes w). bh_batch_date r < date"
    "compute_daily_batch ac sb date w = (res, w')"
  shows "batch_linked (batch_hashes w')"
proof -
  have "batch_linked (batch_hashes w @ [unsigned_row rec])" if "is_batch_of ac date w rec" for rec
    using batch_linked_snoc [OF assms(1), of "unsigned_row rec"] previous_batch_latest [OF assms(1,2)] assms(2) that
    by (simp add: is_batch_of_def Let_def)
  then show ?thesis
    using compute_daily_batch_links [OF assms(3)] assms(1) batch_linked_links by blast
qed

text \<open>Filling dates from the newest to the oldest into an empty table links nothing.\<close>

lemma previous_batch_none:
  "\<forall>r \<in> set rows. date \<le> bh_batch_date r \<Longrightarrow> previous_batch date rows = None"
proof -
  assume "\<forall>r \<in> set rows. date \<le> bh_batch_date r"
  then have "filter (\<lambda>r. bh_batch_date r < date) rows = []" by (auto simp: filter_empty_conv)
  then show ?thesis by (simp add: previous_batch_def)
qed

definition unlinked :: "int list \<Rightarrow> batch_row list \<Rightarrow> bool" where
  "unlinked dates rows \<longleftrightarrow> map bh_batch_date rows = dates \<and> (\<forall>r \<in> set rows. bh_previous_batch_hash r = None)"

lemma unlinked_links: "batch_links rows' = batch_links rows \<Longrightarrow> unlinked dates rows \<Longrightarrow> unlinked dates rows'"
proof -
  assume eq: "batch_links rows' = batch_links rows" and un: "unlinked dates rows"
  have "map bh_batch_date rows' = map bh_batch_date rows"
    using arg_cong [OF eq, of "map fst"] by (simp add: comp_def)
  moreover have "map bh_previous_batch_hash rows' = map bh_previous_batch_hash rows"
    using arg_cong [OF eq, of "map (snd \<circ> snd)"] by (simp add: comp_def)
  then have "bh_previous_batch_hash ` set rows' = bh_previous_batch_hash ` set rows" by (metis list.set_map)
  ultimately show ?thesis using un unfolding unlinked_def by (metis (mono_tags, lifting) imageE imageI)
qed

lemma backfill_day:
  assumes "unlinked dates (batch_hashes w)" "db_up w" "\<forall>d \<in> set dates. date < d"
    "compute_daily_batch ac sb date w = (res, w')"
  shows "unlinked (dates @ [date]) (batch_hashes w') \<and> db_up w'"
proof -
  have new: "date \<notin> bh_batch_date ` set (batch_hashes w)"
    using assms(1,3) by (auto simp: unlinked_def)
  then obtain rec where r: "is_batch_of ac date w rec" "batch_links (batch_hashes w') = batch_links (batch_hashes w @ [unsigned_row rec])"
      and fr: "audit_frame w w'"
    using compute_daily_batch_links [OF assms(4)] assms(2) by blast
  have "\<forall>r \<in> set (batch_hashes w). date \<le> bh_batch_date r" using assms(1,3) by (auto simp: unlinked_def less_imp_le)
  then have "unlinked (dates @ [date]) (batch_hashes w @ [unsigned_row rec])"
    using r(1) assms(1) previous_batch_none by (simp add: unlinked_def is_batch_of_def Let_def)
  then show ?thesis using unlinked_links [OF r(2)] audit_frame_up [OF assms(2) fr] by blast
qed

lemma backfill_days:
  "unlinked dates (batch_hashes w) \<Longrightarrow> db_up w \<Longrightarrow> sorted_wrt (>) (dates @ map (\<lambda>k. today - k) ks) \<Longrightarrow>
   forE (\<lambda>k. ignoreE (compute_daily_batch ac sb (today - k))) ks w = (res, w') \<Longrightarrow>
   unlinked (dates @ map (\<lambda>k. today - k) ks) (batch_hashes w')"
proof (induction ks arbitrary: dates w)
  case (Cons k ks)
  obtain r1 w1 where c: "compute_daily_batch ac sb (today - k) w = (r1, w1)" by fastforce
  have "\<forall>d \<in> set dates. today - k < d" using Cons.prems(3) by (auto simp: sorted_wrt_append)
  from backfill_day [OF Cons.prems(1,2) this c]
  have "unlinked (dates @ [today - k]) (batch_hashes w1)" "db_up w1" by simp_all
  then show ?case
    using Cons.IH [of "dates @ [today - k]" w1] Cons.prems(3,4) c by (simp add: bindE_apply ignoreE_def)
qed (simp add: okE_def)

section \<open>Signatures of batches\<close>

lemma software_sign: "sign_batch_hash (software_backend ac kid key) h =
    Inr (ed_sign ac key (as_bytes h), hex_encode ac (take 16 (ed_verifying_key ac key)))"
  by (simp add: sign_batch_hash_def software_backend_def)

lemma software_signature_verifies:
  "ed25519_laws ac \<Longrightarrow>
   verify_batch_hash (software_backend ac kid key) h (ed_sign ac key (as_bytes h)) = Inr True"
  by (simp add: verify_batch_hash_def software_backend_def software_verify_def ed25519_laws_def)

lemma compute_daily_batch_new:
  assumes "db_up w" "date \<notin> bh_batch_date ` set (batch_hashes w)"
    "uuid_supply w (uuids_made w) \<notin> bh_batch_id ` set (batch_hashes w)"
    "compute_daily_batch ac (software_backend ac kid key) date w = (res, w')"
  shows "\<exists>rec row. is_batch_of ac date w rec \<and> batch_hashes w' = batch_hashes w @ [row] \<and>
    bh_batch_date row = date \<and> bh_batch_hash row = bh_batch_hash rec \<and>
    (case batch_update_guard w of
       None \<Rightarrow> res = Inr rec \<and> br_signature row = Some (ed_sign ac key (as_bytes (bh_batch_hash rec)))
     | Some e \<Rightarrow> res = Inl (AuditErr (Database e)) \<and> br_signature row = None)"
proof -
  obtain r1 w1 where g: "get_or_compute_batch_hash ac date w = (r1, w1)" by fastforce
  obtain rec where rec: "audit_frame w w1" "r1 = Inr rec" "batch_hashes w1 = batch_hashes w @ [unsigned_row rec]"
      "is_batch_of ac date w rec" "bh_batch_id rec = uuid_supply w (uuids_made w)"
    using get_or_compute_cases [OF g] assms(1,2) find_date_None [of date "batch_hashes w"] by auto
  have up: "db_up w1" by (rule audit_frame_up [OF assms(1) rec(1)])
  define sig where "sig = ed_sign ac key (as_bytes (bh_batch_hash rec))"
  obtain r2 w2 where u: "update_batch_signature (bh_batch_id rec) sig (hex_encode ac (take 16 (ed_verifying_key ac key))) w1 = (r2, w2)"
    by fastforce
  have run: "(res, w') = (case r2 of Inl e \<Rightarrow> (Inl e, w2) | Inr _ \<Rightarrow> (Inr rec, w2))"
    using assms(4) g rec(2) u
    by (cases r2) (auto simp: compute_daily_batch_def bindE_apply liftE_def map_errE_def okE_def software_sign sig_def)
  have others: "update_where (\<lambda>r. bh_batch_id r = bh_batch_id rec) f (batch_hashes w) = batch_hashes w" for f
    using assms(3) rec(5) unfolding update_where_def by (intro map_idI) (metis image_eqI)
  have date: "bh_batch_date rec = date" using rec(4) by (simp add: is_batch_of_def Let_def)
  have mem: "bh_batch_id rec \<in> bh_batch_id ` set (batch_hashes w1)" using rec(3) by simp
  have guard: "batch_update_guard w1 = batch_update_guard w" using rec(1) by (simp add: audit_frame_def)
  show ?thesis
  proof (cases "batch_update_guard w")
    case None
    then obtain now where "r2 = Inr ()" "batch_hashes w2 = update_where (\<lambda>r. bh_batch_id r = bh_batch_id rec)
        (\<lambda>r. r\<lparr>br_signature := Some sig, br_key_id := Some (hex_encode ac (take 16 (ed_verifying_key ac key))),
          bh_computed_at := now\<rparr>) (batch_hashes w1)"
      using update_batch_signature_cases [OF u] up guard by auto
    then have "batch_hashes w2 = batch_hashes w @ [(unsigned_row rec)\<lparr>br_signature := Some sig,
        br_key_id := Some (hex_encode ac (take 16 (ed_verifying_key ac key))), bh_computed_at := now\<rparr>]"
      using rec(3) others by (simp add: update_where_def)
    then show ?thesis using None rec(4) run \<open>r2 = Inr ()\<close> date by (auto simp: sig_def)
  next
    case (Some e)
    then have "r2 = Inl (AuditErr (Database e))" "batch_hashes w2 = batch_hashes w1"
      using update_batch_signature_cases [OF u] up guard mem by auto
    then show ?thesis using Some rec(3,4) run date by auto
  qed
qed

section \<open>The transaction chain report\<close>

text \<open>An intact log: every transaction names the record hash of the one before it.\<close>

definition intact_log :: "transaction_record list \<Rightarrow> bool" where
  "intact_log log \<longleftrightarrow> distinct (map tx_record_hash log) \<and> distinct (map tx_transaction_uuid log) \<and>
     (\<forall>i < length log. tx_previous_hash (log ! i) = (if i = 0 then None else Some (tx_record_hash (log ! (i - 1)))))"

lemma filter_one:
  assumes "distinct (map f xs)" "i < length xs"
  shows "filter (\<lambda>x. f x = f (xs ! i)) xs = [xs ! i]"
proof -
  have split: "xs = take i xs @ xs ! i # drop (Suc i) xs" using assms(2) by (simp add: id_take_nth_drop)
  have "distinct (map f (take i xs @ xs ! i # drop (Suc i) xs))" using assms(1) split by simp
  then have "\<forall>x \<in> set (take i xs) \<union> set (drop (Suc i) xs). f x \<noteq> f (xs ! i)" by (auto simp: image_iff)
  then have "filter (\<lambda>x. f x = f (xs ! i)) (take i xs) = []" "filter (\<lambda>x. f x = f (xs ! i)) (drop (Suc i) xs) = []"
    by (auto simp: filter_empty_conv)
  then show ?thesis by (subst split) simp
qed

lemma chain_step_intact:
  assumes "intact_log log" "i < length log"
  shows "chain_step log [log ! i] = (if i = 0 then [] else [log ! (i - 1)])"
proof (cases i)
  case 0
  then have "tx_previous_hash (log ! i) = None" using assms by (auto simp: intact_log_def)
  then show ?thesis using 0 by (simp add: chain_step_def)
next
  case (Suc j)
  then have "tx_previous_hash (log ! i) = Some (tx_record_hash (log ! j))" using assms by (auto simp: intact_log_def)
  moreover have "filter (\<lambda>t. tx_record_hash t = tx_record_hash (log ! j)) log = [log ! j]"
    using filter_one [of tx_record_hash log j] assms Suc by (simp add: intact_log_def)
  ultimately show ?thesis using Suc by (simp add: chain_step_def eq_commute)
qed

text \<open>The records come newest first, so the report compares each hash with the wrong neighbour.\<close>

lemma intact_chain_broken:
  assumes "intact_log log" "i < length log"
  shows "\<exists>recs. chain_levels log max_depth 1 [log ! i] = log ! i # recs \<and>
    (first_broken (log ! i # recs) = None \<longleftrightarrow> i = 0 \<or> max_depth \<le> 1)"
proof (cases "i = 0 \<or> max_depth \<le> 1")
  case True
  then have "chain_levels log max_depth 1 [log ! i] = [log ! i]"
    using chain_step_intact [OF assms] by (auto simp: chain_levels.simps [of log max_depth 1] chain_levels.simps [of log max_depth _ "[]"])
  then show ?thesis using True by simp
next
  case False
  then obtain j where j: "i = Suc j" by (cases i) auto
  then obtain recs where recs: "chain_levels log max_depth 1 [log ! i] = log ! i # log ! j # recs"
    using False chain_step_intact [OF assms]
    by (simp add: chain_levels.simps [of log max_depth 1] chain_levels.simps [of log max_depth 2 "[log ! j]"])
  have "tx_previous_hash (log ! j) \<noteq> Some (tx_record_hash (log ! i))"
  proof (cases j)
    case 0
    have "log \<noteq> []" using assms(2) by auto
    then have "tx_previous_hash (log ! 0) = None" using assms(1) by (simp add: intact_log_def)
    then show ?thesis using 0 by simp
  next
    case (Suc k)
    then have "tx_record_hash (log ! k) \<noteq> tx_record_hash (log ! i)"
      using assms j nth_eq_iff_index_eq [of "map tx_record_hash log" k i] by (simp add: intact_log_def)
    then show ?thesis using assms j Suc by (auto simp: intact_log_def)
  qed
  then show ?thesis using recs False by simp
qed

lemma chain_report:
  assumes "db_up w" and one: "filter (\<lambda>t. tx_transaction_uuid t = u) (transaction_log w) = [x]"
    and recs: "chain_levels (transaction_log w) max_depth 1 [x] = x # recs"
    and u: "uuid_parse ac s = Some u"
  shows "\<exists>rep. fst (audit_verify_transaction_chain ac s max_depth w) = Inr rep \<and>
    ch_is_valid rep = (first_broken (x # recs) = None)"
proof -
  have fetch: "fetch_transactions_for_chain u max_depth w = (Inr (x # recs), ticked w)"
    by (simp add: fetch_transactions_for_chain_def one recs assms(1))
  show ?thesis
    by (cases "first_broken (x # recs)")
      (simp_all add: audit_verify_transaction_chain_def bindE_apply liftE_def okE_def u fetch split_beta)
qed

end
