(* ===== verification/Audit_Properties.thy ===== *)
theory Audit_Properties
  imports Audit_Correct
begin

text \<open>
  The properties of the audit service, with concrete crates and worlds on which their hypotheses
  hold.
\<close>

section \<open>Batch verification\<close>


text \<open>The hex crate writes lower-case digits.\<close>

definition hex_lowercase_law :: "'x audit_crates_scheme \<Rightarrow> bool" where
  "hex_lowercase_law ac \<longleftrightarrow> (\<forall>x. to_lowercase (hex_encode ac x) = hex_encode ac x)"



section \<open>Concrete crates and worlds\<close>

definition example_audit_crates :: audit_crates where
  "example_audit_crates = \<lparr>sha256_digest = example_digest, hex_encode = hex_encode_impl,
     hex_decode = hex_decode_impl, json_to_string = (\<lambda>_. Some ''null''), to_rfc3339 = show_int,
     uuid_parse = (\<lambda>s. Some (of_nat (length s))), uuid_to_string = (\<lambda>u. replicate (unat u) CHR ''u''),
     payload_digest = (\<lambda>j. case j of JString s \<Rightarrow> s | _ \<Rightarrow> []),
     from_timestamp = (\<lambda>s n. Some (s * nanos_per_second + n)), uuid_error = id,
     ed_sign = (\<lambda>k x. replicate 64 (of_nat (length x))), ed_verifying_key = (\<lambda>k. k),
     ed_verify_strict = (\<lambda>vk x s. s = replicate 64 (of_nat (length x)))\<rparr>"

definition example_audit_world :: "event_row list \<Rightarrow> transaction_record list \<Rightarrow> string option \<Rightarrow> audit_world" where
  "example_audit_world events log guard = \<lparr>db_calls = 0, db_fault = (\<lambda>_. None), clock_reads = 0,
     clock = (\<lambda>n. 20 * day_nanos + int n), uuids_made = 0, uuid_supply = (\<lambda>n. of_nat (100 + n)),
     event_store = events, transaction_log = log, batch_hashes = [], batch_update_guard = guard,
     change_log = [], audit_exports = [], consistency_checks = [], pg_random = (\<lambda>_. [])\<rparr>"

definition example_audit_event :: "nat \<Rightarrow> string \<Rightarrow> event_row" where
  "example_audit_event n s = \<lparr>es_event_id = of_nat n, es_event_type = ''T'', es_sequence_number = int n,
     es_payload = JString s, es_occurred_at = 10 * day_nanos + int n\<rparr>"

definition example_tx :: "nat \<Rightarrow> transaction_record" where
  "example_tx n = \<lparr>tx_transaction_id = int n, tx_transaction_uuid = of_nat n, tx_record_hash = replicate n CHR ''h'',
     tx_previous_hash = (if n \<le> 1 then None else Some (replicate (n - 1) CHR ''h'')), tx_committed_at = 0\<rparr>"

lemma example_audit_world_simps [simp]:
  "db_up (example_audit_world events log guard)" "event_store (example_audit_world events log guard) = events"
  "transaction_log (example_audit_world events log guard) = log" "batch_hashes (example_audit_world events log guard) = []"
  "batch_update_guard (example_audit_world events log guard) = guard"
  by (simp_all add: example_audit_world_def db_up_def)

lemma hex_digit_lower: "n < 16 \<Longrightarrow> char_to_lower (hex_digit n) = hex_digit n"
  by (simp add: char_to_lower_def hex_digit_def Let_def)

lemma hex_encode_impl_lower: "to_lowercase (hex_encode_impl bs) = hex_encode_impl bs"
proof (induction bs)
  case (Cons b bs)
  have "unat b div 16 < 16" using unsigned_less [of b, where 'a = nat] by simp
  then show ?case using Cons by (simp add: to_lowercase_def hex_digit_lower)
qed (simp add: to_lowercase_def)

lemma example_audit_laws [simp]:
  "hex_laws example_audit_crates" "digest_laws example_audit_crates 1" "hex_lowercase_law example_audit_crates"
  "ed25519_laws example_audit_crates"
  by (simp_all add: hex_laws_def digest_laws_def hex_lowercase_law_def ed25519_laws_def example_audit_crates_def
      example_digest_def hex_encode_impl_lower)

section \<open>Properties\<close>

text \<open>C18: the inclusion proof of a stored event, requested by event id or by sequence number, is found and
  verifies, and its root is the checksum the ledger reports for the event's day.  An event that is
  not stored is reported as not found; so is every request by transaction id, which names no event.\<close>

theorem audit_merkle_proof_valid:
  assumes "db_up w" "distinct (map es_event_id (event_store w))" "parse_event_id ac eid = Inr target"
  shows "case event_target target seq (event_store w) of
    None \<Rightarrow> fst (audit_get_merkle_proof ac tx eid seq w) = Inl (AuditErr (EventNotFound (lookup_key eid seq)))
  | Some r \<Rightarrow> (\<exists>p c. fst (audit_get_merkle_proof ac tx eid seq w) = Inr p \<and> mp_valid p \<and>
      mp_event_id p = uuid_to_string ac (es_event_id r) \<and>
      fst (audit_get_ledger_checksum ac (day_start (es_occurred_at r)) (day_start (es_occurred_at r) + day_nanos) w) = Inr c \<and>
      lc_merkle_root c = mp_merkle_root p)"
proof (cases "event_target target seq (event_store w)")
  case None
  then show ?thesis
    using fetch_event_up [OF assms(1), of ac target seq] assms(3)
    by (auto simp: audit_get_merkle_proof_def bindE_apply map_errE_def liftE_def Let_def)
next
  case (Some r)
  let ?fr = "day_start (es_occurred_at r)"
  obtain p where p: "fst (audit_get_merkle_proof ac tx eid seq w) = Inr p" "mp_valid p"
      "mp_event_id p = uuid_to_string ac (es_event_id r)"
      "Some (mp_merkle_root p) = map_option fst (build_merkle_tree (sha256_digest ac) (range_leaves ac ?fr (?fr + day_nanos) w))"
    using get_merkle_proof_found [OF assms Some refl] by blast
  have pos: "\<not> ?fr > ?fr + day_nanos" by (simp add: day_nanos_def)
  have "\<exists>c. fst (audit_get_ledger_checksum ac ?fr (?fr + day_nanos) w) = Inr c \<and> lc_merkle_root c = mp_merkle_root p"
    using p(4) pos
    by (simp add: audit_get_ledger_checksum_def bindE_apply fetch_events_for_range_up [OF assms(1)] or_audit_panic_def
        okE_def build_merkle_tree_eq utc_now_def new_v4_def range_records_leaves Let_def)
  then show ?thesis using p(1-3) Some by auto
qed

theorem audit_merkle_proof_valid_witness:
  "\<exists>p. fst (audit_get_merkle_proof example_audit_crates None (Some ''ee'') None
     (example_audit_world [example_audit_event 2 ''b'', example_audit_event 1 ''a'', example_audit_event 3 ''c''] [] None)) = Inr p \<and>
     mp_valid p"
proof -
  let ?w = "example_audit_world [example_audit_event 2 ''b'', example_audit_event 1 ''a'', example_audit_event 3 ''c''] [] None"
  have "distinct (map es_event_id (event_store ?w))" by (simp add: example_audit_event_def)
  moreover have "parse_event_id example_audit_crates (Some ''ee'') = Inr (Some 2)"
    by (simp add: parse_event_id_def example_audit_crates_def)
  moreover have "event_target (Some 2) None (event_store ?w) = Some (example_audit_event 2 ''b'')"
    by (simp add: event_target_def select_first_def example_audit_event_def)
  ultimately show ?thesis
    using audit_merkle_proof_valid [OF example_audit_world_simps(1), of _ _ _ example_audit_crates "Some ''ee''" "Some 2" None None]
    by fastforce
qed

text \<open>C19: the batch of a day is computed once.  A first request stores one row with the Merkle root of the
  day's events, their number and the hash of the latest earlier batch; every later request returns
  that record and changes no batch, whatever events were stored in between.\<close>

theorem batch_hash_computed_once:
  assumes "db_up w" "get_or_compute_batch_hash ac date w = (res, w')"
    "batch_hashes w2 = batch_hashes w'" "db_up w2" "get_or_compute_batch_hash ac date w2 = (res2, w3)"
  shows "\<exists>rec. res = Inr rec \<and> res2 = Inr rec \<and> batch_hashes w3 = batch_hashes w' \<and>
    (if date \<in> bh_batch_date ` set (batch_hashes w) then batch_hashes w' = batch_hashes w
     else batch_hashes w' = batch_hashes w @ [unsigned_row rec] \<and> is_batch_of ac date w rec)"
proof -
  note first = get_or_compute_cases [OF assms(2)] and second = get_or_compute_cases [OF assms(5)]
  show ?thesis
  proof (cases "select_first (\<lambda>r. bh_batch_date r = date) (batch_hashes w)")
    case (Some row)
    then have "date \<in> bh_batch_date ` set (batch_hashes w)" using find_date_None [of date "batch_hashes w"] by auto
    then show ?thesis using first second Some assms(1,3,4) by auto
  next
    case None
    then obtain rec where rec: "res = Inr rec" "batch_hashes w' = batch_hashes w @ [unsigned_row rec]" "is_batch_of ac date w rec"
      using first assms(1) by auto
    then have "select_first (\<lambda>r. bh_batch_date r = date) (batch_hashes w') = Some (unsigned_row rec)"
      using None by (simp add: select_first_append is_batch_of_def Let_def) (simp add: select_first_def)
    moreover from this have "date \<in> bh_batch_date ` set (batch_hashes w')"
      using find_date_None [of date "batch_hashes w'"] by auto
    ultimately show ?thesis
      using second assms(3,4) rec None find_date_None [of date "batch_hashes w"] by auto
  qed
qed

theorem batch_hash_computed_once_witness:
  "let w = example_audit_world [example_audit_event 1 ''a''] [] None;
       run = get_or_compute_batch_hash example_audit_crates 10
   in fst (run (snd (run w))) = fst (run w)"
proof -
  let ?w = "example_audit_world [example_audit_event 1 ''a''] [] None"
  obtain res w' where r: "get_or_compute_batch_hash example_audit_crates 10 ?w = (res, w')" by fastforce
  have up: "db_up w'" using get_or_compute_cases [OF r] audit_frame_up [OF example_audit_world_simps(1)] by blast
  obtain res2 w3 where r2: "get_or_compute_batch_hash example_audit_crates 10 w' = (res2, w3)" by fastforce
  from batch_hash_computed_once [OF example_audit_world_simps(1) r refl up r2]
  show ?thesis using r r2 by (auto simp: Let_def)
qed

text \<open>C20: the batches form a hash chain.  If the stored batches are linked, each naming the hash of the one
  before it, then computing the batch of a later date keeps them linked, also when database
  statements fail anywhere on the way or the signature cannot be stored.\<close>

theorem daily_batches_linked:
  assumes "batch_linked (batch_hashes w)" "\<forall>r \<in> set (batch_hashes w). bh_batch_date r < date"
  shows "batch_linked (batch_hashes (snd (compute_daily_batch ac sb date w)))"
  using compute_daily_batch_linked [OF assms, of ac sb "fst (compute_daily_batch ac sb date w)"] by simp

theorem daily_batches_linked_witness:
  "batch_linked (batch_hashes (snd (compute_daily_batch example_audit_crates (hsm_backend ''k'') 10
     (example_audit_world [example_audit_event 1 ''a''] [] None))))"
  by (rule daily_batches_linked) (simp_all add: batch_linked_def)

text \<open>The backfill at start-up runs from yesterday backwards, so on an empty table each of its seven
  batches is stored before any earlier one exists and none of them names a previous batch.\<close>

lemma backfill_links_nothing:
  assumes "db_up w" "batch_hashes w = []" "today = clock w (clock_reads w) div day_nanos"
    "backfill ac sb w = (res, w')"
  shows "map bh_batch_date (batch_hashes w') =
      [today - 1, today - 2, today - 3, today - 4, today - 5, today - 6, today - 7] \<and>
    (\<forall>r \<in> set (batch_hashes w'). bh_previous_batch_hash r = None)"
proof -
  define w1 where "w1 = w\<lparr>clock_reads := Suc (clock_reads w)\<rparr>"
  have w1: "unlinked [] (batch_hashes w1)" "db_up w1" using assms(1,2) by (simp_all add: w1_def unlinked_def db_up_def)
  have run: "forE (\<lambda>k. ignoreE (compute_daily_batch ac sb (today - k))) [1, 2, 3, 4, 5, 6, 7] w1 = (res, w')"
    using assms(3,4) by (simp add: backfill_def bindE_apply utc_now_def w1_def)
  have "unlinked ([] @ map (\<lambda>k. today - k) [1, 2, 3, 4, 5, 6, 7]) (batch_hashes w')"
    by (rule backfill_days [OF w1 _ run]) simp
  then show ?thesis by (simp add: unlinked_def)
qed

lemma backfill_links_nothing_example:
  "map bh_previous_batch_hash (batch_hashes (snd (backfill example_audit_crates
     (software_backend example_audit_crates ''k'' [])
     (example_audit_world [example_audit_event 1 ''a''] [] None)))) = replicate 7 None"
  (is "map _ ?b = _")
proof -
  note run = backfill_links_nothing [where ac = example_audit_crates and
    sb = "software_backend example_audit_crates ''k'' []" and
    w = "example_audit_world [example_audit_event 1 ''a''] [] None",
    OF example_audit_world_simps(1,4) refl prod.collapse [symmetric]]
  have "length (map bh_batch_date ?b) = 7" by (subst conjunct1 [OF run]) simp
  moreover have "map bh_previous_batch_hash ?b = map (\<lambda>_. None) ?b"
    using conjunct2 [OF run] by (intro map_cong [OF refl]) (erule bspec)
  ultimately show ?thesis by (simp add: map_replicate_const)
qed

text \<open>C22: computing a day's batch with the software backend stores the day's Merkle root with a signature
  that the backend verifies, provided the table accepts updates; when a trigger rejects updates of
  batch hashes, the request fails with the trigger's error and the batch stays without a signature.\<close>

theorem daily_batch_signed:
  assumes "ed25519_laws ac" "db_up w" "date \<notin> bh_batch_date ` set (batch_hashes w)"
    "uuid_supply w (uuids_made w) \<notin> bh_batch_id ` set (batch_hashes w)"
    "compute_daily_batch ac (software_backend ac kid key) date w = (res, w')"
  shows "\<exists>rec row. is_batch_of ac date w rec \<and> batch_hashes w' = batch_hashes w @ [row] \<and>
    bh_batch_hash row = bh_batch_hash rec \<and>
    (case batch_update_guard w of
       None \<Rightarrow> res = Inr rec \<and> (\<exists>sig. br_signature row = Some sig \<and>
         verify_batch_hash (software_backend ac kid key) (bh_batch_hash row) sig = Inr True)
     | Some e \<Rightarrow> res = Inl (AuditErr (Database e)) \<and> br_signature row = None)"
proof -
  obtain rec row where r: "is_batch_of ac date w rec" "batch_hashes w' = batch_hashes w @ [row]"
      "bh_batch_hash row = bh_batch_hash rec"
      "case batch_update_guard w of
         None \<Rightarrow> res = Inr rec \<and> br_signature row = Some (ed_sign ac key (as_bytes (bh_batch_hash rec)))
       | Some e \<Rightarrow> res = Inl (AuditErr (Database e)) \<and> br_signature row = None"
    using compute_daily_batch_new [OF assms(2-5)] by blast
  then show ?thesis
    using software_signature_verifies [OF assms(1), of kid key "bh_batch_hash rec"]
    by (cases "batch_update_guard w") auto
qed

theorem daily_batch_signed_witness:
  "\<exists>row. batch_hashes (snd (compute_daily_batch example_audit_crates (software_backend example_audit_crates ''k'' []) 10
       (example_audit_world [example_audit_event 1 ''a''] [] None))) = [row] \<and> br_signature row \<noteq> None"
proof -
  let ?w = "example_audit_world [example_audit_event 1 ''a''] [] None"
  have "(10 :: int) \<notin> bh_batch_date ` set (batch_hashes ?w)" "uuid_supply ?w (uuids_made ?w) \<notin> bh_batch_id ` set (batch_hashes ?w)"
    by simp_all
  from daily_batch_signed [OF example_audit_laws(4) example_audit_world_simps(1) this prod.collapse [symmetric], of "''k''" "[]"]
  show ?thesis by fastforce
qed



text \<open>C25: on an intact transaction log, in which every transaction names the record hash of its
  predecessor, the chain report calls a chain valid only when it consists of the requested
  transaction alone.  Every longer chain is reported as broken: the records are read newest first
  and each one's previous hash is compared with the hash of its successor.\<close>

theorem intact_chain_reported_broken:
  assumes "db_up w" "intact_log (transaction_log w)" "i < length (transaction_log w)"
    "uuid_parse ac s = Some (tx_transaction_uuid (transaction_log w ! i))"
  shows "\<exists>rep. fst (audit_verify_transaction_chain ac s max_depth w) = Inr rep \<and>
    (ch_is_valid rep \<longleftrightarrow> i = 0 \<or> max_depth \<le> 1)"
proof -
  let ?log = "transaction_log w"
  have one: "filter (\<lambda>t. tx_transaction_uuid t = tx_transaction_uuid (?log ! i)) ?log = [?log ! i]"
    using assms(2,3) unfolding intact_log_def by (intro filter_one) blast+
  obtain recs where recs: "chain_levels ?log max_depth 1 [?log ! i] = ?log ! i # recs"
      "first_broken (?log ! i # recs) = None \<longleftrightarrow> i = 0 \<or> max_depth \<le> 1"
    using intact_chain_broken [OF assms(2,3), of max_depth] by (elim exE conjE)
  show ?thesis using chain_report [OF assms(1) one recs(1) assms(4)] unfolding recs(2) .
qed

theorem intact_chain_reported_broken_witness:
  "\<exists>rep. fst (audit_verify_transaction_chain example_audit_crates ''tt'' 5
      (example_audit_world [] [example_tx 1, example_tx 2] None)) = Inr rep \<and> \<not> ch_is_valid rep"
proof -
  let ?w = "example_audit_world [] [example_tx 1, example_tx 2] None"
  have "intact_log (transaction_log ?w)" by (simp add: intact_log_def example_tx_def less_Suc_eq numeral_eq_Suc)
  moreover have "1 < length (transaction_log ?w)"
    "uuid_parse example_audit_crates ''tt'' = Some (tx_transaction_uuid (transaction_log ?w ! 1))"
    by (simp_all add: example_tx_def example_audit_crates_def)
  ultimately show ?thesis
    using intact_chain_reported_broken [OF example_audit_world_simps(1), of _ _ _ 1 example_audit_crates "''tt''" 5] by fastforce
qed

text \<open>The daily job always waits more than zero and at most twenty-four hours, and wakes at 02:00 UTC.\<close>

lemma schedule_wait_bounds:
  "0 < schedule_wait now \<and> schedule_wait now \<le> day_nanos \<and>
   (now + schedule_wait now) mod day_nanos = 2 * 3600 * nanos_per_second"
proof -
  define m where "m = now mod day_nanos"
  have now: "now = now div day_nanos * day_nanos + m" by (simp add: m_def)
  have m: "0 \<le> m" "m < day_nanos" by (simp_all add: m_def day_nanos_def)
  have two: "2 * 3600 * nanos_per_second < day_nanos" "0 < 2 * 3600 * nanos_per_second"
    by (simp_all add: day_nanos_def nanos_per_second_def)
  have wait: "schedule_wait now = (if 2 * 3600 * nanos_per_second \<le> m then 2 * 3600 * nanos_per_second + day_nanos - m
      else 2 * 3600 * nanos_per_second - m)"
    using now m two by (auto simp: schedule_wait_def Let_def)
  have "(now + schedule_wait now) mod day_nanos = (2 * 3600 * nanos_per_second) mod day_nanos"
  proof (cases "2 * 3600 * nanos_per_second \<le> m")
    case True
    then have "now + schedule_wait now = 2 * 3600 * nanos_per_second + (now div day_nanos + 1) * day_nanos"
      using now wait by (simp add: algebra_simps)
    then show ?thesis by (metis mod_mult_self1)
  next
    case False
    then have "now + schedule_wait now = 2 * 3600 * nanos_per_second + now div day_nanos * day_nanos"
      using now wait by (simp add: algebra_simps)
    then show ?thesis by (metis mod_mult_self1)
  qed
  then show ?thesis using wait m two by (auto simp: day_nanos_def nanos_per_second_def)
qed

end
