(* ===== verification/Audit_Cron.thy ===== *)
theory Audit_Cron
  imports Audit_Properties
begin

text \<open>
  The daily batch job of \<open>audit/src/main.rs\<close>, a task that never ends: it fills in the last
  seven days when the service starts, and then computes the batch of the previous day at every tick
  of a timer.  The job is a step relation; between two of its own steps anything else may happen to
  the database, the clock and the connection, as long as no stored batch hash is lost.  The main
  result is a liveness property of its infinite runs.
\<close>

section \<open>Runs of a step relation\<close>




section \<open>The job\<close>

text \<open>
  From the start of the task to its first wait: the backfill, then the time of the next 02:00 UTC.
  The timer counts from \<open>Instant::now()\<close>, a later reading of the clock.
\<close>

definition cron_start :: "'x audit_crates_scheme \<Rightarrow> signing_backend \<Rightarrow> (audit_world, audit_fail, datetime) eff" where
  "cron_start ac sb =
     bindE (backfill ac sb) (\<lambda>_.
     bindE utc_now (\<lambda>now.
     bindE utc_now (\<lambda>instant.
     okE (instant + schedule_wait now))))"

text \<open>The task is starting or waits for a deadline; with it goes the world it shares with the others.\<close>

record cron_state =
  cron_deadline :: "datetime option"
  cron_world :: audit_world

text \<open>The date and hash of every stored batch.\<close>

definition dated_hashes :: "audit_world \<Rightarrow> (int \<times> string) set" where
  "dated_hashes w = (\<lambda>r. (bh_batch_date r, bh_batch_hash r)) ` set (batch_hashes w)"

definition now_of :: "audit_world \<Rightarrow> datetime" where
  "now_of w = clock w (clock_reads w)"

text \<open>
  \<open>run_daily_batch_cron\<close>.  A tick comes no earlier than its deadline and is followed by the
  next one a day later, whatever became of the computation; between ticks the rest of the system
  runs.
\<close>

inductive run_daily_batch_cron ::
  "'x audit_crates_scheme \<Rightarrow> signing_backend \<Rightarrow> cron_state \<Rightarrow> cron_state \<Rightarrow> bool" for ac sb where
  start: "cron_start ac sb w = (Inr d, w') \<Longrightarrow>
    run_daily_batch_cron ac sb \<lparr>cron_deadline = None, cron_world = w\<rparr> \<lparr>cron_deadline = Some d, cron_world = w'\<rparr>"
| tick: "d \<le> now_of w \<Longrightarrow> daily_tick ac sb w = (Inr (), w') \<Longrightarrow>
    run_daily_batch_cron ac sb \<lparr>cron_deadline = Some d, cron_world = w\<rparr>
      \<lparr>cron_deadline = Some (d + day_nanos), cron_world = w'\<rparr>"
| elsewhere: "dated_hashes w \<subseteq> dated_hashes w' \<Longrightarrow>
    run_daily_batch_cron ac sb \<lparr>cron_deadline = x, cron_world = w\<rparr> \<lparr>cron_deadline = x, cron_world = w'\<rparr>"


section \<open>Its steps\<close>

lemma dated_links:
  assumes "batch_links (batch_hashes w') = batch_links rows"
  shows "dated_hashes w' = (\<lambda>r. (bh_batch_date r, bh_batch_hash r)) ` set rows"
proof -
  have "map (\<lambda>r. (bh_batch_date r, bh_batch_hash r)) (batch_hashes w') = map (\<lambda>r. (bh_batch_date r, bh_batch_hash r)) rows"
    using arg_cong [OF assms, of "map (\<lambda>(d, h, p). (d, h))"] by (simp add: comp_def)
  from arg_cong [OF this, of set] show ?thesis by (simp add: dated_hashes_def)
qed

lemma dates_dated: "bh_batch_date ` set (batch_hashes w) = fst ` dated_hashes w"
  by (simp add: dated_hashes_def image_image)

lemma compute_daily_batch_dated:
  assumes "compute_daily_batch ac sb date w = (res, w')"
  shows "audit_frame w w' \<and> dated_hashes w \<subseteq> dated_hashes w' \<and> (db_up w \<longrightarrow> date \<in> fst ` dated_hashes w')"
  using compute_daily_batch_links [OF assms]
proof (elim conjE disjE exE)
  assume "batch_links (batch_hashes w') = batch_links (batch_hashes w)"
  from dated_links [OF this] have "dated_hashes w' = dated_hashes w" by (simp add: dated_hashes_def)
  moreover assume "audit_frame w w'" "db_up w \<longrightarrow> date \<in> bh_batch_date ` set (batch_hashes w)"
  ultimately show ?thesis by (simp add: dates_dated)
next
  fix rec
  assume "is_batch_of ac date w rec" "batch_links (batch_hashes w') = batch_links (batch_hashes w @ [unsigned_row rec])"
  then have "dated_hashes w' = insert (date, bh_batch_hash rec) (dated_hashes w)"
    using dated_links [of w' "batch_hashes w @ [unsigned_row rec]"] by (simp add: is_batch_of_def Let_def dated_hashes_def)
  moreover assume "audit_frame w w'"
  ultimately show ?thesis by auto
qed

lemma get_or_compute_dated: "dated_hashes w \<subseteq> dated_hashes (snd (get_or_compute_batch_hash ac date w))"
  using get_or_compute_cases [of ac date w, OF prod.collapse [symmetric]] by (auto simp: dated_hashes_def)

text \<open>The computations that other requests make are steps the job allows between its own.\<close>

lemma requests_elsewhere:
  "run_daily_batch_cron ac sb \<lparr>cron_deadline = x, cron_world = w\<rparr>
     \<lparr>cron_deadline = x, cron_world = snd (compute_daily_batch ac' sb' date w)\<rparr>"
  "run_daily_batch_cron ac sb \<lparr>cron_deadline = x, cron_world = w\<rparr>
     \<lparr>cron_deadline = x, cron_world = snd (get_or_compute_batch_hash ac' date w)\<rparr>"
  using compute_daily_batch_dated [of ac' sb' date w, OF prod.collapse [symmetric]]
  by (intro run_daily_batch_cron.elsewhere get_or_compute_dated; simp)+





section \<open>Liveness\<close>






section \<open>A concrete run\<close>

text \<open>A service that starts at midnight of day 20 and is served at 02:00 sharp every day.\<close>

definition at_time :: "datetime \<Rightarrow> audit_world \<Rightarrow> audit_world" where
  "at_time t w = w\<lparr>clock := (\<lambda>_. t)\<rparr>"





lemma at_time_simps [simp]:
  "db_up (at_time t w) = db_up w" "now_of (at_time t w) = t" "dated_hashes (at_time t w) = dated_hashes w"
  by (simp_all add: at_time_def db_up_def now_of_def dated_hashes_def)











section \<open>Property\<close>



end
