(* ===== verification/Host.thy ===== *)
theory Host
  imports Wire
begin

text \<open>
  What a service process finds when it starts: its environment variables, the files of its host,
  random bytes, the answers of HTTP servers, the database it connects to and the addresses it may
  listen on; with the standard-library operations the start-up code applies to them, among them
  the parser of socket addresses (\<open>core::net::parser\<close>).
\<close>

section \<open>Numbers\<close>

text \<open>\<open>str::parse::<u16>\<close>.\<close>

definition parse_u16 :: "string \<Rightarrow> nat option" where
  "parse_u16 s =
     (case parse_digits (case s of c # ds \<Rightarrow> if c = CHR ''+'' then ds else s | [] \<Rightarrow> []) of
        Some n \<Rightarrow> if n < 65536 then Some n else None
      | None \<Rightarrow> None)"

lemma parse_u16_show_nat [simp]: "n < 65536 \<Longrightarrow> parse_u16 (show_nat n) = Some n"
proof -
  assume n: "n < 65536"
  obtain c ds where s: "show_nat n = c # ds" using show_nat_digits [of n] by (cases "show_nat n") auto
  then have "c \<noteq> CHR ''+''" using show_nat_digits [of n] by (auto simp: is_digit_def)
  then show ?thesis using s n parse_digits_show_nat [of n] by (simp add: parse_u16_def)
qed

lemma parse_u16_less: "parse_u16 s = Some n \<Longrightarrow> n < 65536"
  by (auto simp: parse_u16_def split: option.splits if_splits)

section \<open>Socket addresses\<close>

text \<open>\<open>char::to_digit\<close> for the radixes 10 and 16.\<close>

definition to_digit :: "nat \<Rightarrow> char \<Rightarrow> nat option" where
  "to_digit radix c =
     (let n = (of_char c :: nat);
          d = (if 48 \<le> n \<and> n \<le> 57 then n - 48
               else if 97 \<le> n \<and> n \<le> 122 then n - 87
               else if 65 \<le> n \<and> n \<le> 90 then n - 55 else 36)
      in if d < radix then Some d else None)"

type_synonym 'a reader = "string \<Rightarrow> ('a \<times> string) option"

definition read_given_char :: "char \<Rightarrow> unit reader" where
  "read_given_char c s = (case s of x # r \<Rightarrow> if x = c then Some ((), r) else None | [] \<Rightarrow> None)"

text \<open>
  \<open>read_number\<close> for a result below \<open>bound\<close>: with a digit limit it counts digits and rejects
  one too many; without one it rejects overflow.
\<close>

fun digits_of :: "nat \<Rightarrow> string \<Rightarrow> nat list \<times> string" where
  "digits_of radix [] = ([], [])"
| "digits_of radix (c # s) =
     (case to_digit radix c of
        None \<Rightarrow> ([], c # s)
      | Some d \<Rightarrow> (case digits_of radix s of (ds, r) \<Rightarrow> (d # ds, r)))"

definition read_number :: "nat \<Rightarrow> nat option \<Rightarrow> bool \<Rightarrow> nat \<Rightarrow> nat reader" where
  "read_number radix max_digits allow_zero_prefix bound s =
     (case digits_of radix s of (ds, r) \<Rightarrow>
        let n = foldl (\<lambda>n d. radix * n + d) 0 ds in
        if ds = [] then None
        else if (case max_digits of Some m \<Rightarrow> m < length ds | None \<Rightarrow> False) then None
        else if \<not> allow_zero_prefix \<and> hd ds = 0 \<and> 1 < length ds then None
        else if bound \<le> n then None
        else Some (n, r))"

definition read_separator :: "char \<Rightarrow> nat \<Rightarrow> 'a reader \<Rightarrow> 'a reader" where
  "read_separator sep index inner s =
     (if 0 < index then (case read_given_char sep s of None \<Rightarrow> None | Some (_, r) \<Rightarrow> inner r) else inner s)"

definition read_octet :: "nat \<Rightarrow> nat reader" where
  "read_octet i = read_separator CHR ''.'' i (read_number 10 (Some 3) False 256)"

definition read_ipv4_addr :: "(nat \<times> nat \<times> nat \<times> nat) reader" where
  "read_ipv4_addr s =
     (case read_octet 0 s of None \<Rightarrow> None | Some (a, s) \<Rightarrow>
      (case read_octet 1 s of None \<Rightarrow> None | Some (b, s) \<Rightarrow>
       (case read_octet 2 s of None \<Rightarrow> None | Some (c, s) \<Rightarrow>
        (case read_octet 3 s of None \<Rightarrow> None | Some (d, s) \<Rightarrow> Some ((a, b, c, d), s)))))"

text \<open>The groups of an IPv6 address; the flag says that the last two came from a dotted quad.\<close>

fun read_groups :: "nat \<Rightarrow> nat \<Rightarrow> string \<Rightarrow> nat list \<times> bool \<times> string" where
  "read_groups 0 i s = ([], False, s)"
| "read_groups (Suc k) i s =
     (case (if 0 < k then read_separator CHR '':'' i read_ipv4_addr s else None) of
        Some ((a, b, c, d), r) \<Rightarrow> ([256 * a + b, 256 * c + d], True, r)
      | None \<Rightarrow>
          (case read_separator CHR '':'' i (read_number 16 (Some 4) True 65536) s of
             None \<Rightarrow> ([], False, s)
           | Some (g, r) \<Rightarrow> (case read_groups k (Suc i) r of (gs, v4, r') \<Rightarrow> (g # gs, v4, r'))))"

definition read_ipv6_addr :: "nat list reader" where
  "read_ipv6_addr s =
     (case read_groups 8 0 s of (head, head_ipv4, r) \<Rightarrow>
        if length head = 8 then Some (head, r)
        else if head_ipv4 then None
        else (case read_given_char CHR '':'' r of None \<Rightarrow> None | Some (_, r1) \<Rightarrow>
              (case read_given_char CHR '':'' r1 of None \<Rightarrow> None | Some (_, r2) \<Rightarrow>
               (case read_groups (8 - (length head + 1)) 0 r2 of (tail, _, r3) \<Rightarrow>
                  Some (head @ replicate (8 - length head - length tail) 0 @ tail, r3)))))"

datatype socket_addr = SocketV4 "nat \<times> nat \<times> nat \<times> nat" nat | SocketV6 "nat list" nat nat

definition read_port :: "nat reader" where
  "read_port s =
     (case read_given_char CHR '':'' s of None \<Rightarrow> None | Some (_, r) \<Rightarrow> read_number 10 None True 65536 r)"

definition read_socket_addr_v4 :: "socket_addr reader" where
  "read_socket_addr_v4 s =
     (case read_ipv4_addr s of None \<Rightarrow> None | Some (ip, r) \<Rightarrow>
      (case read_port r of None \<Rightarrow> None | Some (port, r') \<Rightarrow> Some (SocketV4 ip port, r')))"

definition read_scope_id :: "nat reader" where
  "read_scope_id s =
     (case read_given_char CHR ''%'' s of None \<Rightarrow> None | Some (_, r) \<Rightarrow> read_number 10 None True (2 ^ 32) r)"

definition read_socket_addr_v6 :: "socket_addr reader" where
  "read_socket_addr_v6 s =
     (case read_given_char CHR ''['' s of None \<Rightarrow> None | Some (_, r0) \<Rightarrow>
      (case read_ipv6_addr r0 of None \<Rightarrow> None | Some (ip, r1) \<Rightarrow>
       (case (case read_scope_id r1 of Some x \<Rightarrow> x | None \<Rightarrow> (0, r1)) of (scope, r2) \<Rightarrow>
        (case read_given_char CHR '']'' r2 of None \<Rightarrow> None | Some (_, r3) \<Rightarrow>
         (case read_port r3 of None \<Rightarrow> None | Some (port, r4) \<Rightarrow> Some (SocketV6 ip port scope, r4))))))"

definition parse_socket_addr :: "string \<Rightarrow> string + socket_addr" where
  "parse_socket_addr s =
     (case (case read_socket_addr_v4 s of Some x \<Rightarrow> Some x | None \<Rightarrow> read_socket_addr_v6 s) of
        Some (a, []) \<Rightarrow> Inr a
      | _ \<Rightarrow> Inl ''invalid socket address syntax'')"

definition is_loopback :: "socket_addr \<Rightarrow> bool" where
  "is_loopback a = (case a of SocketV4 (b, _) _ \<Rightarrow> b = 127 | SocketV6 gs _ _ \<Rightarrow> gs = [0, 0, 0, 0, 0, 0, 0, 1])"

lemma to_digit_decimal: "is_digit c \<Longrightarrow> to_digit 10 c = Some (of_char c - 48)"
  by (auto simp: to_digit_def is_digit_def Let_def)

lemma digits_of_decimal: "list_all is_digit s \<Longrightarrow> digits_of 10 s = (map (\<lambda>c. of_char c - 48) s, [])"
  by (induction s) (auto simp: to_digit_decimal)

lemma foldl_digits: "foldl (\<lambda>n d. 10 * n + d) k (map (\<lambda>c. of_char c - 48) s) = foldl (\<lambda>n c. 10 * n + (of_char c - 48)) k (s :: string)"
  by (induction s arbitrary: k) auto

lemma read_port_show: "n < 65536 \<Longrightarrow> read_port ('':'' @ show_nat n) = Some (n, [])"
  using show_nat_digits [of n]
  by (simp add: read_port_def read_given_char_def read_number_def digits_of_decimal foldl_digits digits_value_def)

text \<open>The default bind address with any port is a loopback address.\<close>

lemma parse_localhost [simp]:
  "n < 65536 \<Longrightarrow> parse_socket_addr (''127.0.0.1:'' @ show_nat n) = Inr (SocketV4 (127, 0, 0, 1) n)"
proof -
  assume n: "n < 65536"
  have "read_ipv4_addr (''127.0.0.1:'' @ show_nat n) = Some ((127, 0, 0, 1), '':'' @ show_nat n)"
    by (simp add: read_ipv4_addr_def read_octet_def read_separator_def read_given_char_def read_number_def to_digit_def)
  then show ?thesis using read_port_show [OF n] by (simp add: parse_socket_addr_def read_socket_addr_v4_def)
qed

section \<open>The host of a process\<close>

text \<open>
  A path names a file that can be read, or something that exists and cannot, with the error.  A
  write succeeds, is refused before it changes anything, or fails after some of the bytes.
\<close>

datatype fs_entry = Readable bytes | Unreadable string

datatype write_outcome = WriteDone | WriteRefused string | WriteCut nat string

datatype web_request =
    WebGet string "(string \<times> string) list"
  | WebPost string json

text \<open>
  What \<open>reqwest\<close> reports of a request: a transport error, or a status and a body, which may fail to
  arrive.
\<close>

datatype web_reply = WebFailure string | WebReply nat "string option"

record host =
  env_vars :: "string \<Rightarrow> string option"
  fs :: "string \<Rightarrow> fs_entry option"
  writes :: nat
  write_script :: "nat \<Rightarrow> write_outcome"
  keys_drawn :: nat
  key_supply :: "nat \<Rightarrow> bytes"
  web_sent :: "web_request list"
  web_script :: "nat \<Rightarrow> web_reply"
  db_connect :: "string \<Rightarrow> string option"
  bind_fault :: "socket_addr \<Rightarrow> string option"

text \<open>\<open>env::var(name).unwrap_or_else(...)\<close>, and a port that falls back when unset or malformed.\<close>

definition env_or :: "string \<Rightarrow> string \<Rightarrow> host \<Rightarrow> string" where
  "env_or name d w = unwrap_or (env_vars w name) d"

definition env_port :: "string \<Rightarrow> nat \<Rightarrow> host \<Rightarrow> nat" where
  "env_port name d w = unwrap_or (Option.bind (env_vars w name) parse_u16) d"

lemma env_port_less: "d < 65536 \<Longrightarrow> env_port name d w < 65536"
  using parse_u16_less
  by (cases "Option.bind (env_vars w name) parse_u16") (auto simp: env_port_def bind_eq_Some_conv)

definition path_exists :: "string \<Rightarrow> host \<Rightarrow> bool" where
  "path_exists p w \<longleftrightarrow> fs w p \<noteq> None"

definition fs_read :: "string \<Rightarrow> (host, string, bytes) eff" where
  "fs_read p = (\<lambda>w. (case fs w p of
      Some (Readable b) \<Rightarrow> Inr b
    | Some (Unreadable e) \<Rightarrow> Inl e
    | None \<Rightarrow> Inl ''No such file or directory (os error 2)'', w))"

definition fs_write :: "string \<Rightarrow> bytes \<Rightarrow> (host, string, unit) eff" where
  "fs_write p data = (\<lambda>w. let w' = w\<lparr>writes := Suc (writes w)\<rparr> in
     case write_script w (writes w) of
       WriteDone \<Rightarrow> (Inr (), w'\<lparr>fs := (fs w)(p \<mapsto> Readable data)\<rparr>)
     | WriteRefused e \<Rightarrow> (Inl e, w')
     | WriteCut n e \<Rightarrow> (Inl e, w'\<lparr>fs := (fs w)(p \<mapsto> Readable (take n data))\<rparr>))"

text \<open>\<open>rand::thread_rng().gen::<[u8; 32]>()\<close>.\<close>

definition draw_key :: "(host, 'e, bytes) eff" where
  "draw_key = (\<lambda>w. (Inr (key_supply w (keys_drawn w)), w\<lparr>keys_drawn := Suc (keys_drawn w)\<rparr>))"

definition key_supply_law :: "host \<Rightarrow> bool" where
  "key_supply_law w \<longleftrightarrow> (\<forall>n. length (key_supply w n) = 32)"

definition web_send :: "web_request \<Rightarrow> (host, string, nat \<times> string option) eff" where
  "web_send req = (\<lambda>w.
     let w' = w\<lparr>web_sent := web_sent w @ [req]\<rparr> in
     case web_script w (length (web_sent w)) of
       WebFailure e \<Rightarrow> (Inl e, w')
     | WebReply st body \<Rightarrow> (Inr (st, body), w'))"

text \<open>Connecting the database pool, and binding the listener of the server.\<close>

definition connect_pool :: "string \<Rightarrow> (host, string, unit) eff" where
  "connect_pool url = (\<lambda>w. (case db_connect w url of None \<Rightarrow> Inr () | Some e \<Rightarrow> Inl e, w))"

definition bind_listener :: "socket_addr \<Rightarrow> (host, string, unit) eff" where
  "bind_listener addr = (\<lambda>w. (case bind_fault w addr of None \<Rightarrow> Inr () | Some e \<Rightarrow> Inl e, w))"

text \<open>A host without settings or files, for the examples.\<close>

definition example_host :: host where
  "example_host = \<lparr>env_vars = (\<lambda>_. None), fs = (\<lambda>_. None), writes = 0, write_script = (\<lambda>_. WriteDone),
     keys_drawn = 0, key_supply = (\<lambda>n. replicate 32 (of_nat n)), web_sent = [], web_script = (\<lambda>_. WebFailure []),
     db_connect = (\<lambda>_. None), bind_fault = (\<lambda>_. None)\<rparr>"

end
