(* ===== verification/Payment_Vault.thy ===== *)
theory Payment_Vault
  imports Payment_Service Host
begin

text \<open>
  Where the payment engine gets the credentials of its provider from
  (payment-engine/src/infrastructure/vault.rs): a HashiCorp Vault it logs in to, or its own
  environment when no Vault role is configured.
\<close>

section \<open>The clients\<close>

text \<open>
  reqwest's text for an error status, and the deserialisers of a response body: any JSON value,
  and the derived one of \<open>VaultKv2Response\<close> with the value under its two \<open>data\<close> fields.
\<close>

record vault_crates =
  status_error :: "string \<Rightarrow> nat \<Rightarrow> string"
  de_json :: "string option \<Rightarrow> string + json"
  de_kv2_response :: "string option \<Rightarrow> string + json"

text \<open>\<open>Response::error_for_status\<close>, and \<open>Value\<close> indexed by a string.\<close>

definition error_for_status :: "'x vault_crates_scheme \<Rightarrow> string \<Rightarrow> nat \<times> string option \<Rightarrow> string + string option" where
  "error_for_status vc url r =
     (if 400 \<le> fst r \<and> fst r < 600 then Inl (status_error vc url (fst r)) else Inr (snd r))"

definition json_index :: "json \<Rightarrow> string \<Rightarrow> json" where
  "json_index v k = unwrap_or (json_get v k) JNull"

text \<open>\<open>str::to_uppercase\<close> on ASCII text; the engine asks for \<open>ecocash\<close> only.\<close>

definition to_uppercase :: "string \<Rightarrow> string" where
  "to_uppercase s = map (\<lambda>c. let n = (of_char c :: nat) in if 97 \<le> n \<and> n \<le> 122 then char_of (n - 32) else c) s"

datatype vault_client = MockVaultClient | HttpVaultClient string string

definition mock_get_credentials :: "string \<Rightarrow> (host, string, provider_credentials) eff" where
  "mock_get_credentials prov =
     (let prefix = to_uppercase prov in
      getE (\<lambda>w. \<lparr>cred_base_url = env_or (prefix @ ''_BASE_URL'') ''https://api.example.com'' w,
        cred_merchant_id = env_or (prefix @ ''_MERCHANT_ID'') [] w,
        cred_api_key = env_or (prefix @ ''_API_KEY'') [] w,
        cred_secret_key = env_or (prefix @ ''_SECRET_KEY'') [] w\<rparr>))"

abbreviation vault_addr :: "host \<Rightarrow> string" where
  "vault_addr \<equiv> env_or ''VAULT_ADDR'' ''http://127.0.0.1:8200''"

abbreviation login_body :: "string \<Rightarrow> string \<Rightarrow> json" where
  "login_body role_id secret_id \<equiv> JObject [(''role_id'', JString role_id), (''secret_id'', JString secret_id)]"

definition vault_login :: "'x vault_crates_scheme \<Rightarrow> string \<Rightarrow> string \<Rightarrow> (host, string, string) eff" where
  "vault_login vc role_id secret_id =
     bindE (getE vault_addr) (\<lambda>addr.
     let url = addr @ ''/v1/auth/approle/login'' in
     bindE (map_errE (\<lambda>e. ''vault login request failed: '' @ e) (web_send (WebPost url (login_body role_id secret_id)))) (\<lambda>resp.
     bindE (map_errE (\<lambda>e. ''vault login returned error: '' @ e) (liftE (error_for_status vc url resp))) (\<lambda>body.
     bindE (map_errE (\<lambda>e. ''failed to parse vault login response: '' @ e) (liftE (de_json vc body))) (\<lambda>v.
     case json_as_str (json_index (json_index v ''auth'') ''client_token'') of
       Some token \<Rightarrow> okE token
     | None \<Rightarrow> failE ''missing client_token in vault login response''))))"

definition http_vault_new :: "string \<Rightarrow> (host, string, vault_client) eff" where
  "http_vault_new token = getE (\<lambda>w. HttpVaultClient (vault_addr w) token)"

definition read_secret :: "'x vault_crates_scheme \<Rightarrow> string \<Rightarrow> string \<Rightarrow> string \<Rightarrow> (host, string, json) eff" where
  "read_secret vc base_url token path =
     (let url = base_url @ ''/v1/secret/data/'' @ path in
      bindE (map_errE (\<lambda>e. ''vault read request failed: '' @ e) (web_send (WebGet url [(''X-Vault-Token'', token)]))) (\<lambda>resp.
      bindE (map_errE (\<lambda>e. ''vault read returned error: '' @ e) (liftE (error_for_status vc url resp))) (\<lambda>body.
      map_errE (\<lambda>e. ''failed to parse vault read response: '' @ e) (liftE (de_kv2_response vc body)))))"

definition secret_credentials :: "json \<Rightarrow> provider_credentials" where
  "secret_credentials secret =
     \<lparr>cred_base_url = unwrap_or (json_as_str (json_index secret ''base_url'')) ''https://api.example.com'',
      cred_merchant_id = unwrap_or (json_as_str (json_index secret ''merchant_id'')) [],
      cred_api_key = unwrap_or (json_as_str (json_index secret ''api_key'')) [],
      cred_secret_key = unwrap_or (json_as_str (json_index secret ''secret_key'')) []\<rparr>"

text \<open>The trait method, on either implementation.\<close>

definition get_credentials ::
  "'x vault_crates_scheme \<Rightarrow> vault_client \<Rightarrow> string \<Rightarrow> (host, string, provider_credentials) eff" where
  "get_credentials vc client prov =
     (case client of
        MockVaultClient \<Rightarrow> mock_get_credentials prov
      | HttpVaultClient base_url token \<Rightarrow>
          bindE (read_secret vc base_url token (''ussd-kernel/providers/'' @ prov)) (\<lambda>secret.
          okE (secret_credentials secret)))"

definition get_vault_client :: "'x vault_crates_scheme \<Rightarrow> (host, string, vault_client) eff" where
  "get_vault_client vc =
     bindE (getE (env_or ''VAULT_ROLE_ID'' [])) (\<lambda>role_id.
     bindE (getE (env_or ''VAULT_SECRET_ID'' [])) (\<lambda>secret_id.
     if role_id = [] \<or> secret_id = [] then okE MockVaultClient
     else bindE (vault_login vc role_id secret_id) http_vault_new))"

section \<open>What the engine ends up with\<close>

text \<open>The credentials of a provider at start-up.\<close>

definition provider_credentials_at_start :: "'x vault_crates_scheme \<Rightarrow> string \<Rightarrow> (host, string, provider_credentials) eff" where
  "provider_credentials_at_start vc prov =
     bindE (get_vault_client vc) (\<lambda>client. get_credentials vc client prov)"

abbreviation vault_configured :: "host \<Rightarrow> bool" where
  "vault_configured w \<equiv> env_or ''VAULT_ROLE_ID'' [] w \<noteq> [] \<and> env_or ''VAULT_SECRET_ID'' [] w \<noteq> []"

abbreviation login_request :: "host \<Rightarrow> web_request" where
  "login_request w \<equiv> WebPost (vault_addr w @ ''/v1/auth/approle/login'')
     (login_body (env_or ''VAULT_ROLE_ID'' [] w) (env_or ''VAULT_SECRET_ID'' [] w))"

abbreviation secret_request :: "host \<Rightarrow> string \<Rightarrow> string \<Rightarrow> web_request" where
  "secret_request w prov token \<equiv>
     WebGet (vault_addr w @ ''/v1/secret/data/ussd-kernel/providers/'' @ prov) [(''X-Vault-Token'', token)]"

text \<open>
  The body of a scripted reply that is neither a transport error nor an error status, the token of
  a login reply, and the secret of a read reply.
\<close>

definition good_body :: "web_reply \<Rightarrow> string option option" where
  "good_body r = (case r of WebFailure e \<Rightarrow> None | WebReply st body \<Rightarrow> if 400 \<le> st \<and> st < 600 then None else Some body)"

definition login_token :: "'x vault_crates_scheme \<Rightarrow> web_reply \<Rightarrow> string option" where
  "login_token vc r =
     Option.bind (good_body r) (\<lambda>body. case de_json vc body of Inl _ \<Rightarrow> None
       | Inr v \<Rightarrow> json_as_str (json_index (json_index v ''auth'') ''client_token''))"

definition reply_secret :: "'x vault_crates_scheme \<Rightarrow> web_reply \<Rightarrow> json option" where
  "reply_secret vc r =
     Option.bind (good_body r) (\<lambda>body. case de_kv2_response vc body of Inl _ \<Rightarrow> None | Inr v \<Rightarrow> Some v)"

text \<open>An error, or the value that is there.\<close>

fun gives :: "string + 'a \<Rightarrow> 'a option \<Rightarrow> bool" where
  "gives (Inl e) v \<longleftrightarrow> v = None"
| "gives (Inr a) v \<longleftrightarrow> v = Some a"

lemma vault_login_gives:
  "\<exists>r. vault_login vc role secret w =
      (r, w\<lparr>web_sent := web_sent w @ [WebPost (vault_addr w @ ''/v1/auth/approle/login'') (login_body role secret)]\<rparr>) \<and>
    gives r (login_token vc (web_script w (length (web_sent w))))"
  by (cases "web_script w (length (web_sent w))")
    (auto simp: vault_login_def eff_simps web_send_def error_for_status_def good_body_def login_token_def Let_def
      split: sum.splits option.splits)

lemma read_secret_gives:
  "\<exists>r. read_secret vc base token path w =
      (r, w\<lparr>web_sent := web_sent w @ [WebGet (base @ ''/v1/secret/data/'' @ path) [(''X-Vault-Token'', token)]]\<rparr>) \<and>
    gives r (reply_secret vc (web_script w (length (web_sent w))))"
  by (cases "web_script w (length (web_sent w))")
    (auto simp: read_secret_def eff_simps web_send_def error_for_status_def good_body_def reply_secret_def Let_def
      split: sum.splits)

lemma gives_map: "gives r v \<Longrightarrow> gives (map_sum id f r) (map_option f v)"
  by (cases r) auto

lemma credentials_with_token:
  assumes "vault_configured w" "login_token vc (web_script w (length (web_sent w))) = Some token"
  shows "\<exists>r. provider_credentials_at_start vc prov w =
      (r, w\<lparr>web_sent := web_sent w @ [login_request w, secret_request w prov token]\<rparr>) \<and>
    gives r (map_option secret_credentials (reply_secret vc (web_script w (Suc (length (web_sent w))))))"
proof -
  let ?w1 = "w\<lparr>web_sent := web_sent w @ [login_request w]\<rparr>"
  have login: "vault_login vc (env_or ''VAULT_ROLE_ID'' [] w) (env_or ''VAULT_SECRET_ID'' [] w) w = (Inr token, ?w1)"
    using vault_login_gives [of vc "env_or ''VAULT_ROLE_ID'' [] w" "env_or ''VAULT_SECRET_ID'' [] w" w]
    unfolding assms(2) by (auto elim: gives.elims)
  have addr: "env_or n d ?w1 = env_or n d w" for n d by (simp add: env_or_def)
  obtain r where r: "read_secret vc (vault_addr w) token (''ussd-kernel/providers/'' @ prov) ?w1 =
      (r, w\<lparr>web_sent := web_sent w @ [login_request w, secret_request w prov token]\<rparr>)"
      "gives r (reply_secret vc (web_script w (Suc (length (web_sent w)))))"
    using read_secret_gives [of vc "vault_addr w" token "''ussd-kernel/providers/'' @ prov" ?w1] by auto
  have "provider_credentials_at_start vc prov w =
      (map_sum id secret_credentials r, w\<lparr>web_sent := web_sent w @ [login_request w, secret_request w prov token]\<rparr>)"
    using assms(1) login r(1)
    by (cases r) (simp_all add: provider_credentials_at_start_def get_vault_client_def get_credentials_def
        http_vault_new_def eff_simps addr)
  then show ?thesis using gives_map [OF r(2)] by blast
qed

lemma credentials_without_token:
  assumes "vault_configured w" "login_token vc (web_script w (length (web_sent w))) = None"
  shows "\<exists>e. provider_credentials_at_start vc prov w = (Inl e, w\<lparr>web_sent := web_sent w @ [login_request w]\<rparr>)"
proof -
  obtain e where "vault_login vc (env_or ''VAULT_ROLE_ID'' [] w) (env_or ''VAULT_SECRET_ID'' [] w) w =
      (Inl e, w\<lparr>web_sent := web_sent w @ [login_request w]\<rparr>)"
    using vault_login_gives [of vc "env_or ''VAULT_ROLE_ID'' [] w" "env_or ''VAULT_SECRET_ID'' [] w" w]
    unfolding assms(2) by (auto elim: gives.elims)
  then show ?thesis
    using assms(1) by (simp add: provider_credentials_at_start_def get_vault_client_def eff_simps)
qed

lemma credentials_from_environment:
  "\<not> vault_configured w \<Longrightarrow> provider_credentials_at_start vc prov w = (fst (mock_get_credentials prov w), w)"
  by (auto simp: provider_credentials_at_start_def get_vault_client_def get_credentials_def mock_get_credentials_def eff_simps Let_def)

text \<open>C38: the source of the provider credentials.  Without a Vault role and secret the engine sends no
  request and takes the credentials from its environment.  With them it never does: it sends the
  login, then, with the token the Vault returned and no other, one read of the provider's secret,
  and the credentials are those of that secret; any failure on the way is an error that stops the
  start-up, without further requests.\<close>

theorem provider_credentials_source:
  "\<exists>res sent. provider_credentials_at_start vc prov w = (res, w\<lparr>web_sent := web_sent w @ sent\<rparr>) \<and>
     (if \<not> vault_configured w then sent = [] \<and> res = fst (mock_get_credentials prov w)
      else case login_token vc (web_script w (length (web_sent w))) of
          None \<Rightarrow> sent = [login_request w] \<and> (\<exists>e. res = Inl e)
        | Some token \<Rightarrow> sent = [login_request w, secret_request w prov token] \<and>
            gives res (map_option secret_credentials (reply_secret vc (web_script w (Suc (length (web_sent w)))))))"
proof (cases "vault_configured w")
  case False
  have "w\<lparr>web_sent := web_sent w @ []\<rparr> = w" by simp
  then show ?thesis using False credentials_from_environment [OF False, of vc prov] by metis
next
  case True
  show ?thesis
  proof (cases "login_token vc (web_script w (length (web_sent w)))")
    case None
    then show ?thesis using True credentials_without_token [OF True None, of prov] by auto
  next
    case (Some token)
    then show ?thesis using True credentials_with_token [OF True Some, of prov] by auto
  qed
qed

end
