(* ===== verification/Audit_Key.thy ===== *)
theory Audit_Key
  imports Audit_Properties Host
begin

text \<open>
  The signing key of the audit service (audit/src/infrastructure/signing_backend.rs and
  signing.rs): where the key comes from when the service starts, and whether signatures made before
  a restart verify after it.
\<close>

section \<open>Loading the key\<close>

text \<open>
  \<open>load_backend\<close>.  The argument says whether the crate is built with its \<open>hsm\<close> feature; the
  constructor of the HSM backend ignores its other arguments and cannot fail.  An error value is
  a panic.  The outcome of \<open>create_dir_all\<close> is only logged, and it changes no file.
\<close>

definition load_backend :: "'x audit_crates_scheme \<Rightarrow> bool \<Rightarrow> (host, string, signing_backend) eff" where
  "load_backend ac hsm_feature =
     bindE (getE (env_or ''AUDIT_SIGNING_KEY_ID'' ''audit-key-001'')) (\<lambda>key_id.
     bindE (getE (env_or ''AUDIT_HSM_ENABLED'' [])) (\<lambda>hsm_enabled.
     if hsm_feature \<and> hsm_enabled = ''true'' then okE (hsm_backend key_id)
     else
       bindE (getE (env_or ''AUDIT_SIGNING_KEY_PATH'' ''/vault/secrets/audit-signing-key'')) (\<lambda>key_path.
       bindE (getE (path_exists key_path)) (\<lambda>found.
       bindE
         (if found then
            bindE (map_errE (\<lambda>e. ''Failed to read signing key file: '' @ e) (fs_read key_path)) (\<lambda>key_bytes.
            if length key_bytes = 32 then okE key_bytes else failE ''Signing key must be 32 bytes'')
          else
            bindE draw_key (\<lambda>key_bytes.
            bindE (ignoreE (fs_write key_path key_bytes)) (\<lambda>_.
            okE key_bytes)))
         (\<lambda>signing_key. okE (software_backend ac key_id signing_key))))))"

text \<open>\<open>load_signing_key\<close> logs the identifier and wraps the backend.\<close>

definition load_signing_key :: "'x audit_crates_scheme \<Rightarrow> bool \<Rightarrow> (host, string, signing_backend) eff" where
  "load_signing_key ac hsm_feature = bindE (load_backend ac hsm_feature) okE"

abbreviation signing_key_path :: "host \<Rightarrow> string" where
  "signing_key_path w \<equiv> env_or ''AUDIT_SIGNING_KEY_PATH'' ''/vault/secrets/audit-signing-key'' w"

abbreviation signing_key_id :: "host \<Rightarrow> string" where
  "signing_key_id w \<equiv> env_or ''AUDIT_SIGNING_KEY_ID'' ''audit-key-001'' w"

abbreviation software_key :: "bool \<Rightarrow> host \<Rightarrow> bool" where
  "software_key hsm_feature w \<equiv> \<not> hsm_feature \<or> env_or ''AUDIT_HSM_ENABLED'' [] w \<noteq> ''true''"

section \<open>Its outcomes\<close>

lemma load_signing_key_file:
  assumes "software_key f w" "fs w (signing_key_path w) = Some entry"
  shows "load_signing_key ac f w =
    (case entry of
       Readable b \<Rightarrow> if length b = 32 then Inr (software_backend ac (signing_key_id w) b) else Inl ''Signing key must be 32 bytes''
     | Unreadable e \<Rightarrow> Inl (''Failed to read signing key file: '' @ e), w)"
  using assms
  by (auto simp: load_signing_key_def load_backend_def eff_simps path_exists_def fs_read_def split: fs_entry.splits)

lemma load_signing_key_generated:
  assumes "software_key f w" "fs w (signing_key_path w) = None"
  shows "load_signing_key ac f w =
    (Inr (software_backend ac (signing_key_id w) (key_supply w (keys_drawn w))),
     snd (fs_write (signing_key_path w) (key_supply w (keys_drawn w)) (w\<lparr>keys_drawn := Suc (keys_drawn w)\<rparr>)))"
  using assms
  by (auto simp: load_signing_key_def load_backend_def eff_simps path_exists_def draw_key_def)

text \<open>A later start of the service finds the same settings and the same files.\<close>

definition restarted :: "host \<Rightarrow> host \<Rightarrow> bool" where
  "restarted w w' \<longleftrightarrow> env_vars w' = env_vars w \<and> fs w' = fs w"

lemma env_restarted: "restarted w w' \<Longrightarrow> env_or n d w' = env_or n d w"
  by (simp add: restarted_def env_or_def)

lemma fs_write_fields:
  "env_vars (snd (fs_write p b w)) = env_vars w"
  "fs (snd (fs_write p b w)) =
    (case write_script w (writes w) of WriteDone \<Rightarrow> (fs w)(p \<mapsto> Readable b) | WriteRefused e \<Rightarrow> fs w
     | WriteCut n e \<Rightarrow> (fs w)(p \<mapsto> Readable (take n b)))"
  by (simp_all add: fs_write_def Let_def split: write_outcome.splits)

text \<open>C23: batch signatures survive a restart when the key does.  A service that finds no key file draws a
  key and signs with it.  If the file could be written, every later start loads that very key and
  verifies all signatures made before; if the write was refused, the next start draws another key;
  if it was cut short, the next start panics.  A start that loads an existing file changes nothing.\<close>

theorem signing_key_restart:
  assumes "ed25519_laws ac" "key_supply_law w" "software_key f w" "fs w (signing_key_path w) = None"
    "load_signing_key ac f w = (r, w')" "restarted w' w2"
  shows "\<exists>sb. r = Inr sb \<and>
    (case write_script w (writes w) of
       WriteDone \<Rightarrow> load_signing_key ac f w2 = (Inr sb, w2) \<and>
         (\<forall>batch_hash signature fingerprint. sign_batch_hash sb batch_hash = Inr (signature, fingerprint) \<longrightarrow>
            verify_batch_hash sb batch_hash signature = Inr True)
     | WriteRefused e \<Rightarrow> fst (load_signing_key ac f w2) =
         Inr (software_backend ac (signing_key_id w) (key_supply w2 (keys_drawn w2)))
     | WriteCut n e \<Rightarrow> fst (load_signing_key ac f w2) =
         (if n < 32 then Inl ''Signing key must be 32 bytes'' else Inr sb))"
proof -
  let ?key = "key_supply w (keys_drawn w)" and ?p = "signing_key_path w"
  let ?w1 = "w\<lparr>keys_drawn := Suc (keys_drawn w)\<rparr>"
  have r: "r = Inr (software_backend ac (signing_key_id w) ?key)" "w' = snd (fs_write ?p ?key ?w1)"
    using load_signing_key_generated [OF assms(3,4), of ac] assms(5) by simp_all
  have env: "env_or n d w2 = env_or n d w" for n d
    using env_restarted [OF assms(6), of n d] by (simp add: r(2) env_or_def fs_write_fields)
  have fs2: "fs w2 = (case write_script w (writes w) of WriteDone \<Rightarrow> (fs w)(?p \<mapsto> Readable ?key) | WriteRefused e \<Rightarrow> fs w
     | WriteCut n e \<Rightarrow> (fs w)(?p \<mapsto> Readable (take n ?key)))"
    using assms(6) by (simp add: restarted_def r(2) fs_write_fields split: write_outcome.splits)
  have soft: "software_key f w2" using assms(3) by (simp add: env)
  have len: "length ?key = 32" using assms(2) by (simp add: key_supply_law_def)
  have sound: "verify_batch_hash (software_backend ac kid k) h s = Inr True"
    if "sign_batch_hash (software_backend ac kid k) h = Inr (s, fp)" for kid k h s fp
    using software_signature_verifies [OF assms(1), of kid k h] that by (simp add: software_sign)
  show ?thesis
  proof (cases "write_script w (writes w)")
    case WriteDone
    then have "load_signing_key ac f w2 = (r, w2)"
      using load_signing_key_file [OF soft, of "Readable ?key" ac] len by (simp add: env fs2 r(1))
    then show ?thesis using WriteDone r(1) sound by auto
  next
    case (WriteRefused e)
    then have "fs w2 (signing_key_path w2) = None" using assms(4) by (simp add: env fs2)
    from load_signing_key_generated [OF soft this, of ac] show ?thesis using WriteRefused r(1) by (simp add: env)
  next
    case (WriteCut n e)
    then have "load_signing_key ac f w2 = ((if n < 32 then Inl ''Signing key must be 32 bytes'' else r), w2)"
      using load_signing_key_file [OF soft, of "Readable (take n ?key)" ac] len by (simp add: env fs2 r(1))
    then show ?thesis using WriteCut r(1) by simp
  qed
qed

theorem signing_key_restart_witness:
  "\<exists>sb w'. load_signing_key example_audit_crates False example_host = (Inr sb, w') \<and>
     load_signing_key example_audit_crates False w' = (Inr sb, w')"
proof -
  obtain r w' where run: "load_signing_key example_audit_crates False example_host = (r, w')" by fastforce
  have "key_supply_law example_host" "software_key False example_host" "fs example_host (signing_key_path example_host) = None"
    "restarted w' w'" "write_script example_host (writes example_host) = WriteDone"
    by (simp_all add: key_supply_law_def example_host_def restarted_def)
  with signing_key_restart [OF example_audit_laws(4) this(1-3) run this(4)] show ?thesis using run by auto
qed

end
