(* ===== verification/Startup.thy ===== *)
theory Startup
  imports Payment_Vault Audit_Key
begin

text \<open>
  The \<open>main\<close> functions of the six services, from the first line to the moment the server accepts
  requests: settings from the environment, the database pool, credentials and keys, the address
  and the transport security of the endpoint (common/src/tls.rs).  The environment is the one after
  \<open>dotenvy\<close> has added the entries of a \<open>.env\<close> file.  Logging and the registration of metrics
  have no effect on the model; the metrics server is a separate task whose failures are only logged.
\<close>

section \<open>How a process ends before it serves\<close>

text \<open>\<open>std::process::exit\<close>, an error returned from \<open>main\<close> with the messages of its chain, a panic.\<close>

datatype main_end = ProcessExit int | MainError "string list" | MainPanic string

text \<open>The TLS stack's verdict on the PEM texts of certificate, key and certificate authority.\<close>

record startup_crates = vault_crates +
  tls_config_error :: "bytes \<times> bytes \<times> bytes \<Rightarrow> string option"

record serving =
  sv_addr :: socket_addr
  sv_tls :: "(bytes \<times> bytes \<times> bytes) option"
  sv_metrics_port :: nat

section \<open>The common parts\<close>

definition load_server_tls_config ::
  "string \<Rightarrow> string \<Rightarrow> string \<Rightarrow> (host, string, bytes \<times> bytes \<times> bytes) eff" where
  "load_server_tls_config cert_path key_path ca_path =
     bindE (fs_read cert_path) (\<lambda>cert.
     bindE (fs_read key_path) (\<lambda>key.
     bindE (fs_read ca_path) (\<lambda>ca.
     okE (cert, key, ca))))"

definition database_pool :: "(host, main_end, unit) eff" where
  "database_pool =
     bindE (getE (\<lambda>w. env_vars w ''DATABASE_URL'')) (\<lambda>database_url.
     case database_url of
       None \<Rightarrow> failE (ProcessExit 1)
     | Some url \<Rightarrow> map_errE (\<lambda>e. MainError [e]) (connect_pool url))"

abbreviation metrics_port :: "host \<Rightarrow> nat" where
  "metrics_port \<equiv> env_port ''METRICS_PORT'' 9090"

definition listen_addr :: "nat \<Rightarrow> (host, main_end, socket_addr) eff" where
  "listen_addr port =
     bindE (getE (env_or ''BIND_ADDRESS'' ''127.0.0.1'')) (\<lambda>bind_addr.
     map_errE (\<lambda>e. MainError [e]) (liftE (parse_socket_addr (bind_addr @ '':'' @ show_nat port))))"

text \<open>An error of the server, with the context \<open>ctx\<close> the session service adds to it.\<close>

abbreviation server_error :: "string list \<Rightarrow> string \<Rightarrow> main_end" where
  "server_error ctx e \<equiv> MainError (ctx @ [''transport error'', e])"

text \<open>
  The end of every \<open>main\<close>: mutual TLS when all three paths are set, a plain listener otherwise.
  The session service adds its own text to an error of the TLS files.
\<close>

definition serve ::
  "'x startup_crates_scheme \<Rightarrow> (string \<Rightarrow> main_end) \<Rightarrow> string list \<Rightarrow> socket_addr \<Rightarrow>
   (host, main_end, (bytes \<times> bytes \<times> bytes) option) eff" where
  "serve sc tls_err ctx addr =
     bindE (getE (env_or ''TLS_CERT_FILE'' [])) (\<lambda>cert_path.
     bindE (getE (env_or ''TLS_KEY_FILE'' [])) (\<lambda>key_path.
     bindE (getE (env_or ''TLS_CA_FILE'' [])) (\<lambda>ca_path.
     if cert_path \<noteq> [] \<and> key_path \<noteq> [] \<and> ca_path \<noteq> [] then
       bindE (map_errE tls_err (load_server_tls_config cert_path key_path ca_path)) (\<lambda>tls.
       case tls_config_error sc tls of
         Some e \<Rightarrow> failE (MainError [''transport error'', e])
       | None \<Rightarrow> bindE (map_errE (server_error ctx) (bind_listener addr)) (\<lambda>_. okE (Some tls)))
     else bindE (map_errE (server_error ctx) (bind_listener addr)) (\<lambda>_. okE None))))"

abbreviation main_error :: "string \<Rightarrow> main_end" where
  "main_error e \<equiv> MainError [e]"

section \<open>The six services\<close>

definition payment_main :: "'x startup_crates_scheme \<Rightarrow> (host, main_end, serving \<times> provider_credentials) eff" where
  "payment_main sc =
     bindE (getE metrics_port) (\<lambda>metrics.
     bindE database_pool (\<lambda>_.
     bindE (getE (env_port ''GRPC_PORT'' 50052)) (\<lambda>grpc_port.
     bindE (map_errE main_error (get_vault_client sc)) (\<lambda>vault.
     bindE (map_errE main_error (get_credentials sc vault ''ecocash'')) (\<lambda>ecocash_creds.
     bindE (listen_addr grpc_port) (\<lambda>addr.
     bindE (serve sc main_error [] addr) (\<lambda>tls.
     okE (\<lparr>sv_addr = addr, sv_tls = tls, sv_metrics_port = metrics\<rparr>, ecocash_creds))))))))"

definition audit_main ::
  "'x audit_crates_scheme \<Rightarrow> bool \<Rightarrow> 'y startup_crates_scheme \<Rightarrow> (host, main_end, serving \<times> signing_backend) eff" where
  "audit_main ac hsm_feature sc =
     bindE (getE metrics_port) (\<lambda>metrics.
     bindE database_pool (\<lambda>_.
     bindE (getE (env_port ''GRPC_PORT'' 50054)) (\<lambda>grpc_port.
     bindE (map_errE MainPanic (load_signing_key ac hsm_feature)) (\<lambda>signer.
     bindE (listen_addr grpc_port) (\<lambda>addr.
     bindE (serve sc main_error [] addr) (\<lambda>tls.
     okE (\<lparr>sv_addr = addr, sv_tls = tls, sv_metrics_port = metrics\<rparr>, signer)))))))"

definition ledger_main :: "'x startup_crates_scheme \<Rightarrow> (host, main_end, serving) eff" where
  "ledger_main sc =
     bindE (getE metrics_port) (\<lambda>metrics.
     bindE database_pool (\<lambda>_.
     bindE (getE (env_port ''GRPC_PORT'' 50057)) (\<lambda>grpc_port.
     bindE (listen_addr grpc_port) (\<lambda>addr.
     bindE (serve sc main_error [] addr) (\<lambda>tls.
     okE \<lparr>sv_addr = addr, sv_tls = tls, sv_metrics_port = metrics\<rparr>)))))"

definition reconciliation_main :: "'x startup_crates_scheme \<Rightarrow> (host, main_end, serving) eff" where
  "reconciliation_main sc =
     bindE (getE metrics_port) (\<lambda>metrics.
     bindE database_pool (\<lambda>_.
     bindE (getE (env_port ''GRPC_PORT'' 50058)) (\<lambda>grpc_port.
     bindE (listen_addr grpc_port) (\<lambda>addr.
     bindE (serve sc main_error [] addr) (\<lambda>tls.
     okE \<lparr>sv_addr = addr, sv_tls = tls, sv_metrics_port = metrics\<rparr>)))))"

text \<open>The settings of the three SMS adapters: base address, then user and secret or a token.\<close>

record sms_settings =
  sms_ecocash_settings :: "string \<times> string \<times> string"
  sms_onemoney_settings :: "string \<times> string \<times> string"
  sms_telecash_settings :: "string \<times> string"

definition sms_settings_of :: "host \<Rightarrow> sms_settings" where
  "sms_settings_of w =
     \<lparr>sms_ecocash_settings = (env_or ''ECOCASH_BASE_URL'' ''https://api.ecocash.co.zw'' w,
        env_or ''ECOCASH_API_KEY'' ''demo-key'' w, env_or ''ECOCASH_API_SECRET'' ''demo-secret'' w),
      sms_onemoney_settings = (env_or ''ONEMONEY_BASE_URL'' ''https://api.onemoney.co.zw'' w,
        env_or ''ONEMONEY_USERNAME'' ''demo-user'' w, env_or ''ONEMONEY_PASSWORD'' ''demo-pass'' w),
      sms_telecash_settings = (env_or ''TELECASH_BASE_URL'' ''https://api.telecash.co.zw'' w,
        env_or ''TELECASH_BEARER_TOKEN'' ''demo-token'' w)\<rparr>"

definition messaging_main :: "'x startup_crates_scheme \<Rightarrow> (host, main_end, serving \<times> sms_settings) eff" where
  "messaging_main sc =
     bindE (getE metrics_port) (\<lambda>metrics.
     bindE database_pool (\<lambda>_.
     bindE (getE (env_port ''GRPC_PORT'' 50055)) (\<lambda>grpc_port.
     bindE (getE sms_settings_of) (\<lambda>adapters.
     bindE (listen_addr grpc_port) (\<lambda>addr.
     bindE (serve sc main_error [] addr) (\<lambda>tls.
     okE (\<lparr>sv_addr = addr, sv_tls = tls, sv_metrics_port = metrics\<rparr>, adapters)))))))"

definition session_pool :: "(host, main_end, unit) eff" where
  "session_pool =
     bindE (getE (\<lambda>w. env_vars w ''DATABASE_URL'')) (\<lambda>db_url.
     case db_url of
       None \<Rightarrow> failE (MainError [''DATABASE_URL must be set''])
     | Some url \<Rightarrow> map_errE (\<lambda>e. MainError [''failed to connect to postgres'', e]) (connect_pool url))"

definition session_main :: "'x startup_crates_scheme \<Rightarrow> (host, main_end, serving) eff" where
  "session_main sc =
     bindE session_pool (\<lambda>_.
     bindE (listen_addr 50051) (\<lambda>addr.
     bindE (getE metrics_port) (\<lambda>metrics.
     bindE (serve sc (\<lambda>e. MainError [''failed to load TLS config: '' @ e]) [''server error''] addr) (\<lambda>tls.
     okE \<lparr>sv_addr = addr, sv_tls = tls, sv_metrics_port = metrics\<rparr>))))"

section \<open>The endpoint of a service\<close>

datatype rust_service =
  PaymentEngine | AuditService | LedgerQueryService | ReconciliationEngine | MessagingEngine | SessionReconstructor

text \<open>The program a service runs, up to its endpoint, and the port it is told to use.\<close>

definition start_service ::
  "'x audit_crates_scheme \<Rightarrow> bool \<Rightarrow> 'y startup_crates_scheme \<Rightarrow> rust_service \<Rightarrow> (host, main_end, serving) eff" where
  "start_service ac hsm_feature sc svc =
     (case svc of
        PaymentEngine \<Rightarrow> bindE (payment_main sc) (\<lambda>(s, _). okE s)
      | AuditService \<Rightarrow> bindE (audit_main ac hsm_feature sc) (\<lambda>(s, _). okE s)
      | LedgerQueryService \<Rightarrow> ledger_main sc
      | ReconciliationEngine \<Rightarrow> reconciliation_main sc
      | MessagingEngine \<Rightarrow> bindE (messaging_main sc) (\<lambda>(s, _). okE s)
      | SessionReconstructor \<Rightarrow> session_main sc)"

definition service_port :: "rust_service \<Rightarrow> host \<Rightarrow> nat" where
  "service_port svc w =
     (case svc of
        PaymentEngine \<Rightarrow> env_port ''GRPC_PORT'' 50052 w
      | AuditService \<Rightarrow> env_port ''GRPC_PORT'' 50054 w
      | LedgerQueryService \<Rightarrow> env_port ''GRPC_PORT'' 50057 w
      | ReconciliationEngine \<Rightarrow> env_port ''GRPC_PORT'' 50058 w
      | MessagingEngine \<Rightarrow> env_port ''GRPC_PORT'' 50055 w
      | SessionReconstructor \<Rightarrow> 50051)"

lemma service_port_less: "service_port svc w < 65536"
  by (cases svc) (simp_all add: service_port_def env_port_less)

definition tls_wanted :: "host \<Rightarrow> bool" where
  "tls_wanted w \<longleftrightarrow> env_or ''TLS_CERT_FILE'' [] w \<noteq> [] \<and> env_or ''TLS_KEY_FILE'' [] w \<noteq> [] \<and> env_or ''TLS_CA_FILE'' [] w \<noteq> []"

text \<open>The settings a start-up cannot change.\<close>

definition same_settings :: "host \<Rightarrow> host \<Rightarrow> bool" where
  "same_settings w w' \<longleftrightarrow> env_vars w' = env_vars w \<and> db_connect w' = db_connect w \<and> bind_fault w' = bind_fault w"

lemma same_settings_rel: "reflp same_settings" "transp same_settings"
  by (auto simp: same_settings_def intro!: reflpI transpI)

lemma keeps_settings:
  "keeps same_settings (fs_read p)" "keeps same_settings (ignoreE (fs_write p b))" "keeps same_settings draw_key"
  "keeps same_settings (web_send req)"
  by (auto simp: keeps_def same_settings_def fs_read_def fs_write_def draw_key_def web_send_def ignoreE_def Let_def
      split: write_outcome.splits web_reply.splits)

lemmas keeps_rules = keeps_bindE [OF same_settings_rel(2)] keeps_pure [OF same_settings_rel(1)] keeps_wrap keeps_settings

lemma keeps_load_signing_key: "keeps same_settings (load_signing_key ac f)"
  unfolding load_signing_key_def load_backend_def by (auto intro!: keeps_rules)

lemma keeps_vault: "keeps same_settings (get_vault_client vc)" "keeps same_settings (get_credentials vc client prov)"
  unfolding get_vault_client_def get_credentials_def vault_login_def http_vault_new_def read_secret_def mock_get_credentials_def Let_def
  by (auto intro!: keeps_rules split: option.splits vault_client.splits)

lemma bindE_getE [simp]: "bindE (getE g) f w = f (g w) w"
  by (simp add: eff_simps)

text \<open>What the end of a \<open>main\<close> returns.\<close>

definition endpoint_ok :: "nat \<Rightarrow> host \<Rightarrow> serving \<Rightarrow> bool" where
  "endpoint_ok port w s \<longleftrightarrow>
     parse_socket_addr (env_or ''BIND_ADDRESS'' ''127.0.0.1'' w @ '':'' @ show_nat port) = Inr (sv_addr s) \<and>
     bind_fault w (sv_addr s) = None \<and>
     (sv_tls s \<noteq> None \<longleftrightarrow> tls_wanted w) \<and>
     (\<forall>cert key ca. sv_tls s = Some (cert, key, ca) \<longrightarrow>
        fs w (env_or ''TLS_CERT_FILE'' [] w) = Some (Readable cert) \<and> fs w (env_or ''TLS_KEY_FILE'' [] w) = Some (Readable key) \<and>
        fs w (env_or ''TLS_CA_FILE'' [] w) = Some (Readable ca))"

lemma serve_started:
  assumes "serve sc te ctx addr w = (Inr tls, w')"
  shows "w' = w \<and> bind_fault w addr = None \<and> (tls \<noteq> None \<longleftrightarrow> tls_wanted w) \<and>
    (\<forall>cert key ca. tls = Some (cert, key, ca) \<longrightarrow>
        fs w (env_or ''TLS_CERT_FILE'' [] w) = Some (Readable cert) \<and> fs w (env_or ''TLS_KEY_FILE'' [] w) = Some (Readable key) \<and>
        fs w (env_or ''TLS_CA_FILE'' [] w) = Some (Readable ca))"
  using assms
  by (auto simp: serve_def tls_wanted_def load_server_tls_config_def fs_read_def bind_listener_def eff_simps
      split: if_splits option.splits fs_entry.splits)

lemma listen_addr_started:
  "listen_addr port w = (Inr addr, w') \<longleftrightarrow>
     w' = w \<and> parse_socket_addr (env_or ''BIND_ADDRESS'' ''127.0.0.1'' w @ '':'' @ show_nat port) = Inr addr"
  by (auto simp: listen_addr_def eff_simps split: sum.splits)

definition database_reached :: "host \<Rightarrow> bool" where
  "database_reached w \<longleftrightarrow> (\<exists>url. env_vars w ''DATABASE_URL'' = Some url \<and> db_connect w url = None)"

lemma database_pool_started:
  "database_pool w = (Inr u, w') \<longleftrightarrow> w' = w \<and> database_reached w"
  "session_pool w = (Inr u, w') \<longleftrightarrow> w' = w \<and> database_reached w"
  by (auto simp: database_pool_def session_pool_def connect_pool_def database_reached_def eff_simps split: option.splits)

lemma endpoint_started:
  assumes "bindE (listen_addr port) (\<lambda>addr. bindE (serve sc te ctx addr) (\<lambda>tls. okE (f \<lparr>sv_addr = addr, sv_tls = tls, sv_metrics_port = m\<rparr>))) w =
    (Inr x, w')"
  shows "\<exists>s. x = f s \<and> w' = w \<and> endpoint_ok port w s"
proof -
  obtain addr tls where "listen_addr port w = (Inr addr, w)" "serve sc te ctx addr w = (Inr tls, w)"
      "x = f \<lparr>sv_addr = addr, sv_tls = tls, sv_metrics_port = m\<rparr>" "w' = w"
    using assms by (elim bindE_Inr_cases) (auto simp: okE_def listen_addr_started dest: serve_started)
  then show ?thesis using serve_started [of sc te ctx addr w tls w]
    by (intro exI [of _ "\<lparr>sv_addr = addr, sv_tls = tls, sv_metrics_port = m\<rparr>"]) (simp add: endpoint_ok_def listen_addr_started)
qed

section \<open>The contract of a service's start\<close>

locale service_start =
  fixes main :: "(host, main_end, serving) eff" and port :: "host \<Rightarrow> nat"
  assumes started: "main w = (Inr s, w') \<Longrightarrow> same_settings w w' \<and> database_reached w \<and> endpoint_ok (port w) w' s"
    and port_less: "port w < 65536"
begin

lemma transport: "main w = (Inr s, w') \<Longrightarrow> sv_tls s \<noteq> None \<longleftrightarrow> tls_wanted w"
  using started [of w s w'] by (simp add: endpoint_ok_def same_settings_def tls_wanted_def env_or_def)

lemma local_by_default:
  "main w = (Inr s, w') \<Longrightarrow> env_vars w ''BIND_ADDRESS'' = None \<Longrightarrow> sv_addr s = SocketV4 (127, 0, 0, 1) (port w)"
  using started [of w s w'] parse_localhost [OF port_less [of w]]
  by (auto simp: endpoint_ok_def same_settings_def env_or_def)

end

text \<open>Each \<open>main\<close> reaches the database, then ends as \<open>endpoint_started\<close> says.\<close>

lemma plain_started:
  assumes "bindE (getE metrics_port) (\<lambda>metrics. bindE database_pool (\<lambda>_. bindE (getE (env_port ''GRPC_PORT'' d)) (\<lambda>grpc_port.
      bindE (pre :: (host, main_end, 'a) eff) (\<lambda>a. bindE (listen_addr grpc_port) (\<lambda>addr. bindE (serve sc te ctx addr) (\<lambda>tls.
      okE (f a \<lparr>sv_addr = addr, sv_tls = tls, sv_metrics_port = metrics\<rparr>))))))) w = (Inr x, w')"
    and pre: "keeps same_settings pre"
  shows "\<exists>a s. x = f a s \<and> same_settings w w' \<and> database_reached w \<and> endpoint_ok (env_port ''GRPC_PORT'' d w) w' s"
proof -
  have "bindE database_pool (\<lambda>_. bindE (getE (env_port ''GRPC_PORT'' d)) (\<lambda>grpc_port.
      bindE pre (\<lambda>a. bindE (listen_addr grpc_port) (\<lambda>addr. bindE (serve sc te ctx addr) (\<lambda>tls.
      okE (f a \<lparr>sv_addr = addr, sv_tls = tls, sv_metrics_port = metrics_port w\<rparr>)))))) w = (Inr x, w')"
    using assms(1) by simp
  then obtain a w1 where db: "database_reached w" and p: "pre w = (Inr a, w1)" and
      e: "bindE (listen_addr (env_port ''GRPC_PORT'' d w)) (\<lambda>addr. bindE (serve sc te ctx addr) (\<lambda>tls.
        okE (f a \<lparr>sv_addr = addr, sv_tls = tls, sv_metrics_port = metrics_port w\<rparr>))) w1 = (Inr x, w')"
    by (elim bindE_Inr_cases [of database_pool]) (auto simp: database_pool_started elim!: bindE_Inr_cases [of pre])
  from endpoint_started [OF e] keepsD [OF pre p] db show ?thesis by auto
qed

lemma start_ledger:
  "ledger_main sc w = (Inr s, w') \<Longrightarrow>
   same_settings w w' \<and> database_reached w \<and> endpoint_ok (env_port ''GRPC_PORT'' 50057 w) w' s"
  using plain_started [of 50057 "okE ()" sc main_error "[]" "\<lambda>_ s. s" w s w']
  by (simp add: ledger_main_def keeps_rules)

lemma start_reconciliation:
  "reconciliation_main sc w = (Inr s, w') \<Longrightarrow>
   same_settings w w' \<and> database_reached w \<and> endpoint_ok (env_port ''GRPC_PORT'' 50058 w) w' s"
  using plain_started [of 50058 "okE ()" sc main_error "[]" "\<lambda>_ s. s" w s w']
  by (simp add: reconciliation_main_def keeps_rules)

lemma start_messaging:
  "messaging_main sc w = (Inr (s, settings), w') \<Longrightarrow>
   same_settings w w' \<and> database_reached w \<and> endpoint_ok (env_port ''GRPC_PORT'' 50055 w) w' s"
  using plain_started [of 50055 "getE sms_settings_of" sc main_error "[]" "\<lambda>a s. (s, a)" w "(s, settings)" w']
  by (auto simp: messaging_main_def keeps_rules)

lemma start_audit:
  "audit_main ac hf sc w = (Inr (s, signer), w') \<Longrightarrow>
   same_settings w w' \<and> database_reached w \<and> endpoint_ok (env_port ''GRPC_PORT'' 50054 w) w' s"
  using plain_started [of 50054 "map_errE MainPanic (load_signing_key ac hf)" sc main_error "[]" "\<lambda>a s. (s, a)" w "(s, signer)" w']
    keeps_wrap(1) [OF keeps_load_signing_key]
  by (auto simp: audit_main_def)

lemma start_payment:
  "payment_main sc w = (Inr (s, creds), w') \<Longrightarrow>
   same_settings w w' \<and> database_reached w \<and> endpoint_ok (env_port ''GRPC_PORT'' 50052 w) w' s"
  using plain_started [of 50052 "bindE (map_errE main_error (get_vault_client sc))
      (\<lambda>vault. map_errE main_error (get_credentials sc vault ''ecocash''))" sc main_error "[]" "\<lambda>a s. (s, a)" w "(s, creds)" w']
  by (auto simp: payment_main_def bindE_assoc keeps_rules keeps_vault)

lemma start_session:
  assumes "session_main sc w = (Inr s, w')"
  shows "same_settings w w' \<and> database_reached w \<and> endpoint_ok 50051 w' s"
proof -
  define te where "te = (\<lambda>e. MainError [''failed to load TLS config: '' @ e])"
  obtain addr where "database_reached w" "listen_addr 50051 w = (Inr addr, w)"
      "bindE (serve sc te [''server error''] addr) (\<lambda>tls. okE \<lparr>sv_addr = addr, sv_tls = tls, sv_metrics_port = metrics_port w\<rparr>) w = (Inr s, w')"
    using assms unfolding session_main_def te_def [symmetric]
    by (elim bindE_Inr_cases [of session_pool] bindE_Inr_cases [of "listen_addr 50051"])
      (auto simp: database_pool_started listen_addr_started)
  then show ?thesis
    using endpoint_started [where f = id, simplified, of 50051 sc te "[''server error'']" "metrics_port w" w s w'] reflpD [OF same_settings_rel(1)]
    by (auto simp: bindE_Inr)
qed

lemmas service_starts = start_ledger start_reconciliation start_messaging start_audit start_payment start_session

interpretation rust_service: service_start "start_service ac hsm_feature sc svc" "service_port svc" for ac hsm_feature sc svc
proof
  fix w s w' assume run: "start_service ac hsm_feature sc svc w = (Inr s, w')"
  show "same_settings w w' \<and> database_reached w \<and> endpoint_ok (service_port svc w) w' s"
    using run
    by (cases svc)
      (auto simp: start_service_def service_port_def okE_def elim!: bindE_Inr_cases dest: service_starts)
qed (rule service_port_less)

section \<open>Property\<close>

text \<open>C39: the endpoint a service serves on.  A service that starts has reached its database.  It speaks
  mutual TLS, with the contents of the three configured files, exactly when all three paths are
  set; if any of them is missing it serves without TLS.  Unless a bind address is configured the
  endpoint is on the loopback interface, on the configured port or the service's own.\<close>

theorem service_endpoint:
  assumes "start_service ac hsm_feature sc svc w = (Inr s, w')"
  shows "database_reached w \<and> (sv_tls s \<noteq> None \<longleftrightarrow> tls_wanted w) \<and>
    (\<forall>cert key ca. sv_tls s = Some (cert, key, ca) \<longrightarrow>
       fs w' (env_or ''TLS_CERT_FILE'' [] w) = Some (Readable cert) \<and> fs w' (env_or ''TLS_KEY_FILE'' [] w) = Some (Readable key) \<and>
       fs w' (env_or ''TLS_CA_FILE'' [] w) = Some (Readable ca)) \<and>
    (env_vars w ''BIND_ADDRESS'' = None \<longrightarrow> sv_addr s = SocketV4 (127, 0, 0, 1) (service_port svc w))"
  using rust_service.started [OF assms] rust_service.transport [OF assms] rust_service.local_by_default [OF assms]
  by (auto simp: endpoint_ok_def same_settings_def env_or_def)

definition example_startup_crates :: startup_crates where
  "example_startup_crates = \<lparr>status_error = (\<lambda>_ _. []), de_json = (\<lambda>_. Inl []), de_kv2_response = (\<lambda>_. Inl []),
     tls_config_error = (\<lambda>_. None)\<rparr>"

text \<open>A certificate and a key, but no certificate authority.\<close>

definition example_start_host :: host where
  "example_start_host = example_host\<lparr>env_vars := [''DATABASE_URL'' \<mapsto> ''postgres://db'', ''TLS_CERT_FILE'' \<mapsto> ''/certs/tls.crt'',
     ''TLS_KEY_FILE'' \<mapsto> ''/certs/tls.key''],
     fs := [''/certs/tls.crt'' \<mapsto> Readable [1], ''/certs/tls.key'' \<mapsto> Readable [2]]\<rparr>"

theorem service_endpoint_witness:
  "\<exists>s w'. start_service example_audit_crates False example_startup_crates LedgerQueryService example_start_host = (Inr s, w') \<and>
     sv_tls s = None \<and> sv_addr s = SocketV4 (127, 0, 0, 1) 50057"
proof -
  have local: "parse_socket_addr (''127.0.0.1:'' @ show_nat 50057) = Inr (SocketV4 (127, 0, 0, 1) 50057)"
    by (rule parse_localhost) simp
  obtain s w' where run: "start_service example_audit_crates False example_startup_crates LedgerQueryService example_start_host = (Inr s, w')"
    using local
    by (simp add: start_service_def ledger_main_def database_pool_def connect_pool_def listen_addr_def serve_def bind_listener_def
        eff_simps env_or_def env_port_def example_start_host_def example_host_def)
  have "\<not> tls_wanted example_start_host" "env_vars example_start_host ''BIND_ADDRESS'' = None"
    "service_port LedgerQueryService example_start_host = 50057"
    by (simp_all add: tls_wanted_def env_or_def env_port_def service_port_def example_start_host_def example_host_def)
  then have "sv_tls s = None" "sv_addr s = SocketV4 (127, 0, 0, 1) 50057" using service_endpoint [OF run] by metis+
  then show ?thesis using run by blast
qed

end
