(* ===== verification/Recon.thy ===== *)
theory Recon
  imports Wire Tables Decimals
begin

text \<open>
  The reconciliation engine (reconciliation-engine/src): its domain types, the matching of internal
  with external transactions, the run and item store, the application handler and the gRPC port.
  The two transaction sources are interfaces with the stub implementations of the repository.
  The tables are those the statements assume: amounts are stored and read as text.
\<close>

section \<open>Domain\<close>

datatype discrepancy_type =
    MissingInternal | MissingExternal | AmountMismatch | StatusMismatch | DuplicateInternal
  | DuplicateExternal | FeeMismatch | TimestampMismatch | CurrencyMismatch

fun discrepancy_as_str :: "discrepancy_type \<Rightarrow> string" where
  "discrepancy_as_str MissingInternal = ''missing_internal''"
| "discrepancy_as_str MissingExternal = ''missing_external''"
| "discrepancy_as_str AmountMismatch = ''amount_mismatch''"
| "discrepancy_as_str StatusMismatch = ''status_mismatch''"
| "discrepancy_as_str DuplicateInternal = ''duplicate_internal''"
| "discrepancy_as_str DuplicateExternal = ''duplicate_external''"
| "discrepancy_as_str FeeMismatch = ''fee_mismatch''"
| "discrepancy_as_str TimestampMismatch = ''timestamp_mismatch''"
| "discrepancy_as_str CurrencyMismatch = ''currency_mismatch''"

datatype resolution_action = CorrectInternal | CorrectExternal | CreateAdjustment | Ignore | Escalate | Approve

fun action_as_str :: "resolution_action \<Rightarrow> string" where
  "action_as_str CorrectInternal = ''correct_internal''"
| "action_as_str CorrectExternal = ''correct_external''"
| "action_as_str CreateAdjustment = ''create_adjustment''"
| "action_as_str Ignore = ''ignore''"
| "action_as_str Escalate = ''escalate''"
| "action_as_str Approve = ''approve''"

datatype recon_status = RPending | RRunning | RCompleted | RFailed | RPartiallyResolved | RApproved

fun recon_status_as_str :: "recon_status \<Rightarrow> string" where
  "recon_status_as_str RPending = ''pending''"
| "recon_status_as_str RRunning = ''running''"
| "recon_status_as_str RCompleted = ''completed''"
| "recon_status_as_str RFailed = ''failed''"
| "recon_status_as_str RPartiallyResolved = ''partially_resolved''"
| "recon_status_as_str RApproved = ''approved''"

datatype recon_error =
    RInvalidArgument string
  | RNotFound string
  | RDatabaseError string
  | RProviderError string
  | RAlreadyRunning
  | RInvalidStatusTransition string string
  | RStoreError string

fun recon_error_to_string :: "recon_error \<Rightarrow> string" where
  "recon_error_to_string (RInvalidArgument s) = ''Invalid argument: '' @ s"
| "recon_error_to_string (RNotFound s) = ''Not found: '' @ s"
| "recon_error_to_string (RDatabaseError s) = ''Database error: '' @ s"
| "recon_error_to_string (RProviderError s) = ''Provider error: '' @ s"
| "recon_error_to_string RAlreadyRunning = ''Reconciliation already running''"
| "recon_error_to_string (RInvalidStatusTransition f t) = ''Invalid status transition from '' @ f @ '' to '' @ t"
| "recon_error_to_string (RStoreError s) = ''Store error: '' @ s"

record reconciliation_item =
  it_item_id :: uuid
  it_run_id :: uuid
  it_transaction_id :: string
  it_discrepancy_type :: discrepancy_type
  it_internal_status :: string
  it_external_status :: string
  it_internal_amount :: decimal
  it_external_amount :: decimal
  it_difference :: decimal
  it_resolved :: bool
  it_resolution_action :: "resolution_action option"
  it_resolved_by :: "string option"
  it_resolved_at :: "datetime option"
  it_notes :: "string option"

record reconciliation_run =
  run_run_id :: uuid
  run_tenant_id :: uuid
  run_provider_name :: string
  run_status :: recon_status
  run_period_start :: datetime
  run_period_end :: datetime
  run_total_records :: int
  run_matched_count :: int
  run_discrepancy_count :: int
  run_resolved_count :: int
  run_internal_total :: decimal
  run_external_total :: decimal
  run_discrepancy_amount :: decimal
  run_started_at :: "datetime option"
  run_completed_at :: "datetime option"
  run_initiated_by :: string
  run_approved_by :: "string option"
  run_approved_at :: "datetime option"

definition reconciliation_run_new ::
  "uuid \<Rightarrow> uuid \<Rightarrow> string \<Rightarrow> datetime \<Rightarrow> datetime \<Rightarrow> string \<Rightarrow> reconciliation_run" where
  "reconciliation_run_new run_id tenant_id provider_name period_start period_end initiated_by =
     \<lparr>run_run_id = run_id, run_tenant_id = tenant_id, run_provider_name = provider_name,
      run_status = RPending, run_period_start = period_start, run_period_end = period_end,
      run_total_records = 0, run_matched_count = 0, run_discrepancy_count = 0, run_resolved_count = 0,
      run_internal_total = dec_zero, run_external_total = dec_zero, run_discrepancy_amount = dec_zero,
      run_started_at = None, run_completed_at = None, run_initiated_by = initiated_by,
      run_approved_by = None, run_approved_at = None\<rparr>"

record internal_transaction =
  int_transaction_id :: string
  int_reference :: string
  int_amount :: decimal
  int_currency :: string
  int_status :: string
  int_timestamp :: datetime
  int_metadata :: "json option"

record external_transaction =
  ext_external_id :: string
  ext_reference :: string
  ext_amount :: decimal
  ext_currency :: string
  ext_status :: string
  ext_timestamp :: datetime
  ext_metadata :: "json option"

record matching_rule =
  mr_rule_id :: uuid
  mr_tenant_id :: uuid
  mr_provider_name :: string
  mr_rule_name :: string
  mr_match_fields :: "string list"
  mr_tolerance_amount :: decimal
  mr_tolerance_time_seconds :: int
  mr_auto_resolve :: bool
  mr_is_active :: bool
  mr_created_at :: "datetime option"
  mr_updated_at :: "datetime option"

section \<open>Third-party functions and the world\<close>

text \<open>rust_decimal's text form, chrono's \<open>from_timestamp\<close> and PostgreSQL's \<open>ILIKE\<close>.\<close>

record recon_crates = crates +
  rdec_to_string :: "decimal \<Rightarrow> string"
  rdec_parse :: "string \<Rightarrow> decimal option"
  rfrom_timestamp :: "int \<Rightarrow> int \<Rightarrow> datetime option"
  pg_ilike :: "string \<Rightarrow> string \<Rightarrow> bool"

definition rdecimal_laws :: "'x recon_crates_scheme \<Rightarrow> bool" where
  "rdecimal_laws rc \<longleftrightarrow> (\<forall>d. rdec_parse rc (rdec_to_string rc d) = Some d)"

record report_row =
  rpt_report_id :: uuid
  rpt_report_reference :: string
  rpt_provider_id :: string
  rpt_period_start :: int
  rpt_period_end :: int
  rpt_status :: string
  rpt_kernel_count :: int
  rpt_provider_count :: int
  rpt_matched_count :: int
  rpt_unmatched_kernel :: int
  rpt_unmatched_provider :: int
  rpt_kernel_total :: string
  rpt_provider_total :: string
  rpt_started_at :: "datetime option"
  rpt_completed_at :: "datetime option"

record mismatch_row =
  mm_mismatch_id :: uuid
  mm_report_id :: uuid
  mm_mismatch_type :: string
  mm_kernel_reference :: string
  mm_kernel_amount :: string
  mm_provider_reference :: string
  mm_provider_amount :: string
  mm_amount_difference :: string
  mm_discrepancy_reason :: string
  mm_resolution_status :: string
  mm_resolution_notes :: string
  mm_resolved_by :: "uuid option"
  mm_resolved_at :: "datetime option"
  mm_created_at :: datetime

record rule_row =
  rl_rule_id :: uuid
  rl_application_id :: uuid
  rl_rule_code :: string
  rl_match_criteria :: json
  rl_tolerance_absolute :: string
  rl_date_tolerance_days :: int
  rl_auto_match_enabled :: bool
  rl_status :: string
  rl_created_at :: datetime
  rl_source_entity_type :: string
  rl_execution_order :: int

record recon_world = db_world +
  reports :: "report_row list"
  mismatches :: "mismatch_row list"
  matching_rules :: "rule_row list"
  account_registry :: "(string \<times> uuid) list"

abbreviation queryR :: "(recon_world \<Rightarrow> 'a) \<Rightarrow> (recon_world, recon_error, 'a) eff" where
  "queryR q \<equiv> map_errE RDatabaseError (db_query q)"

abbreviation execR :: "(recon_world \<Rightarrow> recon_world) \<Rightarrow> (recon_world, recon_error, unit) eff" where
  "execR u \<equiv> map_errE RDatabaseError (db_exec u)"

section \<open>Matching\<close>

definition is_match :: "internal_transaction \<Rightarrow> external_transaction \<Rightarrow> decimal \<Rightarrow> bool" where
  "is_match i e tolerance \<longleftrightarrow>
     (int_reference i \<noteq> [] \<and> ext_reference e \<noteq> [] \<and> int_reference i = ext_reference e) \<and>
     dec_le (dec_abs (dec_sub (int_amount i) (ext_amount e))) tolerance"

text \<open>A discrepancy item; \<open>resolved\<close> is false and the resolution fields are empty in all of them.\<close>

definition new_item ::
  "uuid \<Rightarrow> uuid \<Rightarrow> string \<Rightarrow> discrepancy_type \<Rightarrow> string \<Rightarrow> string \<Rightarrow> decimal \<Rightarrow> decimal \<Rightarrow> decimal \<Rightarrow> reconciliation_item" where
  "new_item item_id run_id tid dt istatus estatus iamount eamount diff =
     \<lparr>it_item_id = item_id, it_run_id = run_id, it_transaction_id = tid, it_discrepancy_type = dt,
      it_internal_status = istatus, it_external_status = estatus, it_internal_amount = iamount,
      it_external_amount = eamount, it_difference = diff, it_resolved = False,
      it_resolution_action = None, it_resolved_by = None, it_resolved_at = None, it_notes = None\<rparr>"

text \<open>The inner loop: the first external transaction that is not taken and matches.\<close>

definition find_match ::
  "decimal \<Rightarrow> external_transaction list \<Rightarrow> bool list \<Rightarrow> internal_transaction \<Rightarrow> nat option" where
  "find_match tolerance external taken i =
     List.find (\<lambda>idx. \<not> taken ! idx \<and> is_match i (external ! idx) tolerance) [0..<length external]"

fun match_internal ::
  "uuid \<Rightarrow> decimal \<Rightarrow> external_transaction list \<Rightarrow> internal_transaction list \<Rightarrow> bool list \<Rightarrow> reconciliation_item list \<Rightarrow>
   (recon_world, recon_error, bool list \<times> reconciliation_item list) eff" where
  "match_internal run_id tolerance external [] taken items = okE (taken, items)"
| "match_internal run_id tolerance external (i # is) taken items =
     (case find_match tolerance external taken i of
        Some idx \<Rightarrow>
          (let e = external ! idx; diff = dec_abs (dec_sub (int_amount i) (ext_amount e)); taken' = taken[idx := True] in
           if \<not> dec_le diff dec_zero
           then bindE new_v4 (\<lambda>u.
             match_internal run_id tolerance external is taken' (items @ [new_item u run_id (int_transaction_id i)
               AmountMismatch (int_status i) (ext_status e) (int_amount i) (ext_amount e) diff]))
           else match_internal run_id tolerance external is taken' items)
      | None \<Rightarrow>
          bindE new_v4 (\<lambda>u.
          match_internal run_id tolerance external is taken (items @ [new_item u run_id (int_transaction_id i)
            MissingExternal (int_status i) [] (int_amount i) dec_zero (int_amount i)])))"

fun match_external ::
  "uuid \<Rightarrow> (bool \<times> external_transaction) list \<Rightarrow> reconciliation_item list \<Rightarrow>
   (recon_world, recon_error, reconciliation_item list) eff" where
  "match_external run_id [] items = okE items"
| "match_external run_id ((taken, e) # es) items =
     (if \<not> taken
      then bindE new_v4 (\<lambda>u.
        match_external run_id es (items @ [new_item u run_id (ext_external_id e)
          MissingInternal [] (ext_status e) dec_zero (ext_amount e) (ext_amount e)]))
      else match_external run_id es items)"

definition match_transactions ::
  "uuid \<Rightarrow> internal_transaction list \<Rightarrow> external_transaction list \<Rightarrow> decimal \<Rightarrow>
   (recon_world, recon_error, reconciliation_item list) eff" where
  "match_transactions run_id internal external tolerance =
     bindE (match_internal run_id tolerance external internal (replicate (length external) False) []) (\<lambda>(taken, items).
     match_external run_id (zip taken external) items)"

end
