(* ===== verification/Recon_Store.thy ===== *)
theory Recon_Store
  imports Recon
begin

text \<open>
  The PostgreSQL store of the reconciliation engine
  (reconciliation-engine/src/infrastructure/postgres_recon_store.rs) and the two stub adapters.
\<close>

section \<open>Runs\<close>

definition recon_set_tenant :: "uuid \<Rightarrow> (recon_world, recon_error, unit) eff" where
  "recon_set_tenant tenant_id = execR id"

fun stored_status :: "recon_status \<Rightarrow> string" where
  "stored_status RPending = ''pending''"
| "stored_status RRunning = ''processing''"
| "stored_status RCompleted = ''completed''"
| "stored_status RFailed = ''failed''"
| "stored_status RPartiallyResolved = ''completed''"
| "stored_status RApproved = ''completed''"

definition run_to_row :: "'x recon_crates_scheme \<Rightarrow> reconciliation_run \<Rightarrow> report_row" where
  "run_to_row rc run =
     \<lparr>rpt_report_id = run_run_id run, rpt_report_reference = ''RUN-'' @ uuid_to_string rc (run_run_id run),
      rpt_provider_id = run_provider_name run, rpt_period_start = date_naive (run_period_start run),
      rpt_period_end = date_naive (run_period_end run), rpt_status = stored_status (run_status run),
      rpt_kernel_count = run_total_records run, rpt_provider_count = 0,
      rpt_matched_count = run_matched_count run, rpt_unmatched_kernel = run_discrepancy_count run,
      rpt_unmatched_provider = 0, rpt_kernel_total = rdec_to_string rc (run_internal_total run),
      rpt_provider_total = rdec_to_string rc (run_external_total run),
      rpt_started_at = run_started_at run, rpt_completed_at = run_completed_at run\<rparr>"

text \<open>\<open>ON CONFLICT (report_id) DO UPDATE SET\<close>\<close>

definition merge_report_row :: "report_row \<Rightarrow> report_row \<Rightarrow> report_row" where
  "merge_report_row new old = old\<lparr>rpt_status := rpt_status new, rpt_kernel_count := rpt_kernel_count new,
     rpt_provider_count := rpt_provider_count new, rpt_matched_count := rpt_matched_count new,
     rpt_unmatched_kernel := rpt_unmatched_kernel new, rpt_unmatched_provider := rpt_unmatched_provider new,
     rpt_kernel_total := rpt_kernel_total new, rpt_provider_total := rpt_provider_total new,
     rpt_started_at := rpt_started_at new, rpt_completed_at := rpt_completed_at new\<rparr>"

definition save_run :: "'x recon_crates_scheme \<Rightarrow> reconciliation_run \<Rightarrow> (recon_world, recon_error, unit) eff" where
  "save_run rc run =
     bindE (recon_set_tenant (run_tenant_id run)) (\<lambda>_.
     execR (\<lambda>w. w\<lparr>reports := upsert_by rpt_report_id merge_report_row (run_to_row rc run) (reports w)\<rparr>))"

definition read_status :: "string \<Rightarrow> recon_status" where
  "read_status s =
     (let l = to_lowercase s in
      if l = ''pending'' then RPending else if l = ''processing'' then RRunning
      else if l = ''completed'' then RCompleted else if l = ''failed'' then RFailed else RPending)"

text \<open>\<open>s.parse().unwrap_or(Decimal::ZERO)\<close>\<close>

definition parse_amount :: "'x recon_crates_scheme \<Rightarrow> string \<Rightarrow> decimal" where
  "parse_amount rc s = unwrap_or (rdec_parse rc s) dec_zero"

text \<open>A date column is read as midnight; \<open>created_by\<close> is always null.\<close>

definition map_run_row :: "'x recon_crates_scheme \<Rightarrow> uuid \<Rightarrow> report_row \<Rightarrow> reconciliation_run" where
  "map_run_row rc tenant_id row =
     \<lparr>run_run_id = rpt_report_id row, run_tenant_id = tenant_id, run_provider_name = rpt_provider_id row,
      run_status = read_status (rpt_status row), run_period_start = rpt_period_start row * day_nanos,
      run_period_end = rpt_period_end row * day_nanos,
      run_total_records = as_i32 (rpt_kernel_count row + rpt_provider_count row),
      run_matched_count = rpt_matched_count row,
      run_discrepancy_count = as_i32 (rpt_unmatched_kernel row + rpt_unmatched_provider row),
      run_resolved_count = 0, run_internal_total = parse_amount rc (rpt_kernel_total row),
      run_external_total = parse_amount rc (rpt_provider_total row),
      run_discrepancy_amount =
        dec_abs (dec_sub (parse_amount rc (rpt_kernel_total row)) (parse_amount rc (rpt_provider_total row))),
      run_started_at = rpt_started_at row, run_completed_at = rpt_completed_at row,
      run_initiated_by = [], run_approved_by = None, run_approved_at = None\<rparr>"

text \<open>\<open>fetch_one\<close>: no row is \<open>RowNotFound\<close>.\<close>

definition or_not_found :: "string \<Rightarrow> 'r option \<Rightarrow> (recon_world, recon_error, 'r) eff" where
  "or_not_found msg r = (case r of Some x \<Rightarrow> okE x | None \<Rightarrow> failE (RNotFound msg))"

definition get_run :: "'x recon_crates_scheme \<Rightarrow> uuid \<Rightarrow> uuid \<Rightarrow> (recon_world, recon_error, reconciliation_run) eff" where
  "get_run rc run_id tenant_id =
     bindE (recon_set_tenant tenant_id) (\<lambda>_.
     bindE (queryR (\<lambda>w. select_first (\<lambda>r. rpt_report_id r = run_id) (reports w))) (\<lambda>row.
     bindE (or_not_found (''Run '' @ uuid_to_string rc run_id @ '' not found'') row) (\<lambda>r.
     okE (map_run_row rc tenant_id r))))"

text \<open>\<open>ORDER BY started_at DESC NULLS LAST\<close>\<close>

definition latest_started :: "report_row list \<Rightarrow> report_row list" where
  "latest_started rows =
     sort_key (\<lambda>r. - unwrap_or (rpt_started_at r) 0) (filter (\<lambda>r. rpt_started_at r \<noteq> None) rows) @
     filter (\<lambda>r. rpt_started_at r = None) rows"

definition list_runs ::
  "'x recon_crates_scheme \<Rightarrow> uuid \<Rightarrow> string option \<Rightarrow> recon_status list \<Rightarrow> datetime \<Rightarrow> datetime \<Rightarrow>
   (recon_world, recon_error, reconciliation_run list) eff" where
  "list_runs rc tenant_id provider_name statuses fr to =
     bindE (recon_set_tenant tenant_id) (\<lambda>_.
     let status_strings = map stored_status statuses in
     bindE (queryR (\<lambda>w. latest_started (filter (\<lambda>r.
       (case provider_name of None \<Rightarrow> True | Some p \<Rightarrow> rpt_provider_id r = p) \<and>
       (status_strings = [] \<or> rpt_status r \<in> set status_strings) \<and>
       date_naive fr \<le> rpt_period_start r \<and> rpt_period_end r \<le> date_naive to) (reports w)))) (\<lambda>rows.
     okE (map (map_run_row rc tenant_id) rows)))"

section \<open>Items\<close>

fun map_discrepancy_to_mismatch :: "discrepancy_type \<Rightarrow> string" where
  "map_discrepancy_to_mismatch MissingInternal = ''kernel_only''"
| "map_discrepancy_to_mismatch MissingExternal = ''provider_only''"
| "map_discrepancy_to_mismatch AmountMismatch = ''amount_diff''"
| "map_discrepancy_to_mismatch StatusMismatch = ''status_diff''"
| "map_discrepancy_to_mismatch DuplicateInternal = ''duplicate''"
| "map_discrepancy_to_mismatch DuplicateExternal = ''duplicate''"
| "map_discrepancy_to_mismatch FeeMismatch = ''fee_diff''"
| "map_discrepancy_to_mismatch TimestampMismatch = ''date_mismatch''"
| "map_discrepancy_to_mismatch CurrencyMismatch = ''amount_diff''"

text \<open>\<open>created_at\<close> has the column default, the time of the statement.\<close>

definition item_to_row :: "'x recon_crates_scheme \<Rightarrow> datetime \<Rightarrow> reconciliation_item \<Rightarrow> mismatch_row" where
  "item_to_row rc now item =
     \<lparr>mm_mismatch_id = it_item_id item, mm_report_id = it_run_id item,
      mm_mismatch_type = map_discrepancy_to_mismatch (it_discrepancy_type item),
      mm_kernel_reference = it_transaction_id item,
      mm_kernel_amount = rdec_to_string rc (it_internal_amount item),
      mm_provider_reference = it_transaction_id item,
      mm_provider_amount = rdec_to_string rc (it_external_amount item),
      mm_amount_difference = rdec_to_string rc (it_difference item),
      mm_discrepancy_reason = unwrap_or (it_notes item) [],
      mm_resolution_status = (if it_resolved item then ''resolved'' else ''open''),
      mm_resolution_notes = unwrap_or (it_notes item) [], mm_resolved_by = None,
      mm_resolved_at = it_resolved_at item, mm_created_at = now\<rparr>"

definition merge_mismatch_row :: "mismatch_row \<Rightarrow> mismatch_row \<Rightarrow> mismatch_row" where
  "merge_mismatch_row new old = old\<lparr>mm_mismatch_type := mm_mismatch_type new,
     mm_kernel_reference := mm_kernel_reference new, mm_kernel_amount := mm_kernel_amount new,
     mm_provider_reference := mm_provider_reference new, mm_provider_amount := mm_provider_amount new,
     mm_amount_difference := mm_amount_difference new, mm_discrepancy_reason := mm_discrepancy_reason new,
     mm_resolution_status := mm_resolution_status new, mm_resolution_notes := mm_resolution_notes new,
     mm_resolved_at := mm_resolved_at new\<rparr>"

definition save_item :: "'x recon_crates_scheme \<Rightarrow> reconciliation_item \<Rightarrow> (recon_world, recon_error, unit) eff" where
  "save_item rc item =
     bindE utc_now (\<lambda>now.
     execR (\<lambda>w. w\<lparr>mismatches := upsert_by mm_mismatch_id merge_mismatch_row (item_to_row rc now item) (mismatches w)\<rparr>))"

definition read_mismatch_type :: "string \<Rightarrow> discrepancy_type" where
  "read_mismatch_type s =
     (let l = to_lowercase s in
      if l = ''kernel_only'' then MissingInternal else if l = ''provider_only'' then MissingExternal
      else if l = ''amount_diff'' then AmountMismatch else if l = ''status_diff'' then StatusMismatch
      else if l = ''duplicate'' then DuplicateInternal else if l = ''fee_diff'' then FeeMismatch
      else if l = ''date_mismatch'' then TimestampMismatch else AmountMismatch)"

definition read_action :: "string \<Rightarrow> resolution_action option" where
  "read_action s =
     (if s = ''resolved'' then Some Approve else if s = ''disputed'' then Some Escalate
      else if s = ''investigating'' then Some Ignore else None)"

text \<open>\<open>notes.split(']').next()\<close> with the leading brackets trimmed.\<close>

definition bracket_text :: "string \<Rightarrow> string" where
  "bracket_text s = dropWhile (\<lambda>c. c = CHR ''['') (takeWhile (\<lambda>c. c \<noteq> CHR '']'') s)"

definition map_item_row :: "'x recon_crates_scheme \<Rightarrow> mismatch_row \<Rightarrow> reconciliation_item" where
  "map_item_row rc row =
     \<lparr>it_item_id = mm_mismatch_id row, it_run_id = mm_report_id row,
      it_transaction_id = mm_kernel_reference row,
      it_discrepancy_type = read_mismatch_type (mm_mismatch_type row),
      it_internal_status = [], it_external_status = [],
      it_internal_amount = parse_amount rc (mm_kernel_amount row),
      it_external_amount = parse_amount rc (mm_provider_amount row),
      it_difference = parse_amount rc (mm_amount_difference row),
      it_resolved = (mm_resolution_status row = ''resolved''),
      it_resolution_action = read_action (mm_resolution_status row),
      it_resolved_by = Some (bracket_text (mm_resolution_notes row)),
      it_resolved_at = mm_resolved_at row, it_notes = Some (mm_resolution_notes row)\<rparr>"

definition get_items ::
  "'x recon_crates_scheme \<Rightarrow> uuid \<Rightarrow> uuid \<Rightarrow> discrepancy_type list \<Rightarrow> bool \<Rightarrow>
   (recon_world, recon_error, reconciliation_item list) eff" where
  "get_items rc run_id tenant_id discrepancy_types unresolved_only =
     bindE (recon_set_tenant tenant_id) (\<lambda>_.
     let types = map map_discrepancy_to_mismatch discrepancy_types in
     bindE (queryR (\<lambda>w. sort_key (\<lambda>r. - mm_created_at r) (filter (\<lambda>r. mm_report_id r = run_id \<and>
       (types = [] \<or> mm_mismatch_type r \<in> set types) \<and>
       (\<not> unresolved_only \<or> mm_resolution_status r \<noteq> ''resolved'')) (mismatches w)))) (\<lambda>rows.
     okE (map (map_item_row rc) rows)))"

definition get_item :: "'x recon_crates_scheme \<Rightarrow> uuid \<Rightarrow> uuid \<Rightarrow> (recon_world, recon_error, reconciliation_item) eff" where
  "get_item rc item_id tenant_id =
     bindE (recon_set_tenant tenant_id) (\<lambda>_.
     bindE (queryR (\<lambda>w. select_first (\<lambda>r. mm_mismatch_id r = item_id) (mismatches w))) (\<lambda>row.
     bindE (or_not_found (''Item '' @ uuid_to_string rc item_id @ '' not found'') row) (\<lambda>r.
     okE (map_item_row rc r))))"

definition resolution_status :: "resolution_action \<Rightarrow> string" where
  "resolution_status action = (if action = Escalate then ''disputed'' else ''resolved'')"

definition update_item_resolution ::
  "uuid \<Rightarrow> resolution_action \<Rightarrow> string \<Rightarrow> string \<Rightarrow> (recon_world, recon_error, unit) eff" where
  "update_item_resolution item_id action notes resolved_by =
     bindE utc_now (\<lambda>now.
     execR (\<lambda>w. w\<lparr>mismatches := update_where (\<lambda>r. mm_mismatch_id r = item_id) (\<lambda>r. r\<lparr>
       mm_resolution_status := resolution_status action,
       mm_resolution_notes := ''['' @ action_as_str action @ ''] '' @ notes,
       mm_resolved_by := map_option snd (select_first (\<lambda>a. fst a = resolved_by) (account_registry w)),
       mm_resolved_at := Some now\<rparr>) (mismatches w)\<rparr>))"

section \<open>Matching rules\<close>

fun match_field_names :: "json \<Rightarrow> string list" where
  "match_field_names (JObject kvs) = map fst kvs"
| "match_field_names _ = []"

text \<open>\<open>source_entity_type\<close> is not among the selected columns, so the provider name is the default.\<close>

definition map_rule_row :: "'x recon_crates_scheme \<Rightarrow> uuid \<Rightarrow> rule_row \<Rightarrow> matching_rule" where
  "map_rule_row rc tenant_id row =
     \<lparr>mr_rule_id = rl_rule_id row, mr_tenant_id = tenant_id, mr_provider_name = [],
      mr_rule_name = rl_rule_code row, mr_match_fields = match_field_names (rl_match_criteria row),
      mr_tolerance_amount = parse_amount rc (rl_tolerance_absolute row),
      mr_tolerance_time_seconds = as_i32 (rl_date_tolerance_days row * 86400),
      mr_auto_resolve = rl_auto_match_enabled row, mr_is_active = (rl_status row = ''active''),
      mr_created_at = Some (rl_created_at row), mr_updated_at = None\<rparr>"

definition get_matching_rule :: "'x recon_crates_scheme \<Rightarrow> uuid \<Rightarrow> uuid \<Rightarrow> (recon_world, recon_error, matching_rule) eff" where
  "get_matching_rule rc rule_id tenant_id =
     bindE (recon_set_tenant tenant_id) (\<lambda>_.
     bindE (queryR (\<lambda>w. first_opt (sort_key (\<lambda>r. - rl_created_at r) (filter (\<lambda>r. rl_rule_id r = rule_id) (matching_rules w))))) (\<lambda>row.
     bindE (or_not_found (''Rule '' @ uuid_to_string rc rule_id @ '' not found'') row) (\<lambda>r.
     okE (map_rule_row rc tenant_id r))))"

definition list_matching_rules ::
  "'x recon_crates_scheme \<Rightarrow> uuid \<Rightarrow> string option \<Rightarrow> (recon_world, recon_error, matching_rule list) eff" where
  "list_matching_rules rc tenant_id provider_name =
     bindE (recon_set_tenant tenant_id) (\<lambda>_.
     bindE (queryR (\<lambda>w. sort_key rl_execution_order (filter (\<lambda>r. rl_application_id r = tenant_id \<and>
       (case provider_name of None \<Rightarrow> True | Some p \<Rightarrow> pg_ilike rc (rl_source_entity_type r) p)) (matching_rules w)))) (\<lambda>rows.
     okE (map (map_rule_row rc tenant_id) rows)))"

section \<open>Sources\<close>

record recon_ports =
  fetch_internal_transactions ::
    "uuid \<Rightarrow> string \<Rightarrow> datetime \<Rightarrow> datetime \<Rightarrow> (recon_world, recon_error, internal_transaction list) eff"
  fetch_external_transactions ::
    "string \<Rightarrow> datetime \<Rightarrow> datetime \<Rightarrow> (recon_world, recon_error, external_transaction list) eff"

definition postgres_transaction_source ::
  "uuid \<Rightarrow> string \<Rightarrow> datetime \<Rightarrow> datetime \<Rightarrow> (recon_world, recon_error, internal_transaction list) eff" where
  "postgres_transaction_source tenant_id provider_name fr to = okE []"

definition provider_statement_adapter ::
  "string \<Rightarrow> datetime \<Rightarrow> datetime \<Rightarrow> (recon_world, recon_error, external_transaction list) eff" where
  "provider_statement_adapter provider_name fr to =
     (if to_lowercase provider_name \<in> {''ecocash'', ''onemoney'', ''telecash''} then okE []
      else failE (RProviderError (''Unknown provider: '' @ provider_name)))"

end
