(* ===== verification/Recon_Service.thy ===== *)
theory Recon_Service
  imports Recon_Store
begin

text \<open>
  The application handler and the gRPC port of the reconciliation engine
  (reconciliation-engine/src/application/handler.rs, ports/grpc.rs).  A response that the code
  builds only to drop it (the ones with an \<open>error\<close> before \<open>Err(status)\<close>) is not modelled.
\<close>

section \<open>The application handler\<close>

definition finish_failed ::
  "'x recon_crates_scheme \<Rightarrow> reconciliation_run \<Rightarrow> recon_error \<Rightarrow> (recon_world, recon_error, 'a) eff" where
  "finish_failed rc run e =
     bindE utc_now (\<lambda>now.
     bindE (save_run rc (run\<lparr>run_status := RFailed, run_completed_at := Some now\<rparr>)) (\<lambda>_.
     failE e))"

text \<open>The totals and counts of a run with its items.\<close>

definition tally ::
  "reconciliation_run \<Rightarrow> internal_transaction list \<Rightarrow> external_transaction list \<Rightarrow> reconciliation_item list \<Rightarrow> reconciliation_run" where
  "tally run internal external items =
     run\<lparr>run_internal_total := dec_sum (map int_amount internal),
         run_external_total := dec_sum (map ext_amount external),
         run_total_records := as_i32 (int (length internal + length external)),
         run_matched_count := as_i32 (int (length (filter it_resolved items))),
         run_discrepancy_count := as_i32 (int (length (filter (\<lambda>i. \<not> it_resolved i) items))),
         run_discrepancy_amount := dec_sum (map (\<lambda>i. dec_abs (it_difference i)) items)\<rparr>"

text \<open>The run once both sources have answered.\<close>

definition conclude_run ::
  "'x recon_crates_scheme \<Rightarrow> reconciliation_run \<Rightarrow> recon_error + internal_transaction list \<Rightarrow>
   recon_error + external_transaction list \<Rightarrow> decimal \<Rightarrow> (recon_world, recon_error, reconciliation_run) eff" where
  "conclude_run rc run internal_txns external_txns tolerance =
     (case internal_txns of
        Inl e \<Rightarrow> finish_failed rc run e
      | Inr internal \<Rightarrow>
        (case external_txns of
           Inl e \<Rightarrow> finish_failed rc run e
         | Inr external \<Rightarrow>
           bindE (match_transactions (run_run_id run) internal external tolerance) (\<lambda>items.
           let run1 = tally run internal external items in
           bindE (forE (save_item rc) items) (\<lambda>_.
           let run2 = run1\<lparr>run_status := (if run_discrepancy_count run1 > 0 then RPartiallyResolved else RCompleted)\<rparr> in
           bindE utc_now (\<lambda>completed.
           let run3 = run2\<lparr>run_completed_at := Some completed\<rparr> in
           bindE (save_run rc run3) (\<lambda>_.
           okE run3))))))"

definition start_reconciliation ::
  "'x recon_crates_scheme \<Rightarrow> recon_ports \<Rightarrow> uuid \<Rightarrow> string \<Rightarrow> datetime \<Rightarrow> datetime \<Rightarrow> string \<Rightarrow> decimal \<Rightarrow>
   (recon_world, recon_error, reconciliation_run) eff" where
  "start_reconciliation rc ports tenant_id provider_name period_start period_end initiated_by tolerance =
     bindE new_v4 (\<lambda>run_id.
     bindE utc_now (\<lambda>started.
     let run = (reconciliation_run_new run_id tenant_id provider_name period_start period_end initiated_by)
                 \<lparr>run_status := RRunning, run_started_at := Some started\<rparr> in
     bindE (save_run rc run) (\<lambda>_.
     bindE (attemptE (fetch_internal_transactions ports tenant_id provider_name period_start period_end)) (\<lambda>internal_txns.
     bindE (attemptE (fetch_external_transactions ports provider_name period_start period_end)) (\<lambda>external_txns.
     conclude_run rc run internal_txns external_txns tolerance)))))"

definition resolve_discrepancy ::
  "'x recon_crates_scheme \<Rightarrow> uuid \<Rightarrow> uuid \<Rightarrow> resolution_action \<Rightarrow> string \<Rightarrow> string \<Rightarrow>
   (recon_world, recon_error, reconciliation_item) eff" where
  "resolve_discrepancy rc item_id tenant_id action notes resolved_by =
     bindE (update_item_resolution item_id action notes resolved_by) (\<lambda>_.
     get_item rc item_id tenant_id)"

fun bulk_resolve_loop ::
  "resolution_action \<Rightarrow> string \<Rightarrow> string \<Rightarrow> uuid list \<Rightarrow> int \<Rightarrow> (recon_world, recon_error, int) eff" where
  "bulk_resolve_loop action notes resolved_by [] count = okE count"
| "bulk_resolve_loop action notes resolved_by (i # is) count =
     bindE (attemptE (update_item_resolution i action notes resolved_by)) (\<lambda>r.
     bulk_resolve_loop action notes resolved_by is (case r of Inr _ \<Rightarrow> as_i32 (count + 1) | Inl _ \<Rightarrow> count))"

definition bulk_resolve_discrepancies ::
  "uuid list \<Rightarrow> resolution_action \<Rightarrow> string \<Rightarrow> string \<Rightarrow> (recon_world, recon_error, int) eff" where
  "bulk_resolve_discrepancies item_ids action notes resolved_by =
     bulk_resolve_loop action notes resolved_by item_ids 0"

definition generate_report ::
  "'x recon_crates_scheme \<Rightarrow> uuid \<Rightarrow> uuid \<Rightarrow> string \<Rightarrow> (recon_world, recon_error, uuid \<times> string) eff" where
  "generate_report rc run_id tenant_id format =
     bindE (get_run rc run_id tenant_id) (\<lambda>run.
     bindE new_v4 (\<lambda>report_id.
     okE (report_id, ''/reports/'' @ uuid_to_string rc report_id @ ''/reconciliation-'' @
       uuid_to_string rc (run_run_id run) @ ''.'' @ to_lowercase format @ ''?tenant='' @ uuid_to_string rc tenant_id)))"

section \<open>Ports: conversions\<close>

fun recon_status_of_error :: "recon_error \<Rightarrow> grpc_code \<times> int" where
  "recon_status_of_error (RInvalidArgument _) = (Code_InvalidArgument, 1)"
| "recon_status_of_error (RNotFound _) = (Code_NotFound, 2)"
| "recon_status_of_error RAlreadyRunning = (Code_AlreadyExists, 3)"
| "recon_status_of_error (RProviderError _) = (Code_FailedPrecondition, 18)"
| "recon_status_of_error (RInvalidStatusTransition _ _) = (Code_FailedPrecondition, 6)"
| "recon_status_of_error (RDatabaseError _) = (Code_Internal, 8)"
| "recon_status_of_error (RStoreError _) = (Code_Internal, 8)"

definition recon_map_domain_error :: "recon_error \<Rightarrow> string \<Rightarrow> status \<times> proto_error option" where
  "recon_map_domain_error e trace =
     (case recon_status_of_error e of (c, proto_code) \<Rightarrow>
        (mk_status c (recon_error_to_string e),
         Some \<lparr>pe_code = proto_code, pe_message = recon_error_to_string e,
               pe_details = [''trace_id'' \<mapsto> trace], pe_trace_id = trace, pe_grpc_code = code_number c\<rparr>))"

definition recon_parse_uuid :: "'x recon_crates_scheme \<Rightarrow> string \<Rightarrow> status + uuid" where
  "recon_parse_uuid rc s =
     (case uuid_parse rc s of Some u \<Rightarrow> Inr u
      | None \<Rightarrow> Inl (mk_status Code_InvalidArgument (''Invalid UUID: '' @ s)))"

definition recon_trace_id :: "string option \<Rightarrow> string" where
  "recon_trace_id header = unwrap_or header ''unknown''"

definition recon_proto_money :: "decimal \<Rightarrow> string \<Rightarrow> proto_money option" where
  "recon_proto_money amount currency = Some \<lparr>pm_currency_code = currency,
     pm_amount_cents = unwrap_or (dec_to_i64 (dec_mul amount (Decimal 100 0))) 0, pm_currency = 0\<rparr>"

fun recon_domain_status :: "recon_status \<Rightarrow> int" where
  "recon_domain_status RPending = 1"
| "recon_domain_status RRunning = 2"
| "recon_domain_status RCompleted = 3"
| "recon_domain_status RFailed = 4"
| "recon_domain_status RPartiallyResolved = 5"
| "recon_domain_status RApproved = 6"

definition recon_proto_status :: "int \<Rightarrow> status + recon_status" where
  "recon_proto_status n =
     (if n = 1 then Inr RPending else if n = 2 then Inr RRunning else if n = 3 then Inr RCompleted
      else if n = 4 then Inr RFailed else if n = 5 then Inr RPartiallyResolved else if n = 6 then Inr RApproved
      else Inl (mk_status Code_InvalidArgument (''Invalid status: '' @ show_int n)))"

fun map_domain_discrepancy_type :: "discrepancy_type \<Rightarrow> int" where
  "map_domain_discrepancy_type MissingInternal = 1"
| "map_domain_discrepancy_type MissingExternal = 2"
| "map_domain_discrepancy_type AmountMismatch = 3"
| "map_domain_discrepancy_type StatusMismatch = 4"
| "map_domain_discrepancy_type DuplicateInternal = 5"
| "map_domain_discrepancy_type DuplicateExternal = 6"
| "map_domain_discrepancy_type FeeMismatch = 7"
| "map_domain_discrepancy_type TimestampMismatch = 8"
| "map_domain_discrepancy_type CurrencyMismatch = 9"

definition map_proto_discrepancy_type :: "int \<Rightarrow> status + discrepancy_type" where
  "map_proto_discrepancy_type n =
     (if n = 1 then Inr MissingInternal else if n = 2 then Inr MissingExternal else if n = 3 then Inr AmountMismatch
      else if n = 4 then Inr StatusMismatch else if n = 5 then Inr DuplicateInternal
      else if n = 6 then Inr DuplicateExternal else if n = 7 then Inr FeeMismatch
      else if n = 8 then Inr TimestampMismatch else if n = 9 then Inr CurrencyMismatch
      else Inl (mk_status Code_InvalidArgument (''Invalid discrepancy type: '' @ show_int n)))"

fun map_domain_resolution_action :: "resolution_action \<Rightarrow> int" where
  "map_domain_resolution_action CorrectInternal = 1"
| "map_domain_resolution_action CorrectExternal = 2"
| "map_domain_resolution_action CreateAdjustment = 3"
| "map_domain_resolution_action Ignore = 4"
| "map_domain_resolution_action Escalate = 5"
| "map_domain_resolution_action Approve = 6"

definition map_proto_resolution_action :: "int \<Rightarrow> status + resolution_action" where
  "map_proto_resolution_action n =
     (if n = 1 then Inr CorrectInternal else if n = 2 then Inr CorrectExternal
      else if n = 3 then Inr CreateAdjustment else if n = 4 then Inr Ignore else if n = 5 then Inr Escalate
      else if n = 6 then Inr Approve
      else Inl (mk_status Code_InvalidArgument (''Invalid resolution action: '' @ show_int n)))"

record proto_run =
  pr_run_id :: string
  pr_tenant_id :: string
  pr_provider_name :: string
  pr_status :: int
  pr_period_start :: "timestamp option"
  pr_period_end :: "timestamp option"
  pr_started_at :: "timestamp option"
  pr_completed_at :: "timestamp option"
  pr_total_records :: int
  pr_matched_count :: int
  pr_discrepancy_count :: int
  pr_resolved_count :: int
  pr_initiated_by :: string
  pr_approved_by :: string
  pr_approved_at :: "timestamp option"
  pr_internal_total_amount :: "proto_money option"
  pr_external_total_amount :: "proto_money option"
  pr_discrepancy_amount :: "proto_money option"
  pr_error :: "proto_error option"

definition map_run_to_proto :: "'x recon_crates_scheme \<Rightarrow> reconciliation_run \<Rightarrow> proto_run" where
  "map_run_to_proto rc run =
     \<lparr>pr_run_id = uuid_to_string rc (run_run_id run), pr_tenant_id = uuid_to_string rc (run_tenant_id run),
      pr_provider_name = run_provider_name run, pr_status = recon_domain_status (run_status run),
      pr_period_start = Some (to_timestamp (run_period_start run)),
      pr_period_end = Some (to_timestamp (run_period_end run)),
      pr_started_at = map_option to_timestamp (run_started_at run),
      pr_completed_at = map_option to_timestamp (run_completed_at run),
      pr_total_records = run_total_records run, pr_matched_count = run_matched_count run,
      pr_discrepancy_count = run_discrepancy_count run, pr_resolved_count = run_resolved_count run,
      pr_initiated_by = run_initiated_by run, pr_approved_by = unwrap_or (run_approved_by run) [],
      pr_approved_at = map_option to_timestamp (run_approved_at run),
      pr_internal_total_amount = recon_proto_money (run_internal_total run) ''USD'',
      pr_external_total_amount = recon_proto_money (run_external_total run) ''USD'',
      pr_discrepancy_amount = recon_proto_money (run_discrepancy_amount run) ''USD'', pr_error = None\<rparr>"

record proto_item =
  pi_item_id :: string
  pi_run_id :: string
  pi_transaction_id :: string
  pi_discrepancy_type :: int
  pi_internal_status :: string
  pi_external_status :: string
  pi_internal_amount :: "proto_money option"
  pi_external_amount :: "proto_money option"
  pi_difference :: "proto_money option"
  pi_resolved :: bool
  pi_resolution_action :: int
  pi_resolved_by :: string
  pi_resolved_at :: "timestamp option"
  pi_notes :: string
  pi_error :: "proto_error option"

definition map_item_to_proto :: "'x recon_crates_scheme \<Rightarrow> reconciliation_item \<Rightarrow> proto_item" where
  "map_item_to_proto rc item =
     \<lparr>pi_item_id = uuid_to_string rc (it_item_id item), pi_run_id = uuid_to_string rc (it_run_id item),
      pi_transaction_id = it_transaction_id item,
      pi_discrepancy_type = map_domain_discrepancy_type (it_discrepancy_type item),
      pi_internal_status = it_internal_status item, pi_external_status = it_external_status item,
      pi_internal_amount = recon_proto_money (it_internal_amount item) ''USD'',
      pi_external_amount = recon_proto_money (it_external_amount item) ''USD'',
      pi_difference = recon_proto_money (it_difference item) ''USD'', pi_resolved = it_resolved item,
      pi_resolution_action = unwrap_or (map_option map_domain_resolution_action (it_resolution_action item)) 0,
      pi_resolved_by = unwrap_or (it_resolved_by item) [],
      pi_resolved_at = map_option to_timestamp (it_resolved_at item),
      pi_notes = unwrap_or (it_notes item) [], pi_error = None\<rparr>"

record proto_rule =
  pu_rule_id :: string
  pu_tenant_id :: string
  pu_provider_name :: string
  pu_rule_name :: string
  pu_match_fields :: "string list"
  pu_tolerance_amount :: "proto_money option"
  pu_tolerance_time_seconds :: int
  pu_auto_resolve :: bool
  pu_is_active :: bool
  pu_created_at :: "timestamp option"
  pu_updated_at :: "timestamp option"
  pu_error :: "proto_error option"

definition map_rule_to_proto :: "'x recon_crates_scheme \<Rightarrow> matching_rule \<Rightarrow> proto_rule" where
  "map_rule_to_proto rc rule =
     \<lparr>pu_rule_id = uuid_to_string rc (mr_rule_id rule), pu_tenant_id = uuid_to_string rc (mr_tenant_id rule),
      pu_provider_name = mr_provider_name rule, pu_rule_name = mr_rule_name rule,
      pu_match_fields = mr_match_fields rule,
      pu_tolerance_amount = recon_proto_money (mr_tolerance_amount rule) ''USD'',
      pu_tolerance_time_seconds = mr_tolerance_time_seconds rule, pu_auto_resolve = mr_auto_resolve rule,
      pu_is_active = mr_is_active rule, pu_created_at = map_option to_timestamp (mr_created_at rule),
      pu_updated_at = map_option to_timestamp (mr_updated_at rule), pu_error = None\<rparr>"

section \<open>Ports: the gRPC handlers\<close>

text \<open>An instant of a request: a missing one and one out of range are replaced by a time before now.\<close>

definition recon_request_time ::
  "'x recon_crates_scheme \<Rightarrow> int \<Rightarrow> timestamp option \<Rightarrow> (recon_world, status, datetime) eff" where
  "recon_request_time rc missing ts =
     (case ts of
        Some t \<Rightarrow>
          (case rfrom_timestamp rc (seconds t) (as_u32 (nanos t)) of Some d \<Rightarrow> okE d | None \<Rightarrow> utc_now)
      | None \<Rightarrow> bindE utc_now (\<lambda>now. okE (now - missing * day_nanos)))"

definition recon_rpc :: "string \<Rightarrow> (recon_world, recon_error, 'a) eff \<Rightarrow> (recon_world, status, 'a) eff" where
  "recon_rpc trace m = map_errE (\<lambda>e. fst (recon_map_domain_error e trace)) m"

record start_request =
  stq_trace_header :: "string option"
  stq_tenant_id :: string
  stq_provider_name :: string
  stq_period_start :: "timestamp option"
  stq_period_end :: "timestamp option"
  stq_initiated_by :: string
  stq_tolerance_amount :: "proto_money option"

definition grpc_start_reconciliation ::
  "'x recon_crates_scheme \<Rightarrow> recon_ports \<Rightarrow> start_request \<Rightarrow> (recon_world, status, proto_run) eff" where
  "grpc_start_reconciliation rc ports req =
     bindE (liftE (recon_parse_uuid rc (stq_tenant_id req))) (\<lambda>tenant_id.
     bindE (recon_request_time rc 0 (stq_period_start req)) (\<lambda>period_start.
     bindE (recon_request_time rc 0 (stq_period_end req)) (\<lambda>period_end.
     let tolerance = (case stq_tolerance_amount req of Some m \<Rightarrow> Decimal (pm_amount_cents m) 2 | None \<Rightarrow> Decimal 1 2) in
     bindE (recon_rpc (recon_trace_id (stq_trace_header req)) (start_reconciliation rc ports tenant_id
              (stq_provider_name req) period_start period_end (stq_initiated_by req) tolerance)) (\<lambda>run.
     okE (map_run_to_proto rc run)))))"

definition grpc_get_reconciliation_run ::
  "'x recon_crates_scheme \<Rightarrow> string option \<Rightarrow> string \<Rightarrow> string \<Rightarrow> (recon_world, status, proto_run) eff" where
  "grpc_get_reconciliation_run rc header run_id tenant_id =
     bindE (liftE (recon_parse_uuid rc run_id)) (\<lambda>rid.
     bindE (liftE (recon_parse_uuid rc tenant_id)) (\<lambda>tid.
     bindE (recon_rpc (recon_trace_id header) (get_run rc rid tid)) (\<lambda>run.
     okE (map_run_to_proto rc run))))"

text \<open>A page of a listing: \<open>total_count\<close>, no further page; an error is part of the response.\<close>

record 'a listing =
  ls_entries :: "'a list"
  ls_pagination :: "int option"
  ls_total_count :: int
  ls_error :: "proto_error option"

definition list_response :: "string \<Rightarrow> ('b \<Rightarrow> 'a) \<Rightarrow> recon_error + 'b list \<Rightarrow> 'a listing" where
  "list_response trace f r =
     (case r of
        Inr xs \<Rightarrow> \<lparr>ls_entries = map f xs, ls_pagination = Some (as_i32 (int (length xs))),
                   ls_total_count = as_i32 (int (length xs)), ls_error = None\<rparr>
      | Inl e \<Rightarrow> \<lparr>ls_entries = [], ls_pagination = None, ls_total_count = 0,
                  ls_error = snd (recon_map_domain_error e trace)\<rparr>)"

record list_runs_request =
  lrq_trace_header :: "string option"
  lrq_tenant_id :: string
  lrq_provider_name :: string
  lrq_statuses :: "int list"
  lrq_from_date :: "timestamp option"
  lrq_to_date :: "timestamp option"

definition grpc_list_reconciliation_runs ::
  "'x recon_crates_scheme \<Rightarrow> list_runs_request \<Rightarrow> (recon_world, status, proto_run listing) eff" where
  "grpc_list_reconciliation_runs rc req =
     bindE (liftE (recon_parse_uuid rc (lrq_tenant_id req))) (\<lambda>tenant_id.
     bindE (liftE (collect_result recon_proto_status (lrq_statuses req))) (\<lambda>statuses.
     bindE (recon_request_time rc 30 (lrq_from_date req)) (\<lambda>fr.
     bindE (recon_request_time rc 0 (lrq_to_date req)) (\<lambda>to.
     bindE (attemptE (list_runs rc tenant_id (non_empty (lrq_provider_name req)) statuses fr to)) (\<lambda>r.
     okE (list_response (recon_trace_id (lrq_trace_header req)) (map_run_to_proto rc) r))))))"

record items_request =
  gi_trace_header :: "string option"
  gi_run_id :: string
  gi_tenant_id :: string
  gi_discrepancy_types :: "int list"
  gi_unresolved_only :: bool

definition grpc_get_reconciliation_items ::
  "'x recon_crates_scheme \<Rightarrow> items_request \<Rightarrow> (recon_world, status, proto_item listing) eff" where
  "grpc_get_reconciliation_items rc req =
     bindE (liftE (recon_parse_uuid rc (gi_run_id req))) (\<lambda>run_id.
     bindE (liftE (recon_parse_uuid rc (gi_tenant_id req))) (\<lambda>tenant_id.
     bindE (liftE (collect_result map_proto_discrepancy_type (gi_discrepancy_types req))) (\<lambda>types.
     bindE (attemptE (get_items rc run_id tenant_id types (gi_unresolved_only req))) (\<lambda>r.
     okE (list_response (recon_trace_id (gi_trace_header req)) (map_item_to_proto rc) r)))))"

record resolve_request =
  vr_trace_header :: "string option"
  vr_item_id :: string
  vr_run_id :: string
  vr_tenant_id :: string
  vr_action :: int
  vr_notes :: string
  vr_resolved_by :: string

definition grpc_resolve_discrepancy ::
  "'x recon_crates_scheme \<Rightarrow> resolve_request \<Rightarrow> (recon_world, status, proto_item) eff" where
  "grpc_resolve_discrepancy rc req =
     bindE (liftE (recon_parse_uuid rc (vr_item_id req))) (\<lambda>item_id.
     bindE (liftE (recon_parse_uuid rc (vr_run_id req))) (\<lambda>_.
     bindE (liftE (recon_parse_uuid rc (vr_tenant_id req))) (\<lambda>tenant_id.
     bindE (liftE (map_proto_resolution_action (vr_action req))) (\<lambda>action.
     bindE (recon_rpc (recon_trace_id (vr_trace_header req))
              (resolve_discrepancy rc item_id tenant_id action (vr_notes req) (vr_resolved_by req))) (\<lambda>item.
     okE (map_item_to_proto rc item))))))"

record bulk_request =
  br_run_id :: string
  br_tenant_id :: string
  br_item_ids :: "string list"
  br_action :: int
  br_notes :: string
  br_resolved_by :: string

record batch_result =
  bo_batch_id :: string
  bo_total_count :: int
  bo_success_count :: int
  bo_failure_count :: int
  bo_errors :: "string list"

text \<open>An error of the handler counts as no success.\<close>

definition grpc_bulk_resolve_discrepancies ::
  "'x recon_crates_scheme \<Rightarrow> bulk_request \<Rightarrow> (recon_world, status, batch_result) eff" where
  "grpc_bulk_resolve_discrepancies rc req =
     bindE (liftE (recon_parse_uuid rc (br_run_id req))) (\<lambda>_.
     bindE (liftE (recon_parse_uuid rc (br_tenant_id req))) (\<lambda>_.
     bindE (liftE (collect_result (recon_parse_uuid rc) (br_item_ids req))) (\<lambda>item_ids.
     bindE (liftE (map_proto_resolution_action (br_action req))) (\<lambda>action.
     bindE (attemptE (bulk_resolve_discrepancies item_ids action (br_notes req) (br_resolved_by req))) (\<lambda>r.
     bindE new_v4 (\<lambda>batch.
     let total = as_i32 (int (length item_ids)); success_count = (case r of Inr n \<Rightarrow> n | Inl _ \<Rightarrow> 0) in
     okE \<lparr>bo_batch_id = uuid_to_string rc batch, bo_total_count = total, bo_success_count = success_count,
          bo_failure_count = as_i32 (total - success_count), bo_errors = []\<rparr>))))))"

record report_response =
  ro_report_id :: string
  ro_download_url :: string
  ro_generated_at :: "timestamp option"
  ro_error :: "proto_error option"

definition grpc_generate_report ::
  "'x recon_crates_scheme \<Rightarrow> string option \<Rightarrow> string \<Rightarrow> string \<Rightarrow> string \<Rightarrow> (recon_world, status, report_response) eff" where
  "grpc_generate_report rc header run_id tenant_id format =
     bindE (liftE (recon_parse_uuid rc run_id)) (\<lambda>rid.
     bindE (liftE (recon_parse_uuid rc tenant_id)) (\<lambda>tid.
     bindE (attemptE (generate_report rc rid tid format)) (\<lambda>r.
     case r of
       Inr (report_id, download_url) \<Rightarrow>
         bindE utc_now (\<lambda>now.
         okE \<lparr>ro_report_id = uuid_to_string rc report_id, ro_download_url = download_url,
              ro_generated_at = Some (to_timestamp now), ro_error = None\<rparr>)
     | Inl e \<Rightarrow> okE \<lparr>ro_report_id = [], ro_download_url = [], ro_generated_at = None,
                     ro_error = snd (recon_map_domain_error e (recon_trace_id header))\<rparr>)))"

definition grpc_get_matching_rule ::
  "'x recon_crates_scheme \<Rightarrow> string option \<Rightarrow> string \<Rightarrow> string \<Rightarrow> (recon_world, status, proto_rule) eff" where
  "grpc_get_matching_rule rc header rule_id tenant_id =
     bindE (liftE (recon_parse_uuid rc rule_id)) (\<lambda>rid.
     bindE (liftE (recon_parse_uuid rc tenant_id)) (\<lambda>tid.
     bindE (recon_rpc (recon_trace_id header) (get_matching_rule rc rid tid)) (\<lambda>rule.
     okE (map_rule_to_proto rc rule))))"

text \<open>Its response has no total of its own outside the pagination.\<close>

definition grpc_list_matching_rules ::
  "'x recon_crates_scheme \<Rightarrow> string option \<Rightarrow> string \<Rightarrow> string \<Rightarrow> (recon_world, status, proto_rule listing) eff" where
  "grpc_list_matching_rules rc header tenant_id provider_name =
     bindE (liftE (recon_parse_uuid rc tenant_id)) (\<lambda>tid.
     bindE (attemptE (list_matching_rules rc tid (non_empty provider_name))) (\<lambda>r.
     okE (list_response (recon_trace_id header) (map_rule_to_proto rc) r)))"

end
