(* ===== verification/Recon_Correct.thy ===== *)
theory Recon_Correct
  imports Recon_Service
begin

text \<open>
  The reconciliation engine against its specification: which items a matching of internal with
  external transactions leads to, how the items account for the amounts, and what the store keeps.
\<close>

section \<open>Matching\<close>

text \<open>
  A matching gives each internal transaction at most one external one.  It is sound (partners match),
  injective and maximal (two transactions left over do not match).
\<close>

definition matching_ok ::
  "decimal \<Rightarrow> internal_transaction list \<Rightarrow> external_transaction list \<Rightarrow> nat option list \<Rightarrow> bool" where
  "matching_ok tolerance internal external f \<longleftrightarrow>
     length f = length internal \<and> distinct (filter (\<lambda>x. x \<noteq> None) f) \<and>
     (\<forall>k < length f. case f ! k of
        Some j \<Rightarrow> j < length external \<and> is_match (internal ! k) (external ! j) tolerance
      | None \<Rightarrow> \<forall>j < length external. Some j \<notin> set f \<longrightarrow> \<not> is_match (internal ! k) (external ! j) tolerance)"

text \<open>The items of a matching, with the item identifier left at zero.\<close>

definition mismatch_item :: "uuid \<Rightarrow> internal_transaction \<Rightarrow> external_transaction \<Rightarrow> reconciliation_item" where
  "mismatch_item run_id i e = new_item 0 run_id (int_transaction_id i) AmountMismatch (int_status i) (ext_status e)
     (int_amount i) (ext_amount e) (dec_abs (dec_sub (int_amount i) (ext_amount e)))"

definition missing_external_item :: "uuid \<Rightarrow> internal_transaction \<Rightarrow> reconciliation_item" where
  "missing_external_item run_id i = new_item 0 run_id (int_transaction_id i) MissingExternal (int_status i) []
     (int_amount i) dec_zero (int_amount i)"

definition missing_internal_item :: "uuid \<Rightarrow> external_transaction \<Rightarrow> reconciliation_item" where
  "missing_internal_item run_id e = new_item 0 run_id (ext_external_id e) MissingInternal [] (ext_status e)
     dec_zero (ext_amount e) (ext_amount e)"

fun internal_items ::
  "uuid \<Rightarrow> external_transaction list \<Rightarrow> internal_transaction \<times> nat option \<Rightarrow> reconciliation_item list" where
  "internal_items run_id external (i, None) = [missing_external_item run_id i]"
| "internal_items run_id external (i, Some j) =
     (if dec_value (int_amount i) = dec_value (ext_amount (external ! j)) then []
      else [mismatch_item run_id i (external ! j)])"

definition matching_items ::
  "uuid \<Rightarrow> internal_transaction list \<Rightarrow> external_transaction list \<Rightarrow> nat option list \<Rightarrow> reconciliation_item list" where
  "matching_items run_id internal external f =
     concat (map (internal_items run_id external) (zip internal f)) @
     map (\<lambda>j. missing_internal_item run_id (external ! j)) (filter (\<lambda>j. Some j \<notin> set f) [0..<length external])"

text \<open>Items take their identifiers from the supply in order.\<close>

fun stamped :: "(nat \<Rightarrow> uuid) \<Rightarrow> nat \<Rightarrow> reconciliation_item list \<Rightarrow> reconciliation_item list" where
  "stamped s n [] = []"
| "stamped s n (x # xs) = x\<lparr>it_item_id := s n\<rparr> # stamped s (Suc n) xs"

lemma length_stamped [simp]: "length (stamped s n xs) = length xs"
  by (induction xs arbitrary: n) auto

lemma stamped_append: "stamped s n (xs @ ys) = stamped s n xs @ stamped s (n + length xs) ys"
  by (induction xs arbitrary: n) auto

lemma stamped_ids: "map it_item_id (stamped s n xs) = map s [n..<n + length xs]"
  by (induction xs arbitrary: n) (auto simp: upt_rec)

lemma stamped_unchanged:
  assumes "\<And>x u. g (x\<lparr>it_item_id := u\<rparr>) = g x"
  shows "map g (stamped s n xs) = map g xs"
  by (induction xs arbitrary: n) (auto simp: assms)

text \<open>The matching the loop finds.\<close>

fun assign ::
  "decimal \<Rightarrow> external_transaction list \<Rightarrow> internal_transaction list \<Rightarrow> bool list \<Rightarrow> nat option list" where
  "assign tolerance external [] taken = []"
| "assign tolerance external (i # is) taken =
     (case find_match tolerance external taken i of
        Some idx \<Rightarrow> Some idx # assign tolerance external is (taken[idx := True])
      | None \<Rightarrow> None # assign tolerance external is taken)"

lemma find_match_Some:
  assumes "find_match tolerance external taken i = Some j"
  shows "j < length external \<and> \<not> taken ! j \<and> is_match i (external ! j) tolerance"
  using assms by (auto simp: find_match_def find_Some_iff)

lemma find_match_None:
  "find_match tolerance external taken i = None \<longleftrightarrow>
   (\<forall>j < length external. taken ! j \<or> \<not> is_match i (external ! j) tolerance)"
  by (auto simp: find_match_def find_None_iff)

lemma length_assign [simp]: "length (assign tolerance external is taken) = length is"
  by (induction "is" arbitrary: taken) (auto split: option.splits)

lemma assign_taken:
  assumes "length taken = length external" "Some j \<in> set (assign tolerance external is taken)"
  shows "j < length external \<and> \<not> taken ! j"
  using assms
proof (induction "is" arbitrary: taken)
  case (Cons i "is")
  show ?case
  proof (cases "find_match tolerance external taken i")
    case None
    then show ?thesis using Cons by simp
  next
    case (Some idx)
    then show ?thesis
      using find_match_Some [OF Some] Cons.IH [of "taken[idx := True]"] Cons.prems
      by (cases "j = idx") (auto simp: nth_list_update)
  qed
qed simp

lemma assign_distinct:
  "length taken = length external \<Longrightarrow> distinct (filter (\<lambda>x. x \<noteq> None) (assign tolerance external is taken))"
proof (induction "is" arbitrary: taken)
  case (Cons i "is")
  show ?case
  proof (cases "find_match tolerance external taken i")
    case None
    then show ?thesis using Cons by simp
  next
    case (Some idx)
    have "Some idx \<notin> set (assign tolerance external is (taken[idx := True]))"
      using assign_taken [of "taken[idx := True]" external idx tolerance "is"] Cons.prems find_match_Some [OF Some]
      by auto
    then show ?thesis using Some Cons.IH [of "taken[idx := True]"] Cons.prems by simp
  qed
qed simp

lemma assign_sound:
  assumes "length taken = length external" "k < length is" "assign tolerance external is taken ! k = Some j"
  shows "is_match (is ! k) (external ! j) tolerance"
  using assms
proof (induction "is" arbitrary: taken k)
  case (Cons i "is")
  show ?case
  proof (cases k)
    case 0
    then show ?thesis
      using Cons.prems find_match_Some [of tolerance external taken i]
      by (cases "find_match tolerance external taken i") auto
  next
    case (Suc k')
    then show ?thesis
      using Cons.prems Cons.IH [of taken k'] Cons.IH [of "taken[_ := True]" k']
      by (cases "find_match tolerance external taken i") auto
  qed
qed simp

lemma assign_maximal:
  assumes "length taken = length external" "k < length is" "assign tolerance external is taken ! k = None"
    "j < length external" "\<not> taken ! j" "Some j \<notin> set (assign tolerance external is taken)"
  shows "\<not> is_match (is ! k) (external ! j) tolerance"
  using assms
proof (induction "is" arbitrary: taken k)
  case (Cons i "is")
  show ?case
  proof (cases "find_match tolerance external taken i")
    case None
    show ?thesis
    proof (cases k)
      case 0
      then show ?thesis using None Cons.prems by (auto simp: find_match_None)
    next
      case (Suc k')
      then show ?thesis using None Cons.IH [of taken k'] Cons.prems by simp
    qed
  next
    case (Some idx)
    then obtain k' where "k = Suc k'" using Cons.prems by (cases k) auto
    then show ?thesis
      using Some Cons.IH [of "taken[idx := True]" k'] Cons.prems by (auto simp: nth_list_update)
  qed
qed simp

lemma assign_ok: "matching_ok tolerance internal external (assign tolerance external internal (replicate (length external) False))"
  unfolding matching_ok_def
  using assign_taken [of "replicate (length external) False" external _ tolerance internal]
    assign_distinct [of "replicate (length external) False" external tolerance internal]
    assign_sound [of "replicate (length external) False" external _ internal tolerance]
    assign_maximal [of "replicate (length external) False" external _ internal tolerance]
  by (auto split: option.split) (metis length_assign nth_mem)

lemma no_difference: "dec_le (dec_abs (dec_sub a b)) dec_zero \<longleftrightarrow> dec_value a = dec_value b"
  by (simp add: dec_le_value)

lemma new_item_stamp: "(new_item u r t d s1 s2 a b c)\<lparr>it_item_id := v\<rparr> = new_item v r t d s1 s2 a b c"
  by (simp add: new_item_def)

lemmas item_defs = mismatch_item_def missing_external_item_def missing_internal_item_def new_item_stamp

definition marked :: "bool list \<Rightarrow> nat option list \<Rightarrow> bool list" where
  "marked taken f = map (\<lambda>j. taken ! j \<or> Some j \<in> set f) [0..<length taken]"

lemma marked_Nil [simp]: "marked taken [] = taken"
  by (simp add: marked_def map_nth)

lemma marked_Cons [simp]:
  "marked taken (None # f) = marked taken f"
  "j < length taken \<Longrightarrow> marked taken (Some j # f) = marked (taken[j := True]) f"
  by (auto simp: marked_def nth_list_update)

definition drawn :: "nat \<Rightarrow> recon_world \<Rightarrow> recon_world" where
  "drawn n w = w\<lparr>uuids_made := uuids_made w + n\<rparr>"

lemma drawn_simps [simp]:
  "uuids_made (drawn n w) = uuids_made w + n" "uuid_supply (drawn n w) = uuid_supply w" "drawn 0 w = w"
  "drawn m (drawn n w) = drawn (n + m) w" "reports (drawn n w) = reports w" "mismatches (drawn n w) = mismatches w"
  "clock (drawn n w) = clock w" "clock_reads (drawn n w) = clock_reads w" "db_calls (drawn n w) = db_calls w"
  "db_fault (drawn n w) = db_fault w"
  by (simp_all add: drawn_def add.assoc)

lemma new_v4_drawn: "bindE new_v4 f w = f (uuid_supply w (uuids_made w)) (drawn 1 w)"
  by (simp add: bindE_def new_v4_def drawn_def)

lemma match_internal_run:
  assumes "length taken = length external"
  shows "match_internal run_id tolerance external is taken items w =
    (let f = assign tolerance external is taken;
         new = concat (map (internal_items run_id external) (zip is f))
     in (Inr (marked taken f, items @ stamped (uuid_supply w) (uuids_made w) new), drawn (length new) w))"
  using assms
proof (induction "is" arbitrary: taken items w)
  case Nil
  then show ?case by (simp add: okE_def)
next
  case (Cons i "is")
  show ?case
  proof (cases "find_match tolerance external taken i")
    case None
    then show ?thesis
      using Cons.prems by (simp add: Cons.IH new_v4_drawn Let_def item_defs)
  next
    case (Some idx)
    then show ?thesis
      using Cons.prems find_match_Some [OF Some]
      by (simp add: Cons.IH new_v4_drawn Let_def item_defs no_difference)
  qed
qed

lemma match_external_run:
  "match_external run_id tes items w =
    (let new = map (missing_internal_item run_id \<circ> snd) (filter (\<lambda>te. \<not> fst te) tes)
     in (Inr (items @ stamped (uuid_supply w) (uuids_made w) new), drawn (length new) w))"
proof (induction tes arbitrary: items w)
  case Nil
  then show ?case by (simp add: okE_def)
next
  case (Cons te tes)
  then show ?case by (cases te) (simp add: new_v4_drawn Let_def item_defs)
qed

lemma filter_zip_marked:
  "map snd (filter (\<lambda>te. \<not> fst te) (zip (map P [0..<length xs]) xs)) =
   map (\<lambda>j. xs ! j) (filter (\<lambda>j. \<not> P j) [0..<length xs])"
proof -
  have "zip (map P [0..<length xs]) xs = map (\<lambda>j. (P j, xs ! j)) [0..<length xs]"
    by (rule nth_equalityI) auto
  then show ?thesis by (simp add: filter_map comp_def)
qed

theorem match_transactions_run:
  "match_transactions run_id internal external tolerance w =
    (let f = assign tolerance external internal (replicate (length external) False);
         new = matching_items run_id internal external f
     in (Inr (stamped (uuid_supply w) (uuids_made w) new), drawn (length new) w))"
proof -
  let ?f = "assign tolerance external internal (replicate (length external) False)"
  have m: "marked (replicate (length external) False) ?f = map (\<lambda>j. Some j \<in> set ?f) [0..<length external]"
    by (simp add: marked_def)
  have "map (missing_internal_item run_id \<circ> snd) (filter (\<lambda>te. \<not> fst te) (zip (map (\<lambda>j. Some j \<in> set ?f) [0..<length external]) external)) =
      map (\<lambda>j. missing_internal_item run_id (external ! j)) (filter (\<lambda>j. Some j \<notin> set ?f) [0..<length external])"
    using arg_cong [OF filter_zip_marked [of "\<lambda>j. Some j \<in> set ?f" external], of "map (missing_internal_item run_id)"]
    by (simp add: comp_def)
  then show ?thesis
    by (simp add: match_transactions_def bindE_def match_internal_run match_external_run Let_def m
        matching_items_def stamped_append)
qed

section \<open>Amounts\<close>

definition net :: "reconciliation_item \<Rightarrow> rat" where
  "net item = dec_value (it_internal_amount item) - dec_value (it_external_amount item)"

lemma net_items [simp]:
  "net (mismatch_item r i e) = dec_value (int_amount i) - dec_value (ext_amount e)"
  "net (missing_external_item r i) = dec_value (int_amount i)"
  "net (missing_internal_item r e) = - dec_value (ext_amount e)"
  by (simp_all add: net_def item_defs new_item_def)

lemma net_internal_items:
  "sum_list (map net (internal_items run_id external (i, x))) =
   dec_value (int_amount i) - (case x of Some j \<Rightarrow> dec_value (ext_amount (external ! j)) | None \<Rightarrow> 0)"
  by (cases x) auto

lemma net_concat_items:
  "length f = length internal \<Longrightarrow>
   sum_list (map net (concat (map (internal_items run_id external) (zip internal f)))) =
   sum_list (map (dec_value \<circ> int_amount) internal) -
   sum_list (map (\<lambda>x. case x of Some j \<Rightarrow> dec_value (ext_amount (external ! j)) | None \<Rightarrow> 0) f)"
  by (induction f internal rule: list_induct2) (simp_all add: net_internal_items)

lemma sum_matched:
  fixes v :: "nat \<Rightarrow> rat"
  assumes "distinct (filter (\<lambda>x. x \<noteq> None) f)"
  shows "sum_list (map (\<lambda>x. case x of Some j \<Rightarrow> v j | None \<Rightarrow> 0) f) = sum v {j. Some j \<in> set f}"
  using assms
proof (induction f)
  case (Cons x f)
  show ?case
  proof (cases x)
    case (Some j)
    have "{i. Some i \<in> set (x # f)} = insert j {i. Some i \<in> set f}" using Some by auto
    moreover have "finite {i. Some i \<in> set f}"
      by (rule finite_imageD [of Some]) (auto intro: finite_subset [of _ "set f"])
    ultimately show ?thesis using Cons Some by auto
  qed (use Cons in simp)
qed simp

theorem net_matching_items:
  assumes "matching_ok tolerance internal external f"
  shows "sum_list (map net (matching_items run_id internal external f)) =
    sum_list (map (dec_value \<circ> int_amount) internal) - sum_list (map (dec_value \<circ> ext_amount) external)"
proof -
  let ?v = "\<lambda>j. dec_value (ext_amount (external ! j))" and ?M = "{j. Some j \<in> set f}"
  have f: "length f = length internal" "distinct (filter (\<lambda>x. x \<noteq> None) f)"
    using assms by (auto simp: matching_ok_def)
  have M: "?M \<subseteq> {..<length external}"
    using assms by (fastforce simp: matching_ok_def in_set_conv_nth)
  have "sum_list (map (dec_value \<circ> ext_amount) external) = sum ?v {..<length external}"
    by (simp add: sum_list_sum_nth atLeast0LessThan)
  also have "\<dots> = sum ?v ?M + sum ?v ({..<length external} - ?M)"
    using M by (simp add: sum.subset_diff add.commute)
  also have "sum ?v ({..<length external} - ?M) =
      sum_list (map ?v (filter (\<lambda>j. Some j \<notin> set f) [0..<length external]))"
    by (subst sum_list_distinct_conv_sum_set) (auto intro!: sum.cong)
  finally show ?thesis
    by (simp add: matching_items_def net_concat_items [OF f(1)] sum_matched [OF f(2)] comp_def
        sum_list_subtractf uminus_sum_list_map [unfolded comp_def, symmetric])
qed

section \<open>The store\<close>

interpretation report_table: keyed_table rpt_report_id merge_report_row
  "\<lambda>k. select_first (\<lambda>r. rpt_report_id r = k)" "upsert_by rpt_report_id merge_report_row"
  by (rule keyed_table_upsert_by) (simp add: merge_report_row_def)

interpretation mismatch_table: keyed_table mm_mismatch_id merge_mismatch_row
  "\<lambda>k. select_first (\<lambda>r. mm_mismatch_id r = k)" "upsert_by mm_mismatch_id merge_mismatch_row"
  by (rule keyed_table_upsert_by) (simp add: merge_mismatch_row_def)

text \<open>What a step that is not a table update leaves as it was.\<close>

definition recon_frame :: "recon_world \<Rightarrow> recon_world \<Rightarrow> bool" where
  "recon_frame w w' \<longleftrightarrow> (db_up w \<longrightarrow> db_up w') \<and> uuid_supply w' = uuid_supply w \<and> uuids_made w' = uuids_made w"

lemma recon_frame_trans: "recon_frame w w' \<Longrightarrow> recon_frame w' w'' \<Longrightarrow> recon_frame w w''"
  by (simp add: recon_frame_def)

lemma utc_now_run: "\<exists>w'. utc_now w = (Inr (clock w (clock_reads w)), w') \<and> recon_frame w w' \<and>
    reports w' = reports w \<and> mismatches w' = mismatches w"
  for w :: recon_world
  by (simp add: utc_now_def recon_frame_def db_up_def)

lemma save_run_up:
  assumes "db_up w"
  shows "\<exists>w'. save_run rc run w = (Inr (), w') \<and> recon_frame w w' \<and> mismatches w' = mismatches w \<and>
    reports w' = upsert_by rpt_report_id merge_report_row (run_to_row rc run) (reports w)"
  using assms by (simp add: save_run_def recon_set_tenant_def bindE_def map_errE_def recon_frame_def db_up_def)

lemma save_item_up:
  assumes "db_up w" "it_item_id item \<notin> mm_mismatch_id ` set (mismatches w)"
  shows "\<exists>w' t. save_item rc item w = (Inr (), w') \<and> recon_frame w w' \<and> reports w' = reports w \<and>
    mismatches w' = mismatches w @ [item_to_row rc t item]"
proof -
  have "upsert_by mm_mismatch_id merge_mismatch_row (item_to_row rc t item) (mismatches w) =
      mismatches w @ [item_to_row rc t item]" for t
    using assms(2) by (simp add: upsert_by_new item_to_row_def)
  then show ?thesis
    using assms(1) by (simp add: save_item_def bindE_def map_errE_def utc_now_def recon_frame_def db_up_def) blast
qed

lemma mm_mismatch_id_row [simp]: "mm_mismatch_id (item_to_row rc t item) = it_item_id item"
  by (simp add: item_to_row_def)

lemma save_items_up:
  assumes "db_up w" "distinct (map it_item_id items)"
    "it_item_id ` set items \<inter> mm_mismatch_id ` set (mismatches w) = {}"
  shows "\<exists>w' ts. forE (save_item rc) items w = (Inr (), w') \<and> recon_frame w w' \<and> reports w' = reports w \<and>
    length ts = length items \<and> mismatches w' = mismatches w @ map2 (item_to_row rc) ts items"
  using assms
proof (induction items arbitrary: w)
  case Nil
  then show ?case by (auto simp: okE_def recon_frame_def)
next
  case (Cons item items)
  have "it_item_id item \<notin> mm_mismatch_id ` set (mismatches w)" using Cons.prems(3) by auto
  from save_item_up [OF Cons.prems(1) this, of rc]
  obtain w1 t where s: "save_item rc item w = (Inr (), w1)" "recon_frame w w1" "reports w1 = reports w"
      "mismatches w1 = mismatches w @ [item_to_row rc t item]" by blast
  have "\<exists>w' ts. forE (save_item rc) items w1 = (Inr (), w') \<and> recon_frame w1 w' \<and> reports w' = reports w1 \<and>
      length ts = length items \<and> mismatches w' = mismatches w1 @ map2 (item_to_row rc) ts items"
    by (rule Cons.IH) (use Cons.prems s(2,4) in \<open>auto simp: recon_frame_def\<close>)
  then obtain w2 ts where r: "forE (save_item rc) items w1 = (Inr (), w2)" "recon_frame w1 w2"
      "reports w2 = reports w1" "length ts = length items"
      "mismatches w2 = mismatches w1 @ map2 (item_to_row rc) ts items" by blast
  have "mismatches w2 = mismatches w @ map2 (item_to_row rc) (t # ts) (item # items)" using r(5) s(4) by simp
  moreover have "forE (save_item rc) (item # items) w = (Inr (), w2)" using s(1) r(1) by (simp add: bindE_def)
  ultimately show ?case
    using recon_frame_trans [OF s(2) r(2)] r(3,4) s(3) by (intro exI [of _ w2] exI [of _ "t # ts"]) simp
qed

section \<open>Running a reconciliation\<close>

text \<open>The sources only read: they leave the tables and the identifier supply to the engine.\<close>

locale statement_sources =
  fixes ports :: recon_ports
  assumes internal_reads:
      "fetch_internal_transactions ports t p a b w = (r, w') \<Longrightarrow>
       recon_frame w w' \<and> reports w' = reports w \<and> mismatches w' = mismatches w"
    and external_reads:
      "fetch_external_transactions ports p a b w = (r', w') \<Longrightarrow>
       recon_frame w w' \<and> reports w' = reports w \<and> mismatches w' = mismatches w"

text \<open>The next identifiers to be drawn are new to the tables and differ from each other.\<close>

definition fresh_ids :: "nat \<Rightarrow> recon_world \<Rightarrow> bool" where
  "fresh_ids k w \<longleftrightarrow> distinct (map (uuid_supply w) [uuids_made w..<uuids_made w + k]) \<and>
     (\<forall>n \<in> {uuids_made w..<uuids_made w + k}. uuid_supply w n \<notin> rpt_report_id ` set (reports w) \<union> mm_mismatch_id ` set (mismatches w))"

lemma fresh_ids_later:
  assumes "fresh_ids (Suc k) w"
  shows "distinct (map (uuid_supply w) [Suc (uuids_made w)..<Suc (uuids_made w) + k])"
proof -
  have "[uuids_made w..<uuids_made w + Suc k] = uuids_made w # [Suc (uuids_made w)..<Suc (uuids_made w) + k]"
    by (simp add: upt_conv_Cons del: upt_Suc)
  then show ?thesis using assms by (simp add: fresh_ids_def del: upt_Suc)
qed

definition opened_run :: "recon_world \<Rightarrow> uuid \<Rightarrow> string \<Rightarrow> datetime \<Rightarrow> datetime \<Rightarrow> string \<Rightarrow> reconciliation_run" where
  "opened_run w tenant_id provider_name period_start period_end initiated_by =
     (reconciliation_run_new (uuid_supply w (uuids_made w)) tenant_id provider_name period_start period_end initiated_by)
       \<lparr>run_status := RRunning, run_started_at := Some (clock w (clock_reads w))\<rparr>"

lemma rpt_report_id_row [simp]: "rpt_report_id (run_to_row rc run) = run_run_id run"
  by (simp add: run_to_row_def)

lemma opened_run_id [simp]: "run_run_id (opened_run w t p a b i) = uuid_supply w (uuids_made w)"
  by (simp add: opened_run_def reconciliation_run_new_def)

text \<open>The columns that an update of a run leaves are the same for every version of the run.\<close>

definition run_key :: "reconciliation_run \<Rightarrow> uuid \<times> string \<times> datetime \<times> datetime" where
  "run_key run = (run_run_id run, run_provider_name run, run_period_start run, run_period_end run)"

lemma merge_run_row: "run_key new = run_key old \<Longrightarrow> merge_report_row (run_to_row rc new) (run_to_row rc old) = run_to_row rc new"
  by (simp add: run_key_def merge_report_row_def run_to_row_def)

lemma save_run_again:
  assumes "db_up w" "reports w = tab @ [run_to_row rc old]" "run_key new = run_key old"
    "run_run_id old \<notin> rpt_report_id ` set tab"
  shows "\<exists>w'. save_run rc new w = (Inr (), w') \<and> recon_frame w w' \<and> mismatches w' = mismatches w \<and>
    reports w' = tab @ [run_to_row rc new]"
proof -
  have "run_run_id new = run_run_id old" using assms(3) by (simp add: run_key_def)
  then have "upsert_by rpt_report_id merge_report_row (run_to_row rc new) (reports w) = tab @ [run_to_row rc new]"
    using assms(2,4) merge_run_row [OF assms(3)] by (simp add: upsert_by_last)
  then show ?thesis using save_run_up [OF assms(1), of rc new] by simp
qed

context statement_sources
begin

lemma start_opens:
  assumes "db_up w" "fresh_ids (Suc k) w"
  shows "\<exists>w1 w2 w3 ri re. fetch_internal_transactions ports t p a b w1 = (ri, w2) \<and>
    fetch_external_transactions ports p a b w2 = (re, w3) \<and>
    start_reconciliation rc ports t p a b i tolerance w = conclude_run rc (opened_run w t p a b i) ri re tolerance w3 \<and>
    reports w3 = reports w @ [run_to_row rc (opened_run w t p a b i)] \<and> mismatches w3 = mismatches w \<and>
    db_up w3 \<and> uuid_supply w3 = uuid_supply w \<and> uuids_made w3 = Suc (uuids_made w)"
proof -
  let ?run = "opened_run w t p a b i"
  define w0 where "w0 = w\<lparr>uuids_made := Suc (uuids_made w), clock_reads := Suc (clock_reads w)\<rparr>"
  have w0: "db_up w0" "reports w0 = reports w" "mismatches w0 = mismatches w" "uuid_supply w0 = uuid_supply w"
      "uuids_made w0 = Suc (uuids_made w)"
    using assms(1) by (simp_all add: w0_def db_up_def)
  obtain w1 where s: "save_run rc ?run w0 = (Inr (), w1)" "recon_frame w0 w1" "mismatches w1 = mismatches w0"
      "reports w1 = upsert_by rpt_report_id merge_report_row (run_to_row rc ?run) (reports w0)"
    using save_run_up [OF w0(1)] by blast
  obtain ri w2 where fi: "fetch_internal_transactions ports t p a b w1 = (ri, w2)" by fastforce
  obtain re w3 where fe: "fetch_external_transactions ports p a b w2 = (re, w3)" by fastforce
  have r: "reports w1 = reports w @ [run_to_row rc ?run]"
    using s(4) w0(2) assms(2) by (simp add: upsert_by_new fresh_ids_def)
  have "start_reconciliation rc ports t p a b i tolerance w = conclude_run rc ?run ri re tolerance w3"
    using s(1) fi fe
    by (simp add: start_reconciliation_def bindE_def new_v4_def utc_now_def Let_def attemptE_def
        w0_def opened_run_def)
  moreover have "reports w3 = reports w @ [run_to_row rc ?run]" "mismatches w3 = mismatches w" "db_up w3"
      "uuid_supply w3 = uuid_supply w" "uuids_made w3 = Suc (uuids_made w)"
    using internal_reads [OF fi] external_reads [OF fe] s(2,3) r w0 by (auto simp: recon_frame_def)
  ultimately show ?thesis using fi fe by (intro exI conjI)
qed

end

lemma matching_items_length:
  assumes "matching_ok tolerance internal external f"
  shows "length (matching_items run_id internal external f) \<le> length internal + length external"
proof -
  have "length (concat (map (internal_items run_id external) ps)) \<le> length ps" for ps
  proof (induction ps)
    case (Cons q ps)
    moreover have "length (internal_items run_id external q) \<le> 1"
      by (cases "(run_id, external, q)" rule: internal_items.cases) auto
    ultimately show ?case by simp
  qed simp
  from this [of "zip internal f"] have
    "length (concat (map (internal_items run_id external) (zip internal f))) \<le> length internal"
    using assms by (simp add: matching_ok_def)
  moreover have "length (filter (\<lambda>j. Some j \<notin> set f) [0..<length external]) \<le> length external"
    using length_filter_le [of _ "[0..<length external]"] by simp
  ultimately show ?thesis by (simp add: matching_items_def)
qed

lemma matching_items_new: "x \<in> set (matching_items run_id internal external f) \<Longrightarrow> \<not> it_resolved x \<and> it_item_id x = 0"
proof -
  have "\<not> it_resolved x \<and> it_item_id x = 0" if "x \<in> set (internal_items run_id external q)" for q
    using that by (cases "(run_id, external, q)" rule: internal_items.cases)
      (auto simp: item_defs new_item_def split: if_splits)
  then show "x \<in> set (matching_items run_id internal external f) \<Longrightarrow> \<not> it_resolved x \<and> it_item_id x = 0"
    by (auto simp: matching_items_def item_defs new_item_def)
qed

lemma stamped_open:
  assumes "\<And>x. x \<in> set xs \<Longrightarrow> \<not> it_resolved x" "y \<in> set (stamped s n xs)"
  shows "\<not> it_resolved y"
  using assms by (induction xs arbitrary: n) auto

lemma stamped_matching:
  assumes "items = stamped s n (matching_items r i e f)"
  shows "filter it_resolved items = []" "filter (\<lambda>x. \<not> it_resolved x) items = items"
    "map (it_item_id_update (\<lambda>_. 0)) items = matching_items r i e f"
proof -
  have "\<not> it_resolved y" if "y \<in> set items" for y
    using stamped_open [of "matching_items r i e f" y s n] matching_items_new that assms by blast
  then show "filter it_resolved items = []" "filter (\<lambda>x. \<not> it_resolved x) items = items"
    by (auto simp: filter_empty_conv filter_id_conv)
  have "map (it_item_id_update (\<lambda>_. 0)) (matching_items r i e f) = matching_items r i e f"
    by (rule map_idI) (simp add: matching_items_new)
  then show "map (it_item_id_update (\<lambda>_. 0)) items = matching_items r i e f"
    using stamped_unchanged [of "it_item_id_update (\<lambda>_. 0)"] assms by simp
qed

text \<open>The run that is stored and returned when both sources answer.\<close>

definition concluded_run ::
  "reconciliation_run \<Rightarrow> internal_transaction list \<Rightarrow> external_transaction list \<Rightarrow> reconciliation_item list \<Rightarrow> datetime \<Rightarrow> reconciliation_run" where
  "concluded_run run internal external items completed =
     run\<lparr>run_internal_total := dec_sum (map int_amount internal),
         run_external_total := dec_sum (map ext_amount external),
         run_total_records := int (length internal + length external),
         run_matched_count := 0, run_discrepancy_count := int (length items),
         run_discrepancy_amount := dec_sum (map (\<lambda>i. dec_abs (it_difference i)) items),
         run_status := (if items = [] then RCompleted else RPartiallyResolved),
         run_completed_at := Some completed\<rparr>"

lemma conclude_ok:
  assumes up: "db_up w" and ids: "distinct (map (uuid_supply w) [uuids_made w..<uuids_made w + k])"
      "\<forall>n \<in> {uuids_made w..<uuids_made w + k}. uuid_supply w n \<notin> mm_mismatch_id ` set (mismatches w)"
    and tab: "reports w = tab @ [run_to_row rc run]" "run_run_id run \<notin> rpt_report_id ` set tab"
    and small: "length internal + length external < 2 ^ 31" "length internal + length external \<le> k"
  shows "\<exists>items f ts now w'.
    conclude_run rc run (Inr internal) (Inr external) tolerance w = (Inr (concluded_run run internal external items now), w') \<and>
    matching_ok tolerance internal external f \<and> distinct (map it_item_id items) \<and>
    map (it_item_id_update (\<lambda>_. 0)) items = matching_items (run_run_id run) internal external f \<and>
    reports w' = tab @ [run_to_row rc (concluded_run run internal external items now)] \<and>
    length ts = length items \<and> mismatches w' = mismatches w @ map2 (item_to_row rc) ts items"
proof -
  define f where "f = assign tolerance external internal (replicate (length external) False)"
  define new where "new = matching_items (run_run_id run) internal external f"
  define items where "items = stamped (uuid_supply w) (uuids_made w) new"
  define w0 where "w0 = drawn (length new) w"
  have f: "matching_ok tolerance internal external f" unfolding f_def by (rule assign_ok)
  have m: "match_transactions (run_run_id run) internal external tolerance w = (Inr items, w0)"
    unfolding items_def w0_def new_def f_def by (simp add: match_transactions_run Let_def)
  have iid: "map it_item_id items = map (uuid_supply w) [uuids_made w..<uuids_made w + length new]"
    by (simp add: items_def stamped_ids)
  have le: "length new \<le> length internal + length external"
    unfolding new_def by (rule matching_items_length [OF f])
  have dist: "distinct (map it_item_id items)"
    unfolding iid using ids(1) le small(2) by (auto simp: distinct_map intro: inj_on_subset)
  have "it_item_id ` set items = uuid_supply w ` {uuids_made w..<uuids_made w + length new}"
    using arg_cong [OF iid, of set] by simp
  then have disj: "it_item_id ` set items \<inter> mm_mismatch_id ` set (mismatches w0) = {}"
    using ids(2) le small(2) by (auto simp: w0_def)
  have up0: "db_up w0" using up by (simp add: w0_def db_up_def)
  obtain w1 ts where s: "forE (save_item rc) items w0 = (Inr (), w1)" "recon_frame w0 w1" "reports w1 = reports w0"
      "length ts = length items" "mismatches w1 = mismatches w0 @ map2 (item_to_row rc) ts items"
    using save_items_up [OF up0 dist disj] by blast
  obtain w2 now where n: "utc_now w1 = (Inr now :: recon_error + datetime, w2)" "recon_frame w1 w2" "reports w2 = reports w1"
      "mismatches w2 = mismatches w1" using utc_now_run [of w1] by blast
  let ?run = "concluded_run run internal external items now"
  have up2: "db_up w2" using up0 s(2) n(2) by (simp add: recon_frame_def)
  have "reports w2 = tab @ [run_to_row rc run]" using n(3) s(3) tab(1) by (simp add: w0_def)
  from save_run_again [OF up2 this _ tab(2), of ?run]
  obtain w3 where v: "save_run rc ?run w2 = (Inr (), w3)" "mismatches w3 = mismatches w2"
      "reports w3 = tab @ [run_to_row rc ?run]" by (auto simp: run_key_def concluded_run_def)
  have len: "length items = length new" by (simp add: items_def)
  have counts: "as_i32 (int (length internal + length external)) = int (length internal + length external)"
      "as_i32 (int (length items)) = int (length items)"
    using small(1) le len by (auto intro!: as_i32_id simp: in_i32_def)
  have zero: "as_i32 0 = 0" by (simp add: in_i32_def)
  have "(tally run internal external items)\<lparr>run_status :=
      (if run_discrepancy_count (tally run internal external items) > 0 then RPartiallyResolved else RCompleted)\<rparr>
      \<lparr>run_completed_at := Some now\<rparr> = ?run"
    using counts by (simp add: tally_def concluded_run_def stamped_matching(1,2) [OF items_def [unfolded new_def]] zero)
  then have "conclude_run rc run (Inr internal) (Inr external) tolerance w = (Inr ?run, w3)"
    using m s(1) n(1) v(1) by (simp add: conclude_run_def bindE_def Let_def okE_def split del: if_split)
  then show ?thesis
    using f dist v(2,3) s(4,5) n(4) stamped_matching(3) [OF items_def [unfolded new_def]]
    by (intro exI [of _ items] exI [of _ f] exI [of _ ts] exI [of _ now] exI [of _ w3]) (simp add: w0_def)
qed

lemma conclude_failed:
  assumes "db_up w" "reports w = tab @ [run_to_row rc run]" "run_run_id run \<notin> rpt_report_id ` set tab"
    "ri = Inl e \<or> (\<exists>internal. ri = Inr internal) \<and> re = Inl e"
  shows "\<exists>now w'. conclude_run rc run ri re tolerance w = (Inl e, w') \<and> mismatches w' = mismatches w \<and>
    reports w' = tab @ [run_to_row rc (run\<lparr>run_status := RFailed, run_completed_at := Some now\<rparr>)]"
proof -
  obtain w1 now where n: "utc_now w = (Inr now :: recon_error + datetime, w1)" "recon_frame w w1" "reports w1 = reports w"
      "mismatches w1 = mismatches w" using utc_now_run [of w] by blast
  let ?run = "run\<lparr>run_status := RFailed, run_completed_at := Some now\<rparr>"
  have "db_up w1" "reports w1 = tab @ [run_to_row rc run]" using assms(1,2) n(2,3) by (simp_all add: recon_frame_def)
  from save_run_again [OF this _ assms(3), of ?run]
  obtain w2 where s: "save_run rc ?run w1 = (Inr (), w2)" "mismatches w2 = mismatches w1"
      "reports w2 = tab @ [run_to_row rc ?run]" by (auto simp: run_key_def)
  have "conclude_run rc run ri re tolerance w = (Inl e, w2)"
    using assms(4) n(1) s(1) by (auto simp: conclude_run_def finish_failed_def bindE_def failE_def)
  then show ?thesis using s(2,3) n(4) by auto
qed

context statement_sources
begin

lemma start_ok:
  assumes "db_up w" "fresh_ids (Suc (length internal + length external)) w" "length internal + length external < 2 ^ 31"
    "\<And>v. fst (fetch_internal_transactions ports t p a b v) = Inr internal"
    "\<And>v. fst (fetch_external_transactions ports p a b v) = Inr external"
  shows "\<exists>items f ts now w'. start_reconciliation rc ports t p a b i tolerance w =
      (Inr (concluded_run (opened_run w t p a b i) internal external items now), w') \<and>
    matching_ok tolerance internal external f \<and> distinct (map it_item_id items) \<and>
    map (it_item_id_update (\<lambda>_. 0)) items = matching_items (uuid_supply w (uuids_made w)) internal external f \<and>
    reports w' = reports w @ [run_to_row rc (concluded_run (opened_run w t p a b i) internal external items now)] \<and>
    length ts = length items \<and> mismatches w' = mismatches w @ map2 (item_to_row rc) ts items"
proof -
  let ?run = "opened_run w t p a b i"
  obtain w1 w2 w3 ri re where o: "fetch_internal_transactions ports t p a b w1 = (ri, w2)"
      "fetch_external_transactions ports p a b w2 = (re, w3)"
      "start_reconciliation rc ports t p a b i tolerance w = conclude_run rc ?run ri re tolerance w3"
      "reports w3 = reports w @ [run_to_row rc ?run]" "mismatches w3 = mismatches w" "db_up w3"
      "uuid_supply w3 = uuid_supply w" "uuids_made w3 = Suc (uuids_made w)"
    using start_opens [OF assms(1,2), of t p a b rc i tolerance] by (elim exE conjE)
  have r: "ri = Inr internal" "re = Inr external" using o(1,2) assms(4) [of w1] assms(5) [of w2] by simp_all
  have fresh: "distinct (map (uuid_supply w3) [uuids_made w3..<uuids_made w3 + (length internal + length external)])"
      "\<forall>n \<in> {uuids_made w3..<uuids_made w3 + (length internal + length external)}. uuid_supply w3 n \<notin> mm_mismatch_id ` set (mismatches w3)"
      "run_run_id ?run \<notin> rpt_report_id ` set (reports w)"
    using fresh_ids_later [OF assms(2)] assms(2) o(5,7,8) by (auto simp: fresh_ids_def)
  show ?thesis
    using conclude_ok [OF o(6) fresh(1,2) o(4) fresh(3) assms(3) order.refl, of tolerance]
    unfolding o(3) r o(5) opened_run_id .
qed

lemma start_failed:
  assumes "db_up w" "fresh_ids (Suc k) w"
    "(\<forall>v. fst (fetch_internal_transactions ports t p a b v) = Inl e) \<or>
     (\<forall>v. fst (fetch_internal_transactions ports t p a b v) \<in> range Inr) \<and>
     (\<forall>v. fst (fetch_external_transactions ports p a b v) = Inl e)"
  shows "\<exists>now w'. start_reconciliation rc ports t p a b i tolerance w = (Inl e, w') \<and> mismatches w' = mismatches w \<and>
    reports w' = reports w @
      [run_to_row rc ((opened_run w t p a b i)\<lparr>run_status := RFailed, run_completed_at := Some now\<rparr>)]"
proof -
  let ?run = "opened_run w t p a b i"
  obtain w1 w2 w3 ri re where o: "fetch_internal_transactions ports t p a b w1 = (ri, w2)"
      "fetch_external_transactions ports p a b w2 = (re, w3)"
      "start_reconciliation rc ports t p a b i tolerance w = conclude_run rc ?run ri re tolerance w3"
      "reports w3 = reports w @ [run_to_row rc ?run]" "mismatches w3 = mismatches w" "db_up w3"
    using start_opens [OF assms(1,2), of t p a b rc i tolerance] by (elim exE conjE)
  have r: "ri = Inl e \<or> (\<exists>internal. ri = Inr internal) \<and> re = Inl e"
    using assms(3) spec [of "\<lambda>v. fst (fetch_internal_transactions ports t p a b v) = Inl e" w1]
      spec [of "\<lambda>v. fst (fetch_internal_transactions ports t p a b v) \<in> range Inr" w1]
      spec [of "\<lambda>v. fst (fetch_external_transactions ports p a b v) = Inl e" w2] o(1,2) by auto
  have "run_run_id ?run \<notin> rpt_report_id ` set (reports w)" using assms(2) by (simp add: fresh_ids_def)
  then show ?thesis using conclude_failed [OF o(6,4) _ r, of tolerance] unfolding o(3,5) by simp
qed

end

definition stub_ports :: recon_ports where
  "stub_ports = \<lparr>fetch_internal_transactions = postgres_transaction_source,
     fetch_external_transactions = provider_statement_adapter\<rparr>"

interpretation stubs: statement_sources stub_ports
  by unfold_locales (auto simp: stub_ports_def postgres_transaction_source_def provider_statement_adapter_def
      okE_def failE_def recon_frame_def split: if_splits)

section \<open>Reading back and resolving\<close>

lemma read_stored_status:
  "read_status (stored_status s) = (if s = RPartiallyResolved \<or> s = RApproved then RCompleted else s)"
  by (cases s) (simp_all add: read_status_def to_lowercase_def char_to_lower_def Let_def)

lemma select_report_after_save:
  assumes "select_first (\<lambda>r. rpt_report_id r = run_run_id run) tab = None \<or>
      (\<exists>old. run_key old = run_key run \<and> select_first (\<lambda>r. rpt_report_id r = run_run_id run) tab = Some (run_to_row rc old))"
  shows "select_first (\<lambda>r. rpt_report_id r = run_run_id run)
      (upsert_by rpt_report_id merge_report_row (run_to_row rc run) tab) = Some (run_to_row rc run)"
  using assms by (elim disjE exE conjE) (simp_all add: report_table.lookup_upsert merge_run_row)

lemma bracket_action [simp]: "bracket_text (CHR ''['' # action_as_str action @ CHR '']'' # notes) = action_as_str action"
  by (cases action) (simp_all add: bracket_text_def)

lemma get_run_up:
  "db_up w \<Longrightarrow> fst (get_run rc k t w) =
     (case select_first (\<lambda>r. rpt_report_id r = k) (reports w) of
        Some r \<Rightarrow> Inr (map_run_row rc t r)
      | None \<Rightarrow> Inl (RNotFound (''Run '' @ uuid_to_string rc k @ '' not found'')))"
  by (simp add: get_run_def recon_set_tenant_def bindE_def map_errE_def or_not_found_def okE_def failE_def split: option.split)

lemma get_item_up:
  "db_up w \<Longrightarrow> \<exists>w'. get_item rc k t w =
     (case select_first (\<lambda>r. mm_mismatch_id r = k) (mismatches w) of
        Some r \<Rightarrow> Inr (map_item_row rc r)
      | None \<Rightarrow> Inl (RNotFound (''Item '' @ uuid_to_string rc k @ '' not found'')), w') \<and>
     mismatches w' = mismatches w \<and> db_up w'"
  by (simp add: get_item_def recon_set_tenant_def bindE_def map_errE_def or_not_found_def okE_def failE_def
      db_up_def split: option.split)

definition resolved_row :: "resolution_action \<Rightarrow> string \<Rightarrow> uuid option \<Rightarrow> datetime \<Rightarrow> mismatch_row \<Rightarrow> mismatch_row" where
  "resolved_row action notes by_account now r = r\<lparr>mm_resolution_status := resolution_status action,
     mm_resolution_notes := ''['' @ action_as_str action @ ''] '' @ notes,
     mm_resolved_by := by_account, mm_resolved_at := Some now\<rparr>"

lemma mm_mismatch_id_resolved [simp]: "mm_mismatch_id (resolved_row action notes acc now r) = mm_mismatch_id r"
  by (simp add: resolved_row_def)

lemma update_item_up:
  assumes "db_up w"
  shows "\<exists>now w'. update_item_resolution k action notes who w = (Inr (), w') \<and> db_up w' \<and>
    account_registry w' = account_registry w \<and>
    mismatches w' = update_where (\<lambda>r. mm_mismatch_id r = k) (resolved_row action notes
      (map_option snd (select_first (\<lambda>x. fst x = who) (account_registry w))) now) (mismatches w)"
  using assms by (auto simp: update_item_resolution_def bindE_def map_errE_def utc_now_def db_up_def
      resolved_row_def [abs_def])

lemma matching_items_difference:
  "x \<in> set (matching_items run_id internal external f) \<Longrightarrow> \<bar>dec_value (it_difference x)\<bar> = \<bar>net x\<bar>"
proof -
  have "\<bar>dec_value (it_difference x)\<bar> = \<bar>net x\<bar>" if "x \<in> set (internal_items run_id external q)" for q
    using that by (cases "(run_id, external, q)" rule: internal_items.cases)
      (auto simp: net_def item_defs new_item_def split: if_splits)
  then show "x \<in> set (matching_items run_id internal external f) \<Longrightarrow> \<bar>dec_value (it_difference x)\<bar> = \<bar>net x\<bar>"
    by (auto simp: matching_items_def net_def item_defs new_item_def)
qed

lemma map_item_resolved:
  "map_item_row rc (resolved_row action notes acc now row) = (map_item_row rc row)\<lparr>it_resolved := (action \<noteq> Escalate),
     it_resolution_action := Some (if action = Escalate then Escalate else Approve),
     it_resolved_by := Some (action_as_str action), it_resolved_at := Some now,
     it_notes := Some (''['' @ action_as_str action @ ''] '' @ notes)\<rparr>"
proof -
  have "read_action (resolution_status action) = Some (if action = Escalate then Escalate else Approve)"
      "(resolution_status action = ''resolved'') = (action \<noteq> Escalate)"
    by (simp_all add: resolution_status_def read_action_def)
  then show ?thesis by (simp add: map_item_row_def resolved_row_def)
qed

text \<open>A bulk resolution updates the rows it names and no other.\<close>

definition bulk_updated :: "uuid list \<Rightarrow> resolution_action \<Rightarrow> string \<Rightarrow> mismatch_row \<Rightarrow> mismatch_row \<Rightarrow> bool" where
  "bulk_updated ids action notes r r' \<longleftrightarrow>
     (if mm_mismatch_id r \<in> set ids then \<exists>account now. r' = resolved_row action notes account now r else r' = r)"

lemma resolved_row_twice: "resolved_row a n acc now (resolved_row a n acc' now' r) = resolved_row a n acc now r"
  by (simp add: resolved_row_def)

lemma bulk_updated_Cons:
  assumes "bulk_updated ids action notes (if mm_mismatch_id r = k then resolved_row action notes acc now r else r) r'"
  shows "bulk_updated (k # ids) action notes r r'"
  using assms by (auto simp: bulk_updated_def resolved_row_twice split: if_splits)

lemma bulk_loop_up:
  assumes "db_up w" "0 \<le> count" "count + int (length ids) < 2 ^ 31"
  shows "\<exists>w'. bulk_resolve_loop action notes who ids count w = (Inr (count + int (length ids)), w') \<and>
    list_all2 (bulk_updated ids action notes) (mismatches w) (mismatches w')"
  using assms
proof (induction ids arbitrary: count w)
  case Nil
  then show ?case by (simp add: okE_def bulk_updated_def list_all2_same)
next
  case (Cons k ids)
  obtain now w1 acc where u: "update_item_resolution k action notes who w = (Inr (), w1)" "db_up w1"
      "mismatches w1 = update_where (\<lambda>r. mm_mismatch_id r = k) (resolved_row action notes acc now) (mismatches w)"
    using update_item_up [OF Cons.prems(1), of k action "notes" who] by blast
  have "\<exists>w'. bulk_resolve_loop action notes who ids (count + 1) w1 = (Inr (count + 1 + int (length ids)), w') \<and>
      list_all2 (bulk_updated ids action notes) (mismatches w1) (mismatches w')"
    using Cons.prems by (intro Cons.IH [OF u(2)]) auto
  then obtain w' where b: "bulk_resolve_loop action notes who ids (count + 1) w1 = (Inr (count + 1 + int (length ids)), w')"
      "list_all2 (bulk_updated ids action notes) (mismatches w1) (mismatches w')" by blast
  have "as_i32 (count + 1) = count + 1" using Cons.prems by (intro as_i32_id) (simp add: in_i32_def)
  then have "bulk_resolve_loop action notes who (k # ids) count w = (Inr (count + int (length (k # ids))), w')"
    using u(1) b(1) by (simp add: bindE_def attemptE_def)
  moreover have "list_all2 (bulk_updated (k # ids) action notes) (mismatches w) (mismatches w')"
    using b(2) unfolding u(3) update_where_def list.rel_map
    by (rule list.rel_mono_strong) (rule bulk_updated_Cons)
  ultimately show ?case by blast
qed

end
