(* ===== verification/Recon_Properties.thy ===== *)
theory Recon_Properties
  imports Recon_Correct
begin

text \<open>
  The properties of the reconciliation engine, with concrete crates, sources and worlds on which
  their hypotheses hold.
\<close>

section \<open>Concrete crates and worlds\<close>

definition example_recon_crates :: recon_crates where
  "example_recon_crates = \<lparr>sha256_digest = example_digest, hex_encode = hex_encode_impl,
     hex_decode = hex_decode_impl, json_to_string = (\<lambda>_. Some ''null''), to_rfc3339 = show_int,
     uuid_parse = (\<lambda>s. Some (of_nat (length s))), uuid_to_string = (\<lambda>u. replicate (unat u) CHR ''u''),
     rdec_to_string = unary_decimal,
     rdec_parse = (\<lambda>s. case parse_unary_decimal s of Inr d \<Rightarrow> Some d | Inl _ \<Rightarrow> None),
     rfrom_timestamp = (\<lambda>s n. Some (s * nanos_per_second + n)), pg_ilike = (=)\<rparr>"


definition example_recon_world :: "mismatch_row list \<Rightarrow> recon_world" where
  "example_recon_world rows = \<lparr>db_calls = 0, db_fault = (\<lambda>_. None), clock_reads = 0, clock = (\<lambda>n. int n),
     uuids_made = 0, uuid_supply = (\<lambda>n. of_nat (100 + n)), reports = [], mismatches = rows,
     matching_rules = [], account_registry = []\<rparr>"

lemma example_recon_world_simps [simp]:
  "db_up (example_recon_world rows)" "reports (example_recon_world rows) = []"
  "mismatches (example_recon_world rows) = rows" "uuids_made (example_recon_world rows) = 0"
  "uuid_supply (example_recon_world rows) = (\<lambda>n. of_nat (100 + n))"
  by (simp_all add: example_recon_world_def db_up_def)

lemma example_fresh_ids: "fresh_ids (Suc 0) (example_recon_world [])"
  "fresh_ids (Suc (Suc (Suc (Suc 0)))) (example_recon_world [])"
  by (simp_all add: fresh_ids_def)

definition example_internal :: "internal_transaction list" where
  "example_internal =
     [\<lparr>int_transaction_id = ''i1'', int_reference = ''r1'', int_amount = Decimal 1000 2, int_currency = ''USD'',
       int_status = ''completed'', int_timestamp = 0, int_metadata = None\<rparr>,
      \<lparr>int_transaction_id = ''i2'', int_reference = ''r2'', int_amount = Decimal 5 0, int_currency = ''USD'',
       int_status = ''completed'', int_timestamp = 0, int_metadata = None\<rparr>]"

definition example_external :: "external_transaction list" where
  "example_external =
     [\<lparr>ext_external_id = ''e1'', ext_reference = ''r1'', ext_amount = Decimal 1001 2, ext_currency = ''USD'',
       ext_status = ''SUCCESS'', ext_timestamp = 0, ext_metadata = None\<rparr>]"



section \<open>Matching\<close>

text \<open>C26: the items of a run come from a matching of internal with external transactions that is
  injective, pairs only transactions with the same reference and amounts within the tolerance, and
  is maximal.  There is one item for every pair whose amounts differ, one for every internal and one
  for every external transaction left over, and none else; their identifiers are the next ones drawn.\<close>

theorem reconciliation_matching:
  "\<exists>f items w'. match_transactions run_id internal external tolerance w = (Inr items, w') \<and>
    matching_ok tolerance internal external f \<and>
    map (it_item_id_update (\<lambda>_. 0)) items = matching_items run_id internal external f \<and>
    map it_item_id items = map (uuid_supply w) [uuids_made w..<uuids_made w + length items]"
proof -
  let ?f = "assign tolerance external internal (replicate (length external) False)"
  let ?new = "matching_items run_id internal external ?f"
  have "match_transactions run_id internal external tolerance w =
      (Inr (stamped (uuid_supply w) (uuids_made w) ?new), drawn (length ?new) w)"
    by (simp add: match_transactions_run Let_def)
  then show ?thesis
    using assign_ok stamped_matching(3) [OF refl] stamped_ids [of "uuid_supply w" "uuids_made w" ?new]
    by (metis length_stamped)
qed

text \<open>C27: the items account for the amounts.  The difference of the internal and external totals is the sum of
  the items' differences, so it is at most the discrepancy amount of the run, and a run without
  items has equal totals.\<close>

theorem reconciliation_amounts_conserved:
  assumes "match_transactions run_id internal external tolerance w = (Inr items, w')"
  shows "dec_value (dec_sum (map int_amount internal)) - dec_value (dec_sum (map ext_amount external)) =
      sum_list (map (\<lambda>i. dec_value (it_internal_amount i) - dec_value (it_external_amount i)) items) \<and>
    \<bar>dec_value (dec_sum (map int_amount internal)) - dec_value (dec_sum (map ext_amount external))\<bar> \<le>
      dec_value (dec_sum (map (\<lambda>i. dec_abs (it_difference i)) items))"
proof -
  define f where "f = assign tolerance external internal (replicate (length external) False)"
  define new where "new = matching_items run_id internal external f"
  have ok: "matching_ok tolerance internal external f" unfolding f_def by (rule assign_ok)
  have items: "items = stamped (uuid_supply w) (uuids_made w) new"
    using assms by (simp add: match_transactions_run Let_def new_def f_def)
  have net: "map net items = map net new" "map (\<lambda>i. \<bar>dec_value (it_difference i)\<bar>) items = map (\<lambda>i. \<bar>dec_value (it_difference i)\<bar>) new"
    unfolding items by (rule stamped_unchanged; simp add: net_def)+
  have diff: "map (\<lambda>i. \<bar>dec_value (it_difference i)\<bar>) new = map (\<lambda>i. \<bar>net i\<bar>) new"
    unfolding new_def by (rule map_cong [OF refl]) (rule matching_items_difference)
  have sums: "sum_list (map net items) =
      dec_value (dec_sum (map int_amount internal)) - dec_value (dec_sum (map ext_amount external))"
    using net(1) net_matching_items [OF ok, of run_id] by (simp add: new_def dec_value_sum comp_def)
  have "\<bar>sum_list (map net items)\<bar> \<le> sum_list (map (\<lambda>i. \<bar>net i\<bar>) items)"
    using sum_list_abs [of "map net items"] by (simp add: comp_def)
  also have "map (\<lambda>i. \<bar>net i\<bar>) items = map (\<lambda>i. \<bar>dec_value (it_difference i)\<bar>) items"
    using arg_cong [OF net(1), of "map abs"] net(2) diff by (simp add: comp_def)
  finally show ?thesis using sums by (simp add: dec_value_sum comp_def net_def [abs_def])
qed

theorem reconciliation_amounts_conserved_witness:
  "\<exists>items w'. match_transactions 7 example_internal example_external (Decimal 1 2) (example_recon_world []) = (Inr items, w') \<and>
    \<bar>dec_value (dec_sum (map int_amount example_internal)) - dec_value (dec_sum (map ext_amount example_external))\<bar> \<le>
      dec_value (dec_sum (map (\<lambda>i. dec_abs (it_difference i)) items))"
proof -
  obtain items w' where "match_transactions 7 example_internal example_external (Decimal 1 2) (example_recon_world []) = (Inr items, w')"
    by (simp add: match_transactions_run Let_def)
  with reconciliation_amounts_conserved [OF this] show ?thesis by blast
qed

section \<open>Running a reconciliation\<close>



text \<open>When a source fails, the run is stored as failed with its completion time, no item is stored, and the
  error is returned; an error of the internal source takes precedence.\<close>

lemma reconciliation_source_failure:
  assumes "statement_sources ports" "db_up w" "fresh_ids 1 w"
    "(\<forall>v. fst (fetch_internal_transactions ports t p a b v) = Inl e) \<or>
     (\<forall>v. fst (fetch_internal_transactions ports t p a b v) \<in> range Inr) \<and>
     (\<forall>v. fst (fetch_external_transactions ports p a b v) = Inl e)"
    "start_reconciliation rc ports t p a b i tolerance w = (res, w')"
  shows "res = Inl e \<and> mismatches w' = mismatches w \<and>
    (\<exists>run now. reports w' = reports w @ [run_to_row rc run] \<and> run_status run = RFailed \<and>
       run_completed_at run = Some now \<and> run_discrepancy_count run = 0)"
proof -
  obtain now where "res = Inl e" "mismatches w' = mismatches w" and
      "reports w' = reports w @
         [run_to_row rc ((opened_run w t p a b i)\<lparr>run_status := RFailed, run_completed_at := Some now\<rparr>)]"
    using statement_sources.start_failed [OF assms(1,2) _ assms(4), of 0 rc i tolerance] assms(3,5) by auto
  then show ?thesis
    by (intro conjI exI [of _ "(opened_run w t p a b i)\<lparr>run_status := RFailed, run_completed_at := Some now\<rparr>"]
        exI [of _ now]) (simp_all add: opened_run_def reconciliation_run_new_def)
qed

lemma reconciliation_source_failure_example:
  "\<exists>w'. start_reconciliation example_recon_crates stub_ports 1 ''mtn'' 0 0 ''ops'' (Decimal 1 2) (example_recon_world []) =
      (Inl (RProviderError ''Unknown provider: mtn''), w') \<and> mismatches w' = []"
proof -
  obtain res w' where s: "start_reconciliation example_recon_crates stub_ports 1 ''mtn'' 0 0 ''ops''
      (Decimal 1 2) (example_recon_world []) = (res, w')" by fastforce
  have "fst (fetch_internal_transactions stub_ports 1 ''mtn'' 0 0 v) = Inr []"
      "fst (fetch_external_transactions stub_ports ''mtn'' 0 0 v) = Inl (RProviderError ''Unknown provider: mtn'')" for v
    by (simp_all add: stub_ports_def postgres_transaction_source_def provider_statement_adapter_def okE_def failE_def
        to_lowercase_def char_to_lower_def)
  then have "res = Inl (RProviderError ''Unknown provider: mtn'') \<and> mismatches w' = []"
    using reconciliation_source_failure [OF stubs.statement_sources_axioms _ _ _ s] example_fresh_ids(1)
    by simp
  then show ?thesis using s by simp
qed




text \<open>C30: resolving an item that is not stored answers not found and changes nothing.  Resolving a stored one
  updates its row alone and returns it: resolved unless escalated, with the given notes prefixed by
  the action.  The returned action is Approve or Escalate, whichever was asked for, and the returned
  resolver is the name of the action, not the caller.\<close>

theorem resolve_discrepancy_outcome:
  assumes "db_up w" "resolve_discrepancy rc k t action notes who w = (res, w')"
  shows "case select_first (\<lambda>r. mm_mismatch_id r = k) (mismatches w) of
      None \<Rightarrow> res = Inl (RNotFound (''Item '' @ uuid_to_string rc k @ '' not found'')) \<and> mismatches w' = mismatches w
    | Some row \<Rightarrow> \<exists>now account. res = Inr ((map_item_row rc row)\<lparr>it_resolved := (action \<noteq> Escalate),
          it_resolution_action := Some (if action = Escalate then Escalate else Approve),
          it_resolved_by := Some (action_as_str action), it_resolved_at := Some now,
          it_notes := Some (''['' @ action_as_str action @ ''] '' @ notes)\<rparr>) \<and>
        mismatches w' = map (\<lambda>r. if mm_mismatch_id r = k then resolved_row action notes account now r else r) (mismatches w)"
proof -
  obtain now w1 account where u: "update_item_resolution k action notes who w = (Inr (), w1)" "db_up w1"
      "mismatches w1 = update_where (\<lambda>r. mm_mismatch_id r = k) (resolved_row action notes account now) (mismatches w)"
    using update_item_up [OF assms(1), of k action "notes" who] by blast
  obtain w2 where g: "get_item rc k t w1 =
      (case select_first (\<lambda>r. mm_mismatch_id r = k) (mismatches w1) of
         Some r \<Rightarrow> Inr (map_item_row rc r)
       | None \<Rightarrow> Inl (RNotFound (''Item '' @ uuid_to_string rc k @ '' not found'')), w2)" "mismatches w2 = mismatches w1"
    using get_item_up [OF u(2), of rc k t] by blast
  have res: "res = fst (get_item rc k t w1)" "w' = w2"
    using assms(2) u(1) g(1) by (simp_all add: resolve_discrepancy_def bindE_def)
  let ?f = "\<lambda>r. if mm_mismatch_id r = k then resolved_row action notes account now r else r"
  have sel: "select_first (\<lambda>r. mm_mismatch_id r = k) (mismatches w1) =
      map_option ?f (select_first (\<lambda>r. mm_mismatch_id r = k) (mismatches w))"
    unfolding u(3) update_where_def by (rule select_first_map) simp
  show ?thesis
  proof (cases "select_first (\<lambda>r. mm_mismatch_id r = k) (mismatches w)")
    case None
    then have "map ?f (mismatches w) = mismatches w" by (intro map_idI) (simp add: select_first_None)
    then show ?thesis using None res g sel u(3) by (simp add: update_where_def)
  next
    case (Some row)
    then have "mm_mismatch_id row = k" using select_first_Some by fastforce
    then have "res = Inr (map_item_row rc (resolved_row action notes account now row))"
      using Some res(1) g(1) sel by simp
    then show ?thesis
      unfolding Some option.case using res(2) g(2) u(3)
      by (intro exI [of _ now] exI [of _ account]) (simp add: map_item_resolved update_where_def)
  qed
qed

theorem resolve_discrepancy_outcome_witness:
  "\<exists>item w'. resolve_discrepancy example_recon_crates 3 1 Ignore ''n'' ''alice''
      (example_recon_world [item_to_row example_recon_crates 0 (new_item 3 7 ''t'' MissingExternal [] [] dec_zero dec_zero dec_zero)]) =
      (Inr item, w') \<and> it_resolution_action item = Some Approve \<and> it_resolved_by item = Some ''ignore''"
proof -
  define w where "w = example_recon_world [item_to_row example_recon_crates 0
    (new_item 3 7 ''t'' MissingExternal [] [] dec_zero dec_zero dec_zero)]"
  obtain res w' where s: "resolve_discrepancy example_recon_crates 3 1 Ignore ''n'' ''alice'' w = (res, w')" by fastforce
  have "db_up w" by (simp add: w_def)
  from resolve_discrepancy_outcome [OF this s] show ?thesis
    unfolding w_def [symmetric] s by (auto simp: w_def select_first_def new_item_def)
qed

text \<open>A bulk resolution with well-formed identifiers updates exactly the stored items among them and reports
  every identifier as a success and none as a failure, also those that name no stored item.\<close>

lemma bulk_resolve_outcome:
  assumes "db_up w" "recon_parse_uuid rc (br_run_id req) = Inr rid" "recon_parse_uuid rc (br_tenant_id req) = Inr tid"
    "collect_result (recon_parse_uuid rc) (br_item_ids req) = Inr ids"
    "map_proto_resolution_action (br_action req) = Inr action" "length ids < 2 ^ 31"
    "grpc_bulk_resolve_discrepancies rc req w = (res, w')"
  shows "\<exists>b. res = Inr b \<and> bo_total_count b = int (length ids) \<and> bo_success_count b = int (length ids) \<and>
    bo_failure_count b = 0 \<and> list_all2 (bulk_updated ids action (br_notes req)) (mismatches w) (mismatches w')"
proof -
  obtain w1 where l: "bulk_resolve_loop action (br_notes req) (br_resolved_by req) ids 0 w = (Inr (int (length ids)), w1)"
      "list_all2 (bulk_updated ids action (br_notes req)) (mismatches w) (mismatches w1)"
    using bulk_loop_up [OF assms(1), of 0 ids action "br_notes req" "br_resolved_by req"] assms(6) by auto
  have "as_i32 (int (length ids)) = int (length ids)" "as_i32 0 = 0" using assms(6) by (simp_all add: in_i32_def)
  then show ?thesis
    using assms(2-5,7) l
    by (auto simp: grpc_bulk_resolve_discrepancies_def bulk_resolve_discrepancies_def bindE_def liftE_def attemptE_def
        new_v4_def okE_def Let_def)
qed

lemma bulk_resolve_outcome_example:
  "\<exists>b w'. grpc_bulk_resolve_discrepancies example_recon_crates
      \<lparr>br_run_id = ''r'', br_tenant_id = ''t'', br_item_ids = [''i'', ''jj''], br_action = 4, br_notes = [], br_resolved_by = []\<rparr>
      (example_recon_world []) = (Inr b, w') \<and> bo_success_count b = 2 \<and> mismatches w' = []"
proof -
  let ?req = "\<lparr>br_run_id = ''r'', br_tenant_id = ''t'', br_item_ids = [''i'', ''jj''], br_action = 4, br_notes = [], br_resolved_by = []\<rparr>"
  obtain res w' where s: "grpc_bulk_resolve_discrepancies example_recon_crates ?req (example_recon_world []) = (res, w')"
    by fastforce
  have u: "recon_parse_uuid example_recon_crates x = Inr (of_nat (length x))" for x
    by (simp add: recon_parse_uuid_def example_recon_crates_def)
  have "db_up (example_recon_world [])" "recon_parse_uuid example_recon_crates (br_run_id ?req) = Inr 1"
      "recon_parse_uuid example_recon_crates (br_tenant_id ?req) = Inr 1"
      "collect_result (recon_parse_uuid example_recon_crates) (br_item_ids ?req) = Inr [1, 2]"
      "map_proto_resolution_action (br_action ?req) = Inr Ignore" "length [1 :: uuid, 2] < 2 ^ 31"
    by (simp_all add: u map_proto_resolution_action_def)
  from bulk_resolve_outcome [OF this s] show ?thesis using s by auto
qed

end
