(* ===== verification/Messaging.thy ===== *)
theory Messaging
  imports Wire Tables "HOL-Library.AList"
begin

text \<open>
  The messaging engine (messaging-engine/src): routing, templates, the in-memory delivery log, the
  template store, the rate limiter, the SMS adapters and the application handler.
  A \<open>HashMap\<close> is an association list with distinct keys; its order stands for the unspecified order
  of iteration.
\<close>

section \<open>Domain\<close>

datatype message_channel = Sms | WhatsApp | Email | Push

datatype priority = Low | Normal | High | Critical

datatype sms_network = NetEcoCash | NetOneMoney | NetTeleCash

datatype delivery_status = Queued | Sent | Delivered | MRead | MFailed | Rejected | Expired | MCancelled

datatype messaging_error =
    InvalidPhone string
  | ProviderUnavailable string
  | RateLimitExceeded string
  | TemplateNotFound string
  | MDatabase string
  | MSerialization string
  | MInternal string
  | MProviderError string
  | MValidation string

fun messaging_error_to_string :: "messaging_error \<Rightarrow> string" where
  "messaging_error_to_string (InvalidPhone s) = ''Invalid phone number: '' @ s"
| "messaging_error_to_string (ProviderUnavailable s) = ''Provider unavailable: '' @ s"
| "messaging_error_to_string (RateLimitExceeded s) = ''Rate limit exceeded for tenant: '' @ s"
| "messaging_error_to_string (TemplateNotFound s) = ''Template not found: '' @ s"
| "messaging_error_to_string (MDatabase s) = ''Database error: '' @ s"
| "messaging_error_to_string (MSerialization s) = ''Serialization error: '' @ s"
| "messaging_error_to_string (MInternal s) = ''Internal error: '' @ s"
| "messaging_error_to_string (MProviderError s) = ''Provider error: '' @ s"
| "messaging_error_to_string (MValidation s) = ''Validation error: '' @ s"

fun messaging_code :: "messaging_error \<Rightarrow> grpc_code" where
  "messaging_code (InvalidPhone _) = Code_InvalidArgument"
| "messaging_code (MValidation _) = Code_InvalidArgument"
| "messaging_code (TemplateNotFound _) = Code_NotFound"
| "messaging_code (RateLimitExceeded _) = Code_ResourceExhausted"
| "messaging_code (ProviderUnavailable _) = Code_Unavailable"
| "messaging_code (MDatabase _) = Code_Internal"
| "messaging_code (MSerialization _) = Code_Internal"
| "messaging_code (MInternal _) = Code_Internal"
| "messaging_code (MProviderError _) = Code_Internal"

definition messaging_status :: "messaging_error \<Rightarrow> status" where
  "messaging_status e = mk_status (messaging_code e) (messaging_error_to_string e)"

record message =
  msg_id :: uuid
  msg_recipient :: string
  msg_body :: string
  msg_channel :: message_channel
  msg_priority :: priority
  msg_tenant_id :: uuid
  msg_session_id :: "string option"

record delivery_attempt =
  da_message_id :: uuid
  da_tenant_id :: uuid
  da_recipient :: string
  da_channel :: message_channel
  da_body_preview :: string
  da_session_id :: "string option"
  da_provider :: sms_network
  da_status :: delivery_status
  da_sent_at :: "datetime option"
  da_delivered_at :: "datetime option"
  da_provider_ref :: "string option"
  da_error_message :: "string option"
  da_retry_count :: int

record provider_receipt =
  rcp_provider_ref :: string
  rcp_raw_response :: string

definition route_provider :: "string \<Rightarrow> sms_network option" where
  "route_provider recipient =
     (let normalized = dropWhile (\<lambda>c. c = CHR ''+'') recipient in
      if starts_with normalized ''26377'' \<or> starts_with normalized ''26378'' then Some NetEcoCash
      else if starts_with normalized ''26371'' \<or> starts_with normalized ''26372'' then Some NetOneMoney
      else if starts_with normalized ''26373'' \<or> starts_with normalized ''26374'' then Some NetTeleCash
      else None)"

record template =
  tpl_id :: string
  tpl_tenant_id :: uuid
  tpl_name :: string
  tpl_channel :: message_channel
  tpl_subject :: "string option"
  tpl_body :: string
  tpl_variables :: "string list"
  tpl_is_active :: bool

text \<open>\<open>str::replace\<close> for a non-empty pattern: the matches are found from the left and do not overlap.\<close>

function str_replace :: "string \<Rightarrow> string \<Rightarrow> string \<Rightarrow> string" where
  "str_replace pat v [] = []"
| "str_replace pat v (c # s) =
     (if pat \<noteq> [] \<and> starts_with (c # s) pat then v @ str_replace pat v (drop (length pat) (c # s))
      else c # str_replace pat v s)"
  by pat_completeness auto

termination
  by (relation "measure (\<lambda>(pat, v, s). length s)") auto

definition placeholder :: "string \<Rightarrow> string" where
  "placeholder key = ''{{'' @ key @ ''}}''"

definition render_template :: "template \<Rightarrow> (string \<times> string) list \<Rightarrow> string" where
  "render_template t vars = foldl (\<lambda>result (key, v). str_replace (placeholder key) v result) (tpl_body t) vars"

section \<open>Third-party functions and the world\<close>

record msg_crates = crates +
  muuid_error :: "string \<Rightarrow> string"
  mfrom_timestamp :: "int \<Rightarrow> int \<Rightarrow> datetime option"

record template_row =
  tr_application_id :: uuid
  tr_template_code :: string
  tr_template_name :: string
  tr_text :: string
  tr_is_active :: bool
  tr_variables :: "json option"

record msg_world = db_world +
  has_db :: bool
  delivery_map :: "(uuid \<times> delivery_attempt) list"
  sms_templates :: "template_row list"
  whatsapp_templates :: "template_row list"
  template_fallback :: "(string \<times> template) list"

section \<open>The delivery log\<close>

definition set_tenant_context :: "uuid \<Rightarrow> (msg_world, string, unit) eff" where
  "set_tenant_context tenant_id = bindE (getE has_db) (\<lambda>db. if db then db_exec id else okE ())"

definition tenant_context_failed :: "string \<Rightarrow> messaging_error" where
  "tenant_context_failed e = MDatabase (''Failed to set tenant context: '' @ e)"

definition log_attempt :: "delivery_attempt \<Rightarrow> (msg_world, messaging_error, unit) eff" where
  "log_attempt attempt =
     bindE (map_errE tenant_context_failed (set_tenant_context (da_tenant_id attempt))) (\<lambda>_.
     modifyE (\<lambda>w. w\<lparr>delivery_map := AList.update (da_message_id attempt) attempt (delivery_map w)\<rparr>))"

definition get_attempt :: "uuid \<Rightarrow> (msg_world, messaging_error, delivery_attempt option) eff" where
  "get_attempt message_id = getE (\<lambda>w. map_of (delivery_map w) message_id)"

record message_filters =
  mf_channels :: "message_channel list"
  mf_statuses :: "delivery_status list"
  mf_recipient :: "string option"
  mf_from_date :: "datetime option"
  mf_to_date :: "datetime option"
  mf_session_id :: "string option"

definition sent_at_such :: "(datetime \<Rightarrow> bool) \<Rightarrow> delivery_attempt \<Rightarrow> bool" where
  "sent_at_such P a = (case da_sent_at a of None \<Rightarrow> False | Some t \<Rightarrow> P t)"

definition passes_filters :: "message_filters \<Rightarrow> delivery_attempt \<Rightarrow> bool" where
  "passes_filters f a \<longleftrightarrow>
     (mf_channels f = [] \<or> da_channel a \<in> set (mf_channels f)) \<and>
     (mf_statuses f = [] \<or> da_status a \<in> set (mf_statuses f)) \<and>
     (case mf_recipient f of None \<Rightarrow> True | Some r \<Rightarrow> da_recipient a = r) \<and>
     (case mf_from_date f of None \<Rightarrow> True | Some d \<Rightarrow> sent_at_such (\<lambda>t. d \<le> t) a) \<and>
     (case mf_to_date f of None \<Rightarrow> True | Some d \<Rightarrow> sent_at_such (\<lambda>t. t \<le> d) a) \<and>
     (case mf_session_id f of None \<Rightarrow> True | Some s \<Rightarrow> da_session_id a = Some s)"

definition list_attempts :: "uuid \<Rightarrow> message_filters \<Rightarrow> (msg_world, messaging_error, delivery_attempt list) eff" where
  "list_attempts tenant_id filters =
     bindE (map_errE tenant_context_failed (set_tenant_context tenant_id)) (\<lambda>_.
     getE (\<lambda>w. filter (passes_filters filters) (filter (\<lambda>a. da_tenant_id a = tenant_id) (map snd (delivery_map w)))))"

section \<open>The template store\<close>

fun parse_variables :: "json option \<Rightarrow> string list" where
  "parse_variables (Some (JArray arr)) = List.map_filter json_as_str arr"
| "parse_variables _ = []"

definition row_to_template :: "uuid \<Rightarrow> message_channel \<Rightarrow> template_row \<Rightarrow> template" where
  "row_to_template tenant_id ch row =
     \<lparr>tpl_id = tr_template_code row, tpl_tenant_id = tenant_id, tpl_name = tr_template_name row,
      tpl_channel = ch, tpl_subject = None, tpl_body = tr_text row,
      tpl_variables = parse_variables (tr_variables row), tpl_is_active = tr_is_active row\<rparr>"

definition template_key :: "'x msg_crates_scheme \<Rightarrow> uuid \<Rightarrow> string \<Rightarrow> string" where
  "template_key mc tenant_id template_id = uuid_to_string mc tenant_id @ '':'' @ template_id"

definition seed_fallback :: "'x msg_crates_scheme \<Rightarrow> template list \<Rightarrow> (msg_world, messaging_error, unit) eff" where
  "seed_fallback mc templates =
     modifyE (\<lambda>w. w\<lparr>template_fallback :=
       fold (\<lambda>t. AList.update (template_key mc (tpl_tenant_id t) (tpl_id t)) t) templates (template_fallback w)\<rparr>)"

definition is_template :: "uuid \<Rightarrow> string \<Rightarrow> template_row \<Rightarrow> bool" where
  "is_template tenant_id template_id r \<longleftrightarrow> tr_application_id r = tenant_id \<and> tr_template_code r = template_id \<and> tr_is_active r"

definition fallback_template :: "'x msg_crates_scheme \<Rightarrow> uuid \<Rightarrow> string \<Rightarrow> (msg_world, messaging_error, template) eff" where
  "fallback_template mc tenant_id template_id =
     bindE (getE (\<lambda>w. map_of (template_fallback w) (template_key mc tenant_id template_id))) (\<lambda>t.
     case t of Some t \<Rightarrow> okE t | None \<Rightarrow> failE (TemplateNotFound template_id))"

definition get_template :: "'x msg_crates_scheme \<Rightarrow> uuid \<Rightarrow> string \<Rightarrow> (msg_world, messaging_error, template) eff" where
  "get_template mc tenant_id template_id =
     bindE (getE has_db) (\<lambda>db.
     if db then
       bindE (map_errE MDatabase (set_tenant_context tenant_id)) (\<lambda>_.
       bindE (map_errE MDatabase (db_query (\<lambda>w. select_first (is_template tenant_id template_id) (sms_templates w)))) (\<lambda>row.
       case row of
         Some r \<Rightarrow> okE (row_to_template tenant_id Sms r)
       | None \<Rightarrow>
         bindE (map_errE MDatabase (db_query (\<lambda>w. select_first (is_template tenant_id template_id) (whatsapp_templates w)))) (\<lambda>row.
         case row of
           Some r \<Rightarrow> okE (row_to_template tenant_id WhatsApp r)
         | None \<Rightarrow> fallback_template mc tenant_id template_id)))
     else fallback_template mc tenant_id template_id)"

definition template_rows ::
  "(msg_world \<Rightarrow> template_row list) \<Rightarrow> uuid \<Rightarrow> message_channel \<Rightarrow> (msg_world, messaging_error, template list) eff" where
  "template_rows tab tenant_id ch =
     bindE (map_errE MDatabase (db_query (\<lambda>w. filter (\<lambda>r. tr_application_id r = tenant_id \<and> tr_is_active r) (tab w)))) (\<lambda>rows.
     okE (map (row_to_template tenant_id ch) rows))"

definition list_templates ::
  "uuid \<Rightarrow> message_channel option \<Rightarrow> (msg_world, messaging_error, template list) eff" where
  "list_templates tenant_id channel =
     bindE (getE has_db) (\<lambda>db.
     bindE (if db then
              bindE (map_errE MDatabase (set_tenant_context tenant_id)) (\<lambda>_.
              bindE (if channel = None \<or> channel = Some Sms then template_rows sms_templates tenant_id Sms else okE []) (\<lambda>sms.
              bindE (if channel = None \<or> channel = Some WhatsApp then template_rows whatsapp_templates tenant_id WhatsApp else okE []) (\<lambda>wa.
              okE (sms @ wa))))
            else okE []) (\<lambda>results.
     if results = []
     then getE (\<lambda>w. filter (\<lambda>t. case channel of None \<Rightarrow> True | Some ch \<Rightarrow> tpl_channel t = ch)
            (filter (\<lambda>t. tpl_tenant_id t = tenant_id) (map snd (template_fallback w))))
     else okE results))"

section \<open>The rate limiter\<close>

text \<open>Redis is a service: \<open>INCR\<close> and \<open>EXPIRE\<close> are parameters over the state of the server.\<close>

record 's redis =
  rd_incr :: "string \<Rightarrow> 's \<Rightarrow> (string + int) \<times> 's"
  rd_expire :: "string \<Rightarrow> int \<Rightarrow> 's \<Rightarrow> (string + unit) \<times> 's"

record 's limiter =
  lm_redis :: "'s redis option"
  lm_server :: 's
  lm_fallback :: "(string \<times> int) list"

text \<open>The counter is an unsigned 32-bit integer.\<close>

definition fallback_check :: "string \<Rightarrow> int \<Rightarrow> 's limiter \<Rightarrow> bool \<times> 's limiter" where
  "fallback_check tenant_id limit l =
     (let count = as_u32 (unwrap_or (map_of (lm_fallback l) tenant_id) 0 + 1) in
      (count \<le> limit, l\<lparr>lm_fallback := AList.update tenant_id count (lm_fallback l)\<rparr>))"

definition check_and_increment :: "string \<Rightarrow> int \<Rightarrow> 's limiter \<Rightarrow> bool \<times> 's limiter" where
  "check_and_increment tenant_id limit l =
     (case lm_redis l of
        None \<Rightarrow> fallback_check tenant_id limit l
      | Some r \<Rightarrow>
        (let key = ''rate_limit:'' @ tenant_id in
         case rd_incr r key (lm_server l) of
           (Inl e, s) \<Rightarrow> fallback_check tenant_id limit (l\<lparr>lm_server := s\<rparr>)
         | (Inr c, s) \<Rightarrow>
           (c \<le> limit, l\<lparr>lm_server := (if c = 1 then snd (rd_expire r key 60 s) else s)\<rparr>)))"

section \<open>SMS adapters\<close>

record sms_port =
  sp_send_sms :: "string \<Rightarrow> string \<Rightarrow> string \<Rightarrow> (msg_world, messaging_error, provider_receipt) eff"
  sp_get_status :: "string \<Rightarrow> (msg_world, messaging_error, delivery_status) eff"
  sp_provider_name :: string

text \<open>The adapters are stubs: they accept every message and log what they would send.\<close>

definition accept_sms :: "'x msg_crates_scheme \<Rightarrow> string \<Rightarrow> string \<Rightarrow> (msg_world, messaging_error, provider_receipt) eff" where
  "accept_sms mc prefix raw =
     bindE new_v4 (\<lambda>u. okE \<lparr>rcp_provider_ref = prefix @ uuid_to_string mc u, rcp_raw_response = raw\<rparr>)"

definition sms_ecocash :: "'x msg_crates_scheme \<Rightarrow> sms_port" where
  "sms_ecocash mc = \<lparr>sp_send_sms = (\<lambda>to body sender_id.
       accept_sms mc ''ECO-'' ''{\"status\":\"accepted\",\"message_id\":\"stub\"}''),
     sp_get_status = (\<lambda>provider_ref. okE Delivered), sp_provider_name = ''ecocash''\<rparr>"

definition sms_onemoney :: "'x msg_crates_scheme \<Rightarrow> sms_port" where
  "sms_onemoney mc = \<lparr>sp_send_sms = (\<lambda>to body sender_id.
       accept_sms mc ''OM-'' ''<?xml version=\"1.0\"?><Response><Status>OK</Status></Response>''),
     sp_get_status = (\<lambda>provider_ref. okE Delivered), sp_provider_name = ''onemoney''\<rparr>"

definition sms_telecash :: "'x msg_crates_scheme \<Rightarrow> sms_port" where
  "sms_telecash mc = \<lparr>sp_send_sms = (\<lambda>to body sender_id.
       accept_sms mc ''TC-'' ''{\"status\":\"queued\",\"message_id\":\"stub\"}''),
     sp_get_status = (\<lambda>provider_ref. okE Sent), sp_provider_name = ''telecash''\<rparr>"

definition sms_adapters :: "'x msg_crates_scheme \<Rightarrow> sms_port list" where
  "sms_adapters mc = [sms_ecocash mc, sms_onemoney mc, sms_telecash mc]"

section \<open>The application handler\<close>

fun network_name :: "sms_network \<Rightarrow> string" where
  "network_name NetEcoCash = ''ecocash''"
| "network_name NetOneMoney = ''onemoney''"
| "network_name NetTeleCash = ''telecash''"

definition select_provider :: "sms_port list \<Rightarrow> string \<Rightarrow> messaging_error + sms_port" where
  "select_provider providers recipient =
     (case route_provider recipient of
        None \<Rightarrow> Inl (InvalidPhone recipient)
      | Some expected \<Rightarrow>
        (case List.find (\<lambda>p. sp_provider_name p = network_name expected) providers of
           Some p \<Rightarrow> Inr p
         | None \<Rightarrow> Inl (ProviderUnavailable (''No adapter found for recipient '' @ recipient))))"

definition sent_attempt ::
  "message \<Rightarrow> message_channel \<Rightarrow> sms_network \<Rightarrow> provider_receipt \<Rightarrow> datetime \<Rightarrow> delivery_attempt" where
  "sent_attempt msg ch network receipt now =
     \<lparr>da_message_id = msg_id msg, da_tenant_id = msg_tenant_id msg, da_recipient = msg_recipient msg,
      da_channel = ch, da_body_preview = take 160 (msg_body msg), da_session_id = msg_session_id msg,
      da_provider = network, da_status = Sent, da_sent_at = Some now, da_delivered_at = None,
      da_provider_ref = Some (rcp_provider_ref receipt), da_error_message = None, da_retry_count = 0\<rparr>"

text \<open>The part the three senders share: send, then log the attempt.\<close>

definition send_via ::
  "sms_port \<Rightarrow> message \<Rightarrow> message_channel \<Rightarrow> sms_network \<Rightarrow> (msg_world, messaging_error, delivery_attempt) eff" where
  "send_via provider msg ch network =
     bindE (sp_send_sms provider (msg_recipient msg) (msg_body msg) ''USSD-KERNEL'') (\<lambda>receipt.
     bindE utc_now (\<lambda>now.
     let attempt = sent_attempt msg ch network receipt now in
     bindE (log_attempt attempt) (\<lambda>_.
     okE attempt)))"

definition send_sms :: "sms_port list \<Rightarrow> message \<Rightarrow> (msg_world, messaging_error, delivery_attempt) eff" where
  "send_sms providers msg =
     bindE (liftE (select_provider providers (msg_recipient msg))) (\<lambda>provider.
     send_via provider msg (msg_channel msg) (unwrap_or (route_provider (msg_recipient msg)) NetEcoCash))"

definition send_whatsapp :: "sms_port list \<Rightarrow> message \<Rightarrow> (msg_world, messaging_error, delivery_attempt) eff" where
  "send_whatsapp providers msg =
     bindE (liftE (select_provider providers (msg_recipient msg))) (\<lambda>provider.
     send_via provider msg WhatsApp (unwrap_or (route_provider (msg_recipient msg)) NetEcoCash))"

definition send_email :: "sms_port list \<Rightarrow> message \<Rightarrow> (msg_world, messaging_error, delivery_attempt) eff" where
  "send_email providers msg =
     bindE (liftE (case first_opt providers of
        Some p \<Rightarrow> Inr p | None \<Rightarrow> Inl (ProviderUnavailable ''No providers configured''))) (\<lambda>provider.
     send_via provider msg Email NetEcoCash)"

definition send_otp :: "sms_port list \<Rightarrow> string \<Rightarrow> string \<Rightarrow> (msg_world, messaging_error, delivery_attempt) eff" where
  "send_otp providers recipient otp_code =
     bindE new_v4 (\<lambda>i.
     send_sms providers \<lparr>msg_id = i, msg_recipient = recipient, msg_body = ''Your OTP code is: '' @ otp_code,
       msg_channel = Sms, msg_priority = High, msg_tenant_id = uuid_nil, msg_session_id = None\<rparr>)"

definition refreshed :: "delivery_status \<Rightarrow> datetime \<Rightarrow> delivery_attempt \<Rightarrow> delivery_attempt" where
  "refreshed st now a =
     a\<lparr>da_status := st, da_delivered_at := (if st = Delivered then Some now else da_delivered_at a)\<rparr>"

text \<open>The clock is read only for a delivered message.\<close>

definition refresh_status :: "sms_port list \<Rightarrow> delivery_attempt \<Rightarrow> (msg_world, messaging_error, delivery_attempt) eff" where
  "refresh_status providers attempt =
     (case da_provider_ref attempt of
        None \<Rightarrow> okE attempt
      | Some provider_ref \<Rightarrow>
        (case select_provider providers (da_recipient attempt) of
           Inl _ \<Rightarrow> okE attempt
         | Inr provider \<Rightarrow>
           bindE (attemptE (sp_get_status provider provider_ref)) (\<lambda>r.
           case r of
             Inl e \<Rightarrow> okE attempt
           | Inr st \<Rightarrow>
             (if st \<noteq> da_status attempt
              then bindE (if st = Delivered then utc_now else okE 0) (\<lambda>now.
                   bindE (log_attempt (refreshed st now attempt)) (\<lambda>_.
                   okE (refreshed st now attempt)))
              else okE attempt))))"

definition get_message_status ::
  "'x msg_crates_scheme \<Rightarrow> sms_port list \<Rightarrow> uuid \<Rightarrow> (msg_world, messaging_error, delivery_attempt) eff" where
  "get_message_status mc providers message_id =
     bindE (get_attempt message_id) (\<lambda>found.
     case found of
       None \<Rightarrow> failE (MInternal (''Message '' @ uuid_to_string mc message_id @ '' not found''))
     | Some attempt \<Rightarrow> refresh_status providers attempt)"

definition attempt_message :: "delivery_attempt \<Rightarrow> message" where
  "attempt_message a = \<lparr>msg_id = da_message_id a, msg_recipient = da_recipient a, msg_body = da_body_preview a,
     msg_channel = da_channel a, msg_priority = Normal, msg_tenant_id = da_tenant_id a,
     msg_session_id = da_session_id a\<rparr>"

definition list_messages :: "uuid \<Rightarrow> message_filters \<Rightarrow> (msg_world, messaging_error, message list) eff" where
  "list_messages tenant_id filters =
     bindE (list_attempts tenant_id filters) (\<lambda>attempts. okE (map attempt_message attempts))"

record batch_send_result =
  bs_success_count :: nat
  bs_failure_count :: nat
  bs_errors :: "(nat \<times> messaging_error) list"

definition dispatch :: "sms_port list \<Rightarrow> message \<Rightarrow> (msg_world, messaging_error, delivery_attempt) eff option" where
  "dispatch providers msg =
     (case msg_channel msg of
        Sms \<Rightarrow> Some (send_sms providers msg)
      | WhatsApp \<Rightarrow> Some (send_whatsapp providers msg)
      | Email \<Rightarrow> Some (send_email providers msg)
      | Push \<Rightarrow> None)"

fun send_batch_loop ::
  "sms_port list \<Rightarrow> bool \<Rightarrow> nat \<Rightarrow> message list \<Rightarrow> batch_send_result \<Rightarrow> (msg_world, messaging_error, batch_send_result) eff" where
  "send_batch_loop providers go_on idx [] r = okE r"
| "send_batch_loop providers go_on idx (msg # msgs) r =
     (case dispatch providers msg of
        None \<Rightarrow> send_batch_loop providers go_on (Suc idx) msgs (r\<lparr>bs_success_count := Suc (bs_success_count r)\<rparr>)
      | Some send \<Rightarrow>
        bindE (attemptE send) (\<lambda>result.
        case result of
          Inr _ \<Rightarrow> send_batch_loop providers go_on (Suc idx) msgs (r\<lparr>bs_success_count := Suc (bs_success_count r)\<rparr>)
        | Inl e \<Rightarrow>
          (let r' = r\<lparr>bs_failure_count := Suc (bs_failure_count r), bs_errors := bs_errors r @ [(idx, e)]\<rparr> in
           if \<not> go_on then okE r' else send_batch_loop providers go_on (Suc idx) msgs r')))"

definition send_batch ::
  "sms_port list \<Rightarrow> message list \<Rightarrow> bool \<Rightarrow> (msg_world, messaging_error, batch_send_result) eff" where
  "send_batch providers messages continue_on_error =
     send_batch_loop providers continue_on_error 0 messages
       \<lparr>bs_success_count = 0, bs_failure_count = 0, bs_errors = []\<rparr>"

end
