(* ===== verification/Messaging_Port.thy ===== *)
theory Messaging_Port
  imports Messaging
begin

text \<open>
  The gRPC port of the messaging engine (messaging-engine/src/ports/grpc.rs).  Fields that a
  response always leaves empty are not part of the records.
\<close>

section \<open>Conversions\<close>

definition msg_parse_uuid :: "'x msg_crates_scheme \<Rightarrow> string \<Rightarrow> status + uuid" where
  "msg_parse_uuid mc s =
     (case uuid_parse mc s of Some u \<Rightarrow> Inr u
      | None \<Rightarrow> Inl (mk_status Code_InvalidArgument (''invalid uuid: '' @ muuid_error mc s)))"

definition from_prost_timestamp :: "'x msg_crates_scheme \<Rightarrow> timestamp \<Rightarrow> (msg_world, status, datetime) eff" where
  "from_prost_timestamp mc ts =
     (case mfrom_timestamp mc (seconds ts) (as_u32 (nanos ts)) of Some d \<Rightarrow> okE d | None \<Rightarrow> utc_now)"

fun to_proto_channel :: "message_channel \<Rightarrow> int" where
  "to_proto_channel Sms = 1"
| "to_proto_channel WhatsApp = 2"
| "to_proto_channel Email = 3"
| "to_proto_channel Push = 4"

definition from_proto_channel :: "int \<Rightarrow> message_channel option" where
  "from_proto_channel n =
     (if n = 1 then Some Sms else if n = 2 then Some WhatsApp else if n = 3 then Some Email
      else if n = 4 then Some Push else None)"

fun to_proto_status :: "delivery_status \<Rightarrow> int" where
  "to_proto_status Queued = 1"
| "to_proto_status Sent = 2"
| "to_proto_status Delivered = 3"
| "to_proto_status MRead = 4"
| "to_proto_status MFailed = 5"
| "to_proto_status Rejected = 6"
| "to_proto_status Expired = 7"
| "to_proto_status MCancelled = 8"

definition from_proto_status :: "int \<Rightarrow> delivery_status option" where
  "from_proto_status n =
     (if n = 1 then Some Queued else if n = 2 then Some Sent else if n = 3 then Some Delivered
      else if n = 4 then Some MRead else if n = 5 then Some MFailed else if n = 6 then Some Rejected
      else if n = 7 then Some Expired else if n = 8 then Some MCancelled else None)"

fun messaging_error_code :: "messaging_error \<Rightarrow> int" where
  "messaging_error_code (InvalidPhone _) = 1"
| "messaging_error_code (TemplateNotFound _) = 2"
| "messaging_error_code (RateLimitExceeded _) = 14"
| "messaging_error_code (ProviderUnavailable _) = 9"
| "messaging_error_code (MDatabase _) = 8"
| "messaging_error_code (MSerialization _) = 8"
| "messaging_error_code (MInternal _) = 8"
| "messaging_error_code (MProviderError _) = 8"
| "messaging_error_code (MValidation _) = 8"

definition to_proto_error :: "messaging_error \<Rightarrow> proto_error" where
  "to_proto_error e = \<lparr>pe_code = messaging_error_code e, pe_message = messaging_error_to_string e,
     pe_details = Map.empty, pe_trace_id = [], pe_grpc_code = code_number Code_Internal\<rparr>"

record proto_template =
  pt_template_id :: string
  pt_tenant_id :: string
  pt_template_name :: string
  pt_channel :: int
  pt_subject :: string
  pt_body :: string
  pt_variables :: "string list"
  pt_is_active :: bool

definition to_proto_template :: "'x msg_crates_scheme \<Rightarrow> template \<Rightarrow> proto_template" where
  "to_proto_template mc t = \<lparr>pt_template_id = tpl_id t, pt_tenant_id = uuid_to_string mc (tpl_tenant_id t),
     pt_template_name = tpl_name t, pt_channel = to_proto_channel (tpl_channel t),
     pt_subject = unwrap_or (tpl_subject t) [], pt_body = tpl_body t, pt_variables = tpl_variables t,
     pt_is_active = tpl_is_active t\<rparr>"

section \<open>The handlers\<close>

definition msg_rpc :: "(msg_world, messaging_error, 'a) eff \<Rightarrow> (msg_world, status, 'a) eff" where
  "msg_rpc m = map_errE messaging_status m"

record send_response =
  sm_message_id :: string
  sm_status :: int
  sm_channel :: int
  sm_sent_at :: "timestamp option"

definition send_reply :: "'x msg_crates_scheme \<Rightarrow> message_channel \<Rightarrow> delivery_attempt \<Rightarrow> send_response" where
  "send_reply mc ch a = \<lparr>sm_message_id = uuid_to_string mc (da_message_id a),
     sm_status = to_proto_status (da_status a), sm_channel = to_proto_channel ch,
     sm_sent_at = map_option to_timestamp (da_sent_at a)\<rparr>"

record sms_request =
  sx_to_number :: string
  sx_message :: string
  sx_tenant_id :: string
  sx_session_id :: string
  sx_flash :: bool

definition grpc_send_sms ::
  "'x msg_crates_scheme \<Rightarrow> sms_port list \<Rightarrow> sms_request \<Rightarrow> (msg_world, status, send_response) eff" where
  "grpc_send_sms mc providers req =
     bindE (liftE (msg_parse_uuid mc (sx_tenant_id req))) (\<lambda>tenant_id.
     bindE new_v4 (\<lambda>i.
     let msg = \<lparr>msg_id = i, msg_recipient = sx_to_number req, msg_body = sx_message req, msg_channel = Sms,
                msg_priority = (if sx_flash req then High else Normal), msg_tenant_id = tenant_id,
                msg_session_id = non_empty (sx_session_id req)\<rparr> in
     bindE (msg_rpc (send_sms providers msg)) (\<lambda>attempt.
     okE (send_reply mc Sms attempt))))"

record whatsapp_request =
  wx_to_number :: string
  wx_message :: string
  wx_template_name :: string
  wx_template_params :: "(string \<times> string) list"
  wx_tenant_id :: string
  wx_session_id :: string

definition whatsapp_body ::
  "'x msg_crates_scheme \<Rightarrow> uuid \<Rightarrow> whatsapp_request \<Rightarrow> (msg_world, status, string) eff" where
  "whatsapp_body mc tenant_id req =
     (if wx_template_name req \<noteq> []
      then bindE (attemptE (get_template mc tenant_id (wx_template_name req))) (\<lambda>r.
           okE (case r of Inr t \<Rightarrow> render_template t (wx_template_params req) | Inl _ \<Rightarrow> wx_message req))
      else okE (wx_message req))"

definition grpc_send_whats_app ::
  "'x msg_crates_scheme \<Rightarrow> sms_port list \<Rightarrow> whatsapp_request \<Rightarrow> (msg_world, status, send_response) eff" where
  "grpc_send_whats_app mc providers req =
     bindE (liftE (msg_parse_uuid mc (wx_tenant_id req))) (\<lambda>tenant_id.
     bindE (whatsapp_body mc tenant_id req) (\<lambda>body.
     bindE new_v4 (\<lambda>i.
     let msg = \<lparr>msg_id = i, msg_recipient = wx_to_number req, msg_body = body, msg_channel = WhatsApp,
                msg_priority = Normal, msg_tenant_id = tenant_id,
                msg_session_id = non_empty (wx_session_id req)\<rparr> in
     bindE (msg_rpc (send_whatsapp providers msg)) (\<lambda>attempt.
     okE (send_reply mc WhatsApp attempt)))))"

record email_request =
  ex_to_email :: string
  ex_subject :: string
  ex_body :: string
  ex_tenant_id :: string
  ex_session_id :: string

definition grpc_send_email ::
  "'x msg_crates_scheme \<Rightarrow> sms_port list \<Rightarrow> email_request \<Rightarrow> (msg_world, status, send_response) eff" where
  "grpc_send_email mc providers req =
     bindE (liftE (msg_parse_uuid mc (ex_tenant_id req))) (\<lambda>tenant_id.
     bindE new_v4 (\<lambda>i.
     let msg = \<lparr>msg_id = i, msg_recipient = ex_to_email req,
                msg_body = ''Subject: '' @ ex_subject req @ [char_of (10 :: nat), char_of (10 :: nat)] @ ex_body req,
                msg_channel = Email, msg_priority = Normal, msg_tenant_id = tenant_id,
                msg_session_id = non_empty (ex_session_id req)\<rparr> in
     bindE (msg_rpc (send_email providers msg)) (\<lambda>attempt.
     okE (send_reply mc Email attempt))))"

record batch_message =
  bm_recipient :: string
  bm_message :: string
  bm_channel :: int

fun batch_messages :: "uuid \<Rightarrow> batch_message list \<Rightarrow> (msg_world, status, message list) eff" where
  "batch_messages tenant_id [] = okE []"
| "batch_messages tenant_id (m # ms) =
     bindE new_v4 (\<lambda>i.
     bindE (batch_messages tenant_id ms) (\<lambda>rest.
     okE (\<lparr>msg_id = i, msg_recipient = bm_recipient m, msg_body = bm_message m,
           msg_channel = unwrap_or (from_proto_channel (bm_channel m)) Sms, msg_priority = Normal,
           msg_tenant_id = tenant_id, msg_session_id = None\<rparr> # rest)))"

record batch_item_error =
  bi_index :: int
  bi_item_id :: string
  bi_error :: proto_error

record batch_send_response =
  bp_batch_id :: string
  bp_total_count :: int
  bp_success_count :: int
  bp_failure_count :: int
  bp_errors :: "batch_item_error list"

definition grpc_send_batch_messages ::
  "'x msg_crates_scheme \<Rightarrow> sms_port list \<Rightarrow> string \<Rightarrow> string \<Rightarrow> batch_message list \<Rightarrow> bool \<Rightarrow>
   (msg_world, status, batch_send_response) eff" where
  "grpc_send_batch_messages mc providers tenant batch_id ms continue_on_error =
     bindE (liftE (msg_parse_uuid mc tenant)) (\<lambda>tenant_id.
     bindE (batch_messages tenant_id ms) (\<lambda>messages.
     bindE (msg_rpc (send_batch providers messages continue_on_error)) (\<lambda>r.
     okE \<lparr>bp_batch_id = batch_id, bp_total_count = as_i32 (int (bs_success_count r + bs_failure_count r)),
          bp_success_count = as_i32 (int (bs_success_count r)),
          bp_failure_count = as_i32 (int (bs_failure_count r)),
          bp_errors = map (\<lambda>(idx, e). \<lparr>bi_index = as_i32 (int idx), bi_item_id = ''batch-item-'' @ show_nat idx,
            bi_error = to_proto_error e\<rparr>) (bs_errors r)\<rparr>)))"

record message_status_response =
  ms_message_id :: string
  ms_status :: int
  ms_channel :: int
  ms_recipient :: string
  ms_sent_at :: "timestamp option"
  ms_delivered_at :: "timestamp option"
  ms_error_message :: string
  ms_retry_count :: int

definition grpc_get_message_status ::
  "'x msg_crates_scheme \<Rightarrow> sms_port list \<Rightarrow> string \<Rightarrow> (msg_world, status, message_status_response) eff" where
  "grpc_get_message_status mc providers message_id =
     bindE (liftE (msg_parse_uuid mc message_id)) (\<lambda>i.
     bindE (msg_rpc (get_message_status mc providers i)) (\<lambda>a.
     okE \<lparr>ms_message_id = uuid_to_string mc (da_message_id a), ms_status = to_proto_status (da_status a),
          ms_channel = to_proto_channel (da_channel a), ms_recipient = da_recipient a,
          ms_sent_at = map_option to_timestamp (da_sent_at a),
          ms_delivered_at = map_option to_timestamp (da_delivered_at a),
          ms_error_message = unwrap_or (da_error_message a) [], ms_retry_count = da_retry_count a\<rparr>))"

record list_messages_request =
  lm_tenant_id :: string
  lm_channels :: "int list"
  lm_statuses :: "int list"
  lm_recipient :: string
  lm_from_date :: "timestamp option"
  lm_to_date :: "timestamp option"
  lm_session_id :: string

definition optional_time :: "'x msg_crates_scheme \<Rightarrow> timestamp option \<Rightarrow> (msg_world, status, datetime option) eff" where
  "optional_time mc ts =
     (case ts of None \<Rightarrow> okE None | Some t \<Rightarrow> bindE (from_prost_timestamp mc t) (\<lambda>d. okE (Some d)))"

text \<open>The status in a listing is always that of a queued message.\<close>

record proto_message =
  px_message_id :: string
  px_channel :: int
  px_recipient :: string
  px_content_preview :: string
  px_status :: int
  px_tenant_id :: string
  px_session_id :: string

definition message_to_proto :: "'x msg_crates_scheme \<Rightarrow> message \<Rightarrow> proto_message" where
  "message_to_proto mc m = \<lparr>px_message_id = uuid_to_string mc (msg_id m), px_channel = to_proto_channel (msg_channel m),
     px_recipient = msg_recipient m, px_content_preview = take 100 (msg_body m), px_status = to_proto_status Queued,
     px_tenant_id = uuid_to_string mc (msg_tenant_id m), px_session_id = unwrap_or (msg_session_id m) []\<rparr>"

definition grpc_list_messages ::
  "'x msg_crates_scheme \<Rightarrow> list_messages_request \<Rightarrow> (msg_world, status, proto_message list \<times> int) eff" where
  "grpc_list_messages mc req =
     bindE (liftE (msg_parse_uuid mc (lm_tenant_id req))) (\<lambda>tenant_id.
     bindE (optional_time mc (lm_from_date req)) (\<lambda>fr.
     bindE (optional_time mc (lm_to_date req)) (\<lambda>to.
     let filters = \<lparr>mf_channels = List.map_filter from_proto_channel (lm_channels req),
                    mf_statuses = List.map_filter from_proto_status (lm_statuses req),
                    mf_recipient = non_empty (lm_recipient req), mf_from_date = fr, mf_to_date = to,
                    mf_session_id = non_empty (lm_session_id req)\<rparr> in
     bindE (msg_rpc (list_messages tenant_id filters)) (\<lambda>messages.
     okE (map (message_to_proto mc) messages, as_i32 (int (length messages)))))))"

definition grpc_get_message_template ::
  "'x msg_crates_scheme \<Rightarrow> string \<Rightarrow> string \<Rightarrow> (msg_world, status, proto_template) eff" where
  "grpc_get_message_template mc tenant template_id =
     bindE (liftE (msg_parse_uuid mc tenant)) (\<lambda>tenant_id.
     bindE (msg_rpc (get_template mc tenant_id template_id)) (\<lambda>t.
     okE (to_proto_template mc t)))"

definition grpc_list_message_templates ::
  "'x msg_crates_scheme \<Rightarrow> string \<Rightarrow> int \<Rightarrow> (msg_world, status, proto_template list \<times> int) eff" where
  "grpc_list_message_templates mc tenant channel =
     bindE (liftE (msg_parse_uuid mc tenant)) (\<lambda>tenant_id.
     bindE (msg_rpc (list_templates tenant_id (from_proto_channel channel))) (\<lambda>ts.
     okE (map (to_proto_template mc) ts, as_i32 (int (length ts)))))"

end
