(* ===== verification/Messaging_Properties.thy ===== *)
theory Messaging_Properties
  imports Messaging_Port
begin

text \<open>
  The properties of the messaging engine: templates, batches, the delivery log and the rate
  limiter's fallback.
\<close>

section \<open>Templates\<close>

text \<open>A template as the text between its placeholders.\<close>

datatype segment = Lit string | Hole string

fun seg_text :: "segment \<Rightarrow> string" where
  "seg_text (Lit s) = s"
| "seg_text (Hole k) = placeholder k"

definition template_text :: "segment list \<Rightarrow> string" where
  "template_text segs = concat (map seg_text segs)"

definition brace_free :: "string \<Rightarrow> bool" where
  "brace_free s \<longleftrightarrow> CHR ''{'' \<notin> set s \<and> CHR ''}'' \<notin> set s"

fun seg_ok :: "segment \<Rightarrow> bool" where
  "seg_ok (Lit s) = brace_free s"
| "seg_ok (Hole k) = brace_free k"

fun filled :: "(string \<times> string) list \<Rightarrow> segment \<Rightarrow> string" where
  "filled vars (Lit s) = s"
| "filled vars (Hole k) = (case map_of vars k of Some v \<Rightarrow> v | None \<Rightarrow> placeholder k)"

definition fill_one :: "string \<Rightarrow> string \<Rightarrow> segment \<Rightarrow> segment" where
  "fill_one k v seg = (if seg = Hole k then Lit v else seg)"

lemma fill_one_simps [simp]:
  "fill_one k v (Lit l) = Lit l" "fill_one k v (Hole k) = Lit v" "k' \<noteq> k \<Longrightarrow> fill_one k v (Hole k') = Hole k'"
  by (simp_all add: fill_one_def)

lemma str_replace_skip:
  "c \<noteq> CHR ''{'' \<Longrightarrow> str_replace (placeholder k) v (c # s) = c # str_replace (placeholder k) v s"
  by (simp add: placeholder_def starts_with_def)

lemma str_replace_literal:
  "CHR ''{'' \<notin> set l \<Longrightarrow> str_replace (placeholder k) v (l @ s) = l @ str_replace (placeholder k) v s"
  by (induction l) (auto simp: str_replace_skip simp del: str_replace.simps)

lemma str_replace_hole: "str_replace (placeholder k) v (placeholder k @ s) = v @ str_replace (placeholder k) v s"
  by (simp add: placeholder_def starts_with_def)

lemma brace_free_prefix:
  assumes "brace_free k" "brace_free k'" "k @ ''}}'' @ r = k' @ CHR ''}'' # s"
  shows "k = k'"
proof -
  have "takeWhile (\<lambda>c. c \<noteq> CHR ''}'') (k @ ''}}'' @ r) = k"
    using assms(1) by (subst takeWhile_append2) (auto simp: brace_free_def)
  moreover have "takeWhile (\<lambda>c. c \<noteq> CHR ''}'') (k' @ CHR ''}'' # s) = k'"
    using assms(2) by (subst takeWhile_append2) (auto simp: brace_free_def)
  ultimately show ?thesis using assms(3) by simp
qed

lemma str_replace_other_hole:
  assumes "brace_free k" "brace_free k'" "k \<noteq> k'"
  shows "str_replace (placeholder k) v (placeholder k' @ s) = placeholder k' @ str_replace (placeholder k) v s"
proof -
  let ?p = "placeholder k"
  have no0: "\<not> starts_with (placeholder k' @ s) ?p"
  proof
    assume "starts_with (placeholder k' @ s) ?p"
    then obtain r where "placeholder k' @ s = ?p @ r" by (auto simp: starts_with_iff)
    then show False using brace_free_prefix [OF assms(1,2), of r "CHR ''}'' # s"] assms(3)
      by (simp add: placeholder_def)
  qed
  have no1: "\<not> starts_with (CHR ''{'' # k' @ ''}}'' @ s) ?p"
    using assms(2) by (cases k') (auto simp: starts_with_def placeholder_def brace_free_def)
  have "str_replace ?p v (placeholder k' @ s) = CHR ''{'' # CHR ''{'' # str_replace ?p v ((k' @ ''}}'') @ s)"
    using no0 no1 by (simp add: placeholder_def [of k'])
  also have "str_replace ?p v ((k' @ ''}}'') @ s) = (k' @ ''}}'') @ str_replace ?p v s"
    using assms(2) by (intro str_replace_literal) (auto simp: brace_free_def)
  finally show ?thesis by (simp add: placeholder_def [of k'])
qed

lemma replace_fills_one:
  assumes "brace_free k" "\<And>seg. seg \<in> set segs \<Longrightarrow> seg_ok seg"
  shows "str_replace (placeholder k) v (template_text segs) = template_text (map (fill_one k v) segs)"
  using assms(2)
proof (induction segs)
  case (Cons seg segs)
  then have IH: "str_replace (placeholder k) v (template_text segs) = template_text (map (fill_one k v) segs)" by simp
  show ?case
  proof (cases seg)
    case (Lit l)
    then have "CHR ''{'' \<notin> set l" using Cons.prems by (force simp: brace_free_def)
    then show ?thesis using IH Lit by (simp add: template_text_def str_replace_literal)
  next
    case (Hole k')
    then have "brace_free k'" using Cons.prems by force
    then show ?thesis
      using IH Hole str_replace_other_hole [OF assms(1), of k']
      by (cases "k' = k") (simp_all add: template_text_def str_replace_hole)
  qed
qed (simp add: template_text_def)

lemma seg_ok_fill_one: "seg_ok seg \<Longrightarrow> brace_free v \<Longrightarrow> seg_ok (fill_one k v seg)"
  by (simp add: fill_one_def)

lemma filled_fill_one: "filled vars (fill_one k v seg) = filled ((k, v) # vars) seg"
  by (cases seg) (auto simp: fill_one_def)

lemma render_fold:
  assumes "\<And>seg. seg \<in> set segs \<Longrightarrow> seg_ok seg" "\<And>k v. (k, v) \<in> set vars \<Longrightarrow> brace_free k \<and> brace_free v"
  shows "foldl (\<lambda>result (key, v). str_replace (placeholder key) v result) (template_text segs) vars =
    concat (map (filled vars) segs)"
  using assms
proof (induction vars arbitrary: segs)
  case Nil
  have "filled [] seg = seg_text seg" for seg by (cases seg) auto
  then show ?case by (simp add: template_text_def)
next
  case (Cons kv vars)
  obtain k v where kv: "kv = (k, v)" by (cases kv)
  then have b: "brace_free k" "brace_free v" using Cons.prems(2) by auto
  have "foldl (\<lambda>result (key, v). str_replace (placeholder key) v result) (template_text segs) (kv # vars) =
      foldl (\<lambda>result (key, v). str_replace (placeholder key) v result) (template_text (map (fill_one k v) segs)) vars"
    using replace_fills_one [OF b(1) Cons.prems(1)] kv by simp
  also have "\<dots> = concat (map (filled vars) (map (fill_one k v) segs))"
    using Cons.prems b(2) by (intro Cons.IH) (auto intro: seg_ok_fill_one)
  also have "\<dots> = concat (map (filled (kv # vars)) segs)" by (simp add: filled_fill_one kv comp_def)
  finally show ?case .
qed

text \<open>C31: filling a template one variable after the other is the simultaneous substitution: every placeholder
  with a value is replaced by it, every other placeholder and all text stay.  So the result does not
  depend on the order in which the variables are visited.  This holds when neither the text, nor the
  names, nor the values contain braces.\<close>

theorem render_template_simultaneous:
  assumes "tpl_body t = template_text segs" "\<And>seg. seg \<in> set segs \<Longrightarrow> seg_ok seg"
    "\<And>k v. (k, v) \<in> set vars \<Longrightarrow> brace_free k \<and> brace_free v" "distinct (map fst vars)"
    "set vars' = set vars" "distinct (map fst vars')"
  shows "render_template t vars = concat (map (filled vars) segs) \<and> render_template t vars' = render_template t vars"
proof -
  have "render_template t xs = concat (map (filled xs) segs)" if "set xs = set vars" for xs
    using render_fold [of segs xs] assms(1-3) that by (simp add: render_template_def)
  moreover have "filled vars' = filled vars"
  proof
    show "filled vars' seg = filled vars seg" for seg
      using map_of_inject_set [OF assms(6,4)] assms(5) by (cases seg) auto
  qed
  ultimately show ?thesis using assms(5) by simp
qed

definition example_template :: template where
  "example_template = \<lparr>tpl_id = ''t'', tpl_tenant_id = 1, tpl_name = ''n'', tpl_channel = WhatsApp, tpl_subject = None,
     tpl_body = ''Hi {{a}}, {{b}}'', tpl_variables = [], tpl_is_active = True\<rparr>"

theorem render_template_simultaneous_witness:
  "render_template example_template [(''a'', ''x''), (''c'', ''y'')] = ''Hi x, {{b}}'' \<and>
   render_template example_template [(''c'', ''y''), (''a'', ''x'')] = ''Hi x, {{b}}''"
proof -
  let ?segs = "[Lit ''Hi '', Hole ''a'', Lit '', '', Hole ''b'']"
  have "tpl_body example_template = template_text ?segs"
    by (simp add: example_template_def template_text_def placeholder_def)
  then have "render_template example_template [(''a'', ''x''), (''c'', ''y'')] =
      concat (map (filled [(''a'', ''x''), (''c'', ''y'')]) ?segs) \<and>
    render_template example_template [(''c'', ''y''), (''a'', ''x'')] =
      render_template example_template [(''a'', ''x''), (''c'', ''y'')]"
    by (rule render_template_simultaneous) (auto simp: brace_free_def)
  then show ?thesis by (simp add: placeholder_def)
qed

text \<open>A value that contains a placeholder is filled again if its name is visited later.\<close>

lemma render_template_order_matters:
  "render_template (example_template\<lparr>tpl_body := ''{{a}}''\<rparr>) [(''a'', ''{{b}}''), (''b'', ''x'')] = ''x''"
  "render_template (example_template\<lparr>tpl_body := ''{{a}}''\<rparr>) [(''b'', ''x''), (''a'', ''{{b}}'')] = ''{{b}}''"
  by (simp_all add: render_template_def placeholder_def starts_with_def)

section \<open>The adapters\<close>

text \<open>What the handler relies on: an adapter accepts messages, reports a message as sent or delivered, and
  leaves the log alone.\<close>

locale sms_adapter =
  fixes p :: sms_port
  assumes accepts:
      "\<exists>receipt w'. sp_send_sms p to body sender w = (Inr receipt, w') \<and> delivery_map w' = delivery_map w \<and>
       has_db w' = has_db w \<and> (db_up w \<longrightarrow> db_up w')"
    and reports: "\<exists>st. sp_get_status p ref w = (Inr st, w) \<and> (st = Sent \<or> st = Delivered)"

lemma accept_sms_run:
  "\<exists>receipt w'. accept_sms mc prefix raw w = (Inr receipt, w') \<and> delivery_map w' = delivery_map w \<and>
   has_db w' = has_db w \<and> (db_up w \<longrightarrow> db_up w')"
  by (simp add: accept_sms_def bindE_def new_v4_def okE_def db_up_def)

interpretation ecocash_sms: sms_adapter "sms_ecocash mc" for mc
  by unfold_locales (simp_all add: sms_ecocash_def accept_sms_run okE_def)

interpretation onemoney_sms: sms_adapter "sms_onemoney mc" for mc
  by unfold_locales (simp_all add: sms_onemoney_def accept_sms_run okE_def)

interpretation telecash_sms: sms_adapter "sms_telecash mc" for mc
  by unfold_locales (simp_all add: sms_telecash_def accept_sms_run okE_def)

lemma select_adapter:
  "select_provider (sms_adapters mc) recipient =
     (case route_provider recipient of
        None \<Rightarrow> Inl (InvalidPhone recipient)
      | Some NetEcoCash \<Rightarrow> Inr (sms_ecocash mc)
      | Some NetOneMoney \<Rightarrow> Inr (sms_onemoney mc)
      | Some NetTeleCash \<Rightarrow> Inr (sms_telecash mc))"
  by (simp add: select_provider_def sms_adapters_def sms_ecocash_def sms_onemoney_def sms_telecash_def
      split: option.split sms_network.split)

lemma selected_sms_adapter: "select_provider (sms_adapters mc) recipient = Inr p \<Longrightarrow> sms_adapter p"
  using ecocash_sms.sms_adapter_axioms [of mc] onemoney_sms.sms_adapter_axioms [of mc]
    telecash_sms.sms_adapter_axioms [of mc]
  by (auto simp: select_adapter split: option.splits sms_network.splits)

section \<open>The delivery log\<close>

definition attempt_ok :: "delivery_attempt \<Rightarrow> bool" where
  "attempt_ok a \<longleftrightarrow> da_sent_at a \<noteq> None \<and> da_provider_ref a \<noteq> None \<and> length (da_body_preview a) \<le> 160 \<and>
     (da_status a = Sent \<and> da_delivered_at a = None \<or>
      da_status a = Delivered \<and> da_delivered_at a \<noteq> None \<and>
      route_provider (da_recipient a) \<in> {Some NetEcoCash, Some NetOneMoney})"

definition log_ok :: "msg_world \<Rightarrow> bool" where
  "log_ok w \<longleftrightarrow> distinct (map fst (delivery_map w)) \<and>
     (\<forall>(k, a) \<in> set (delivery_map w). da_message_id a = k \<and> attempt_ok a)"

lemma table_inv_log_ok: "table_inv log_ok"
  by (simp add: table_inv_def log_ok_def)

lemma log_ok_update:
  assumes "log_ok w" "attempt_ok a"
  shows "log_ok (w\<lparr>delivery_map := AList.update (da_message_id a) a (delivery_map w)\<rparr>)"
proof -
  have "x \<in> set (AList.update k v al) \<Longrightarrow> x = (k, v) \<or> x \<in> set al" for x :: "uuid \<times> delivery_attempt" and k v al
    by (induction al) (auto split: if_splits)
  then show ?thesis using assms by (force simp: log_ok_def distinct_update)
qed

lemma preserves_set_tenant_context: "table_inv I \<Longrightarrow> preserves I (set_tenant_context t) (\<lambda>_. True)"
  unfolding set_tenant_context_def
  by (intro preserves_seq preserves_case preserves_db_exec preserves_pure TrueI)
    (simp_all add: preserves_def getE_def)

lemma preserves_log_attempt: "attempt_ok a \<Longrightarrow> preserves log_ok (log_attempt a) (\<lambda>_. True)"
  unfolding log_attempt_def
  by (intro preserves_seq preserves_map_errE preserves_set_tenant_context table_inv_log_ok preserves_modifyE log_ok_update)

lemma sent_attempt_ok: "attempt_ok (sent_attempt msg ch network receipt now)"
  by (simp add: attempt_ok_def sent_attempt_def)

context sms_adapter
begin

lemma preserves_send_via: "preserves log_ok (send_via p msg ch network) (\<lambda>_. True)"
proof -
  have "preserves log_ok (sp_send_sms p to body sender) (\<lambda>_. True)" for to body sender
  proof (rule preservesI)
    fix w assume "log_ok w"
    then show "log_ok (snd (sp_send_sms p to body sender w))"
      using accepts [of to body sender w] by (auto simp: log_ok_def)
  qed simp
  then show ?thesis
    unfolding send_via_def Let_def
    by (intro preserves_seq preserves_utc_now preserves_log_attempt preserves_pure table_inv_log_ok sent_attempt_ok TrueI)
qed

lemma send_via_up:
  assumes "\<not> has_db w \<or> db_up w"
  shows "\<exists>a w'. send_via p msg ch network w = (Inr a, w') \<and> has_db w' = has_db w \<and> (\<not> has_db w' \<or> db_up w') \<and>
    delivery_map w' = AList.update (msg_id msg) a (delivery_map w)"
proof -
  obtain rc w1 where s: "sp_send_sms p (msg_recipient msg) (msg_body msg) ''USSD-KERNEL'' w = (Inr rc, w1)"
      "delivery_map w1 = delivery_map w" "has_db w1 = has_db w" "db_up w \<longrightarrow> db_up w1"
    using accepts by blast
  have "\<not> has_db w1 \<or> db_up w1" using assms s(3,4) by auto
  then show ?thesis
    using s by (auto simp: send_via_def bindE_def utc_now_def Let_def log_attempt_def set_tenant_context_def getE_def
        map_errE_def modifyE_def okE_def db_up_def sent_attempt_def db_exec_def db_op_def)
qed

end

lemma preserves_sends:
  "preserves log_ok (send_sms (sms_adapters mc) msg) (\<lambda>_. True)"
  "preserves log_ok (send_whatsapp (sms_adapters mc) msg) (\<lambda>_. True)"
  "preserves log_ok (send_email (sms_adapters mc) msg) (\<lambda>_. True)"
  unfolding send_sms_def send_whatsapp_def send_email_def
  by (intro preserves_bind_liftE sms_adapter.preserves_send_via selected_sms_adapter; assumption)+
    (auto intro!: preserves_bind_liftE sms_adapter.preserves_send_via
      simp: sms_adapters_def first_opt_def ecocash_sms.sms_adapter_axioms split: if_splits)

lemma preserves_send_otp: "preserves log_ok (send_otp (sms_adapters mc) r c) (\<lambda>_. True)"
  unfolding send_otp_def by (intro preserves_seq preserves_new_v4 table_inv_log_ok preserves_sends)

lemma preserves_send_batch: "preserves log_ok (send_batch (sms_adapters mc) msgs go_on) (\<lambda>_. True)"
proof -
  have "preserves log_ok (send_batch_loop (sms_adapters mc) go_on i msgs r) (\<lambda>_. True)" for i r
  proof (induction msgs arbitrary: i r)
    case (Cons msg msgs)
    have "preserves log_ok send (\<lambda>_. True)" if "dispatch (sms_adapters mc) msg = Some send" for send
      using that preserves_sends [of mc msg] by (auto simp: dispatch_def split: message_channel.splits)
    then show ?case
      unfolding send_batch_loop.simps Let_def
      by (intro preserves_case preserves_pure Cons.IH TrueI preserves_seq [OF preserves_weaken [OF preserves_attemptE]])
  qed (simp add: preserves_pure)
  then show ?thesis by (simp add: send_batch_def)
qed

lemma sms_get_status:
  "sp_get_status (sms_ecocash mc) ref = okE Delivered" "sp_get_status (sms_onemoney mc) ref = okE Delivered"
  "sp_get_status (sms_telecash mc) ref = okE Sent"
  by (simp_all add: sms_ecocash_def sms_onemoney_def sms_telecash_def)

text \<open>What a status query makes of an attempt.\<close>

lemma refresh_status_eq:
  assumes "attempt_ok a"
  shows "refresh_status (sms_adapters mc) a =
    (if da_status a = Sent \<and> route_provider (da_recipient a) \<in> {Some NetEcoCash, Some NetOneMoney}
     then bindE utc_now (\<lambda>now. bindE (log_attempt (refreshed Delivered now a)) (\<lambda>_. okE (refreshed Delivered now a)))
     else okE a)"
proof -
  obtain ref where "da_provider_ref a = Some ref" using assms by (auto simp: attempt_ok_def)
  then show ?thesis
    using assms by (auto simp: refresh_status_def select_adapter sms_get_status attempt_ok_def fun_eq_iff bindE_def
        attemptE_def okE_def split: option.splits sms_network.splits)
qed

lemma preserves_get_message_status: "preserves log_ok (get_message_status mc (sms_adapters mc) i) (\<lambda>_. True)"
proof -
  have "preserves log_ok (refresh_status (sms_adapters mc) a) (\<lambda>_. True)" if "attempt_ok a" for a
  proof -
    have "attempt_ok (refreshed Delivered now a)"
      if "route_provider (da_recipient a) \<in> {Some NetEcoCash, Some NetOneMoney}" for now
      using that \<open>attempt_ok a\<close> by (auto simp: attempt_ok_def refreshed_def)
    then show ?thesis
      unfolding refresh_status_eq [OF that]
      by (intro preserves_case preserves_seq preserves_utc_now table_inv_log_ok preserves_log_attempt preserves_pure TrueI)
        auto
  qed
  moreover have "preserves log_ok (get_attempt i) (\<lambda>r. \<forall>a. r = Some a \<longrightarrow> attempt_ok a)"
    by (rule preservesI) (auto simp: get_attempt_def getE_def log_ok_def dest!: map_of_SomeD)
  ultimately show ?thesis
    unfolding get_message_status_def
    by (auto intro!: preserves_bindE [of _ _ "\<lambda>r. \<forall>a. r = Some a \<longrightarrow> attempt_ok a"] preserves_case preserves_pure)
qed

text \<open>The operations that write the log, in any order.\<close>

inductive msg_step :: "'x msg_crates_scheme \<Rightarrow> msg_world \<Rightarrow> msg_world \<Rightarrow> bool" for mc where
  sms: "send_sms (sms_adapters mc) msg w = (r, w') \<Longrightarrow> msg_step mc w w'"
| whatsapp: "send_whatsapp (sms_adapters mc) msg w = (r, w') \<Longrightarrow> msg_step mc w w'"
| email: "send_email (sms_adapters mc) msg w = (r, w') \<Longrightarrow> msg_step mc w w'"
| otp: "send_otp (sms_adapters mc) recipient c w = (r, w') \<Longrightarrow> msg_step mc w w'"
| batch: "send_batch (sms_adapters mc) msgs go_on w = (b, w') \<Longrightarrow> msg_step mc w w'"
| status: "get_message_status mc (sms_adapters mc) i w = (r, w') \<Longrightarrow> msg_step mc w w'"

lemma msg_step_log_ok: "msg_step mc w w' \<Longrightarrow> log_ok w \<Longrightarrow> log_ok w'"
  by (induction rule: msg_step.induct)
    (metis preservesD preserves_sends preserves_send_otp preserves_send_batch preserves_get_message_status snd_conv)+

text \<open>C32: whatever messages are sent, singly or in batches, and whatever statuses are asked for, with database
  statements failing anywhere: the log holds one attempt per message id, under its own id, with a
  time of sending, a provider reference and a preview of at most 160 characters; an attempt is sent
  without or delivered with a time of delivery, and only messages routed to EcoCash or OneMoney are
  ever delivered.\<close>

theorem delivery_log_invariant:
  assumes "delivery_map w = []" "(msg_step mc)\<^sup>*\<^sup>* w w'"
  shows "distinct (map fst (delivery_map w')) \<and>
    (\<forall>(k, a) \<in> set (delivery_map w'). da_message_id a = k \<and> attempt_ok a)"
proof -
  have "log_ok w" using assms(1) by (simp add: log_ok_def)
  with assms(2) have "log_ok w'" by (induction rule: rtranclp_induct) (auto intro: msg_step_log_ok)
  then show ?thesis by (simp add: log_ok_def)
qed

definition example_msg_crates :: msg_crates where
  "example_msg_crates = \<lparr>sha256_digest = example_digest, hex_encode = hex_encode_impl,
     hex_decode = hex_decode_impl, json_to_string = (\<lambda>_. Some ''null''), to_rfc3339 = show_int,
     uuid_parse = (\<lambda>s. Some (of_nat (length s))), uuid_to_string = (\<lambda>u. replicate (unat u) CHR ''u''),
     muuid_error = (\<lambda>s. s), mfrom_timestamp = (\<lambda>s n. Some (s * nanos_per_second + n))\<rparr>"

definition example_msg_world :: msg_world where
  "example_msg_world = \<lparr>db_calls = 0, db_fault = (\<lambda>_. None), clock_reads = 0, clock = (\<lambda>n. int n),
     uuids_made = 0, uuid_supply = (\<lambda>n. of_nat (100 + n)), has_db = True, delivery_map = [],
     sms_templates = [], whatsapp_templates = [], template_fallback = []\<rparr>"

definition example_message :: "uuid \<Rightarrow> string \<Rightarrow> message" where
  "example_message i recipient = \<lparr>msg_id = i, msg_recipient = recipient, msg_body = ''hello'', msg_channel = Sms,
     msg_priority = Normal, msg_tenant_id = 1, msg_session_id = None\<rparr>"

lemma example_msg_world_simps [simp]:
  "db_up example_msg_world" "delivery_map example_msg_world = []" "has_db example_msg_world"
  by (simp_all add: example_msg_world_def db_up_def)

section \<open>Batches\<close>

definition sendable :: "message \<Rightarrow> bool" where
  "sendable m \<longleftrightarrow> msg_channel m = Email \<or> msg_channel m = Push \<or> route_provider (msg_recipient m) \<noteq> None"

text \<open>The messages a batch gets to: all, or those up to the first failure.\<close>

fun processed :: "bool \<Rightarrow> message list \<Rightarrow> message list" where
  "processed go_on [] = []"
| "processed go_on (m # ms) = (if sendable m \<or> go_on then m # processed go_on ms else [m])"

abbreviation logs_up :: "msg_world \<Rightarrow> bool" where
  "logs_up w \<equiv> \<not> has_db w \<or> db_up w"

lemma dispatch_push: "msg_channel m = Push \<Longrightarrow> dispatch ps m = None"
  by (simp add: dispatch_def)

lemma dispatch_unroutable:
  assumes "\<not> sendable m"
  shows "\<exists>send. dispatch (sms_adapters mc) m = Some send \<and> (\<forall>w. send w = (Inl (InvalidPhone (msg_recipient m)), w))"
proof -
  have "select_provider (sms_adapters mc) (msg_recipient m) = Inl (InvalidPhone (msg_recipient m))"
    using assms by (simp add: select_adapter sendable_def)
  then show ?thesis
    using assms by (cases "msg_channel m")
      (auto simp: dispatch_def sendable_def send_sms_def send_whatsapp_def bindE_def liftE_def)
qed

lemma dispatch_sendable:
  assumes "sendable m" "msg_channel m \<noteq> Push" "logs_up w"
  shows "\<exists>send a w'. dispatch (sms_adapters mc) m = Some send \<and> send w = (Inr a, w') \<and> logs_up w' \<and>
    delivery_map w' = AList.update (msg_id m) a (delivery_map w)"
proof -
  have via: "\<exists>a w'. send_via p m ch net w = (Inr a, w') \<and> logs_up w' \<and>
      delivery_map w' = AList.update (msg_id m) a (delivery_map w)" if "sms_adapter p" for p ch net
    using sms_adapter.send_via_up [OF that assms(3), of m ch net] by auto
  show ?thesis
  proof (cases "msg_channel m = Email")
    case True
    then show ?thesis
      using via [OF ecocash_sms.sms_adapter_axioms, of mc Email NetEcoCash]
      by (simp add: dispatch_def send_email_def sms_adapters_def first_opt_def bindE_def liftE_def)
  next
    case False
    then obtain net where "route_provider (msg_recipient m) = Some net" using assms(1,2) by (auto simp: sendable_def)
    then obtain p where p: "select_provider (sms_adapters mc) (msg_recipient m) = Inr p"
      by (cases net) (simp_all add: select_adapter)
    then show ?thesis
      using False assms(2) via [OF selected_sms_adapter [OF p]]
      by (cases "msg_channel m") (simp_all add: dispatch_def send_sms_def send_whatsapp_def bindE_def liftE_def)
  qed
qed

definition batch_report :: "nat \<Rightarrow> message list \<Rightarrow> batch_send_result \<Rightarrow> batch_send_result" where
  "batch_report i ms r =
     r\<lparr>bs_success_count := bs_success_count r + length (filter sendable ms),
       bs_failure_count := bs_failure_count r + length (filter (\<lambda>m. \<not> sendable m) ms),
       bs_errors := bs_errors r @ map (\<lambda>(j, m). (j, InvalidPhone (msg_recipient m)))
         (filter (\<lambda>(j, m). \<not> sendable m) (enumerate i ms))\<rparr>"

definition logged_ids :: "message list \<Rightarrow> uuid set" where
  "logged_ids ms = msg_id ` {m \<in> set ms. sendable m \<and> msg_channel m \<noteq> Push}"

lemma batch_report_Cons:
  "sendable m \<Longrightarrow> batch_report i (m # ms) r =
     batch_report (Suc i) ms (r\<lparr>bs_success_count := Suc (bs_success_count r)\<rparr>)"
  "\<not> sendable m \<Longrightarrow> batch_report i (m # ms) r =
     batch_report (Suc i) ms (r\<lparr>bs_failure_count := Suc (bs_failure_count r),
       bs_errors := bs_errors r @ [(i, InvalidPhone (msg_recipient m))]\<rparr>)"
  by (simp_all add: batch_report_def)

lemma logged_ids_Cons:
  "logged_ids (m # ms) = (if sendable m \<and> msg_channel m \<noteq> Push then {msg_id m} else {}) \<union> logged_ids ms"
  by (auto simp: logged_ids_def)

lemma send_batch_loop_run:
  assumes "logs_up w"
  shows "\<exists>w'. send_batch_loop (sms_adapters mc) go_on i ms r w = (Inr (batch_report i (processed go_on ms) r), w') \<and>
    fst ` set (delivery_map w') = fst ` set (delivery_map w) \<union> logged_ids (processed go_on ms)"
  using assms
proof (induction ms arbitrary: i r w)
  case Nil
  then show ?case by (simp add: okE_def batch_report_def logged_ids_def)
next
  case (Cons m ms)
  consider (push) "msg_channel m = Push" | (sent) "sendable m" "msg_channel m \<noteq> Push" | (bad) "\<not> sendable m" by blast
  then show ?case
  proof cases
    case push
    then show ?thesis
      using Cons.IH [OF Cons.prems, of "Suc i" "r\<lparr>bs_success_count := Suc (bs_success_count r)\<rparr>"]
      by (simp add: dispatch_push batch_report_Cons logged_ids_Cons sendable_def)
  next
    case sent
    obtain send a w1 where d: "dispatch (sms_adapters mc) m = Some send" "send w = (Inr a, w1)" "logs_up w1"
        "delivery_map w1 = AList.update (msg_id m) a (delivery_map w)"
      using dispatch_sendable [OF sent Cons.prems] by blast
    have "fst ` set (delivery_map w1) = insert (msg_id m) (fst ` set (delivery_map w))"
      using d(4) dom_update [of "msg_id m" a "delivery_map w"] by (simp add: dom_map_of_conv_image_fst)
    then show ?thesis
      using Cons.IH [OF d(3), of "Suc i" "r\<lparr>bs_success_count := Suc (bs_success_count r)\<rparr>"] d(1,2) sent
      by (auto simp: batch_report_Cons logged_ids_Cons bindE_def attemptE_def)
  next
    case bad
    obtain send where d: "dispatch (sms_adapters mc) m = Some send"
        "send w = (Inl (InvalidPhone (msg_recipient m)), w)"
      using dispatch_unroutable [OF bad, of mc] by blast
    show ?thesis
      using Cons.IH [OF Cons.prems, of "Suc i" "r\<lparr>bs_failure_count := Suc (bs_failure_count r),
        bs_errors := bs_errors r @ [(i, InvalidPhone (msg_recipient m))]\<rparr>"] d bad
      by (auto simp: batch_report_Cons logged_ids_Cons bindE_def attemptE_def Let_def okE_def
          batch_report_def [of "Suc i" "[]"] logged_ids_def [of "[]"])
  qed
qed

text \<open>C33: while the log can be written, a batch returns a report over the messages it got to: all of them if it
  is to go on after errors, and otherwise those up to the first failure.  A message fails exactly
  when it is an SMS or WhatsApp message whose number no network serves; the report counts failures
  and successes and lists the failures with their positions, and the log has an entry for exactly the
  successes that are not push messages.\<close>

theorem send_batch_outcome:
  assumes "\<not> has_db w \<or> db_up w"
  shows "\<exists>r w'. send_batch (sms_adapters mc) ms go_on w = (Inr r, w') \<and>
    bs_success_count r = length (filter sendable (processed go_on ms)) \<and>
    bs_failure_count r = length (filter (\<lambda>m. \<not> sendable m) (processed go_on ms)) \<and>
    bs_errors r = map (\<lambda>(j, m). (j, InvalidPhone (msg_recipient m)))
      (filter (\<lambda>(j, m). \<not> sendable m) (enumerate 0 (processed go_on ms))) \<and>
    fst ` set (delivery_map w') = fst ` set (delivery_map w) \<union> logged_ids (processed go_on ms)"
  using send_batch_loop_run [OF assms, of mc go_on 0 ms "\<lparr>bs_success_count = 0, bs_failure_count = 0, bs_errors = []\<rparr>"]
  by (auto simp: send_batch_def batch_report_def)

lemma example_message_simps [simp]:
  "msg_id (example_message i r) = i" "msg_recipient (example_message i r) = r" "msg_channel (example_message i r) = Sms"
  "sendable (example_message i ''+263771'')" "\<not> sendable (example_message i ''999'')"
  by (simp_all add: example_message_def sendable_def route_provider_def starts_with_def Let_def)

theorem send_batch_outcome_witness:
  "\<exists>r w'. send_batch (sms_adapters example_msg_crates)
      [example_message 1 ''+263771'', example_message 2 ''999'', example_message 3 ''26371''] False example_msg_world = (Inr r, w') \<and>
    bs_success_count r = 1 \<and> bs_errors r = [(1, InvalidPhone ''999'')] \<and> fst ` set (delivery_map w') = {1}"
  using send_batch_outcome [of example_msg_world example_msg_crates
      "[example_message 1 ''+263771'', example_message 2 ''999'', example_message 3 ''26371'']" False]
  by (auto simp: logged_ids_Cons logged_ids_def [of "[]"])

theorem delivery_log_invariant_witness:
  "\<exists>w'. (msg_step example_msg_crates)\<^sup>*\<^sup>* example_msg_world w' \<and> delivery_map w' \<noteq> [] \<and> distinct (map fst (delivery_map w'))"
proof -
  obtain r w' where b: "send_batch (sms_adapters example_msg_crates) [example_message 1 ''+263771''] True example_msg_world = (Inr r, w')"
      "fst ` set (delivery_map w') = {1}"
    using send_batch_loop_run [of example_msg_world example_msg_crates True 0 "[example_message 1 ''+263771'']"
        "\<lparr>bs_success_count = 0, bs_failure_count = 0, bs_errors = []\<rparr>"]
    by (auto simp: send_batch_def logged_ids_Cons logged_ids_def [of "[]"] simp del: send_batch_loop.simps)
  then have "(msg_step example_msg_crates)\<^sup>*\<^sup>* example_msg_world w'" using msg_step.batch [OF b(1)] by blast
  with delivery_log_invariant [OF example_msg_world_simps(2) this] b(2) show ?thesis by auto
qed

section \<open>The rate limiter\<close>

text \<open>A sequence of checks for the given tenants, with their answers.\<close>

fun checks :: "int \<Rightarrow> string list \<Rightarrow> 's limiter \<Rightarrow> bool list \<times> 's limiter" where
  "checks limit [] l = ([], l)"
| "checks limit (t # ts) l =
     (case check_and_increment t limit l of (b, l') \<Rightarrow> case checks limit ts l' of (bs, l'') \<Rightarrow> (b # bs, l''))"

lemma checks_fallback:
  assumes "lm_redis l = None" "\<And>t. 0 \<le> cnt t" "\<And>t. cnt t + int (length ts) < 2 ^ 32"
    "\<And>t. unwrap_or (map_of (lm_fallback l) t) 0 = cnt t"
  shows "fst (checks limit ts l) =
    map (\<lambda>n. cnt (ts ! n) + int (count_list (take (Suc n) ts) (ts ! n)) \<le> limit) [0..<length ts]"
  using assms
proof (induction ts arbitrary: l cnt)
  case (Cons t ts)
  let ?l = "l\<lparr>lm_fallback := AList.update t (cnt t + 1) (lm_fallback l)\<rparr>"
  have n: "as_u32 (cnt t + 1) = cnt t + 1" using Cons.prems(2,3) [of t] by (simp add: as_u32_def)
  have c: "check_and_increment t limit l = (cnt t + 1 \<le> limit, ?l)"
    using Cons.prems(1,4) n by (simp add: check_and_increment_def fallback_check_def Let_def)
  have "fst (checks limit ts ?l) =
      map (\<lambda>n. (cnt(t := cnt t + 1)) (ts ! n) + int (count_list (take (Suc n) ts) (ts ! n)) \<le> limit) [0..<length ts]"
  proof (rule Cons.IH)
    show "0 \<le> (cnt(t := cnt t + 1)) u" for u using Cons.prems(2) [of u] by (cases "u = t") auto
    show "(cnt(t := cnt t + 1)) u + int (length ts) < 2 ^ 32" for u using Cons.prems(3) [of u] by (cases "u = t") auto
    show "unwrap_or (map_of (lm_fallback ?l) u) 0 = (cnt(t := cnt t + 1)) u" for u
      using Cons.prems(4) [of u] by (simp add: update_conv')
  qed (use Cons.prems(1) in simp)
  moreover have "[0..<length (t # ts)] = 0 # map Suc [0..<length ts]"
    by (simp add: upt_conv_Cons map_Suc_upt del: upt_Suc)
  ultimately show ?case using c by (auto simp: split_beta)
qed simp

text \<open>Without a Redis connection, the checks for a tenant are accepted up to the limit and rejected from
  then on, for good: the n-th check of a tenant succeeds exactly if n is at most the limit, whatever
  is checked for other tenants in between and however much time passes.\<close>

lemma rate_limiter_fallback:
  assumes "lm_redis l = None" "lm_fallback l = []" "length ts < 2 ^ 32"
  shows "fst (checks limit ts l) =
    map (\<lambda>n. int (count_list (take (Suc n) ts) (ts ! n)) \<le> limit) [0..<length ts]"
  using checks_fallback [of l "\<lambda>_. 0" ts limit] assms by simp

lemma rate_limiter_fallback_example:
  "fst (checks 1 [''a'', ''b'', ''a''] \<lparr>lm_redis = None, lm_server = (), lm_fallback = []\<rparr>) = [True, True, False]"
  using rate_limiter_fallback [of "\<lparr>lm_redis = None, lm_server = (), lm_fallback = []\<rparr>" "[''a'', ''b'', ''a'']" 1]
  by simp

end
