(* ===== verification/Ledger.thy ===== *)
theory Ledger
  imports Wire Decimals
begin

text \<open>
  The ledger query service (ledger-query-service/src): the domain types with their wire numbers, the
  read-model port as a record of operations, the application handler over any read model, and the
  PostgreSQL read model.  An \<open>f64\<close> is the 64 bits of its representation; the service only copies them.
\<close>

type_synonym f64 = "64 word"

section \<open>Enumerations and their numbers on the wire\<close>

datatype account_type =
    AtUnspecified | AtCustomer | AtFloat | AtCommission | AtEscrow | AtSuspense
  | AtMerchant | AtAggregator | AtProvider

fun account_type_as_i32 :: "account_type \<Rightarrow> int" where
  "account_type_as_i32 AtUnspecified = 0"
| "account_type_as_i32 AtCustomer = 1"
| "account_type_as_i32 AtFloat = 2"
| "account_type_as_i32 AtCommission = 3"
| "account_type_as_i32 AtEscrow = 4"
| "account_type_as_i32 AtSuspense = 5"
| "account_type_as_i32 AtMerchant = 6"
| "account_type_as_i32 AtAggregator = 7"
| "account_type_as_i32 AtProvider = 8"

definition account_type_from_i32 :: "int \<Rightarrow> account_type option" where
  "account_type_from_i32 v =
     (if v = 0 then Some AtUnspecified
      else if v = 1 then Some AtCustomer
      else if v = 2 then Some AtFloat
      else if v = 3 then Some AtCommission
      else if v = 4 then Some AtEscrow
      else if v = 5 then Some AtSuspense
      else if v = 6 then Some AtMerchant
      else if v = 7 then Some AtAggregator
      else if v = 8 then Some AtProvider
      else None)"

datatype transaction_type =
    TtUnspecified | TtCredit | TtDebit | TtHold | TtRelease | TtAdjustment | TtReversal
  | TtFee | TtSettlement | TtInterest

fun transaction_type_as_i32 :: "transaction_type \<Rightarrow> int" where
  "transaction_type_as_i32 TtUnspecified = 0"
| "transaction_type_as_i32 TtCredit = 1"
| "transaction_type_as_i32 TtDebit = 2"
| "transaction_type_as_i32 TtHold = 3"
| "transaction_type_as_i32 TtRelease = 4"
| "transaction_type_as_i32 TtAdjustment = 5"
| "transaction_type_as_i32 TtReversal = 6"
| "transaction_type_as_i32 TtFee = 7"
| "transaction_type_as_i32 TtSettlement = 8"
| "transaction_type_as_i32 TtInterest = 9"

definition transaction_type_from_i32 :: "int \<Rightarrow> transaction_type option" where
  "transaction_type_from_i32 v =
     (if v = 0 then Some TtUnspecified
      else if v = 1 then Some TtCredit
      else if v = 2 then Some TtDebit
      else if v = 3 then Some TtHold
      else if v = 4 then Some TtRelease
      else if v = 5 then Some TtAdjustment
      else if v = 6 then Some TtReversal
      else if v = 7 then Some TtFee
      else if v = 8 then Some TtSettlement
      else if v = 9 then Some TtInterest
      else None)"

datatype virtual_account_type =
    VtUnspecified | VtBudget | VtSavingsGoal | VtEscrow | VtReserve | VtTemporaryHold
  | VtEcocashWallet | VtTelecashWallet | VtOnemoneyWallet | VtMerchantSettlement

fun virtual_account_type_as_i32 :: "virtual_account_type \<Rightarrow> int" where
  "virtual_account_type_as_i32 VtUnspecified = 0"
| "virtual_account_type_as_i32 VtBudget = 1"
| "virtual_account_type_as_i32 VtSavingsGoal = 2"
| "virtual_account_type_as_i32 VtEscrow = 3"
| "virtual_account_type_as_i32 VtReserve = 4"
| "virtual_account_type_as_i32 VtTemporaryHold = 5"
| "virtual_account_type_as_i32 VtEcocashWallet = 6"
| "virtual_account_type_as_i32 VtTelecashWallet = 7"
| "virtual_account_type_as_i32 VtOnemoneyWallet = 8"
| "virtual_account_type_as_i32 VtMerchantSettlement = 9"

definition virtual_account_type_from_i32 :: "int \<Rightarrow> virtual_account_type option" where
  "virtual_account_type_from_i32 v =
     (if v = 0 then Some VtUnspecified
      else if v = 1 then Some VtBudget
      else if v = 2 then Some VtSavingsGoal
      else if v = 3 then Some VtEscrow
      else if v = 4 then Some VtReserve
      else if v = 5 then Some VtTemporaryHold
      else if v = 6 then Some VtEcocashWallet
      else if v = 7 then Some VtTelecashWallet
      else if v = 8 then Some VtOnemoneyWallet
      else if v = 9 then Some VtMerchantSettlement
      else None)"

datatype virtual_account_status =
    VsUnspecified | VsActive | VsFrozen | VsClosed | VsMatured

fun virtual_account_status_as_i32 :: "virtual_account_status \<Rightarrow> int" where
  "virtual_account_status_as_i32 VsUnspecified = 0"
| "virtual_account_status_as_i32 VsActive = 1"
| "virtual_account_status_as_i32 VsFrozen = 2"
| "virtual_account_status_as_i32 VsClosed = 3"
| "virtual_account_status_as_i32 VsMatured = 4"

definition virtual_account_status_from_i32 :: "int \<Rightarrow> virtual_account_status option" where
  "virtual_account_status_from_i32 v =
     (if v = 0 then Some VsUnspecified
      else if v = 1 then Some VsActive
      else if v = 2 then Some VsFrozen
      else if v = 3 then Some VsClosed
      else if v = 4 then Some VsMatured
      else None)"

datatype liquidity_position_type =
    LtUnspecified | LtHeld | LtReserved | LtCollateral | LtFloat | LtPledged

fun liquidity_position_type_as_i32 :: "liquidity_position_type \<Rightarrow> int" where
  "liquidity_position_type_as_i32 LtUnspecified = 0"
| "liquidity_position_type_as_i32 LtHeld = 1"
| "liquidity_position_type_as_i32 LtReserved = 2"
| "liquidity_position_type_as_i32 LtCollateral = 3"
| "liquidity_position_type_as_i32 LtFloat = 4"
| "liquidity_position_type_as_i32 LtPledged = 5"

definition liquidity_position_type_from_i32 :: "int \<Rightarrow> liquidity_position_type option" where
  "liquidity_position_type_from_i32 v =
     (if v = 0 then Some LtUnspecified
      else if v = 1 then Some LtHeld
      else if v = 2 then Some LtReserved
      else if v = 3 then Some LtCollateral
      else if v = 4 then Some LtFloat
      else if v = 5 then Some LtPledged
      else None)"

datatype liquidity_position_status =
    LsUnspecified | LsActive | LsReleased | LsExpired | LsConfiscated | LsPending

fun liquidity_position_status_as_i32 :: "liquidity_position_status \<Rightarrow> int" where
  "liquidity_position_status_as_i32 LsUnspecified = 0"
| "liquidity_position_status_as_i32 LsActive = 1"
| "liquidity_position_status_as_i32 LsReleased = 2"
| "liquidity_position_status_as_i32 LsExpired = 3"
| "liquidity_position_status_as_i32 LsConfiscated = 4"
| "liquidity_position_status_as_i32 LsPending = 5"

definition liquidity_position_status_from_i32 :: "int \<Rightarrow> liquidity_position_status option" where
  "liquidity_position_status_from_i32 v =
     (if v = 0 then Some LsUnspecified
      else if v = 1 then Some LsActive
      else if v = 2 then Some LsReleased
      else if v = 3 then Some LsExpired
      else if v = 4 then Some LsConfiscated
      else if v = 5 then Some LsPending
      else None)"

datatype settlement_type =
    StUnspecified | StRtgs | StNet | StBatch | StImmediate | StMobileMoney

fun settlement_type_as_i32 :: "settlement_type \<Rightarrow> int" where
  "settlement_type_as_i32 StUnspecified = 0"
| "settlement_type_as_i32 StRtgs = 1"
| "settlement_type_as_i32 StNet = 2"
| "settlement_type_as_i32 StBatch = 3"
| "settlement_type_as_i32 StImmediate = 4"
| "settlement_type_as_i32 StMobileMoney = 5"

definition settlement_type_from_i32 :: "int \<Rightarrow> settlement_type option" where
  "settlement_type_from_i32 v =
     (if v = 0 then Some StUnspecified
      else if v = 1 then Some StRtgs
      else if v = 2 then Some StNet
      else if v = 3 then Some StBatch
      else if v = 4 then Some StImmediate
      else if v = 5 then Some StMobileMoney
      else None)"

datatype settlement_status =
    SsUnspecified | SsPending | SsReady | SsExecuting | SsCompleted | SsFailed
  | SsCancelled

fun settlement_status_as_i32 :: "settlement_status \<Rightarrow> int" where
  "settlement_status_as_i32 SsUnspecified = 0"
| "settlement_status_as_i32 SsPending = 1"
| "settlement_status_as_i32 SsReady = 2"
| "settlement_status_as_i32 SsExecuting = 3"
| "settlement_status_as_i32 SsCompleted = 4"
| "settlement_status_as_i32 SsFailed = 5"
| "settlement_status_as_i32 SsCancelled = 6"

definition settlement_status_from_i32 :: "int \<Rightarrow> settlement_status option" where
  "settlement_status_from_i32 v =
     (if v = 0 then Some SsUnspecified
      else if v = 1 then Some SsPending
      else if v = 2 then Some SsReady
      else if v = 3 then Some SsExecuting
      else if v = 4 then Some SsCompleted
      else if v = 5 then Some SsFailed
      else if v = 6 then Some SsCancelled
      else None)"

datatype suspense_category =
    ScUnspecified | ScUnidentified | ScPendingDocs | ScDisputed | ScInvestigation
  | ScAwaitingApproval

fun suspense_category_as_i32 :: "suspense_category \<Rightarrow> int" where
  "suspense_category_as_i32 ScUnspecified = 0"
| "suspense_category_as_i32 ScUnidentified = 1"
| "suspense_category_as_i32 ScPendingDocs = 2"
| "suspense_category_as_i32 ScDisputed = 3"
| "suspense_category_as_i32 ScInvestigation = 4"
| "suspense_category_as_i32 ScAwaitingApproval = 5"

definition suspense_category_from_i32 :: "int \<Rightarrow> suspense_category option" where
  "suspense_category_from_i32 v =
     (if v = 0 then Some ScUnspecified
      else if v = 1 then Some ScUnidentified
      else if v = 2 then Some ScPendingDocs
      else if v = 3 then Some ScDisputed
      else if v = 4 then Some ScInvestigation
      else if v = 5 then Some ScAwaitingApproval
      else None)"

datatype suspense_status =
    SuUnspecified | SuOpen | SuUnderReview | SuPendingApproval | SuResolved
  | SuWrittenOff

fun suspense_status_as_i32 :: "suspense_status \<Rightarrow> int" where
  "suspense_status_as_i32 SuUnspecified = 0"
| "suspense_status_as_i32 SuOpen = 1"
| "suspense_status_as_i32 SuUnderReview = 2"
| "suspense_status_as_i32 SuPendingApproval = 3"
| "suspense_status_as_i32 SuResolved = 4"
| "suspense_status_as_i32 SuWrittenOff = 5"

definition suspense_status_from_i32 :: "int \<Rightarrow> suspense_status option" where
  "suspense_status_from_i32 v =
     (if v = 0 then Some SuUnspecified
      else if v = 1 then Some SuOpen
      else if v = 2 then Some SuUnderReview
      else if v = 3 then Some SuPendingApproval
      else if v = 4 then Some SuResolved
      else if v = 5 then Some SuWrittenOff
      else None)"

datatype suspense_resolution_type =
    SrUnspecified | SrTransfer | SrReturn | SrWriteOff | SrReclassify | SrAdjust

fun suspense_resolution_type_as_i32 :: "suspense_resolution_type \<Rightarrow> int" where
  "suspense_resolution_type_as_i32 SrUnspecified = 0"
| "suspense_resolution_type_as_i32 SrTransfer = 1"
| "suspense_resolution_type_as_i32 SrReturn = 2"
| "suspense_resolution_type_as_i32 SrWriteOff = 3"
| "suspense_resolution_type_as_i32 SrReclassify = 4"
| "suspense_resolution_type_as_i32 SrAdjust = 5"

definition suspense_resolution_type_from_i32 :: "int \<Rightarrow> suspense_resolution_type option" where
  "suspense_resolution_type_from_i32 v =
     (if v = 0 then Some SrUnspecified
      else if v = 1 then Some SrTransfer
      else if v = 2 then Some SrReturn
      else if v = 3 then Some SrWriteOff
      else if v = 4 then Some SrReclassify
      else if v = 5 then Some SrAdjust
      else None)"

section \<open>Errors\<close>

datatype ledger_error =
    AccountNotFound string
  | TransactionNotFound string
  | VirtualAccountNotFound string
  | LiquidityPositionNotFound string
  | SettlementNotFound string
  | SuspenseItemNotFound string
  | CoaEntryNotFound string
  | PeriodEndBalanceNotFound string
  | LqInvalidDateRange string
  | LqInvalidArgument string
  | LqDatabaseError string
  | LqInternal string

fun ledger_error_to_string :: "ledger_error \<Rightarrow> string" where
  "ledger_error_to_string (AccountNotFound s) = ''Account not found: '' @ s"
| "ledger_error_to_string (TransactionNotFound s) = ''Transaction not found: '' @ s"
| "ledger_error_to_string (VirtualAccountNotFound s) = ''Virtual account not found: '' @ s"
| "ledger_error_to_string (LiquidityPositionNotFound s) = ''Liquidity position not found: '' @ s"
| "ledger_error_to_string (SettlementNotFound s) = ''Settlement instruction not found: '' @ s"
| "ledger_error_to_string (SuspenseItemNotFound s) = ''Suspense item not found: '' @ s"
| "ledger_error_to_string (CoaEntryNotFound s) = ''COA entry not found: '' @ s"
| "ledger_error_to_string (PeriodEndBalanceNotFound s) = ''Period end balance not found: '' @ s"
| "ledger_error_to_string (LqInvalidDateRange s) = ''Invalid date range: '' @ s"
| "ledger_error_to_string (LqInvalidArgument s) = ''Invalid argument: '' @ s"
| "ledger_error_to_string (LqDatabaseError s) = ''Database error: '' @ s"
| "ledger_error_to_string (LqInternal s) = ''Internal error: '' @ s"

section \<open>Domain records\<close>

record account_balance =
  ab_account_id :: uuid
  ab_tenant_id :: uuid
  ab_account_type :: account_type
  ab_current_balance :: decimal
  ab_available_balance :: decimal
  ab_hold_balance :: decimal
  ab_currency_code :: string
  ab_as_of :: datetime
  ab_version :: int

record balance_by_type =
  bt_account_type :: account_type
  bt_balance :: decimal
  bt_account_count :: int

record account_summary =
  lq_as_tenant_id :: uuid
  lq_as_total_accounts :: int
  lq_as_balances :: "balance_by_type list"
  lq_as_total_liabilities :: decimal
  lq_as_total_assets :: decimal
  lq_as_as_of :: datetime

record transaction =
  tx_transaction_id :: uuid
  tx_transaction_uuid :: string
  tx_tenant_id :: uuid
  tx_account_id :: uuid
  tx_transaction_type :: transaction_type
  tx_amount :: decimal
  tx_balance_after :: decimal
  tx_description :: string
  tx_reference :: string
  tx_posted_at :: datetime
  tx_effective_at :: datetime
  tx_session_id :: string
  tx_payment_id :: string
  tx_metadata :: "string \<rightharpoonup> string"
  tx_version :: int
  tx_correlation_id :: string
  tx_idempotency_key :: string
  tx_status :: string
  tx_record_hash :: string
  tx_previous_hash :: string

record movement_leg =
  ml_leg_id :: string
  ml_leg_sequence :: int
  ml_account_id :: string
  ml_direction :: string
  ml_amount :: decimal
  ml_currency :: string
  ml_coa_code :: string
  ml_description :: string
  ml_posted_at :: datetime

record virtual_account =
  va_virtual_account_id :: uuid
  va_parent_account_id :: uuid
  va_virtual_account_name :: string
  va_virtual_account_number :: string
  va_virtual_account_type :: virtual_account_type
  va_status :: virtual_account_status
  va_current_balance :: decimal
  va_available_balance :: decimal
  va_held_amount :: decimal
  va_currency :: string
  va_target_amount :: decimal
  va_target_date :: "datetime option"
  va_progress_percentage :: f64
  va_auto_sweep_enabled :: bool
  va_opened_at :: datetime
  va_closed_at :: "datetime option"
  va_matured_at :: "datetime option"

record virtual_account_currency_summary =
  vc_currency :: string
  vc_total_balance :: decimal
  vc_total_available :: decimal
  vc_total_held :: decimal
  vc_account_count :: int

record liquidity_position =
  lp_position_id :: uuid
  lp_position_reference :: string
  lp_account_id :: uuid
  lp_tenant_id :: uuid
  lp_position_type :: liquidity_position_type
  lp_amount :: decimal
  lp_currency :: string
  lp_status :: liquidity_position_status
  lp_purpose_code :: string
  lp_description :: string
  lp_created_at :: datetime
  lp_effective_date :: datetime
  lp_expires_at :: "datetime option"
  lp_released_at :: "datetime option"
  lp_auto_release :: bool
  lp_release_reason :: string

record liquidity_summary_item =
  li_position_type :: liquidity_position_type
  li_currency :: string
  li_total_amount :: decimal
  li_position_count :: int

record expiring_position =
  ep_position_id :: uuid
  ep_account_id :: uuid
  ep_position_type :: liquidity_position_type
  ep_amount :: decimal
  ep_currency :: string
  ep_expires_at :: datetime
  ep_minutes_until_expiry :: f64

record settlement_instruction =
  si_settlement_id :: uuid
  si_settlement_reference :: string
  si_tenant_id :: uuid
  si_counterparty_id :: string
  si_counterparty_name :: string
  si_settlement_type :: settlement_type
  si_direction :: string
  si_amount :: decimal
  si_currency :: string
  si_status :: settlement_status
  si_scheduled_at :: "datetime option"
  si_settlement_date :: "datetime option"
  si_executed_at :: "datetime option"
  si_completed_at :: "datetime option"
  si_settlement_account :: string
  si_counterparty_account :: string
  si_transaction_count :: int
  si_gross_amount :: decimal
  si_net_amount :: decimal
  si_fees_amount :: decimal
  si_confirmation_reference :: string
  si_failure_reason :: string
  si_retry_count :: int

record settlement_summary_item =
  sm_settlement_type :: settlement_type
  sm_direction :: string
  sm_currency :: string
  sm_total_amount :: decimal
  sm_count :: int
  sm_completed_count :: int
  sm_failed_count :: int

record suspense_item =
  su_suspense_id :: uuid
  su_suspense_reference :: string
  su_source_transaction_id :: string
  su_amount :: decimal
  su_currency :: string
  su_category :: suspense_category
  su_priority :: string
  su_status :: suspense_status
  su_description :: string
  su_days_in_suspense :: int
  su_escalation_level :: int
  su_resolution_type :: "suspense_resolution_type option"
  su_resolution_date :: "datetime option"
  su_resolution_notes :: string
  su_created_at :: datetime

record suspense_aging_bucket =
  sb_category :: string
  sb_days_range_start :: int
  sb_days_range_end :: int
  sb_count :: int
  sb_total_amount :: decimal

record suspense_activity_entry =
  sa_activity_id :: string
  sa_suspense_id :: string
  sa_activity_type :: string
  sa_from_status :: string
  sa_to_status :: string
  sa_performed_by :: string
  sa_notes :: string
  sa_created_at :: datetime

record coa_entry =
  ce_coa_code :: string
  ce_tenant_id :: uuid
  ce_account_name :: string
  ce_account_category :: string
  ce_parent_code :: string
  ce_level :: int
  ce_is_leaf :: bool
  ce_normal_balance :: string
  ce_is_active :: bool

record period_end_balance =
  pb_balance_id :: string
  pb_account_id :: uuid
  pb_tenant_id :: uuid
  pb_fiscal_period_id :: string
  pb_opening_balance :: decimal
  pb_closing_balance :: decimal
  pb_total_debits :: decimal
  pb_total_credits :: decimal
  pb_currency :: string
  pb_is_adjusted :: bool
  pb_created_at :: datetime

record pagination =
  pg_page_size :: int
  pg_page_token :: string

record pagination_metadata =
  lq_pm_total_count :: int
  lq_pm_next_page_token :: string
  lq_pm_previous_page_token :: string
  lq_pm_has_more :: bool

section \<open>The read-model port and the handler\<close>

type_synonym transaction_page =
  "transaction list \<times> pagination_metadata \<times> int \<times> decimal \<times> decimal \<times> decimal"

text \<open>The trait \<open>ReadModelPort\<close>: one operation per query.\<close>

record read_model =
  rm_get_account_balance ::
    "uuid \<Rightarrow> uuid \<Rightarrow> datetime option \<Rightarrow> (db_world, ledger_error,
      account_balance) eff"
  rm_get_account_statement ::
    "uuid \<Rightarrow> uuid \<Rightarrow> datetime \<Rightarrow> datetime \<Rightarrow> pagination \<Rightarrow>
      (db_world, ledger_error,
      transaction list \<times> pagination_metadata \<times> decimal \<times> decimal \<times> decimal \<times> decimal \<times> decimal) eff"
  rm_get_transaction_by_id ::
    "uuid \<Rightarrow> uuid \<Rightarrow> (db_world, ledger_error, transaction) eff"
  rm_list_transactions ::
    "uuid \<Rightarrow> uuid list \<Rightarrow> transaction_type list \<Rightarrow> datetime \<Rightarrow>
      datetime \<Rightarrow> pagination \<Rightarrow> (db_world, ledger_error, transaction_page) eff"
  rm_search_transactions ::
    "uuid \<Rightarrow> string \<Rightarrow> json option \<Rightarrow> pagination \<Rightarrow> (db_world,
      ledger_error, transaction_page) eff"
  rm_get_account_summary ::
    "uuid \<Rightarrow> datetime option \<Rightarrow> (db_world, ledger_error, account_summary) eff"
  rm_get_movement_legs ::
    "uuid \<Rightarrow> uuid \<Rightarrow> (db_world, ledger_error, movement_leg list) eff"
  rm_verify_double_entry ::
    "uuid \<Rightarrow> uuid \<Rightarrow> (db_world, ledger_error,
      bool \<times> decimal \<times> decimal \<times> decimal) eff"
  rm_get_virtual_account ::
    "uuid \<Rightarrow> uuid \<Rightarrow> (db_world, ledger_error, virtual_account) eff"
  rm_list_virtual_accounts ::
    "uuid \<Rightarrow> uuid option \<Rightarrow> virtual_account_type list \<Rightarrow>
      virtual_account_status list \<Rightarrow> pagination \<Rightarrow> (db_world, ledger_error,
      virtual_account list \<times> pagination_metadata) eff"
  rm_get_virtual_account_summary ::
    "uuid \<Rightarrow> uuid \<Rightarrow> (db_world, ledger_error, virtual_account_currency_summary list) eff"
  rm_get_liquidity_position ::
    "uuid \<Rightarrow> uuid \<Rightarrow> (db_world, ledger_error, liquidity_position) eff"
  rm_list_liquidity_positions ::
    "uuid \<Rightarrow> uuid option \<Rightarrow> liquidity_position_type list \<Rightarrow>
      liquidity_position_status list \<Rightarrow> pagination \<Rightarrow> (db_world, ledger_error,
      liquidity_position list \<times> pagination_metadata) eff"
  rm_get_liquidity_summary ::
    "uuid \<Rightarrow> uuid \<Rightarrow> (db_world, ledger_error, liquidity_summary_item list) eff"
  rm_get_expiring_positions ::
    "uuid \<Rightarrow> int \<Rightarrow> (db_world, ledger_error, expiring_position list) eff"
  rm_get_settlement_instruction ::
    "uuid \<Rightarrow> uuid \<Rightarrow> (db_world, ledger_error, settlement_instruction) eff"
  rm_list_settlement_instructions ::
    "uuid \<Rightarrow> settlement_type option \<Rightarrow> settlement_status list \<Rightarrow>
      datetime \<Rightarrow> datetime \<Rightarrow> pagination \<Rightarrow> (db_world, ledger_error,
      settlement_instruction list \<times> pagination_metadata) eff"
  rm_get_pending_settlements ::
    "uuid \<Rightarrow> (db_world, ledger_error, settlement_instruction list) eff"
  rm_get_settlement_summary ::
    "uuid \<Rightarrow> datetime \<Rightarrow> datetime \<Rightarrow> (db_world, ledger_error,
      settlement_summary_item list) eff"
  rm_get_suspense_item ::
    "uuid \<Rightarrow> uuid \<Rightarrow> (db_world, ledger_error, suspense_item) eff"
  rm_list_suspense_items ::
    "uuid \<Rightarrow> suspense_status list \<Rightarrow> suspense_category list \<Rightarrow>
      string option \<Rightarrow> pagination \<Rightarrow> (db_world, ledger_error,
      suspense_item list \<times> pagination_metadata) eff"
  rm_get_suspense_aging_report ::
    "uuid \<Rightarrow> (db_world, ledger_error, suspense_aging_bucket list) eff"
  rm_get_suspense_activity_log ::
    "uuid \<Rightarrow> uuid \<Rightarrow> pagination \<Rightarrow> (db_world, ledger_error,
      suspense_activity_entry list \<times> pagination_metadata) eff"
  rm_get_coa_entry ::
    "string \<Rightarrow> uuid \<Rightarrow> (db_world, ledger_error, coa_entry) eff"
  rm_list_coa_entries ::
    "uuid \<Rightarrow> string option \<Rightarrow> string option \<Rightarrow> pagination \<Rightarrow>
      (db_world, ledger_error, coa_entry list \<times> pagination_metadata) eff"
  rm_get_period_end_balance ::
    "uuid \<Rightarrow> uuid \<Rightarrow> string \<Rightarrow> (db_world, ledger_error, period_end_balance) eff"
  rm_list_period_end_balances ::
    "uuid \<Rightarrow> string \<Rightarrow> pagination \<Rightarrow> (db_world, ledger_error,
      period_end_balance list \<times> pagination_metadata) eff"

text \<open>The handler forwards to the read model it was given.\<close>

definition handler_get_account_balance ::
  "read_model \<Rightarrow> uuid \<Rightarrow> uuid \<Rightarrow> datetime option \<Rightarrow> (db_world,
      ledger_error, account_balance) eff" where
  "handler_get_account_balance rm = rm_get_account_balance rm"

definition handler_get_account_statement ::
  "read_model \<Rightarrow> uuid \<Rightarrow> uuid \<Rightarrow> datetime \<Rightarrow> datetime \<Rightarrow>
      pagination \<Rightarrow> (db_world, ledger_error,
      transaction list \<times> pagination_metadata \<times> decimal \<times> decimal \<times> decimal \<times> decimal \<times> decimal) eff" where
  "handler_get_account_statement rm = rm_get_account_statement rm"

definition handler_get_transaction_by_id ::
  "read_model \<Rightarrow> uuid \<Rightarrow> uuid \<Rightarrow> (db_world, ledger_error, transaction) eff" where
  "handler_get_transaction_by_id rm = rm_get_transaction_by_id rm"

definition handler_list_transactions ::
  "read_model \<Rightarrow> uuid \<Rightarrow> uuid list \<Rightarrow> transaction_type list \<Rightarrow>
      datetime \<Rightarrow> datetime \<Rightarrow> pagination \<Rightarrow> (db_world, ledger_error,
      transaction_page) eff" where
  "handler_list_transactions rm = rm_list_transactions rm"

definition handler_search_transactions ::
  "read_model \<Rightarrow> uuid \<Rightarrow> string \<Rightarrow> json option \<Rightarrow>
      pagination \<Rightarrow> (db_world, ledger_error, transaction_page) eff" where
  "handler_search_transactions rm = rm_search_transactions rm"

definition handler_get_account_summary ::
  "read_model \<Rightarrow> uuid \<Rightarrow> datetime option \<Rightarrow> (db_world, ledger_error,
      account_summary) eff" where
  "handler_get_account_summary rm = rm_get_account_summary rm"

definition handler_get_movement_legs ::
  "read_model \<Rightarrow> uuid \<Rightarrow> uuid \<Rightarrow> (db_world, ledger_error,
      movement_leg list) eff" where
  "handler_get_movement_legs rm = rm_get_movement_legs rm"

definition handler_verify_double_entry ::
  "read_model \<Rightarrow> uuid \<Rightarrow> uuid \<Rightarrow> (db_world, ledger_error,
      bool \<times> decimal \<times> decimal \<times> decimal) eff" where
  "handler_verify_double_entry rm = rm_verify_double_entry rm"

definition handler_get_virtual_account ::
  "read_model \<Rightarrow> uuid \<Rightarrow> uuid \<Rightarrow> (db_world, ledger_error, virtual_account) eff" where
  "handler_get_virtual_account rm = rm_get_virtual_account rm"

definition handler_list_virtual_accounts ::
  "read_model \<Rightarrow> uuid \<Rightarrow> uuid option \<Rightarrow> virtual_account_type list \<Rightarrow>
      virtual_account_status list \<Rightarrow> pagination \<Rightarrow> (db_world, ledger_error,
      virtual_account list \<times> pagination_metadata) eff" where
  "handler_list_virtual_accounts rm = rm_list_virtual_accounts rm"

definition handler_get_virtual_account_summary ::
  "read_model \<Rightarrow> uuid \<Rightarrow> uuid \<Rightarrow> (db_world, ledger_error,
      virtual_account_currency_summary list) eff" where
  "handler_get_virtual_account_summary rm = rm_get_virtual_account_summary rm"

definition handler_get_liquidity_position ::
  "read_model \<Rightarrow> uuid \<Rightarrow> uuid \<Rightarrow> (db_world, ledger_error,
      liquidity_position) eff" where
  "handler_get_liquidity_position rm = rm_get_liquidity_position rm"

definition handler_list_liquidity_positions ::
  "read_model \<Rightarrow> uuid \<Rightarrow> uuid option \<Rightarrow>
      liquidity_position_type list \<Rightarrow> liquidity_position_status list \<Rightarrow>
      pagination \<Rightarrow> (db_world, ledger_error,
      liquidity_position list \<times> pagination_metadata) eff" where
  "handler_list_liquidity_positions rm = rm_list_liquidity_positions rm"

definition handler_get_liquidity_summary ::
  "read_model \<Rightarrow> uuid \<Rightarrow> uuid \<Rightarrow> (db_world, ledger_error,
      liquidity_summary_item list) eff" where
  "handler_get_liquidity_summary rm = rm_get_liquidity_summary rm"

definition handler_get_expiring_positions ::
  "read_model \<Rightarrow> uuid \<Rightarrow> int \<Rightarrow> (db_world, ledger_error,
      expiring_position list) eff" where
  "handler_get_expiring_positions rm = rm_get_expiring_positions rm"

definition handler_get_settlement_instruction ::
  "read_model \<Rightarrow> uuid \<Rightarrow> uuid \<Rightarrow> (db_world, ledger_error,
      settlement_instruction) eff" where
  "handler_get_settlement_instruction rm = rm_get_settlement_instruction rm"

definition handler_list_settlement_instructions ::
  "read_model \<Rightarrow> uuid \<Rightarrow> settlement_type option \<Rightarrow>
      settlement_status list \<Rightarrow> datetime \<Rightarrow> datetime \<Rightarrow> pagination \<Rightarrow>
      (db_world, ledger_error, settlement_instruction list \<times> pagination_metadata) eff" where
  "handler_list_settlement_instructions rm = rm_list_settlement_instructions rm"

definition handler_get_pending_settlements ::
  "read_model \<Rightarrow> uuid \<Rightarrow> (db_world, ledger_error, settlement_instruction list) eff" where
  "handler_get_pending_settlements rm = rm_get_pending_settlements rm"

definition handler_get_settlement_summary ::
  "read_model \<Rightarrow> uuid \<Rightarrow> datetime \<Rightarrow> datetime \<Rightarrow> (db_world,
      ledger_error, settlement_summary_item list) eff" where
  "handler_get_settlement_summary rm = rm_get_settlement_summary rm"

definition handler_get_suspense_item ::
  "read_model \<Rightarrow> uuid \<Rightarrow> uuid \<Rightarrow> (db_world, ledger_error, suspense_item) eff" where
  "handler_get_suspense_item rm = rm_get_suspense_item rm"

definition handler_list_suspense_items ::
  "read_model \<Rightarrow> uuid \<Rightarrow> suspense_status list \<Rightarrow>
      suspense_category list \<Rightarrow> string option \<Rightarrow> pagination \<Rightarrow> (db_world,
      ledger_error, suspense_item list \<times> pagination_metadata) eff" where
  "handler_list_suspense_items rm = rm_list_suspense_items rm"

definition handler_get_suspense_aging_report ::
  "read_model \<Rightarrow> uuid \<Rightarrow> (db_world, ledger_error, suspense_aging_bucket list) eff" where
  "handler_get_suspense_aging_report rm = rm_get_suspense_aging_report rm"

definition handler_get_suspense_activity_log ::
  "read_model \<Rightarrow> uuid \<Rightarrow> uuid \<Rightarrow> pagination \<Rightarrow> (db_world,
      ledger_error, suspense_activity_entry list \<times> pagination_metadata) eff" where
  "handler_get_suspense_activity_log rm = rm_get_suspense_activity_log rm"

definition handler_get_coa_entry ::
  "read_model \<Rightarrow> string \<Rightarrow> uuid \<Rightarrow> (db_world, ledger_error, coa_entry) eff" where
  "handler_get_coa_entry rm = rm_get_coa_entry rm"

definition handler_list_coa_entries ::
  "read_model \<Rightarrow> uuid \<Rightarrow> string option \<Rightarrow> string option \<Rightarrow>
      pagination \<Rightarrow> (db_world, ledger_error, coa_entry list \<times> pagination_metadata) eff" where
  "handler_list_coa_entries rm = rm_list_coa_entries rm"

definition handler_get_period_end_balance ::
  "read_model \<Rightarrow> uuid \<Rightarrow> uuid \<Rightarrow> string \<Rightarrow> (db_world, ledger_error,
      period_end_balance) eff" where
  "handler_get_period_end_balance rm = rm_get_period_end_balance rm"

definition handler_list_period_end_balances ::
  "read_model \<Rightarrow> uuid \<Rightarrow> string \<Rightarrow> pagination \<Rightarrow> (db_world,
      ledger_error, period_end_balance list \<times> pagination_metadata) eff" where
  "handler_list_period_end_balances rm = rm_list_period_end_balances rm"

definition handler_rebuild_account_view ::
  "read_model \<Rightarrow> uuid \<Rightarrow> uuid \<Rightarrow> bool \<Rightarrow> (db_world, ledger_error,
      bool \<times> int \<times> decimal) eff" where
  "handler_rebuild_account_view rm account_id tenant_id dry_run =
     bindE (rm_get_account_balance rm account_id tenant_id None) (\<lambda>balance.
     okE (True, 0, ab_current_balance balance))"

definition handler_get_virtual_account_transactions ::
  "read_model \<Rightarrow> uuid \<Rightarrow> uuid \<Rightarrow> datetime \<Rightarrow> datetime \<Rightarrow>
      pagination \<Rightarrow> (db_world, ledger_error, transaction_page) eff" where
  "handler_get_virtual_account_transactions rm virtual_account_id tenant_id from_date to_date pagination =
     rm_list_transactions rm tenant_id [virtual_account_id] [] from_date to_date pagination"

section \<open>The PostgreSQL read model\<close>

text \<open>
  Every operation sets the tenant of the connection.  The query texts in the source are never sent:
  a lookup reports that nothing was found and a listing is empty.
\<close>

definition lq_set_tenant :: "uuid \<Rightarrow> (db_world, ledger_error, unit) eff" where
  "lq_set_tenant tenant_id = map_errE LqDatabaseError (db_exec id)"

definition no_pages :: pagination_metadata where
  "no_pages = \<lparr>lq_pm_total_count = 0, lq_pm_next_page_token = [], lq_pm_previous_page_token = [],
      lq_pm_has_more = False\<rparr>"

definition bad_date_range :: ledger_error where
  "bad_date_range = LqInvalidDateRange ''from_date must be before to_date''"

definition pg_get_account_balance ::
  "'x crates_scheme \<Rightarrow> uuid \<Rightarrow> uuid \<Rightarrow> datetime option \<Rightarrow> (db_world,
      ledger_error, account_balance) eff" where
  "pg_get_account_balance cr account_id tenant_id as_of =
     bindE (lq_set_tenant tenant_id) (\<lambda>_.
     failE (AccountNotFound (uuid_to_string cr account_id)))"

definition pg_get_account_statement ::
  "'x crates_scheme \<Rightarrow> uuid \<Rightarrow> uuid \<Rightarrow> datetime \<Rightarrow>
      datetime \<Rightarrow> pagination \<Rightarrow> (db_world, ledger_error,
      transaction list \<times> pagination_metadata \<times> decimal \<times> decimal \<times> decimal \<times> decimal \<times> decimal) eff" where
  "pg_get_account_statement cr account_id tenant_id from_date to_date pagination =
     bindE (lq_set_tenant tenant_id) (\<lambda>_.
     if from_date > to_date then failE bad_date_range
     else okE ([], no_pages, dec_zero, dec_zero, dec_zero, dec_zero, dec_zero))"

definition pg_get_transaction_by_id ::
  "'x crates_scheme \<Rightarrow> uuid \<Rightarrow> uuid \<Rightarrow> (db_world, ledger_error,
      transaction) eff" where
  "pg_get_transaction_by_id cr transaction_id tenant_id =
     bindE (lq_set_tenant tenant_id) (\<lambda>_.
     failE (TransactionNotFound (uuid_to_string cr transaction_id)))"

definition pg_list_transactions ::
  "'x crates_scheme \<Rightarrow> uuid \<Rightarrow> uuid list \<Rightarrow> transaction_type list \<Rightarrow>
      datetime \<Rightarrow> datetime \<Rightarrow> pagination \<Rightarrow> (db_world, ledger_error,
      transaction_page) eff" where
  "pg_list_transactions cr tenant_id account_ids types from_date to_date pagination =
     bindE (lq_set_tenant tenant_id) (\<lambda>_.
     if from_date > to_date then failE bad_date_range
     else okE ([], no_pages, 0, dec_zero, dec_zero, dec_zero))"

definition pg_search_transactions ::
  "'x crates_scheme \<Rightarrow> uuid \<Rightarrow> string \<Rightarrow> json option \<Rightarrow>
      pagination \<Rightarrow> (db_world, ledger_error, transaction_page) eff" where
  "pg_search_transactions cr tenant_id query filters pagination =
     bindE (lq_set_tenant tenant_id) (\<lambda>_.
     okE ([], no_pages, 0, dec_zero, dec_zero, dec_zero))"

definition pg_get_account_summary ::
  "'x crates_scheme \<Rightarrow> uuid \<Rightarrow> datetime option \<Rightarrow> (db_world, ledger_error,
      account_summary) eff" where
  "pg_get_account_summary cr tenant_id as_of =
     bindE (lq_set_tenant tenant_id) (\<lambda>_.
     bindE utc_now (\<lambda>now.
     okE \<lparr>lq_as_tenant_id = tenant_id, lq_as_total_accounts = 0, lq_as_balances = [],
       lq_as_total_liabilities = dec_zero,
          lq_as_total_assets = dec_zero, lq_as_as_of = now\<rparr>))"

definition pg_get_movement_legs ::
  "'x crates_scheme \<Rightarrow> uuid \<Rightarrow> uuid \<Rightarrow> (db_world, ledger_error,
      movement_leg list) eff" where
  "pg_get_movement_legs cr transaction_id tenant_id =
     bindE (lq_set_tenant tenant_id) (\<lambda>_.
     okE [])"

definition pg_verify_double_entry ::
  "'x crates_scheme \<Rightarrow> uuid \<Rightarrow> uuid \<Rightarrow> (db_world, ledger_error,
      bool \<times> decimal \<times> decimal \<times> decimal) eff" where
  "pg_verify_double_entry cr transaction_id tenant_id =
     bindE (lq_set_tenant tenant_id) (\<lambda>_.
     okE (True, dec_zero, dec_zero, dec_zero))"

definition pg_get_virtual_account ::
  "'x crates_scheme \<Rightarrow> uuid \<Rightarrow> uuid \<Rightarrow> (db_world, ledger_error,
      virtual_account) eff" where
  "pg_get_virtual_account cr virtual_account_id tenant_id =
     bindE (lq_set_tenant tenant_id) (\<lambda>_.
     failE (VirtualAccountNotFound (uuid_to_string cr virtual_account_id)))"

definition pg_list_virtual_accounts ::
  "'x crates_scheme \<Rightarrow> uuid \<Rightarrow> uuid option \<Rightarrow>
      virtual_account_type list \<Rightarrow> virtual_account_status list \<Rightarrow> pagination \<Rightarrow>
      (db_world, ledger_error, virtual_account list \<times> pagination_metadata) eff" where
  "pg_list_virtual_accounts cr tenant_id parent_account_id types statuses pagination =
     bindE (lq_set_tenant tenant_id) (\<lambda>_.
     okE ([], no_pages))"

definition pg_get_virtual_account_summary ::
  "'x crates_scheme \<Rightarrow> uuid \<Rightarrow> uuid \<Rightarrow> (db_world, ledger_error,
      virtual_account_currency_summary list) eff" where
  "pg_get_virtual_account_summary cr parent_account_id tenant_id =
     bindE (lq_set_tenant tenant_id) (\<lambda>_.
     okE [])"

definition pg_get_liquidity_position ::
  "'x crates_scheme \<Rightarrow> uuid \<Rightarrow> uuid \<Rightarrow> (db_world, ledger_error,
      liquidity_position) eff" where
  "pg_get_liquidity_position cr position_id tenant_id =
     bindE (lq_set_tenant tenant_id) (\<lambda>_.
     failE (LiquidityPositionNotFound (uuid_to_string cr position_id)))"

definition pg_list_liquidity_positions ::
  "'x crates_scheme \<Rightarrow> uuid \<Rightarrow> uuid option \<Rightarrow>
      liquidity_position_type list \<Rightarrow> liquidity_position_status list \<Rightarrow>
      pagination \<Rightarrow> (db_world, ledger_error,
      liquidity_position list \<times> pagination_metadata) eff" where
  "pg_list_liquidity_positions cr tenant_id account_id types statuses pagination =
     bindE (lq_set_tenant tenant_id) (\<lambda>_.
     okE ([], no_pages))"

definition pg_get_liquidity_summary ::
  "'x crates_scheme \<Rightarrow> uuid \<Rightarrow> uuid \<Rightarrow> (db_world, ledger_error,
      liquidity_summary_item list) eff" where
  "pg_get_liquidity_summary cr account_id tenant_id =
     bindE (lq_set_tenant tenant_id) (\<lambda>_.
     okE [])"

definition pg_get_expiring_positions ::
  "'x crates_scheme \<Rightarrow> uuid \<Rightarrow> int \<Rightarrow> (db_world, ledger_error,
      expiring_position list) eff" where
  "pg_get_expiring_positions cr tenant_id lookahead_minutes =
     bindE (lq_set_tenant tenant_id) (\<lambda>_.
     okE [])"

definition pg_get_settlement_instruction ::
  "'x crates_scheme \<Rightarrow> uuid \<Rightarrow> uuid \<Rightarrow> (db_world, ledger_error,
      settlement_instruction) eff" where
  "pg_get_settlement_instruction cr settlement_id tenant_id =
     bindE (lq_set_tenant tenant_id) (\<lambda>_.
     failE (SettlementNotFound (uuid_to_string cr settlement_id)))"

definition pg_list_settlement_instructions ::
  "'x crates_scheme \<Rightarrow> uuid \<Rightarrow> settlement_type option \<Rightarrow>
      settlement_status list \<Rightarrow> datetime \<Rightarrow> datetime \<Rightarrow> pagination \<Rightarrow>
      (db_world, ledger_error, settlement_instruction list \<times> pagination_metadata) eff" where
  "pg_list_settlement_instructions cr tenant_id settlement_type statuses from_date to_date pagination =
     bindE (lq_set_tenant tenant_id) (\<lambda>_.
     okE ([], no_pages))"

definition pg_get_pending_settlements ::
  "'x crates_scheme \<Rightarrow> uuid \<Rightarrow> (db_world, ledger_error, settlement_instruction list) eff" where
  "pg_get_pending_settlements cr tenant_id =
     bindE (lq_set_tenant tenant_id) (\<lambda>_.
     okE [])"

definition pg_get_settlement_summary ::
  "'x crates_scheme \<Rightarrow> uuid \<Rightarrow> datetime \<Rightarrow> datetime \<Rightarrow> (db_world,
      ledger_error, settlement_summary_item list) eff" where
  "pg_get_settlement_summary cr tenant_id start_date end_date =
     bindE (lq_set_tenant tenant_id) (\<lambda>_.
     okE [])"

definition pg_get_suspense_item ::
  "'x crates_scheme \<Rightarrow> uuid \<Rightarrow> uuid \<Rightarrow> (db_world, ledger_error,
      suspense_item) eff" where
  "pg_get_suspense_item cr suspense_id tenant_id =
     bindE (lq_set_tenant tenant_id) (\<lambda>_.
     failE (SuspenseItemNotFound (uuid_to_string cr suspense_id)))"

definition pg_list_suspense_items ::
  "'x crates_scheme \<Rightarrow> uuid \<Rightarrow> suspense_status list \<Rightarrow>
      suspense_category list \<Rightarrow> string option \<Rightarrow> pagination \<Rightarrow> (db_world,
      ledger_error, suspense_item list \<times> pagination_metadata) eff" where
  "pg_list_suspense_items cr tenant_id statuses categories priority pagination =
     bindE (lq_set_tenant tenant_id) (\<lambda>_.
     okE ([], no_pages))"

definition pg_get_suspense_aging_report ::
  "'x crates_scheme \<Rightarrow> uuid \<Rightarrow> (db_world, ledger_error, suspense_aging_bucket list) eff" where
  "pg_get_suspense_aging_report cr tenant_id =
     bindE (lq_set_tenant tenant_id) (\<lambda>_.
     okE [])"

definition pg_get_suspense_activity_log ::
  "'x crates_scheme \<Rightarrow> uuid \<Rightarrow> uuid \<Rightarrow> pagination \<Rightarrow> (db_world,
      ledger_error, suspense_activity_entry list \<times> pagination_metadata) eff" where
  "pg_get_suspense_activity_log cr suspense_id tenant_id pagination =
     bindE (lq_set_tenant tenant_id) (\<lambda>_.
     okE ([], no_pages))"

definition pg_get_coa_entry ::
  "'x crates_scheme \<Rightarrow> string \<Rightarrow> uuid \<Rightarrow> (db_world, ledger_error,
      coa_entry) eff" where
  "pg_get_coa_entry cr coa_code tenant_id =
     bindE (lq_set_tenant tenant_id) (\<lambda>_.
     failE (CoaEntryNotFound coa_code))"

definition pg_list_coa_entries ::
  "'x crates_scheme \<Rightarrow> uuid \<Rightarrow> string option \<Rightarrow> string option \<Rightarrow>
      pagination \<Rightarrow> (db_world, ledger_error, coa_entry list \<times> pagination_metadata) eff" where
  "pg_list_coa_entries cr tenant_id parent_code account_category pagination =
     bindE (lq_set_tenant tenant_id) (\<lambda>_.
     okE ([], no_pages))"

definition pg_get_period_end_balance ::
  "'x crates_scheme \<Rightarrow> uuid \<Rightarrow> uuid \<Rightarrow> string \<Rightarrow> (db_world,
      ledger_error, period_end_balance) eff" where
  "pg_get_period_end_balance cr account_id tenant_id fiscal_period_id =
     bindE (lq_set_tenant tenant_id) (\<lambda>_.
     failE (PeriodEndBalanceNotFound
       (''account:'' @ uuid_to_string cr account_id @ '' period:'' @ fiscal_period_id)))"

definition pg_list_period_end_balances ::
  "'x crates_scheme \<Rightarrow> uuid \<Rightarrow> string \<Rightarrow> pagination \<Rightarrow> (db_world,
      ledger_error, period_end_balance list \<times> pagination_metadata) eff" where
  "pg_list_period_end_balances cr tenant_id fiscal_period_id pagination =
     bindE (lq_set_tenant tenant_id) (\<lambda>_.
     okE ([], no_pages))"

definition postgres_read_model :: "'x crates_scheme \<Rightarrow> read_model" where
  "postgres_read_model cr = \<lparr>
     rm_get_account_balance = pg_get_account_balance cr,
     rm_get_account_statement = pg_get_account_statement cr,
     rm_get_transaction_by_id = pg_get_transaction_by_id cr,
     rm_list_transactions = pg_list_transactions cr,
     rm_search_transactions = pg_search_transactions cr,
     rm_get_account_summary = pg_get_account_summary cr,
     rm_get_movement_legs = pg_get_movement_legs cr,
     rm_verify_double_entry = pg_verify_double_entry cr,
     rm_get_virtual_account = pg_get_virtual_account cr,
     rm_list_virtual_accounts = pg_list_virtual_accounts cr,
     rm_get_virtual_account_summary = pg_get_virtual_account_summary cr,
     rm_get_liquidity_position = pg_get_liquidity_position cr,
     rm_list_liquidity_positions = pg_list_liquidity_positions cr,
     rm_get_liquidity_summary = pg_get_liquidity_summary cr,
     rm_get_expiring_positions = pg_get_expiring_positions cr,
     rm_get_settlement_instruction = pg_get_settlement_instruction cr,
     rm_list_settlement_instructions = pg_list_settlement_instructions cr,
     rm_get_pending_settlements = pg_get_pending_settlements cr,
     rm_get_settlement_summary = pg_get_settlement_summary cr,
     rm_get_suspense_item = pg_get_suspense_item cr,
     rm_list_suspense_items = pg_list_suspense_items cr,
     rm_get_suspense_aging_report = pg_get_suspense_aging_report cr,
     rm_get_suspense_activity_log = pg_get_suspense_activity_log cr,
     rm_get_coa_entry = pg_get_coa_entry cr,
     rm_list_coa_entries = pg_list_coa_entries cr,
     rm_get_period_end_balance = pg_get_period_end_balance cr,
     rm_list_period_end_balances = pg_list_period_end_balances cr\<rparr>"

end
