(* ===== verification/Ledger_Port.thy ===== *)
theory Ledger_Port
  imports Ledger "HOL-Library.List_Lexorder" "HOL-Library.Char_ord"
begin

text \<open>
  The gRPC port of the ledger query service (ledger-query-service/src/ports/grpc.rs): the conversions
  to and from the messages of ledger.proto and the handlers of its six services.  A handler takes the
  crates, the read model, the metadata of the request and the fields of the request it reads.
\<close>

section \<open>Third-party functions\<close>

text \<open>
  tonic (\<open>MetadataValue::to_str\<close>), chrono (\<open>DateTime::from_timestamp\<close>) and serde_json
  (\<open>Value::from\<close> on a floating-point number).
\<close>

record ledger_crates = crates +
  lq_metadata_to_str :: "string \<Rightarrow> string option"
  lq_from_timestamp :: "int \<Rightarrow> int \<Rightarrow> datetime option"
  lq_json_from_f64 :: "f64 \<Rightarrow> json"

section \<open>Errors\<close>

fun ledger_code :: "ledger_error \<Rightarrow> grpc_code" where
  "ledger_code (AccountNotFound _) = Code_NotFound"
| "ledger_code (TransactionNotFound _) = Code_NotFound"
| "ledger_code (VirtualAccountNotFound _) = Code_NotFound"
| "ledger_code (LiquidityPositionNotFound _) = Code_NotFound"
| "ledger_code (SettlementNotFound _) = Code_NotFound"
| "ledger_code (SuspenseItemNotFound _) = Code_NotFound"
| "ledger_code (CoaEntryNotFound _) = Code_NotFound"
| "ledger_code (PeriodEndBalanceNotFound _) = Code_NotFound"
| "ledger_code (LqInvalidDateRange _) = Code_InvalidArgument"
| "ledger_code (LqInvalidArgument _) = Code_InvalidArgument"
| "ledger_code (LqDatabaseError _) = Code_Internal"
| "ledger_code (LqInternal _) = Code_Internal"

fun ledger_error_code :: "ledger_error \<Rightarrow> int" where
  "ledger_error_code (AccountNotFound _) = 2"
| "ledger_error_code (TransactionNotFound _) = 2"
| "ledger_error_code (VirtualAccountNotFound _) = 2"
| "ledger_error_code (LiquidityPositionNotFound _) = 2"
| "ledger_error_code (SettlementNotFound _) = 2"
| "ledger_error_code (SuspenseItemNotFound _) = 2"
| "ledger_error_code (CoaEntryNotFound _) = 2"
| "ledger_error_code (PeriodEndBalanceNotFound _) = 2"
| "ledger_error_code (LqInvalidDateRange _) = 1"
| "ledger_error_code (LqInvalidArgument _) = 1"
| "ledger_error_code (LqDatabaseError _) = 8"
| "ledger_error_code (LqInternal _) = 8"

definition map_error :: "ledger_error \<Rightarrow> string \<Rightarrow> status \<times> proto_error option" where
  "map_error e trace_id =
     (let status = mk_status (ledger_code e) (ledger_error_to_string e) in
      (status, Some \<lparr>pe_code = ledger_error_code e, pe_message = ledger_error_to_string e,
                     pe_details = [''trace_id'' \<mapsto> trace_id], pe_trace_id = trace_id,
                     pe_grpc_code = code_number (code status)\<rparr>))"

section \<open>Conversions\<close>

definition lq_extract_trace_id :: "'x ledger_crates_scheme \<Rightarrow>
    (string \<rightharpoonup> string) \<Rightarrow> string" where
  "lq_extract_trace_id lc metadata =
     unwrap_or (Option.bind (metadata ''x-trace-id'') (lq_metadata_to_str lc)) ''unknown''"

definition lq_parse_uuid :: "'x ledger_crates_scheme \<Rightarrow> string \<Rightarrow> status + uuid" where
  "lq_parse_uuid lc s =
     (case uuid_parse lc s of Some u \<Rightarrow> Inr u
      | None \<Rightarrow> Inl (mk_status Code_InvalidArgument (''Invalid UUID: '' @ s)))"

definition chrono_to_prost :: "datetime \<Rightarrow> timestamp" where
  "chrono_to_prost dt = \<lparr>seconds = dt div nanos_per_second, nanos = as_i32 (dt mod nanos_per_second)\<rparr>"

definition prost_to_chrono :: "'x ledger_crates_scheme \<Rightarrow> timestamp option \<Rightarrow>
    datetime option" where
  "prost_to_chrono lc ts = Option.bind ts (\<lambda>t. lq_from_timestamp lc (seconds t) (as_u32 (nanos t)))"

definition required_date :: "'x ledger_crates_scheme \<Rightarrow> string \<Rightarrow>
    timestamp option \<Rightarrow> status + datetime" where
  "required_date lc msg ts =
     (case prost_to_chrono lc ts of Some d \<Rightarrow> Inr d | None \<Rightarrow>
       Inl (mk_status Code_InvalidArgument msg))"

text \<open>\<open>Decimal::round_dp(0)\<close> rounds to the nearest integer and a tie to the even one.\<close>

fun dec_round :: "decimal \<Rightarrow> decimal" where
  "dec_round (Decimal m s) =
     (let p = 10 ^ s; q = m div p; r = m mod p in
      Decimal (if 2 * r < p \<or> 2 * r = p \<and> even q then q else q + 1) 0)"

definition decimal_to_money :: "decimal \<Rightarrow> string \<Rightarrow> proto_money option" where
  "decimal_to_money amount currency = Some \<lparr>pm_currency_code = currency,
     pm_amount_cents = unwrap_or (dec_to_i64 (dec_round (dec_mul amount (Decimal 100 0)))) 0, pm_currency = 0\<rparr>"

definition money_to_decimal :: "proto_money option \<Rightarrow> status + decimal" where
  "money_to_decimal money =
     (case money of Some m \<Rightarrow> Inr (Decimal (pm_amount_cents m) 2)
      | None \<Rightarrow> Inl (mk_status Code_InvalidArgument ''Money amount is required''))"

record proto_pagination =
  pp_page_size :: int
  pp_page_token :: string

definition map_proto_pagination :: "proto_pagination option \<Rightarrow> pagination" where
  "map_proto_pagination p =
     (case p of Some pp \<Rightarrow> \<lparr>pg_page_size = min (max (pp_page_size pp) 1) 1000,
       pg_page_token = pp_page_token pp\<rparr>
      | None \<Rightarrow> \<lparr>pg_page_size = 50, pg_page_token = []\<rparr>)"

definition map_domain_pagination :: "pagination_metadata \<Rightarrow> pagination_metadata" where
  "map_domain_pagination meta = \<lparr>lq_pm_total_count = lq_pm_total_count meta,
     lq_pm_next_page_token = lq_pm_next_page_token meta,
     lq_pm_previous_page_token = lq_pm_previous_page_token meta, lq_pm_has_more = lq_pm_has_more meta\<rparr>"

text \<open>A \<open>prost_types::Value\<close>; the fields of a \<open>Struct\<close> in the unspecified order of the \<open>HashMap\<close>.\<close>

datatype prost_value =
    PNone
  | PNull
  | PNumber f64
  | PString string
  | PBool bool
  | PStruct "(string \<times> prost_value) list"
  | PList "prost_value list"

text \<open>\<open>serde_json::Map::insert\<close>: the map is sorted by key.\<close>

fun map_insert :: "string \<Rightarrow> 'a \<Rightarrow> (string \<times> 'a) list \<Rightarrow>
    (string \<times> 'a) list" where
  "map_insert k v [] = [(k, v)]"
| "map_insert k v ((k', v') # m) =
     (if k < k' then (k, v) # (k', v') # m
      else if k = k' then (k, v) # m
      else (k', v') # map_insert k v m)"

definition collect_map :: "(string \<times> 'a) list \<Rightarrow> (string \<times> 'a) list" where
  "collect_map kvs = foldl (\<lambda>m (k, v). map_insert k v m) [] kvs"

fun prost_value_to_json_value :: "'x ledger_crates_scheme \<Rightarrow> prost_value \<Rightarrow> json" where
  "prost_value_to_json_value lc PNone = JNull"
| "prost_value_to_json_value lc PNull = JNull"
| "prost_value_to_json_value lc (PNumber n) = lq_json_from_f64 lc n"
| "prost_value_to_json_value lc (PString s) = JString s"
| "prost_value_to_json_value lc (PBool b) = JBool b"
| "prost_value_to_json_value lc (PStruct kvs) =
     JObject (collect_map (map (\<lambda>kv. (fst kv, prost_value_to_json_value lc (snd kv))) kvs))"
| "prost_value_to_json_value lc (PList vs) = JArray (map (prost_value_to_json_value lc) vs)"

definition prost_struct_to_json_value :: "'x ledger_crates_scheme \<Rightarrow>
    (string \<times> prost_value) list \<Rightarrow> json" where
  "prost_struct_to_json_value lc kvs =
     JObject (collect_map (map (\<lambda>(k, v). (k, prost_value_to_json_value lc v)) kvs))"

section \<open>Messages\<close>

record proto_account_balance =
  pab_account_id :: string
  pab_tenant_id :: string
  pab_account_type :: int
  pab_current_balance :: "proto_money option"
  pab_available_balance :: "proto_money option"
  pab_hold_balance :: "proto_money option"
  pab_currency_code :: string
  pab_as_of :: "timestamp option"
  pab_version :: int
  pab_error :: "proto_error option"

definition account_balance_to_proto :: "'x ledger_crates_scheme \<Rightarrow> account_balance \<Rightarrow>
    proto_account_balance" where
  "account_balance_to_proto lc r = \<lparr>pab_account_id = uuid_to_string lc (ab_account_id r),
     pab_tenant_id = uuid_to_string lc (ab_tenant_id r),
     pab_account_type = account_type_as_i32 (ab_account_type r),
     pab_current_balance = decimal_to_money (ab_current_balance r) (ab_currency_code r),
     pab_available_balance = decimal_to_money (ab_available_balance r) (ab_currency_code r),
     pab_hold_balance = decimal_to_money (ab_hold_balance r) (ab_currency_code r),
     pab_currency_code = ab_currency_code r, pab_as_of = Some (chrono_to_prost (ab_as_of r)),
     pab_version = ab_version r, pab_error = None\<rparr>"

definition default_account_balance :: proto_account_balance where
  "default_account_balance = \<lparr>pab_account_id = [], pab_tenant_id = [], pab_account_type = 0,
      pab_current_balance = None,
     pab_available_balance = None, pab_hold_balance = None, pab_currency_code = [], pab_as_of = None,
     pab_version = 0, pab_error = None\<rparr>"

record proto_balance_by_type =
  pbt_account_type :: int
  pbt_balance :: "proto_money option"
  pbt_account_count :: int

definition balance_by_type_to_proto :: "balance_by_type \<Rightarrow> proto_balance_by_type" where
  "balance_by_type_to_proto r = \<lparr>pbt_account_type = account_type_as_i32 (bt_account_type r),
     pbt_balance = decimal_to_money (bt_balance r) ''USD'', pbt_account_count = bt_account_count r\<rparr>"

record proto_account_summary =
  pas_tenant_id :: string
  pas_total_accounts :: int
  pas_balances :: "proto_balance_by_type list"
  pas_total_liabilities :: "proto_money option"
  pas_total_assets :: "proto_money option"
  pas_as_of :: "timestamp option"
  pas_error :: "proto_error option"

definition account_summary_to_proto :: "'x ledger_crates_scheme \<Rightarrow> account_summary \<Rightarrow>
    proto_account_summary" where
  "account_summary_to_proto lc r = \<lparr>pas_tenant_id = uuid_to_string lc (lq_as_tenant_id r),
      pas_total_accounts = lq_as_total_accounts r,
     pas_balances = map balance_by_type_to_proto (lq_as_balances r),
     pas_total_liabilities = decimal_to_money (lq_as_total_liabilities r) ''USD'',
     pas_total_assets = decimal_to_money (lq_as_total_assets r) ''USD'',
     pas_as_of = Some (chrono_to_prost (lq_as_as_of r)), pas_error = None\<rparr>"

definition default_account_summary :: proto_account_summary where
  "default_account_summary = \<lparr>pas_tenant_id = [], pas_total_accounts = 0, pas_balances = [],
      pas_total_liabilities = None,
     pas_total_assets = None, pas_as_of = None, pas_error = None\<rparr>"

record proto_transaction =
  ptx_transaction_id :: string
  ptx_transaction_uuid :: string
  ptx_tenant_id :: string
  ptx_account_id :: string
  ptx_transaction_type :: int
  ptx_amount :: "proto_money option"
  ptx_balance_after :: "proto_money option"
  ptx_description :: string
  ptx_reference :: string
  ptx_posted_at :: "timestamp option"
  ptx_effective_at :: "timestamp option"
  ptx_session_id :: string
  ptx_payment_id :: string
  ptx_metadata :: "string \<rightharpoonup> string"
  ptx_version :: int
  ptx_correlation_id :: string
  ptx_idempotency_key :: string
  ptx_status :: string
  ptx_record_hash :: string
  ptx_previous_hash :: string
  ptx_error :: "proto_error option"

definition map_domain_transaction :: "'x ledger_crates_scheme \<Rightarrow> transaction \<Rightarrow>
    proto_transaction" where
  "map_domain_transaction lc r = \<lparr>ptx_transaction_id = uuid_to_string lc (tx_transaction_id r),
     ptx_transaction_uuid = tx_transaction_uuid r, ptx_tenant_id = uuid_to_string lc (tx_tenant_id r),
     ptx_account_id = uuid_to_string lc (tx_account_id r),
     ptx_transaction_type = transaction_type_as_i32 (tx_transaction_type r),
     ptx_amount = decimal_to_money (tx_amount r) ''USD'',
     ptx_balance_after = decimal_to_money (tx_balance_after r) ''USD'',
     ptx_description = tx_description r, ptx_reference = tx_reference r,
     ptx_posted_at = Some (chrono_to_prost (tx_posted_at r)),
     ptx_effective_at = Some (chrono_to_prost (tx_effective_at r)), ptx_session_id = tx_session_id r,
     ptx_payment_id = tx_payment_id r, ptx_metadata = tx_metadata r, ptx_version = tx_version r,
     ptx_correlation_id = tx_correlation_id r, ptx_idempotency_key = tx_idempotency_key r,
     ptx_status = tx_status r, ptx_record_hash = tx_record_hash r,
     ptx_previous_hash = tx_previous_hash r, ptx_error = None\<rparr>"

definition default_transaction :: proto_transaction where
  "default_transaction = \<lparr>ptx_transaction_id = [], ptx_transaction_uuid = [], ptx_tenant_id = [],
      ptx_account_id = [],
     ptx_transaction_type = 0, ptx_amount = None, ptx_balance_after = None, ptx_description = [],
     ptx_reference = [], ptx_posted_at = None, ptx_effective_at = None, ptx_session_id = [],
     ptx_payment_id = [], ptx_metadata = Map.empty, ptx_version = 0, ptx_correlation_id = [],
     ptx_idempotency_key = [], ptx_status = [], ptx_record_hash = [], ptx_previous_hash = [],
     ptx_error = None\<rparr>"

record proto_movement_leg =
  pml_leg_id :: string
  pml_leg_sequence :: int
  pml_account_id :: string
  pml_direction :: string
  pml_amount :: "proto_money option"
  pml_currency :: string
  pml_coa_code :: string
  pml_description :: string
  pml_posted_at :: "timestamp option"

definition movement_leg_to_proto :: "movement_leg \<Rightarrow> proto_movement_leg" where
  "movement_leg_to_proto r = \<lparr>pml_leg_id = ml_leg_id r, pml_leg_sequence = ml_leg_sequence r,
      pml_account_id = ml_account_id r,
     pml_direction = ml_direction r, pml_amount = decimal_to_money (ml_amount r) (ml_currency r),
     pml_currency = ml_currency r, pml_coa_code = ml_coa_code r, pml_description = ml_description r,
     pml_posted_at = Some (chrono_to_prost (ml_posted_at r))\<rparr>"

record proto_virtual_account =
  pva_virtual_account_id :: string
  pva_parent_account_id :: string
  pva_virtual_account_name :: string
  pva_virtual_account_number :: string
  pva_virtual_account_type :: int
  pva_status :: int
  pva_current_balance :: "proto_money option"
  pva_available_balance :: "proto_money option"
  pva_held_amount :: "proto_money option"
  pva_currency :: string
  pva_target_amount :: "proto_money option"
  pva_target_date :: "timestamp option"
  pva_progress_percentage :: f64
  pva_auto_sweep_enabled :: bool
  pva_opened_at :: "timestamp option"
  pva_closed_at :: "timestamp option"
  pva_matured_at :: "timestamp option"
  pva_error :: "proto_error option"

definition virtual_account_to_proto :: "'x ledger_crates_scheme \<Rightarrow> virtual_account \<Rightarrow>
    proto_virtual_account" where
  "virtual_account_to_proto lc r = \<lparr>pva_virtual_account_id = uuid_to_string lc (va_virtual_account_id r),
     pva_parent_account_id = uuid_to_string lc (va_parent_account_id r),
     pva_virtual_account_name = va_virtual_account_name r,
     pva_virtual_account_number = va_virtual_account_number r,
     pva_virtual_account_type = virtual_account_type_as_i32 (va_virtual_account_type r),
     pva_status = virtual_account_status_as_i32 (va_status r),
     pva_current_balance = decimal_to_money (va_current_balance r) (va_currency r),
     pva_available_balance = decimal_to_money (va_available_balance r) (va_currency r),
     pva_held_amount = decimal_to_money (va_held_amount r) (va_currency r),
     pva_currency = va_currency r,
     pva_target_amount = decimal_to_money (va_target_amount r) (va_currency r),
     pva_target_date = map_option chrono_to_prost (va_target_date r),
     pva_progress_percentage = va_progress_percentage r,
     pva_auto_sweep_enabled = va_auto_sweep_enabled r,
     pva_opened_at = Some (chrono_to_prost (va_opened_at r)),
     pva_closed_at = map_option chrono_to_prost (va_closed_at r),
     pva_matured_at = map_option chrono_to_prost (va_matured_at r), pva_error = None\<rparr>"

definition default_virtual_account :: proto_virtual_account where
  "default_virtual_account = \<lparr>pva_virtual_account_id = [], pva_parent_account_id = [],
      pva_virtual_account_name = [],
     pva_virtual_account_number = [], pva_virtual_account_type = 0, pva_status = 0,
     pva_current_balance = None, pva_available_balance = None, pva_held_amount = None,
     pva_currency = [], pva_target_amount = None, pva_target_date = None, pva_progress_percentage = 0,
     pva_auto_sweep_enabled = False, pva_opened_at = None, pva_closed_at = None, pva_matured_at = None,
     pva_error = None\<rparr>"

record proto_virtual_account_currency_summary =
  pvc_currency :: string
  pvc_total_balance :: "proto_money option"
  pvc_total_available :: "proto_money option"
  pvc_total_held :: "proto_money option"
  pvc_account_count :: int

definition virtual_account_currency_summary_to_proto :: "virtual_account_currency_summary \<Rightarrow>
    proto_virtual_account_currency_summary" where
  "virtual_account_currency_summary_to_proto r = \<lparr>pvc_currency = vc_currency r,
     pvc_total_balance = decimal_to_money (vc_total_balance r) (vc_currency r),
     pvc_total_available = decimal_to_money (vc_total_available r) (vc_currency r),
     pvc_total_held = decimal_to_money (vc_total_held r) (vc_currency r),
     pvc_account_count = vc_account_count r\<rparr>"

record proto_liquidity_position =
  plp_position_id :: string
  plp_position_reference :: string
  plp_account_id :: string
  plp_tenant_id :: string
  plp_position_type :: int
  plp_amount :: "proto_money option"
  plp_currency :: string
  plp_status :: int
  plp_purpose_code :: string
  plp_description :: string
  plp_created_at :: "timestamp option"
  plp_effective_date :: "timestamp option"
  plp_expires_at :: "timestamp option"
  plp_released_at :: "timestamp option"
  plp_auto_release :: bool
  plp_release_reason :: string
  plp_error :: "proto_error option"

definition liquidity_position_to_proto :: "'x ledger_crates_scheme \<Rightarrow> liquidity_position \<Rightarrow>
    proto_liquidity_position" where
  "liquidity_position_to_proto lc r = \<lparr>plp_position_id = uuid_to_string lc (lp_position_id r),
     plp_position_reference = lp_position_reference r,
     plp_account_id = uuid_to_string lc (lp_account_id r),
     plp_tenant_id = uuid_to_string lc (lp_tenant_id r),
     plp_position_type = liquidity_position_type_as_i32 (lp_position_type r),
     plp_amount = decimal_to_money (lp_amount r) (lp_currency r), plp_currency = lp_currency r,
     plp_status = liquidity_position_status_as_i32 (lp_status r), plp_purpose_code = lp_purpose_code r,
     plp_description = lp_description r, plp_created_at = Some (chrono_to_prost (lp_created_at r)),
     plp_effective_date = Some (chrono_to_prost (lp_effective_date r)),
     plp_expires_at = map_option chrono_to_prost (lp_expires_at r),
     plp_released_at = map_option chrono_to_prost (lp_released_at r),
     plp_auto_release = lp_auto_release r, plp_release_reason = lp_release_reason r, plp_error = None\<rparr>"

definition default_liquidity_position :: proto_liquidity_position where
  "default_liquidity_position = \<lparr>plp_position_id = [], plp_position_reference = [], plp_account_id = [],
      plp_tenant_id = [],
     plp_position_type = 0, plp_amount = None, plp_currency = [], plp_status = 0, plp_purpose_code = [],
     plp_description = [], plp_created_at = None, plp_effective_date = None, plp_expires_at = None,
     plp_released_at = None, plp_auto_release = False, plp_release_reason = [], plp_error = None\<rparr>"

record proto_liquidity_summary_item =
  pli_position_type :: int
  pli_currency :: string
  pli_total_amount :: "proto_money option"
  pli_position_count :: int

definition liquidity_summary_item_to_proto :: "liquidity_summary_item \<Rightarrow>
    proto_liquidity_summary_item" where
  "liquidity_summary_item_to_proto r = \<lparr>pli_position_type =
      liquidity_position_type_as_i32 (li_position_type r),
     pli_currency = li_currency r,
     pli_total_amount = decimal_to_money (li_total_amount r) (li_currency r),
     pli_position_count = li_position_count r\<rparr>"

record proto_expiring_position =
  pep_position_id :: string
  pep_account_id :: string
  pep_position_type :: int
  pep_amount :: "proto_money option"
  pep_currency :: string
  pep_expires_at :: "timestamp option"
  pep_minutes_until_expiry :: f64

definition expiring_position_to_proto :: "'x ledger_crates_scheme \<Rightarrow> expiring_position \<Rightarrow>
    proto_expiring_position" where
  "expiring_position_to_proto lc r = \<lparr>pep_position_id = uuid_to_string lc (ep_position_id r),
     pep_account_id = uuid_to_string lc (ep_account_id r),
     pep_position_type = liquidity_position_type_as_i32 (ep_position_type r),
     pep_amount = decimal_to_money (ep_amount r) (ep_currency r), pep_currency = ep_currency r,
     pep_expires_at = Some (chrono_to_prost (ep_expires_at r)),
     pep_minutes_until_expiry = ep_minutes_until_expiry r\<rparr>"

record proto_settlement_instruction =
  psi_settlement_id :: string
  psi_settlement_reference :: string
  psi_tenant_id :: string
  psi_counterparty_id :: string
  psi_counterparty_name :: string
  psi_settlement_type :: int
  psi_direction :: string
  psi_amount :: "proto_money option"
  psi_currency :: string
  psi_status :: int
  psi_scheduled_at :: "timestamp option"
  psi_settlement_date :: "timestamp option"
  psi_executed_at :: "timestamp option"
  psi_completed_at :: "timestamp option"
  psi_settlement_account :: string
  psi_counterparty_account :: string
  psi_transaction_count :: int
  psi_gross_amount :: "proto_money option"
  psi_net_amount :: "proto_money option"
  psi_fees_amount :: "proto_money option"
  psi_confirmation_reference :: string
  psi_failure_reason :: string
  psi_retry_count :: int
  psi_error :: "proto_error option"

definition settlement_instruction_to_proto :: "'x ledger_crates_scheme \<Rightarrow>
    settlement_instruction \<Rightarrow> proto_settlement_instruction" where
  "settlement_instruction_to_proto lc r = \<lparr>psi_settlement_id = uuid_to_string lc (si_settlement_id r),
     psi_settlement_reference = si_settlement_reference r,
     psi_tenant_id = uuid_to_string lc (si_tenant_id r), psi_counterparty_id = si_counterparty_id r,
     psi_counterparty_name = si_counterparty_name r,
     psi_settlement_type = settlement_type_as_i32 (si_settlement_type r),
     psi_direction = si_direction r, psi_amount = decimal_to_money (si_amount r) (si_currency r),
     psi_currency = si_currency r, psi_status = settlement_status_as_i32 (si_status r),
     psi_scheduled_at = map_option chrono_to_prost (si_scheduled_at r),
     psi_settlement_date = map_option chrono_to_prost (si_settlement_date r),
     psi_executed_at = map_option chrono_to_prost (si_executed_at r),
     psi_completed_at = map_option chrono_to_prost (si_completed_at r),
     psi_settlement_account = si_settlement_account r,
     psi_counterparty_account = si_counterparty_account r,
     psi_transaction_count = si_transaction_count r,
     psi_gross_amount = decimal_to_money (si_gross_amount r) (si_currency r),
     psi_net_amount = decimal_to_money (si_net_amount r) (si_currency r),
     psi_fees_amount = decimal_to_money (si_fees_amount r) (si_currency r),
     psi_confirmation_reference = si_confirmation_reference r, psi_failure_reason = si_failure_reason r,
     psi_retry_count = si_retry_count r, psi_error = None\<rparr>"

definition default_settlement_instruction :: proto_settlement_instruction where
  "default_settlement_instruction = \<lparr>psi_settlement_id = [], psi_settlement_reference = [], psi_tenant_id = [],
     psi_counterparty_id = [], psi_counterparty_name = [], psi_settlement_type = 0, psi_direction = [],
     psi_amount = None, psi_currency = [], psi_status = 0, psi_scheduled_at = None,
     psi_settlement_date = None, psi_executed_at = None, psi_completed_at = None,
     psi_settlement_account = [], psi_counterparty_account = [], psi_transaction_count = 0,
     psi_gross_amount = None, psi_net_amount = None, psi_fees_amount = None,
     psi_confirmation_reference = [], psi_failure_reason = [], psi_retry_count = 0, psi_error = None\<rparr>"

record proto_settlement_summary_item =
  psm_settlement_type :: int
  psm_direction :: string
  psm_currency :: string
  psm_total_amount :: "proto_money option"
  psm_count :: int
  psm_completed_count :: int
  psm_failed_count :: int

definition settlement_summary_item_to_proto :: "settlement_summary_item \<Rightarrow>
    proto_settlement_summary_item" where
  "settlement_summary_item_to_proto r = \<lparr>psm_settlement_type = settlement_type_as_i32 (sm_settlement_type r),
     psm_direction = sm_direction r, psm_currency = sm_currency r,
     psm_total_amount = decimal_to_money (sm_total_amount r) (sm_currency r), psm_count = sm_count r,
     psm_completed_count = sm_completed_count r, psm_failed_count = sm_failed_count r\<rparr>"

record proto_suspense_item =
  psu_suspense_id :: string
  psu_suspense_reference :: string
  psu_source_transaction_id :: string
  psu_amount :: "proto_money option"
  psu_currency :: string
  psu_category :: int
  psu_priority :: string
  psu_status :: int
  psu_description :: string
  psu_days_in_suspense :: int
  psu_escalation_level :: int
  psu_resolution_type :: int
  psu_resolution_date :: "timestamp option"
  psu_resolution_notes :: string
  psu_created_at :: "timestamp option"
  psu_error :: "proto_error option"

definition suspense_item_to_proto :: "'x ledger_crates_scheme \<Rightarrow> suspense_item \<Rightarrow>
    proto_suspense_item" where
  "suspense_item_to_proto lc r = \<lparr>psu_suspense_id = uuid_to_string lc (su_suspense_id r),
     psu_suspense_reference = su_suspense_reference r,
     psu_source_transaction_id = su_source_transaction_id r,
     psu_amount = decimal_to_money (su_amount r) (su_currency r), psu_currency = su_currency r,
     psu_category = suspense_category_as_i32 (su_category r), psu_priority = su_priority r,
     psu_status = suspense_status_as_i32 (su_status r), psu_description = su_description r,
     psu_days_in_suspense = su_days_in_suspense r, psu_escalation_level = su_escalation_level r,
     psu_resolution_type = unwrap_or (map_option suspense_resolution_type_as_i32 (su_resolution_type r)) 0,
     psu_resolution_date = map_option chrono_to_prost (su_resolution_date r),
     psu_resolution_notes = su_resolution_notes r,
     psu_created_at = Some (chrono_to_prost (su_created_at r)), psu_error = None\<rparr>"

definition default_suspense_item :: proto_suspense_item where
  "default_suspense_item = \<lparr>psu_suspense_id = [], psu_suspense_reference = [], psu_source_transaction_id = [],
     psu_amount = None, psu_currency = [], psu_category = 0, psu_priority = [], psu_status = 0,
     psu_description = [], psu_days_in_suspense = 0, psu_escalation_level = 0, psu_resolution_type = 0,
     psu_resolution_date = None, psu_resolution_notes = [], psu_created_at = None, psu_error = None\<rparr>"

record proto_suspense_aging_bucket =
  psb_category :: string
  psb_days_range_start :: int
  psb_days_range_end :: int
  psb_count :: int
  psb_total_amount :: "proto_money option"

definition suspense_aging_bucket_to_proto :: "suspense_aging_bucket \<Rightarrow> proto_suspense_aging_bucket" where
  "suspense_aging_bucket_to_proto r = \<lparr>psb_category = sb_category r,
      psb_days_range_start = sb_days_range_start r,
     psb_days_range_end = sb_days_range_end r, psb_count = sb_count r,
     psb_total_amount = decimal_to_money (sb_total_amount r) ''USD''\<rparr>"

record proto_suspense_activity_entry =
  psa_activity_id :: string
  psa_suspense_id :: string
  psa_activity_type :: string
  psa_from_status :: string
  psa_to_status :: string
  psa_performed_by :: string
  psa_notes :: string
  psa_created_at :: "timestamp option"

definition suspense_activity_entry_to_proto :: "suspense_activity_entry \<Rightarrow>
    proto_suspense_activity_entry" where
  "suspense_activity_entry_to_proto r = \<lparr>psa_activity_id = sa_activity_id r,
      psa_suspense_id = sa_suspense_id r,
     psa_activity_type = sa_activity_type r, psa_from_status = sa_from_status r,
     psa_to_status = sa_to_status r, psa_performed_by = sa_performed_by r, psa_notes = sa_notes r,
     psa_created_at = Some (chrono_to_prost (sa_created_at r))\<rparr>"

record proto_coa_entry =
  pce_coa_code :: string
  pce_tenant_id :: string
  pce_account_name :: string
  pce_account_category :: string
  pce_parent_code :: string
  pce_level :: int
  pce_is_leaf :: bool
  pce_normal_balance :: string
  pce_is_active :: bool
  pce_error :: "proto_error option"

definition coa_entry_to_proto :: "'x ledger_crates_scheme \<Rightarrow> coa_entry \<Rightarrow> proto_coa_entry" where
  "coa_entry_to_proto lc r = \<lparr>pce_coa_code = ce_coa_code r, pce_tenant_id = uuid_to_string lc (ce_tenant_id r),
     pce_account_name = ce_account_name r, pce_account_category = ce_account_category r,
     pce_parent_code = ce_parent_code r, pce_level = ce_level r, pce_is_leaf = ce_is_leaf r,
     pce_normal_balance = ce_normal_balance r, pce_is_active = ce_is_active r, pce_error = None\<rparr>"

definition default_coa_entry :: proto_coa_entry where
  "default_coa_entry = \<lparr>pce_coa_code = [], pce_tenant_id = [], pce_account_name = [],
      pce_account_category = [],
     pce_parent_code = [], pce_level = 0, pce_is_leaf = False, pce_normal_balance = [],
     pce_is_active = False, pce_error = None\<rparr>"

record proto_period_end_balance =
  ppb_balance_id :: string
  ppb_account_id :: string
  ppb_tenant_id :: string
  ppb_fiscal_period_id :: string
  ppb_opening_balance :: "proto_money option"
  ppb_closing_balance :: "proto_money option"
  ppb_total_debits :: "proto_money option"
  ppb_total_credits :: "proto_money option"
  ppb_currency :: string
  ppb_is_adjusted :: bool
  ppb_created_at :: "timestamp option"
  ppb_error :: "proto_error option"

definition period_end_balance_to_proto :: "'x ledger_crates_scheme \<Rightarrow> period_end_balance \<Rightarrow>
    proto_period_end_balance" where
  "period_end_balance_to_proto lc r = \<lparr>ppb_balance_id = pb_balance_id r,
      ppb_account_id = uuid_to_string lc (pb_account_id r),
     ppb_tenant_id = uuid_to_string lc (pb_tenant_id r), ppb_fiscal_period_id = pb_fiscal_period_id r,
     ppb_opening_balance = decimal_to_money (pb_opening_balance r) (pb_currency r),
     ppb_closing_balance = decimal_to_money (pb_closing_balance r) (pb_currency r),
     ppb_total_debits = decimal_to_money (pb_total_debits r) (pb_currency r),
     ppb_total_credits = decimal_to_money (pb_total_credits r) (pb_currency r),
     ppb_currency = pb_currency r, ppb_is_adjusted = pb_is_adjusted r,
     ppb_created_at = Some (chrono_to_prost (pb_created_at r)), ppb_error = None\<rparr>"

definition default_period_end_balance :: proto_period_end_balance where
  "default_period_end_balance = \<lparr>ppb_balance_id = [], ppb_account_id = [], ppb_tenant_id = [],
      ppb_fiscal_period_id = [],
     ppb_opening_balance = None, ppb_closing_balance = None, ppb_total_debits = None,
     ppb_total_credits = None, ppb_currency = [], ppb_is_adjusted = False, ppb_created_at = None,
     ppb_error = None\<rparr>"

text \<open>
  The replies of the listings: \<open>page_reply\<close> is the shape of the replies with items and pagination,
  \<open>items_reply\<close> of those with items only,
      and \<open>keyed_reply\<close> of those that repeat an identifier of the
  request.
\<close>

record 'a page_reply =
  lqp_items :: "'a list"
  lqp_pagination :: "pagination_metadata option"
  lqp_error :: "proto_error option"

record 'a items_reply =
  lqi_items :: "'a list"
  lqi_error :: "proto_error option"

record 'a keyed_reply =
  lqk_id :: string
  lqk_items :: "'a list"
  lqk_error :: "proto_error option"

record statement_reply =
  sr_account_id :: string
  sr_transactions :: "proto_transaction list"
  sr_pagination :: "pagination_metadata option"
  sr_opening_balance :: "proto_money option"
  sr_closing_balance :: "proto_money option"
  sr_total_credits :: "proto_money option"
  sr_total_debits :: "proto_money option"
  sr_total_fees :: "proto_money option"
  sr_total_count :: int
  sr_error :: "proto_error option"

definition default_statement_reply :: statement_reply where
  "default_statement_reply = \<lparr>sr_account_id = [], sr_transactions = [], sr_pagination = None,
     sr_opening_balance = None, sr_closing_balance = None, sr_total_credits = None, sr_total_debits = None,
     sr_total_fees = None, sr_total_count = 0, sr_error = None\<rparr>"

record transactions_reply =
  tr_transactions :: "proto_transaction list"
  tr_pagination :: "pagination_metadata option"
  tr_total_count :: int
  tr_total_credits :: "proto_money option"
  tr_total_debits :: "proto_money option"
  tr_total_fees :: "proto_money option"
  tr_error :: "proto_error option"

definition default_transactions_reply :: transactions_reply where
  "default_transactions_reply = \<lparr>tr_transactions = [], tr_pagination = None, tr_total_count = 0,
     tr_total_credits = None, tr_total_debits = None, tr_total_fees = None, tr_error = None\<rparr>"

record rebuild_reply =
  rb_account_id :: string
  rb_success :: bool
  rb_events_replayed :: int
  rb_completed_at :: "timestamp option"
  rb_reconciled_balance :: "proto_money option"
  rb_error :: "proto_error option"

definition default_rebuild_reply :: rebuild_reply where
  "default_rebuild_reply = \<lparr>rb_account_id = [], rb_success = False, rb_events_replayed = 0,
     rb_completed_at = None, rb_reconciled_balance = None, rb_error = None\<rparr>"

record double_entry_reply =
  de_transaction_id :: string
  de_is_balanced :: bool
  de_total_debits :: "proto_money option"
  de_total_credits :: "proto_money option"
  de_difference :: "proto_money option"
  de_error :: "proto_error option"

definition default_double_entry_reply :: double_entry_reply where
  "default_double_entry_reply = \<lparr>de_transaction_id = [], de_is_balanced = False, de_total_debits = None,
     de_total_credits = None, de_difference = None, de_error = None\<rparr>"

section \<open>The handlers\<close>

text \<open>
  \<open>match handler.query(..).await\<close>: a value becomes the reply, an error of the read model becomes the
  error of an otherwise empty reply.
\<close>

definition respond ::
  "(db_world, ledger_error, 'a) eff \<Rightarrow> ('a \<Rightarrow> 'b) \<Rightarrow>
      (proto_error option \<Rightarrow> 'b) \<Rightarrow> string \<Rightarrow> (db_world, status, 'b) eff" where
  "respond query ok err trace_id =
     bindE (attemptE query) (\<lambda>result.
     okE (case result of Inr a \<Rightarrow> ok a | Inl e \<Rightarrow> err (snd (map_error e trace_id))))"

definition optional_uuid :: "'x ledger_crates_scheme \<Rightarrow> string \<Rightarrow> status + uuid option" where
  "optional_uuid lc s = (if s = [] then Inr None else map_sum id Some (lq_parse_uuid lc s))"

definition transactions_to_reply :: "'x ledger_crates_scheme \<Rightarrow> transaction_page \<Rightarrow>
    transactions_reply" where
  "transactions_to_reply lc =
     (\<lambda>(transactions, meta, total_count, credits, debits, fees).
       \<lparr>tr_transactions = map (map_domain_transaction lc) transactions,
        tr_pagination = Some (map_domain_pagination meta), tr_total_count = total_count,
        tr_total_credits = decimal_to_money credits ''USD'', tr_total_debits = decimal_to_money debits ''USD'',
        tr_total_fees = decimal_to_money fees ''USD'', tr_error = None\<rparr>)"

definition grpc_get_account_balance ::
  "'x ledger_crates_scheme \<Rightarrow> read_model \<Rightarrow> (string \<rightharpoonup> string) \<Rightarrow>
      string \<Rightarrow> string \<Rightarrow> timestamp option \<Rightarrow> (db_world, status,
      proto_account_balance) eff" where
  "grpc_get_account_balance lc rm metadata r_account_id r_tenant_id r_as_of =
     (let trace_id = lq_extract_trace_id lc metadata in
     bindE (liftE (lq_parse_uuid lc r_account_id)) (\<lambda>account_id.
     bindE (liftE (lq_parse_uuid lc r_tenant_id)) (\<lambda>tenant_id.
     let as_of = prost_to_chrono lc r_as_of in
     respond (handler_get_account_balance rm account_id tenant_id as_of)
       (account_balance_to_proto lc)
       (\<lambda>e. default_account_balance\<lparr>pab_account_id := r_account_id, pab_tenant_id := r_tenant_id,
         pab_error := e\<rparr>) trace_id)))"

definition grpc_get_account_statement ::
  "'x ledger_crates_scheme \<Rightarrow> read_model \<Rightarrow> (string \<rightharpoonup> string) \<Rightarrow>
      string \<Rightarrow> string \<Rightarrow> timestamp option \<Rightarrow> timestamp option \<Rightarrow>
      proto_pagination option \<Rightarrow> (db_world, status, statement_reply) eff" where
  "grpc_get_account_statement lc rm metadata r_account_id r_tenant_id r_from_date r_to_date r_pagination =
     (let trace_id = lq_extract_trace_id lc metadata in
     bindE (liftE (lq_parse_uuid lc r_account_id)) (\<lambda>account_id.
     bindE (liftE (lq_parse_uuid lc r_tenant_id)) (\<lambda>tenant_id.
     bindE (liftE (required_date lc ''from_date is required'' r_from_date)) (\<lambda>from_date.
     bindE (liftE (required_date lc ''to_date is required'' r_to_date)) (\<lambda>to_date.
     let pagination = map_proto_pagination r_pagination in
     respond (handler_get_account_statement rm account_id tenant_id from_date to_date pagination)
       (\<lambda>(transactions, meta, opening, closing, credits, debits, fees).
        \<lparr>sr_account_id = r_account_id, sr_transactions = map (map_domain_transaction lc) transactions,
         sr_pagination = Some (map_domain_pagination meta), sr_opening_balance = decimal_to_money opening ''USD'',
         sr_closing_balance = decimal_to_money closing ''USD'', sr_total_credits = decimal_to_money credits ''USD'',
         sr_total_debits = decimal_to_money debits ''USD'', sr_total_fees = decimal_to_money fees ''USD'',
         sr_total_count = lq_pm_total_count meta, sr_error = None\<rparr>)
       (\<lambda>e. default_statement_reply\<lparr>sr_account_id := r_account_id,
         sr_error := e\<rparr>) trace_id)))))"

definition grpc_get_transaction_by_id ::
  "'x ledger_crates_scheme \<Rightarrow> read_model \<Rightarrow> (string \<rightharpoonup> string) \<Rightarrow>
      string \<Rightarrow> string \<Rightarrow> (db_world, status, proto_transaction) eff" where
  "grpc_get_transaction_by_id lc rm metadata r_transaction_id r_tenant_id =
     (let trace_id = lq_extract_trace_id lc metadata in
     bindE (liftE (lq_parse_uuid lc r_transaction_id)) (\<lambda>transaction_id.
     bindE (liftE (lq_parse_uuid lc r_tenant_id)) (\<lambda>tenant_id.
     respond (handler_get_transaction_by_id rm transaction_id tenant_id)
       (map_domain_transaction lc)
       (\<lambda>e. default_transaction\<lparr>ptx_transaction_id := r_transaction_id,
         ptx_error := e\<rparr>) trace_id)))"

definition grpc_list_transactions ::
  "'x ledger_crates_scheme \<Rightarrow> read_model \<Rightarrow> (string \<rightharpoonup> string) \<Rightarrow>
      string \<Rightarrow> string list \<Rightarrow> int list \<Rightarrow> timestamp option \<Rightarrow>
      timestamp option \<Rightarrow> proto_pagination option \<Rightarrow> (db_world, status,
      transactions_reply) eff" where
  "grpc_list_transactions lc rm metadata r_tenant_id r_account_ids r_types r_from_date r_to_date r_pagination =
     (let trace_id = lq_extract_trace_id lc metadata in
     bindE (liftE (lq_parse_uuid lc r_tenant_id)) (\<lambda>tenant_id.
     bindE (liftE (collect_result (lq_parse_uuid lc) r_account_ids)) (\<lambda>account_ids.
     let types = List.map_filter transaction_type_from_i32 r_types in
     bindE (liftE (required_date lc ''from_date is required'' r_from_date)) (\<lambda>from_date.
     bindE (liftE (required_date lc ''to_date is required'' r_to_date)) (\<lambda>to_date.
     let pagination = map_proto_pagination r_pagination in
     respond (handler_list_transactions rm tenant_id account_ids types from_date to_date pagination)
       (transactions_to_reply lc)
       (\<lambda>e. default_transactions_reply\<lparr>tr_error := e\<rparr>) trace_id)))))"

definition grpc_search_transactions ::
  "'x ledger_crates_scheme \<Rightarrow> read_model \<Rightarrow> (string \<rightharpoonup> string) \<Rightarrow>
      string \<Rightarrow> string \<Rightarrow> (string \<times> prost_value) list option \<Rightarrow>
      proto_pagination option \<Rightarrow> (db_world, status, transactions_reply) eff" where
  "grpc_search_transactions lc rm metadata r_tenant_id r_query r_filters r_pagination =
     (let trace_id = lq_extract_trace_id lc metadata in
     bindE (liftE (lq_parse_uuid lc r_tenant_id)) (\<lambda>tenant_id.
     let filters = map_option (prost_struct_to_json_value lc) r_filters in
     let pagination = map_proto_pagination r_pagination in
     respond (handler_search_transactions rm tenant_id r_query filters pagination)
       (transactions_to_reply lc)
       (\<lambda>e. default_transactions_reply\<lparr>tr_error := e\<rparr>) trace_id))"

definition grpc_get_account_summary ::
  "'x ledger_crates_scheme \<Rightarrow> read_model \<Rightarrow> (string \<rightharpoonup> string) \<Rightarrow>
      string \<Rightarrow> timestamp option \<Rightarrow> (db_world, status, proto_account_summary) eff" where
  "grpc_get_account_summary lc rm metadata r_tenant_id r_as_of =
     (let trace_id = lq_extract_trace_id lc metadata in
     bindE (liftE (lq_parse_uuid lc r_tenant_id)) (\<lambda>tenant_id.
     let as_of = prost_to_chrono lc r_as_of in
     respond (handler_get_account_summary rm tenant_id as_of)
       (account_summary_to_proto lc)
       (\<lambda>e. default_account_summary\<lparr>pas_tenant_id := r_tenant_id, pas_error := e\<rparr>) trace_id))"

definition grpc_get_movement_legs ::
  "'x ledger_crates_scheme \<Rightarrow> read_model \<Rightarrow> (string \<rightharpoonup> string) \<Rightarrow>
      string \<Rightarrow> string \<Rightarrow> (db_world, status, proto_movement_leg keyed_reply) eff" where
  "grpc_get_movement_legs lc rm metadata r_transaction_id r_tenant_id =
     (let trace_id = lq_extract_trace_id lc metadata in
     bindE (liftE (lq_parse_uuid lc r_transaction_id)) (\<lambda>transaction_id.
     bindE (liftE (lq_parse_uuid lc r_tenant_id)) (\<lambda>tenant_id.
     respond (handler_get_movement_legs rm transaction_id tenant_id)
       (\<lambda>items. \<lparr>lqk_id = r_transaction_id, lqk_items = map movement_leg_to_proto items,
         lqk_error = None\<rparr>)
       (\<lambda>e. \<lparr>lqk_id = r_transaction_id, lqk_items = [], lqk_error = e\<rparr>) trace_id)))"

definition grpc_verify_double_entry ::
  "'x ledger_crates_scheme \<Rightarrow> read_model \<Rightarrow> (string \<rightharpoonup> string) \<Rightarrow>
      string \<Rightarrow> string \<Rightarrow> (db_world, status, double_entry_reply) eff" where
  "grpc_verify_double_entry lc rm metadata r_transaction_id r_tenant_id =
     (let trace_id = lq_extract_trace_id lc metadata in
     bindE (liftE (lq_parse_uuid lc r_transaction_id)) (\<lambda>transaction_id.
     bindE (liftE (lq_parse_uuid lc r_tenant_id)) (\<lambda>tenant_id.
     respond (handler_verify_double_entry rm transaction_id tenant_id)
       (\<lambda>(is_balanced, total_debits, total_credits, difference).
        \<lparr>de_transaction_id = r_transaction_id, de_is_balanced = is_balanced,
         de_total_debits = decimal_to_money total_debits ''USD'',
           de_total_credits = decimal_to_money total_credits ''USD'',
         de_difference = decimal_to_money difference ''USD'', de_error = None\<rparr>)
       (\<lambda>e. default_double_entry_reply\<lparr>de_transaction_id := r_transaction_id,
         de_error := e\<rparr>) trace_id)))"

definition grpc_get_virtual_account ::
  "'x ledger_crates_scheme \<Rightarrow> read_model \<Rightarrow> (string \<rightharpoonup> string) \<Rightarrow>
      string \<Rightarrow> string \<Rightarrow> (db_world, status, proto_virtual_account) eff" where
  "grpc_get_virtual_account lc rm metadata r_virtual_account_id r_tenant_id =
     (let trace_id = lq_extract_trace_id lc metadata in
     bindE (liftE (lq_parse_uuid lc r_virtual_account_id)) (\<lambda>virtual_account_id.
     bindE (liftE (lq_parse_uuid lc r_tenant_id)) (\<lambda>tenant_id.
     respond (handler_get_virtual_account rm virtual_account_id tenant_id)
       (virtual_account_to_proto lc)
       (\<lambda>e. default_virtual_account\<lparr>pva_virtual_account_id := r_virtual_account_id,
         pva_error := e\<rparr>) trace_id)))"

definition grpc_list_virtual_accounts ::
  "'x ledger_crates_scheme \<Rightarrow> read_model \<Rightarrow> (string \<rightharpoonup> string) \<Rightarrow>
      string \<Rightarrow> string \<Rightarrow> int list \<Rightarrow> int list \<Rightarrow>
      proto_pagination option \<Rightarrow> (db_world, status, proto_virtual_account page_reply) eff" where
  "grpc_list_virtual_accounts lc rm metadata r_tenant_id r_parent_account_id r_types r_statuses r_pagination =
     (let trace_id = lq_extract_trace_id lc metadata in
     bindE (liftE (lq_parse_uuid lc r_tenant_id)) (\<lambda>tenant_id.
     bindE (liftE (optional_uuid lc r_parent_account_id)) (\<lambda>parent_account_id.
     let types = List.map_filter virtual_account_type_from_i32 r_types in
     let statuses = List.map_filter virtual_account_status_from_i32 r_statuses in
     let pagination = map_proto_pagination r_pagination in
     respond (handler_list_virtual_accounts rm tenant_id parent_account_id types statuses pagination)
       (\<lambda>(items, meta). \<lparr>lqp_items = map (virtual_account_to_proto lc) items,
         lqp_pagination = Some (map_domain_pagination meta), lqp_error = None\<rparr>)
       (\<lambda>e. \<lparr>lqp_items = [], lqp_pagination = None, lqp_error = e\<rparr>) trace_id)))"

definition grpc_get_virtual_account_summary ::
  "'x ledger_crates_scheme \<Rightarrow> read_model \<Rightarrow> (string \<rightharpoonup> string) \<Rightarrow>
      string \<Rightarrow> string \<Rightarrow> (db_world, status,
      proto_virtual_account_currency_summary keyed_reply) eff" where
  "grpc_get_virtual_account_summary lc rm metadata r_parent_account_id r_tenant_id =
     (let trace_id = lq_extract_trace_id lc metadata in
     bindE (liftE (lq_parse_uuid lc r_parent_account_id)) (\<lambda>parent_account_id.
     bindE (liftE (lq_parse_uuid lc r_tenant_id)) (\<lambda>tenant_id.
     respond (handler_get_virtual_account_summary rm parent_account_id tenant_id)
       (\<lambda>items. \<lparr>lqk_id = r_parent_account_id,
         lqk_items = map virtual_account_currency_summary_to_proto items, lqk_error = None\<rparr>)
       (\<lambda>e. \<lparr>lqk_id = r_parent_account_id, lqk_items = [], lqk_error = e\<rparr>) trace_id)))"

definition grpc_get_virtual_account_transactions ::
  "'x ledger_crates_scheme \<Rightarrow> read_model \<Rightarrow> (string \<rightharpoonup> string) \<Rightarrow>
      string \<Rightarrow> string \<Rightarrow> timestamp option \<Rightarrow> timestamp option \<Rightarrow>
      proto_pagination option \<Rightarrow> (db_world, status, transactions_reply) eff" where
  "grpc_get_virtual_account_transactions lc rm metadata r_virtual_account_id r_tenant_id r_from_date r_to_date r_pagination =
     (let trace_id = lq_extract_trace_id lc metadata in
     bindE (liftE (lq_parse_uuid lc r_virtual_account_id)) (\<lambda>virtual_account_id.
     bindE (liftE (lq_parse_uuid lc r_tenant_id)) (\<lambda>tenant_id.
     bindE (liftE (required_date lc ''from_date is required'' r_from_date)) (\<lambda>from_date.
     bindE (liftE (required_date lc ''to_date is required'' r_to_date)) (\<lambda>to_date.
     let pagination = map_proto_pagination r_pagination in
     respond (handler_get_virtual_account_transactions rm virtual_account_id tenant_id from_date to_date pagination)
       (transactions_to_reply lc)
       (\<lambda>e. default_transactions_reply\<lparr>tr_error := e\<rparr>) trace_id)))))"

definition grpc_get_liquidity_position ::
  "'x ledger_crates_scheme \<Rightarrow> read_model \<Rightarrow> (string \<rightharpoonup> string) \<Rightarrow>
      string \<Rightarrow> string \<Rightarrow> (db_world, status, proto_liquidity_position) eff" where
  "grpc_get_liquidity_position lc rm metadata r_position_id r_tenant_id =
     (let trace_id = lq_extract_trace_id lc metadata in
     bindE (liftE (lq_parse_uuid lc r_position_id)) (\<lambda>position_id.
     bindE (liftE (lq_parse_uuid lc r_tenant_id)) (\<lambda>tenant_id.
     respond (handler_get_liquidity_position rm position_id tenant_id)
       (liquidity_position_to_proto lc)
       (\<lambda>e. default_liquidity_position\<lparr>plp_position_id := r_position_id,
         plp_error := e\<rparr>) trace_id)))"

definition grpc_list_liquidity_positions ::
  "'x ledger_crates_scheme \<Rightarrow> read_model \<Rightarrow> (string \<rightharpoonup> string) \<Rightarrow>
      string \<Rightarrow> string \<Rightarrow> int list \<Rightarrow> int list \<Rightarrow>
      proto_pagination option \<Rightarrow> (db_world, status, proto_liquidity_position page_reply) eff" where
  "grpc_list_liquidity_positions lc rm metadata r_tenant_id r_account_id r_types r_statuses r_pagination =
     (let trace_id = lq_extract_trace_id lc metadata in
     bindE (liftE (lq_parse_uuid lc r_tenant_id)) (\<lambda>tenant_id.
     bindE (liftE (optional_uuid lc r_account_id)) (\<lambda>account_id.
     let types = List.map_filter liquidity_position_type_from_i32 r_types in
     let statuses = List.map_filter liquidity_position_status_from_i32 r_statuses in
     let pagination = map_proto_pagination r_pagination in
     respond (handler_list_liquidity_positions rm tenant_id account_id types statuses pagination)
       (\<lambda>(items, meta). \<lparr>lqp_items = map (liquidity_position_to_proto lc) items,
         lqp_pagination = Some (map_domain_pagination meta), lqp_error = None\<rparr>)
       (\<lambda>e. \<lparr>lqp_items = [], lqp_pagination = None, lqp_error = e\<rparr>) trace_id)))"

definition grpc_get_liquidity_summary ::
  "'x ledger_crates_scheme \<Rightarrow> read_model \<Rightarrow> (string \<rightharpoonup> string) \<Rightarrow>
      string \<Rightarrow> string \<Rightarrow> (db_world, status,
      proto_liquidity_summary_item keyed_reply) eff" where
  "grpc_get_liquidity_summary lc rm metadata r_account_id r_tenant_id =
     (let trace_id = lq_extract_trace_id lc metadata in
     bindE (liftE (lq_parse_uuid lc r_account_id)) (\<lambda>account_id.
     bindE (liftE (lq_parse_uuid lc r_tenant_id)) (\<lambda>tenant_id.
     respond (handler_get_liquidity_summary rm account_id tenant_id)
       (\<lambda>items. \<lparr>lqk_id = r_account_id, lqk_items = map liquidity_summary_item_to_proto items,
         lqk_error = None\<rparr>)
       (\<lambda>e. \<lparr>lqk_id = r_account_id, lqk_items = [], lqk_error = e\<rparr>) trace_id)))"

definition grpc_get_expiring_positions ::
  "'x ledger_crates_scheme \<Rightarrow> read_model \<Rightarrow> (string \<rightharpoonup> string) \<Rightarrow>
      string \<Rightarrow> int \<Rightarrow> (db_world, status, proto_expiring_position items_reply) eff" where
  "grpc_get_expiring_positions lc rm metadata r_tenant_id r_lookahead_minutes =
     (let trace_id = lq_extract_trace_id lc metadata in
     bindE (liftE (lq_parse_uuid lc r_tenant_id)) (\<lambda>tenant_id.
     respond (handler_get_expiring_positions rm tenant_id r_lookahead_minutes)
       (\<lambda>items. \<lparr>lqi_items = map (expiring_position_to_proto lc) items, lqi_error = None\<rparr>)
       (\<lambda>e. \<lparr>lqi_items = [], lqi_error = e\<rparr>) trace_id))"

definition grpc_get_settlement_instruction ::
  "'x ledger_crates_scheme \<Rightarrow> read_model \<Rightarrow> (string \<rightharpoonup> string) \<Rightarrow>
      string \<Rightarrow> string \<Rightarrow> (db_world, status, proto_settlement_instruction) eff" where
  "grpc_get_settlement_instruction lc rm metadata r_settlement_id r_tenant_id =
     (let trace_id = lq_extract_trace_id lc metadata in
     bindE (liftE (lq_parse_uuid lc r_settlement_id)) (\<lambda>settlement_id.
     bindE (liftE (lq_parse_uuid lc r_tenant_id)) (\<lambda>tenant_id.
     respond (handler_get_settlement_instruction rm settlement_id tenant_id)
       (settlement_instruction_to_proto lc)
       (\<lambda>e. default_settlement_instruction\<lparr>psi_settlement_id := r_settlement_id,
         psi_error := e\<rparr>) trace_id)))"

definition grpc_list_settlement_instructions ::
  "'x ledger_crates_scheme \<Rightarrow> read_model \<Rightarrow> (string \<rightharpoonup> string) \<Rightarrow>
      string \<Rightarrow> int \<Rightarrow> int list \<Rightarrow> timestamp option \<Rightarrow>
      timestamp option \<Rightarrow> proto_pagination option \<Rightarrow> (db_world, status,
      proto_settlement_instruction page_reply) eff" where
  "grpc_list_settlement_instructions lc rm metadata r_tenant_id r_settlement_type r_statuses r_from_date r_to_date r_pagination =
     (let trace_id = lq_extract_trace_id lc metadata in
     bindE (liftE (lq_parse_uuid lc r_tenant_id)) (\<lambda>tenant_id.
     let settlement_type = (if r_settlement_type = 0 then None else settlement_type_from_i32 r_settlement_type) in
     let statuses = List.map_filter settlement_status_from_i32 r_statuses in
     bindE (liftE (required_date lc ''from_date is required'' r_from_date)) (\<lambda>from_date.
     bindE (liftE (required_date lc ''to_date is required'' r_to_date)) (\<lambda>to_date.
     let pagination = map_proto_pagination r_pagination in
     respond (handler_list_settlement_instructions rm tenant_id settlement_type statuses from_date to_date pagination)
       (\<lambda>(items, meta). \<lparr>lqp_items = map (settlement_instruction_to_proto lc) items,
         lqp_pagination = Some (map_domain_pagination meta), lqp_error = None\<rparr>)
       (\<lambda>e. \<lparr>lqp_items = [], lqp_pagination = None, lqp_error = e\<rparr>) trace_id))))"

definition grpc_get_pending_settlements ::
  "'x ledger_crates_scheme \<Rightarrow> read_model \<Rightarrow> (string \<rightharpoonup> string) \<Rightarrow>
      string \<Rightarrow> (db_world, status, proto_settlement_instruction items_reply) eff" where
  "grpc_get_pending_settlements lc rm metadata r_tenant_id =
     (let trace_id = lq_extract_trace_id lc metadata in
     bindE (liftE (lq_parse_uuid lc r_tenant_id)) (\<lambda>tenant_id.
     respond (handler_get_pending_settlements rm tenant_id)
       (\<lambda>items. \<lparr>lqi_items = map (settlement_instruction_to_proto lc) items, lqi_error = None\<rparr>)
       (\<lambda>e. \<lparr>lqi_items = [], lqi_error = e\<rparr>) trace_id))"

definition grpc_get_settlement_summary ::
  "'x ledger_crates_scheme \<Rightarrow> read_model \<Rightarrow> (string \<rightharpoonup> string) \<Rightarrow>
      string \<Rightarrow> timestamp option \<Rightarrow> timestamp option \<Rightarrow> (db_world, status,
      proto_settlement_summary_item items_reply) eff" where
  "grpc_get_settlement_summary lc rm metadata r_tenant_id r_start_date r_end_date =
     (let trace_id = lq_extract_trace_id lc metadata in
     bindE (liftE (lq_parse_uuid lc r_tenant_id)) (\<lambda>tenant_id.
     bindE (liftE (required_date lc ''start_date is required'' r_start_date)) (\<lambda>start_date.
     bindE (liftE (required_date lc ''end_date is required'' r_end_date)) (\<lambda>end_date.
     respond (handler_get_settlement_summary rm tenant_id start_date end_date)
       (\<lambda>items. \<lparr>lqi_items = map settlement_summary_item_to_proto items, lqi_error = None\<rparr>)
       (\<lambda>e. \<lparr>lqi_items = [], lqi_error = e\<rparr>) trace_id))))"

definition grpc_get_suspense_item ::
  "'x ledger_crates_scheme \<Rightarrow> read_model \<Rightarrow> (string \<rightharpoonup> string) \<Rightarrow>
      string \<Rightarrow> string \<Rightarrow> (db_world, status, proto_suspense_item) eff" where
  "grpc_get_suspense_item lc rm metadata r_suspense_id r_tenant_id =
     (let trace_id = lq_extract_trace_id lc metadata in
     bindE (liftE (lq_parse_uuid lc r_suspense_id)) (\<lambda>suspense_id.
     bindE (liftE (lq_parse_uuid lc r_tenant_id)) (\<lambda>tenant_id.
     respond (handler_get_suspense_item rm suspense_id tenant_id)
       (suspense_item_to_proto lc)
       (\<lambda>e. default_suspense_item\<lparr>psu_suspense_id := r_suspense_id,
         psu_error := e\<rparr>) trace_id)))"

definition grpc_list_suspense_items ::
  "'x ledger_crates_scheme \<Rightarrow> read_model \<Rightarrow> (string \<rightharpoonup> string) \<Rightarrow>
      string \<Rightarrow> int list \<Rightarrow> int list \<Rightarrow> string \<Rightarrow>
      proto_pagination option \<Rightarrow> (db_world, status, proto_suspense_item page_reply) eff" where
  "grpc_list_suspense_items lc rm metadata r_tenant_id r_statuses r_categories r_priority r_pagination =
     (let trace_id = lq_extract_trace_id lc metadata in
     bindE (liftE (lq_parse_uuid lc r_tenant_id)) (\<lambda>tenant_id.
     let statuses = List.map_filter suspense_status_from_i32 r_statuses in
     let categories = List.map_filter suspense_category_from_i32 r_categories in
     let priority = non_empty r_priority in
     let pagination = map_proto_pagination r_pagination in
     respond (handler_list_suspense_items rm tenant_id statuses categories priority pagination)
       (\<lambda>(items, meta). \<lparr>lqp_items = map (suspense_item_to_proto lc) items,
         lqp_pagination = Some (map_domain_pagination meta), lqp_error = None\<rparr>)
       (\<lambda>e. \<lparr>lqp_items = [], lqp_pagination = None, lqp_error = e\<rparr>) trace_id))"

definition grpc_get_suspense_aging_report ::
  "'x ledger_crates_scheme \<Rightarrow> read_model \<Rightarrow> (string \<rightharpoonup> string) \<Rightarrow>
      string \<Rightarrow> (db_world, status, proto_suspense_aging_bucket items_reply) eff" where
  "grpc_get_suspense_aging_report lc rm metadata r_tenant_id =
     (let trace_id = lq_extract_trace_id lc metadata in
     bindE (liftE (lq_parse_uuid lc r_tenant_id)) (\<lambda>tenant_id.
     respond (handler_get_suspense_aging_report rm tenant_id)
       (\<lambda>items. \<lparr>lqi_items = map suspense_aging_bucket_to_proto items, lqi_error = None\<rparr>)
       (\<lambda>e. \<lparr>lqi_items = [], lqi_error = e\<rparr>) trace_id))"

definition grpc_get_suspense_activity_log ::
  "'x ledger_crates_scheme \<Rightarrow> read_model \<Rightarrow> (string \<rightharpoonup> string) \<Rightarrow>
      string \<Rightarrow> string \<Rightarrow> proto_pagination option \<Rightarrow> (db_world, status,
      proto_suspense_activity_entry page_reply) eff" where
  "grpc_get_suspense_activity_log lc rm metadata r_suspense_id r_tenant_id r_pagination =
     (let trace_id = lq_extract_trace_id lc metadata in
     bindE (liftE (lq_parse_uuid lc r_suspense_id)) (\<lambda>suspense_id.
     bindE (liftE (lq_parse_uuid lc r_tenant_id)) (\<lambda>tenant_id.
     let pagination = map_proto_pagination r_pagination in
     respond (handler_get_suspense_activity_log rm suspense_id tenant_id pagination)
       (\<lambda>(items, meta). \<lparr>lqp_items = map suspense_activity_entry_to_proto items,
         lqp_pagination = Some (map_domain_pagination meta), lqp_error = None\<rparr>)
       (\<lambda>e. \<lparr>lqp_items = [], lqp_pagination = None, lqp_error = e\<rparr>) trace_id)))"

definition grpc_get_coa_entry ::
  "'x ledger_crates_scheme \<Rightarrow> read_model \<Rightarrow> (string \<rightharpoonup> string) \<Rightarrow>
      string \<Rightarrow> string \<Rightarrow> (db_world, status, proto_coa_entry) eff" where
  "grpc_get_coa_entry lc rm metadata r_coa_code r_tenant_id =
     (let trace_id = lq_extract_trace_id lc metadata in
     bindE (liftE (lq_parse_uuid lc r_tenant_id)) (\<lambda>tenant_id.
     respond (handler_get_coa_entry rm r_coa_code tenant_id)
       (coa_entry_to_proto lc)
       (\<lambda>e. default_coa_entry\<lparr>pce_coa_code := r_coa_code, pce_error := e\<rparr>) trace_id))"

definition grpc_list_coa_entries ::
  "'x ledger_crates_scheme \<Rightarrow> read_model \<Rightarrow> (string \<rightharpoonup> string) \<Rightarrow>
      string \<Rightarrow> string \<Rightarrow> string \<Rightarrow> proto_pagination option \<Rightarrow>
      (db_world, status, proto_coa_entry page_reply) eff" where
  "grpc_list_coa_entries lc rm metadata r_tenant_id r_parent_code r_account_category r_pagination =
     (let trace_id = lq_extract_trace_id lc metadata in
     bindE (liftE (lq_parse_uuid lc r_tenant_id)) (\<lambda>tenant_id.
     let parent_code = non_empty r_parent_code in
     let account_category = non_empty r_account_category in
     let pagination = map_proto_pagination r_pagination in
     respond (handler_list_coa_entries rm tenant_id parent_code account_category pagination)
       (\<lambda>(items, meta). \<lparr>lqp_items = map (coa_entry_to_proto lc) items,
         lqp_pagination = Some (map_domain_pagination meta), lqp_error = None\<rparr>)
       (\<lambda>e. \<lparr>lqp_items = [], lqp_pagination = None, lqp_error = e\<rparr>) trace_id))"

definition grpc_get_period_end_balance ::
  "'x ledger_crates_scheme \<Rightarrow> read_model \<Rightarrow> (string \<rightharpoonup> string) \<Rightarrow>
      string \<Rightarrow> string \<Rightarrow> string \<Rightarrow> (db_world, status,
      proto_period_end_balance) eff" where
  "grpc_get_period_end_balance lc rm metadata r_account_id r_tenant_id r_fiscal_period_id =
     (let trace_id = lq_extract_trace_id lc metadata in
     bindE (liftE (lq_parse_uuid lc r_account_id)) (\<lambda>account_id.
     bindE (liftE (lq_parse_uuid lc r_tenant_id)) (\<lambda>tenant_id.
     respond (handler_get_period_end_balance rm account_id tenant_id r_fiscal_period_id)
       (period_end_balance_to_proto lc)
       (\<lambda>e. default_period_end_balance\<lparr>ppb_account_id := r_account_id,
         ppb_tenant_id := r_tenant_id, ppb_fiscal_period_id := r_fiscal_period_id,
         ppb_error := e\<rparr>) trace_id)))"

definition grpc_list_period_end_balances ::
  "'x ledger_crates_scheme \<Rightarrow> read_model \<Rightarrow> (string \<rightharpoonup> string) \<Rightarrow>
      string \<Rightarrow> string \<Rightarrow> proto_pagination option \<Rightarrow> (db_world, status,
      proto_period_end_balance page_reply) eff" where
  "grpc_list_period_end_balances lc rm metadata r_tenant_id r_fiscal_period_id r_pagination =
     (let trace_id = lq_extract_trace_id lc metadata in
     bindE (liftE (lq_parse_uuid lc r_tenant_id)) (\<lambda>tenant_id.
     let pagination = map_proto_pagination r_pagination in
     respond (handler_list_period_end_balances rm tenant_id r_fiscal_period_id pagination)
       (\<lambda>(items, meta). \<lparr>lqp_items = map (period_end_balance_to_proto lc) items,
         lqp_pagination = Some (map_domain_pagination meta), lqp_error = None\<rparr>)
       (\<lambda>e. \<lparr>lqp_items = [], lqp_pagination = None, lqp_error = e\<rparr>) trace_id))"

text \<open>The reply to a rebuild carries the time after the query.\<close>

definition grpc_rebuild_account_view ::
  "'x ledger_crates_scheme \<Rightarrow> read_model \<Rightarrow> (string \<rightharpoonup> string) \<Rightarrow>
      string \<Rightarrow> string \<Rightarrow> bool \<Rightarrow> (db_world, status, rebuild_reply) eff" where
  "grpc_rebuild_account_view lc rm metadata r_account_id r_tenant_id dry_run =
     (let trace_id = lq_extract_trace_id lc metadata in
     bindE (liftE (lq_parse_uuid lc r_account_id)) (\<lambda>account_id.
     bindE (liftE (lq_parse_uuid lc r_tenant_id)) (\<lambda>tenant_id.
     bindE (attemptE (handler_rebuild_account_view rm account_id tenant_id dry_run)) (\<lambda>result.
     case result of
       Inr (success, events_replayed, reconciled_balance) \<Rightarrow>
         bindE utc_now (\<lambda>now.
         okE \<lparr>rb_account_id = r_account_id, rb_success = success, rb_events_replayed = events_replayed,
              rb_completed_at = Some (to_timestamp now),
              rb_reconciled_balance = decimal_to_money reconciled_balance ''USD'', rb_error = None\<rparr>)
     | Inl e \<Rightarrow>
         okE (default_rebuild_reply\<lparr>rb_account_id := r_account_id,
           rb_error := snd (map_error e trace_id)\<rparr>)))))"

end
