(* ===== verification/Ledger_Properties.thy ===== *)
theory Ledger_Properties
  imports Ledger_Port "HOL-Library.Multiset"
begin

text \<open>
  Properties of the ledger query service: the numbers of the enumerations, money amounts, the
  conversion of search filters, what a request can make the service ask the read model, which
  requests are refused, and what the service answers over the PostgreSQL read model.
\<close>

section \<open>Enumerations on the wire\<close>

text \<open>
  What the port relies on in \<open>as_i32\<close> and \<open>from_i32\<close> of an enumeration with \<open>n\<close> variants: they are
  inverse to each other, and the numbers are \<open>0\<close> to \<open>n - 1\<close>.
\<close>

locale proto_enum =
  fixes as_num :: "'a \<Rightarrow> int" and from_num :: "int \<Rightarrow> 'a option" and n :: int
  assumes from_iff: "from_num v = Some x \<longleftrightarrow> as_num x = v"
    and known: "from_num v = None \<longleftrightarrow> v < 0 \<or> n \<le> v"
begin

lemma from_as: "from_num (as_num x) = Some x"
  by (simp add: from_iff)

lemma as_num_inject: "as_num x = as_num y \<longleftrightarrow> x = y"
  by (metis from_as option.inject)

lemma as_num_range: "0 \<le> as_num x \<and> as_num x < n"
  using known [of "as_num x"] by (auto simp: from_as)

lemma decode_list: "List.map_filter from_num (map as_num xs) = xs"
  by (induction xs) (simp_all add: map_filter_simps from_as)

lemma encode_decoded: "map as_num (List.map_filter from_num vs) = filter (\<lambda>v. 0 \<le> v \<and> v < n) vs"
proof (induction vs)
  case (Cons v vs)
  show ?case
  proof (cases "from_num v")
    case None
    then show ?thesis using Cons known [of v] by (auto simp: map_filter_simps)
  next
    case (Some x)
    then have "as_num x = v" by (simp add: from_iff)
    then show ?thesis using Some Cons as_num_range [of x] by (auto simp: map_filter_simps)
  qed
qed (simp add: map_filter_simps)

end

interpretation enum_At: proto_enum account_type_as_i32 account_type_from_i32 9
proof
  show "account_type_from_i32 v = Some x \<longleftrightarrow> account_type_as_i32 x =
      v" for v x by (cases x) (auto simp: account_type_from_i32_def split: if_splits)
  show "account_type_from_i32 v =
      None \<longleftrightarrow> v < 0 \<or> 9 \<le> v" for v by (simp add: account_type_from_i32_def; presburger)
qed

interpretation enum_Tt: proto_enum transaction_type_as_i32 transaction_type_from_i32 10
proof
  show "transaction_type_from_i32 v = Some x \<longleftrightarrow> transaction_type_as_i32 x =
      v" for v x by (cases x) (auto simp: transaction_type_from_i32_def split: if_splits)
  show "transaction_type_from_i32 v =
      None \<longleftrightarrow> v < 0 \<or> 10 \<le> v" for v by
      (simp add: transaction_type_from_i32_def; presburger)
qed

interpretation enum_Vt: proto_enum virtual_account_type_as_i32 virtual_account_type_from_i32 10
proof
  show "virtual_account_type_from_i32 v = Some x \<longleftrightarrow> virtual_account_type_as_i32 x =
      v" for v x by (cases x) (auto simp: virtual_account_type_from_i32_def split: if_splits)
  show "virtual_account_type_from_i32 v =
      None \<longleftrightarrow> v < 0 \<or> 10 \<le> v" for v by
      (simp add: virtual_account_type_from_i32_def; presburger)
qed

interpretation enum_Vs: proto_enum virtual_account_status_as_i32 virtual_account_status_from_i32 5
proof
  show "virtual_account_status_from_i32 v = Some x \<longleftrightarrow> virtual_account_status_as_i32 x =
      v" for v x by (cases x) (auto simp: virtual_account_status_from_i32_def split: if_splits)
  show "virtual_account_status_from_i32 v =
      None \<longleftrightarrow> v < 0 \<or> 5 \<le> v" for v by
      (simp add: virtual_account_status_from_i32_def; presburger)
qed

interpretation enum_Lt: proto_enum liquidity_position_type_as_i32 liquidity_position_type_from_i32 6
proof
  show "liquidity_position_type_from_i32 v = Some x \<longleftrightarrow> liquidity_position_type_as_i32 x =
      v" for v x by (cases x) (auto simp: liquidity_position_type_from_i32_def split: if_splits)
  show "liquidity_position_type_from_i32 v =
      None \<longleftrightarrow> v < 0 \<or> 6 \<le> v" for v by
      (simp add: liquidity_position_type_from_i32_def; presburger)
qed

interpretation enum_Ls: proto_enum liquidity_position_status_as_i32 liquidity_position_status_from_i32 6
proof
  show "liquidity_position_status_from_i32 v = Some x \<longleftrightarrow> liquidity_position_status_as_i32 x =
      v" for v x by (cases x) (auto simp: liquidity_position_status_from_i32_def split: if_splits)
  show "liquidity_position_status_from_i32 v =
      None \<longleftrightarrow> v < 0 \<or> 6 \<le> v" for v by
      (simp add: liquidity_position_status_from_i32_def; presburger)
qed

interpretation enum_St: proto_enum settlement_type_as_i32 settlement_type_from_i32 6
proof
  show "settlement_type_from_i32 v = Some x \<longleftrightarrow> settlement_type_as_i32 x =
      v" for v x by (cases x) (auto simp: settlement_type_from_i32_def split: if_splits)
  show "settlement_type_from_i32 v =
      None \<longleftrightarrow> v < 0 \<or> 6 \<le> v" for v by (simp add: settlement_type_from_i32_def; presburger)
qed

interpretation enum_Ss: proto_enum settlement_status_as_i32 settlement_status_from_i32 7
proof
  show "settlement_status_from_i32 v = Some x \<longleftrightarrow> settlement_status_as_i32 x =
      v" for v x by (cases x) (auto simp: settlement_status_from_i32_def split: if_splits)
  show "settlement_status_from_i32 v =
      None \<longleftrightarrow> v < 0 \<or> 7 \<le> v" for v by
      (simp add: settlement_status_from_i32_def; presburger)
qed

interpretation enum_Sc: proto_enum suspense_category_as_i32 suspense_category_from_i32 6
proof
  show "suspense_category_from_i32 v = Some x \<longleftrightarrow> suspense_category_as_i32 x =
      v" for v x by (cases x) (auto simp: suspense_category_from_i32_def split: if_splits)
  show "suspense_category_from_i32 v =
      None \<longleftrightarrow> v < 0 \<or> 6 \<le> v" for v by
      (simp add: suspense_category_from_i32_def; presburger)
qed

interpretation enum_Su: proto_enum suspense_status_as_i32 suspense_status_from_i32 6
proof
  show "suspense_status_from_i32 v = Some x \<longleftrightarrow> suspense_status_as_i32 x =
      v" for v x by (cases x) (auto simp: suspense_status_from_i32_def split: if_splits)
  show "suspense_status_from_i32 v =
      None \<longleftrightarrow> v < 0 \<or> 6 \<le> v" for v by (simp add: suspense_status_from_i32_def; presburger)
qed

interpretation enum_Sr: proto_enum suspense_resolution_type_as_i32 suspense_resolution_type_from_i32 6
proof
  show "suspense_resolution_type_from_i32 v = Some x \<longleftrightarrow> suspense_resolution_type_as_i32 x =
      v" for v x by (cases x) (auto simp: suspense_resolution_type_from_i32_def split: if_splits)
  show "suspense_resolution_type_from_i32 v =
      None \<longleftrightarrow> v < 0 \<or> 6 \<le> v" for v by
      (simp add: suspense_resolution_type_from_i32_def; presburger)
qed

text \<open>Every enumeration of the ledger API is read back from its number; a list of numbers in a request is
  read as the variants of the numbers that exist, in order, and the others are dropped, so that a list
  of unknown numbers only is read like an empty list.\<close>

lemma ledger_enum_codes:
  "map account_type_as_i32 (List.map_filter account_type_from_i32 vs) =
      filter (\<lambda>v. 0 \<le> v \<and> v < 9) vs \<and>
   List.map_filter account_type_from_i32 (map account_type_as_i32 ats) = ats \<and>
   map transaction_type_as_i32 (List.map_filter transaction_type_from_i32 vs) =
     filter (\<lambda>v. 0 \<le> v \<and> v < 10) vs \<and>
   List.map_filter transaction_type_from_i32 (map transaction_type_as_i32 tts) = tts \<and>
   map virtual_account_type_as_i32 (List.map_filter virtual_account_type_from_i32 vs) =
     filter (\<lambda>v. 0 \<le> v \<and> v < 10) vs \<and>
   List.map_filter virtual_account_type_from_i32 (map virtual_account_type_as_i32 vts) = vts \<and>
   map virtual_account_status_as_i32 (List.map_filter virtual_account_status_from_i32 vs) =
     filter (\<lambda>v. 0 \<le> v \<and> v < 5) vs \<and>
   List.map_filter virtual_account_status_from_i32 (map virtual_account_status_as_i32 vss) = vss \<and>
   map liquidity_position_type_as_i32 (List.map_filter liquidity_position_type_from_i32 vs) =
     filter (\<lambda>v. 0 \<le> v \<and> v < 6) vs \<and>
   List.map_filter liquidity_position_type_from_i32 (map liquidity_position_type_as_i32 lts) = lts \<and>
   map liquidity_position_status_as_i32 (List.map_filter liquidity_position_status_from_i32 vs) =
     filter (\<lambda>v. 0 \<le> v \<and> v < 6) vs \<and>
   List.map_filter liquidity_position_status_from_i32 (map liquidity_position_status_as_i32 lss) = lss \<and>
   map settlement_type_as_i32 (List.map_filter settlement_type_from_i32 vs) =
     filter (\<lambda>v. 0 \<le> v \<and> v < 6) vs \<and>
   List.map_filter settlement_type_from_i32 (map settlement_type_as_i32 sts) = sts \<and>
   map settlement_status_as_i32 (List.map_filter settlement_status_from_i32 vs) =
     filter (\<lambda>v. 0 \<le> v \<and> v < 7) vs \<and>
   List.map_filter settlement_status_from_i32 (map settlement_status_as_i32 sss) = sss \<and>
   map suspense_category_as_i32 (List.map_filter suspense_category_from_i32 vs) =
     filter (\<lambda>v. 0 \<le> v \<and> v < 6) vs \<and>
   List.map_filter suspense_category_from_i32 (map suspense_category_as_i32 scs) = scs \<and>
   map suspense_status_as_i32 (List.map_filter suspense_status_from_i32 vs) =
     filter (\<lambda>v. 0 \<le> v \<and> v < 6) vs \<and>
   List.map_filter suspense_status_from_i32 (map suspense_status_as_i32 sus) = sus \<and>
   map suspense_resolution_type_as_i32 (List.map_filter suspense_resolution_type_from_i32 vs) =
     filter (\<lambda>v. 0 \<le> v \<and> v < 6) vs \<and>
   List.map_filter suspense_resolution_type_from_i32 (map suspense_resolution_type_as_i32 srs) = srs"
  by (simp only: enum_At.encode_decoded enum_At.decode_list enum_Tt.encode_decoded enum_Tt.decode_list enum_Vt.encode_decoded enum_Vt.decode_list enum_Vs.encode_decoded enum_Vs.decode_list enum_Lt.encode_decoded enum_Lt.decode_list enum_Ls.encode_decoded enum_Ls.decode_list enum_St.encode_decoded enum_St.decode_list enum_Ss.encode_decoded enum_Ss.decode_list enum_Sc.encode_decoded enum_Sc.decode_list enum_Su.encode_decoded enum_Su.decode_list enum_Sr.encode_decoded enum_Sr.decode_list simp_thms)

section \<open>Money\<close>






section \<open>Search filters\<close>

lemma map_of_map_insert: "map_of (map_insert k v m) = (map_of m)(k \<mapsto> v)"
  by (induction m) (auto simp: fun_eq_iff)

lemma set_map_insert: "fst ` set (map_insert k v m) = insert k (fst ` set m)"
  by (induction k v m rule: map_insert.induct) (simp_all add: insert_commute)

lemma sorted_map_insert: "sorted_wrt (<) (map fst m) \<Longrightarrow> sorted_wrt (<) (map fst (map_insert k v m))"
proof (induction k v m rule: map_insert.induct)
  case (2 k v k' v' m)
  have keys: "(\<forall>x\<in>set (map fst (map_insert k v m)). k' < x) \<longleftrightarrow>
      (\<forall>x\<in>insert k (set (map fst m)). k' < x)"
    by (simp only: set_map set_map_insert)
  consider "k < k'" | "k = k'" | "k' < k" by (rule linorder_cases)
  then show ?case
  proof cases
    case 3
    then show ?thesis using 2 keys by (auto simp flip: set_map)
  qed (use 2 in auto)
qed simp

lemma collect_map_snoc: "collect_map (kvs @ [(k, v)]) = map_insert k v (collect_map kvs)"
  by (simp add: collect_map_def)

lemma collect_map_props:
  "map_of (collect_map kvs) = map_of (rev kvs) \<and> sorted_wrt (<) (map fst (collect_map kvs)) \<and>
   fst ` set (collect_map kvs) = fst ` set kvs"
proof (induction kvs rule: rev_induct)
  case (snoc kv kvs)
  then show ?case by (cases kv) (auto simp: collect_map_snoc map_of_map_insert set_map_insert sorted_map_insert)
qed (simp add: collect_map_def)

lemma map_of_rev_distinct: "distinct (map fst kvs) \<Longrightarrow> map_of (rev kvs) = map_of kvs"
  by (simp add: map_of_inject_set flip: rev_map)

lemma sorted_assoc_eq:
  assumes "sorted_wrt (<) (map fst m)" "sorted_wrt (<) (map fst m')" "map_of m =
      map_of (m' :: ('k :: linorder \<times> 'v) list)"
  shows "m = m'"
proof -
  have d: "distinct (map fst m)" "distinct (map fst m')" using assms(1,2) strict_sorted_iff by blast+
  have "set m = set m'" using assms(3) d by (metis map_of_eq_Some_iff prod.collapse subset_antisym subsetI)
  moreover have "inj_on fst (set m \<union> set m')" using d(1) calculation by (simp add: distinct_map)
  moreover have "sorted (map fst m)" "sorted (map fst m')" using assms(1,2) strict_sorted_iff by blast+
  ultimately show ?thesis using d by (intro map_sorted_distinct_set_unique [of fst])
qed

text \<open>The JSON object built from a protobuf struct does not depend on the order in which the fields of the
  struct are visited; its keys are sorted, and a field of the object is the converted field of the
  struct.\<close>

lemma prost_struct_order:
  assumes "distinct (map fst kvs)" "mset kvs = mset kvs'"
  shows "prost_struct_to_json_value lc kvs = prost_struct_to_json_value lc kvs' \<and>
    json_get (prost_struct_to_json_value lc kvs) k = map_option (prost_value_to_json_value lc) (map_of kvs k) \<and>
    (\<exists>m. prost_struct_to_json_value lc kvs = JObject m \<and> sorted_wrt (<) (map fst m))"
proof -
  let ?c = "\<lambda>kvs. map (\<lambda>(k, v). (k, prost_value_to_json_value lc v)) kvs"
  have keys: "map fst (?c kvs) = map fst kvs" for kvs by (induction kvs) auto
  have d: "distinct (map fst kvs')" using assms by (metis mset_eq_imp_distinct_iff mset_map)
  have m: "map_of kvs = map_of kvs'" using assms d by (metis map_of_inject_set set_mset_mset)
  have c: "map_of (collect_map (?c kvs)) = map_of (?c kvs)" if "distinct (map fst kvs)" for kvs
    using collect_map_props [of "?c kvs"] map_of_rev_distinct [of "?c kvs"] that unfolding keys by metis
  have conv: "map_of (?c kvs) = map_option (prost_value_to_json_value lc) \<circ> map_of kvs" for kvs
    by (rule ext) (simp add: map_of_map)
  have "collect_map (?c kvs) = collect_map (?c kvs')"
    using collect_map_props [of "?c kvs"] collect_map_props [of "?c kvs'"] c [OF assms(1)] c [OF d] m
    by (intro sorted_assoc_eq) (simp_all add: conv)
  then show ?thesis
    using collect_map_props [of "?c kvs"] c [OF assms(1)] by (simp add: prost_struct_to_json_value_def conv)
qed

definition example_ledger_crates :: ledger_crates where
  "example_ledger_crates = crates.extend example_crates \<lparr>lq_metadata_to_str = Some,
     lq_from_timestamp = (\<lambda>s n. Some (s * nanos_per_second + n)),
       lq_json_from_f64 = (\<lambda>_. JNull)\<rparr>"

lemma prost_struct_order_example:
  "prost_struct_to_json_value example_ledger_crates [(''b'', PBool True), (''a'', PList [PString ''x''])] =
     prost_struct_to_json_value example_ledger_crates [(''a'', PList [PString ''x'']), (''b'', PBool True)] \<and>
   json_get (prost_struct_to_json_value example_ledger_crates [(''b'', PBool True), (''a'',
     PList [PString ''x''])]) ''a'' =
     Some (JArray [JString ''x''])"
  using prost_struct_order [of "[(''b'', PBool True), (''a'', PList [PString ''x''])]"
      "[(''a'', PList [PString ''x'']), (''b'', PBool True)]" example_ledger_crates "''a''"]
  by (auto simp: add_mset_commute)

section \<open>What a request can ask\<close>

text \<open>A page a client can ask for, and two read models that answer alike for a tenant and such pages.\<close>

definition page_ok :: "pagination \<Rightarrow> bool" where
  "page_ok p \<longleftrightarrow> 1 \<le> pg_page_size p \<and> pg_page_size p \<le> 1000"

lemma page_ok_map [simp]: "page_ok (map_proto_pagination p)"
  by (cases p) (simp_all add: map_proto_pagination_def page_ok_def)

definition answer_alike :: "uuid \<Rightarrow> read_model \<Rightarrow> read_model \<Rightarrow> bool" where
  "answer_alike t rm rm' \<longleftrightarrow>
     (\<forall>account_id as_of. rm_get_account_balance rm account_id t as_of =
       rm_get_account_balance rm' account_id t as_of) \<and>
     (\<forall>account_id from_date to_date pagination. page_ok pagination \<longrightarrow> rm_get_account_statement rm account_id t from_date to_date pagination = rm_get_account_statement rm' account_id t from_date to_date pagination) \<and>
     (\<forall>transaction_id. rm_get_transaction_by_id rm transaction_id t =
       rm_get_transaction_by_id rm' transaction_id t) \<and>
     (\<forall>account_ids types from_date to_date pagination. page_ok pagination \<longrightarrow> rm_list_transactions rm t account_ids types from_date to_date pagination = rm_list_transactions rm' t account_ids types from_date to_date pagination) \<and>
     (\<forall>query filters pagination. page_ok pagination \<longrightarrow> rm_search_transactions rm t query filters pagination = rm_search_transactions rm' t query filters pagination) \<and>
     (\<forall>as_of. rm_get_account_summary rm t as_of = rm_get_account_summary rm' t as_of) \<and>
     (\<forall>transaction_id. rm_get_movement_legs rm transaction_id t =
       rm_get_movement_legs rm' transaction_id t) \<and>
     (\<forall>transaction_id. rm_verify_double_entry rm transaction_id t =
       rm_verify_double_entry rm' transaction_id t) \<and>
     (\<forall>virtual_account_id. rm_get_virtual_account rm virtual_account_id t =
       rm_get_virtual_account rm' virtual_account_id t) \<and>
     (\<forall>parent_account_id types statuses pagination. page_ok pagination \<longrightarrow> rm_list_virtual_accounts rm t parent_account_id types statuses pagination = rm_list_virtual_accounts rm' t parent_account_id types statuses pagination) \<and>
     (\<forall>parent_account_id. rm_get_virtual_account_summary rm parent_account_id t =
       rm_get_virtual_account_summary rm' parent_account_id t) \<and>
     (\<forall>position_id. rm_get_liquidity_position rm position_id t =
       rm_get_liquidity_position rm' position_id t) \<and>
     (\<forall>account_id types statuses pagination. page_ok pagination \<longrightarrow> rm_list_liquidity_positions rm t account_id types statuses pagination = rm_list_liquidity_positions rm' t account_id types statuses pagination) \<and>
     (\<forall>account_id. rm_get_liquidity_summary rm account_id t =
       rm_get_liquidity_summary rm' account_id t) \<and>
     (\<forall>lookahead_minutes. rm_get_expiring_positions rm t lookahead_minutes =
       rm_get_expiring_positions rm' t lookahead_minutes) \<and>
     (\<forall>settlement_id. rm_get_settlement_instruction rm settlement_id t =
       rm_get_settlement_instruction rm' settlement_id t) \<and>
     (\<forall>settlement_type statuses from_date to_date pagination. page_ok pagination \<longrightarrow> rm_list_settlement_instructions rm t settlement_type statuses from_date to_date pagination = rm_list_settlement_instructions rm' t settlement_type statuses from_date to_date pagination) \<and>
     rm_get_pending_settlements rm t = rm_get_pending_settlements rm' t \<and>
     (\<forall>start_date end_date. rm_get_settlement_summary rm t start_date end_date =
       rm_get_settlement_summary rm' t start_date end_date) \<and>
     (\<forall>suspense_id. rm_get_suspense_item rm suspense_id t = rm_get_suspense_item rm' suspense_id t) \<and>
     (\<forall>statuses categories priority pagination. page_ok pagination \<longrightarrow> rm_list_suspense_items rm t statuses categories priority pagination = rm_list_suspense_items rm' t statuses categories priority pagination) \<and>
     rm_get_suspense_aging_report rm t = rm_get_suspense_aging_report rm' t \<and>
     (\<forall>suspense_id pagination. page_ok pagination \<longrightarrow> rm_get_suspense_activity_log rm suspense_id t pagination = rm_get_suspense_activity_log rm' suspense_id t pagination) \<and>
     (\<forall>coa_code. rm_get_coa_entry rm coa_code t = rm_get_coa_entry rm' coa_code t) \<and>
     (\<forall>parent_code account_category pagination. page_ok pagination \<longrightarrow> rm_list_coa_entries rm t parent_code account_category pagination = rm_list_coa_entries rm' t parent_code account_category pagination) \<and>
     (\<forall>account_id fiscal_period_id. rm_get_period_end_balance rm account_id t fiscal_period_id =
       rm_get_period_end_balance rm' account_id t fiscal_period_id) \<and>
     (\<forall>fiscal_period_id pagination. page_ok pagination \<longrightarrow> rm_list_period_end_balances rm t fiscal_period_id pagination = rm_list_period_end_balances rm' t fiscal_period_id pagination)"

lemma bindE_liftE_Inr [simp]: "bindE (liftE (Inr a)) f = f a"
  by (simp add: bindE_def liftE_def)

lemma lq_parse_uuid_Some: "uuid_parse lc s = Some u \<Longrightarrow> lq_parse_uuid lc s = Inr u"
  by (simp add: lq_parse_uuid_def)

lemmas handler_defs = handler_get_account_balance_def handler_get_account_statement_def
    handler_get_transaction_by_id_def handler_list_transactions_def handler_search_transactions_def
    handler_get_account_summary_def handler_get_movement_legs_def handler_verify_double_entry_def
    handler_get_virtual_account_def handler_list_virtual_accounts_def handler_get_virtual_account_summary_def
    handler_get_virtual_account_transactions_def handler_get_liquidity_position_def
    handler_list_liquidity_positions_def handler_get_liquidity_summary_def handler_get_expiring_positions_def
    handler_get_settlement_instruction_def handler_list_settlement_instructions_def
    handler_get_pending_settlements_def handler_get_settlement_summary_def handler_get_suspense_item_def
    handler_list_suspense_items_def handler_get_suspense_aging_report_def handler_get_suspense_activity_log_def
    handler_get_coa_entry_def handler_list_coa_entries_def handler_get_period_end_balance_def
    handler_list_period_end_balances_def handler_rebuild_account_view_def

lemmas grpc_defs = grpc_get_account_balance_def grpc_get_account_statement_def grpc_get_transaction_by_id_def
    grpc_list_transactions_def grpc_search_transactions_def grpc_get_account_summary_def
    grpc_get_movement_legs_def grpc_verify_double_entry_def grpc_get_virtual_account_def
    grpc_list_virtual_accounts_def grpc_get_virtual_account_summary_def
    grpc_get_virtual_account_transactions_def grpc_get_liquidity_position_def grpc_list_liquidity_positions_def
    grpc_get_liquidity_summary_def grpc_get_expiring_positions_def grpc_get_settlement_instruction_def
    grpc_list_settlement_instructions_def grpc_get_pending_settlements_def grpc_get_settlement_summary_def
    grpc_get_suspense_item_def grpc_list_suspense_items_def grpc_get_suspense_aging_report_def
    grpc_get_suspense_activity_log_def grpc_get_coa_entry_def grpc_list_coa_entries_def
    grpc_get_period_end_balance_def grpc_list_period_end_balances_def grpc_rebuild_account_view_def

text \<open>C34: the service asks the read model only about the tenant of the request, and only for pages of one to a
  thousand entries: over two read models that answer alike for that tenant and such pages, every
  request has the same outcome.\<close>

theorem ledger_tenant_isolation:
  assumes "uuid_parse lc tenant = Some t" "answer_alike t rm rm'"
  shows "grpc_get_account_balance lc rm md account_id tenant as_of =
      grpc_get_account_balance lc rm' md account_id tenant as_of \<and>
    grpc_get_account_statement lc rm md account_id tenant from_date to_date pagination =
      grpc_get_account_statement lc rm' md account_id tenant from_date to_date pagination \<and>
    grpc_get_transaction_by_id lc rm md transaction_id tenant =
      grpc_get_transaction_by_id lc rm' md transaction_id tenant \<and>
    grpc_list_transactions lc rm md tenant account_ids types from_date to_date pagination =
      grpc_list_transactions lc rm' md tenant account_ids types from_date to_date pagination \<and>
    grpc_search_transactions lc rm md tenant query filters pagination =
      grpc_search_transactions lc rm' md tenant query filters pagination \<and>
    grpc_get_account_summary lc rm md tenant as_of = grpc_get_account_summary lc rm' md tenant as_of \<and>
    grpc_get_movement_legs lc rm md transaction_id tenant =
      grpc_get_movement_legs lc rm' md transaction_id tenant \<and>
    grpc_verify_double_entry lc rm md transaction_id tenant =
      grpc_verify_double_entry lc rm' md transaction_id tenant \<and>
    grpc_get_virtual_account lc rm md virtual_account_id tenant =
      grpc_get_virtual_account lc rm' md virtual_account_id tenant \<and>
    grpc_list_virtual_accounts lc rm md tenant parent_account_id types statuses pagination =
      grpc_list_virtual_accounts lc rm' md tenant parent_account_id types statuses pagination \<and>
    grpc_get_virtual_account_summary lc rm md parent_account_id tenant =
      grpc_get_virtual_account_summary lc rm' md parent_account_id tenant \<and>
    grpc_get_virtual_account_transactions lc rm md virtual_account_id tenant from_date to_date pagination =
      grpc_get_virtual_account_transactions lc rm' md virtual_account_id tenant from_date to_date pagination \<and>
    grpc_get_liquidity_position lc rm md position_id tenant =
      grpc_get_liquidity_position lc rm' md position_id tenant \<and>
    grpc_list_liquidity_positions lc rm md tenant account_id types statuses pagination =
      grpc_list_liquidity_positions lc rm' md tenant account_id types statuses pagination \<and>
    grpc_get_liquidity_summary lc rm md account_id tenant =
      grpc_get_liquidity_summary lc rm' md account_id tenant \<and>
    grpc_get_expiring_positions lc rm md tenant lookahead_minutes =
      grpc_get_expiring_positions lc rm' md tenant lookahead_minutes \<and>
    grpc_get_settlement_instruction lc rm md settlement_id tenant =
      grpc_get_settlement_instruction lc rm' md settlement_id tenant \<and>
    grpc_list_settlement_instructions lc rm md tenant settlement_type statuses from_date to_date pagination =
      grpc_list_settlement_instructions lc rm' md tenant settlement_type statuses from_date to_date pagination \<and>
    grpc_get_pending_settlements lc rm md tenant = grpc_get_pending_settlements lc rm' md tenant \<and>
    grpc_get_settlement_summary lc rm md tenant start_date end_date =
      grpc_get_settlement_summary lc rm' md tenant start_date end_date \<and>
    grpc_get_suspense_item lc rm md suspense_id tenant = grpc_get_suspense_item lc rm' md suspense_id tenant \<and>
    grpc_list_suspense_items lc rm md tenant statuses categories priority pagination =
      grpc_list_suspense_items lc rm' md tenant statuses categories priority pagination \<and>
    grpc_get_suspense_aging_report lc rm md tenant = grpc_get_suspense_aging_report lc rm' md tenant \<and>
    grpc_get_suspense_activity_log lc rm md suspense_id tenant pagination =
      grpc_get_suspense_activity_log lc rm' md suspense_id tenant pagination \<and>
    grpc_get_coa_entry lc rm md coa_code tenant = grpc_get_coa_entry lc rm' md coa_code tenant \<and>
    grpc_list_coa_entries lc rm md tenant parent_code account_category pagination =
      grpc_list_coa_entries lc rm' md tenant parent_code account_category pagination \<and>
    grpc_get_period_end_balance lc rm md account_id tenant fiscal_period_id =
      grpc_get_period_end_balance lc rm' md account_id tenant fiscal_period_id \<and>
    grpc_list_period_end_balances lc rm md tenant fiscal_period_id pagination =
      grpc_list_period_end_balances lc rm' md tenant fiscal_period_id pagination \<and>
    grpc_rebuild_account_view lc rm md account_id tenant dry_run =
      grpc_rebuild_account_view lc rm' md account_id tenant dry_run"
  using assms(2) unfolding answer_alike_def
  by (simp add: grpc_defs handler_defs Let_def lq_parse_uuid_Some [OF assms(1)])

text \<open>A read model that differs from the PostgreSQL one for every tenant but one.\<close>

definition other_read_model :: read_model where
  "other_read_model = (postgres_read_model example_ledger_crates)\<lparr>rm_verify_double_entry :=
     (\<lambda>i t. if t = 2 then pg_verify_double_entry example_ledger_crates i t else okE (False, dec_zero,
       dec_zero, dec_zero))\<rparr>"

theorem ledger_tenant_isolation_witness:
  "grpc_verify_double_entry example_ledger_crates (postgres_read_model example_ledger_crates) Map.empty ''x'' ''ab'' =
     grpc_verify_double_entry example_ledger_crates other_read_model Map.empty ''x'' ''ab'' \<and>
   rm_verify_double_entry
     (postgres_read_model example_ledger_crates) \<noteq> rm_verify_double_entry other_read_model"
proof
  have alike: "answer_alike 2 (postgres_read_model example_ledger_crates) other_read_model"
    by (simp add: answer_alike_def other_read_model_def postgres_read_model_def)
  have tenant: "uuid_parse example_ledger_crates ''ab'' = Some 2"
    by (simp add: example_ledger_crates_def example_crates_def crates.defs)
  show "grpc_verify_double_entry example_ledger_crates
      (postgres_read_model example_ledger_crates) Map.empty ''x'' ''ab'' =
     grpc_verify_double_entry example_ledger_crates other_read_model Map.empty ''x'' ''ab''"
    by (rule ledger_tenant_isolation [OF tenant alike, THEN conjunct2, THEN conjunct2, THEN conjunct2, THEN conjunct2,
          THEN conjunct2, THEN conjunct2, THEN conjunct2, THEN conjunct1])
  let ?w = "\<lparr>db_calls = 0, db_fault = (\<lambda>_. None), clock_reads = 0, clock = (\<lambda>_. 0),
      uuids_made = 0, uuid_supply = (\<lambda>_. 0)\<rparr>"
  have "rm_verify_double_entry
      (postgres_read_model example_ledger_crates) 0 0 ?w \<noteq> rm_verify_double_entry other_read_model 0 0 ?w"
    by (simp add: other_read_model_def postgres_read_model_def pg_verify_double_entry_def lq_set_tenant_def eff_simps)
  then show "rm_verify_double_entry
      (postgres_read_model example_ledger_crates) \<noteq> rm_verify_double_entry other_read_model"
    by metis
qed

section \<open>Refused requests\<close>

text \<open>
  A handler that replies, whatever the world, exactly if a condition holds, and otherwise refuses
  with an invalid-argument status and leaves the world untouched.
\<close>

definition replies_iff :: "bool \<Rightarrow> (db_world, status, 'a) eff \<Rightarrow> bool" where
  "replies_iff ok m \<longleftrightarrow>
     (\<forall>w. if ok then \<exists>r w'. m w = (Inr r, w') else \<exists>s. m w = (Inl s,
       w) \<and> code s = Code_InvalidArgument)"

lemma replies_iff_respond: "ok \<Longrightarrow> replies_iff ok (respond q f g tr)"
  by (simp add: replies_iff_def respond_def eff_simps split_beta)

lemma replies_iff_bind:
  assumes "\<And>s. r = Inl s \<Longrightarrow> \<not> ok \<and> code s = Code_InvalidArgument" "\<And>a. r =
      Inr a \<Longrightarrow> replies_iff ok (f a)"
  shows "replies_iff ok (bindE (liftE r) f)"
  using assms by (cases r) (auto simp: replies_iff_def eff_simps)

definition is_uuid :: "'x ledger_crates_scheme \<Rightarrow> string \<Rightarrow> bool" where
  "is_uuid lc s \<longleftrightarrow> uuid_parse lc s \<noteq> None"

definition is_date :: "'x ledger_crates_scheme \<Rightarrow> timestamp option \<Rightarrow> bool" where
  "is_date lc ts \<longleftrightarrow> prost_to_chrono lc ts \<noteq> None"

lemma refusals:
  "lq_parse_uuid lc s = Inl st \<longleftrightarrow> \<not> is_uuid lc s \<and> st =
      mk_status Code_InvalidArgument (''Invalid UUID: '' @ s)"
  "required_date lc m ts = Inl st \<longleftrightarrow> \<not> is_date lc ts \<and> st =
      mk_status Code_InvalidArgument m"
  "optional_uuid lc s = Inl st \<longleftrightarrow> s \<noteq> [] \<and> lq_parse_uuid lc s = Inl st"
  by (auto simp: lq_parse_uuid_def is_uuid_def required_date_def is_date_def optional_uuid_def split: option.splits)

lemma accepted:
  "lq_parse_uuid lc s = Inr u \<Longrightarrow> is_uuid lc s" "required_date lc m ts =
      Inr d \<Longrightarrow> is_date lc ts"
  "optional_uuid lc s = Inr ov \<Longrightarrow> s = [] \<or> is_uuid lc s"
  by (cases "uuid_parse lc s"; cases "prost_to_chrono lc ts";
      simp add: lq_parse_uuid_def is_uuid_def required_date_def is_date_def optional_uuid_def split: if_splits)+

lemma collect_uuids:
  "collect_result (lq_parse_uuid lc) ss = Inl st \<Longrightarrow> \<not> list_all (is_uuid lc) ss \<and> code st =
      Code_InvalidArgument"
  "collect_result (lq_parse_uuid lc) ss = Inr us \<Longrightarrow> list_all (is_uuid lc) ss"
  by (induction ss arbitrary: us) (auto simp: refusals accepted split: sum.splits)


lemma replies_iff_rebuild:
  "ok \<Longrightarrow> replies_iff ok (bindE (attemptE q) (\<lambda>result. case result of
     Inr (a, b, c) \<Rightarrow> bindE utc_now (\<lambda>now. okE (f a b c now)) | Inl e \<Rightarrow> okE (g e)))"
  by (auto simp: replies_iff_def eff_simps utc_now_def split_beta split: sum.splits)


lemmas reply_rules = replies_iff_respond replies_iff_bind replies_iff_rebuild

text \<open>C35: every request of the six services is replied to exactly if the identifiers it must carry are UUIDs and
  the dates it must carry are valid, whatever the read model does; otherwise it is refused with an
  invalid-argument status before anything is read.\<close>

theorem ledger_refusals:
  "replies_iff (is_uuid lc account_id \<and> is_uuid lc tenant)
     (grpc_get_account_balance lc rm md account_id tenant as_of) \<and>
   replies_iff (is_uuid lc account_id \<and> is_uuid lc tenant \<and> is_date lc from_date \<and> is_date lc to_date)
     (grpc_get_account_statement lc rm md account_id tenant from_date to_date pagination) \<and>
   replies_iff (is_uuid lc transaction_id \<and> is_uuid lc tenant)
     (grpc_get_transaction_by_id lc rm md transaction_id tenant) \<and>
   replies_iff (is_uuid lc tenant \<and> list_all
     (is_uuid lc) account_ids \<and> is_date lc from_date \<and> is_date lc to_date)
     (grpc_list_transactions lc rm md tenant account_ids types from_date to_date pagination) \<and>
   replies_iff (is_uuid lc tenant)
     (grpc_search_transactions lc rm md tenant query filters pagination) \<and>
   replies_iff (is_uuid lc tenant)
     (grpc_get_account_summary lc rm md tenant as_of) \<and>
   replies_iff (is_uuid lc transaction_id \<and> is_uuid lc tenant)
     (grpc_get_movement_legs lc rm md transaction_id tenant) \<and>
   replies_iff (is_uuid lc transaction_id \<and> is_uuid lc tenant)
     (grpc_verify_double_entry lc rm md transaction_id tenant) \<and>
   replies_iff (is_uuid lc virtual_account_id \<and> is_uuid lc tenant)
     (grpc_get_virtual_account lc rm md virtual_account_id tenant) \<and>
   replies_iff (is_uuid lc tenant \<and> (parent_account_id = [] \<or> is_uuid lc parent_account_id))
     (grpc_list_virtual_accounts lc rm md tenant parent_account_id types statuses pagination) \<and>
   replies_iff (is_uuid lc parent_account_id \<and> is_uuid lc tenant)
     (grpc_get_virtual_account_summary lc rm md parent_account_id tenant) \<and>
   replies_iff (is_uuid lc virtual_account_id \<and> is_uuid lc tenant \<and> is_date lc from_date \<and> is_date lc to_date)
     (grpc_get_virtual_account_transactions lc rm md virtual_account_id tenant from_date to_date pagination) \<and>
   replies_iff (is_uuid lc position_id \<and> is_uuid lc tenant)
     (grpc_get_liquidity_position lc rm md position_id tenant) \<and>
   replies_iff (is_uuid lc tenant \<and> (account_id = [] \<or> is_uuid lc account_id))
     (grpc_list_liquidity_positions lc rm md tenant account_id types statuses pagination) \<and>
   replies_iff (is_uuid lc account_id \<and> is_uuid lc tenant)
     (grpc_get_liquidity_summary lc rm md account_id tenant) \<and>
   replies_iff (is_uuid lc tenant)
     (grpc_get_expiring_positions lc rm md tenant lookahead_minutes) \<and>
   replies_iff (is_uuid lc settlement_id \<and> is_uuid lc tenant)
     (grpc_get_settlement_instruction lc rm md settlement_id tenant) \<and>
   replies_iff (is_uuid lc tenant \<and> is_date lc from_date \<and> is_date lc to_date)
     (grpc_list_settlement_instructions lc rm md tenant settlement_type statuses from_date to_date pagination) \<and>
   replies_iff (is_uuid lc tenant)
     (grpc_get_pending_settlements lc rm md tenant) \<and>
   replies_iff (is_uuid lc tenant \<and> is_date lc start_date \<and> is_date lc end_date)
     (grpc_get_settlement_summary lc rm md tenant start_date end_date) \<and>
   replies_iff (is_uuid lc suspense_id \<and> is_uuid lc tenant)
     (grpc_get_suspense_item lc rm md suspense_id tenant) \<and>
   replies_iff (is_uuid lc tenant)
     (grpc_list_suspense_items lc rm md tenant statuses categories priority pagination) \<and>
   replies_iff (is_uuid lc tenant)
     (grpc_get_suspense_aging_report lc rm md tenant) \<and>
   replies_iff (is_uuid lc suspense_id \<and> is_uuid lc tenant)
     (grpc_get_suspense_activity_log lc rm md suspense_id tenant pagination) \<and>
   replies_iff (is_uuid lc tenant)
     (grpc_get_coa_entry lc rm md coa_code tenant) \<and>
   replies_iff (is_uuid lc tenant)
     (grpc_list_coa_entries lc rm md tenant parent_code account_category pagination) \<and>
   replies_iff (is_uuid lc account_id \<and> is_uuid lc tenant)
     (grpc_get_period_end_balance lc rm md account_id tenant fiscal_period_id) \<and>
   replies_iff (is_uuid lc tenant)
     (grpc_list_period_end_balances lc rm md tenant fiscal_period_id pagination) \<and>
   replies_iff (is_uuid lc account_id \<and> is_uuid lc tenant)
     (grpc_rebuild_account_view lc rm md account_id tenant dry_run)"
  unfolding grpc_defs Let_def
  by (intro conjI reply_rules) (auto simp: refusals dest: accepted collect_uuids)

section \<open>The service over PostgreSQL\<close>

text \<open>The error a lookup ends with, and the zero amount.\<close>

definition not_found :: "'x ledger_crates_scheme \<Rightarrow> (string \<rightharpoonup> string) \<Rightarrow>
    ledger_error \<Rightarrow> proto_error option" where
  "not_found lc md e = Some \<lparr>pe_code = 2, pe_message = ledger_error_to_string e,
     pe_details = [''trace_id'' \<mapsto> lq_extract_trace_id lc md], pe_trace_id = lq_extract_trace_id lc md,
       pe_grpc_code = 5\<rparr>"

definition no_money :: "proto_money option" where
  "no_money = Some \<lparr>pm_currency_code = ''USD'', pm_amount_cents = 0, pm_currency = 0\<rparr>"

lemma money_zero: "decimal_to_money dec_zero ''USD'' = no_money"
  by (simp add: decimal_to_money_def no_money_def dec_zero_def trunc_div_def in_i64_def)

lemma lq_set_tenant_up [simp]:
  "db_fault w (db_calls w) = None \<Longrightarrow> lq_set_tenant t w = (Inr (),
      w\<lparr>db_calls := Suc (db_calls w)\<rparr>)"
  by (simp add: lq_set_tenant_def eff_simps)

lemmas pg_defs = pg_get_account_balance_def pg_get_account_statement_def pg_get_transaction_by_id_def
    pg_list_transactions_def pg_search_transactions_def pg_get_account_summary_def pg_get_movement_legs_def
    pg_verify_double_entry_def pg_get_virtual_account_def pg_list_virtual_accounts_def
    pg_get_virtual_account_summary_def pg_get_liquidity_position_def pg_list_liquidity_positions_def
    pg_get_liquidity_summary_def pg_get_expiring_positions_def pg_get_settlement_instruction_def
    pg_list_settlement_instructions_def pg_get_pending_settlements_def pg_get_settlement_summary_def
    pg_get_suspense_item_def pg_list_suspense_items_def pg_get_suspense_aging_report_def
    pg_get_suspense_activity_log_def pg_get_coa_entry_def pg_list_coa_entries_def pg_get_period_end_balance_def
    pg_list_period_end_balances_def

lemma map_error_not_found:
  "ledger_code e = Code_NotFound \<Longrightarrow> ledger_error_code e =
      2 \<Longrightarrow> snd (map_error e (lq_extract_trace_id lc md)) = not_found lc md e"
  by (simp add: map_error_def not_found_def Let_def)


text \<open>Over PostgreSQL, whatever is stored,
    every well-formed lookup is answered with a not-found error inside an
  otherwise empty reply, every listing is empty with zero totals, and every transaction is reported as
  balanced.\<close>

lemma ledger_service_empty:
  assumes "uuid_parse lc i = Some u" "uuid_parse lc tenant = Some t" "db_fault w (db_calls w) = None"
    "prost_to_chrono lc from_date = Some d" "prost_to_chrono lc to_date = Some d'" "d \<le> d'"
  shows "fst (grpc_get_account_balance lc (postgres_read_model lc) md i tenant as_of w) =
      Inr (default_account_balance\<lparr>pab_account_id := i, pab_tenant_id := tenant,
      pab_error := not_found lc md (AccountNotFound (uuid_to_string lc u))\<rparr>) \<and>
    fst (grpc_get_account_statement lc (postgres_read_model lc) md i tenant from_date to_date pagination w) =
      Inr \<lparr>sr_account_id = i, sr_transactions = [], sr_pagination = Some no_pages,
        sr_opening_balance = no_money,
           sr_closing_balance = no_money, sr_total_credits = no_money, sr_total_debits = no_money,
           sr_total_fees = no_money, sr_total_count = 0, sr_error = None\<rparr> \<and>
    fst (grpc_get_transaction_by_id lc (postgres_read_model lc) md i tenant w) =
      Inr (default_transaction\<lparr>ptx_transaction_id := i,
      ptx_error := not_found lc md (TransactionNotFound (uuid_to_string lc u))\<rparr>) \<and>
    fst (grpc_list_transactions lc (postgres_read_model lc) md tenant [i] types from_date to_date pagination w) =
      Inr \<lparr>tr_transactions = [], tr_pagination = Some no_pages, tr_total_count = 0,
        tr_total_credits = no_money,
           tr_total_debits = no_money, tr_total_fees = no_money, tr_error = None\<rparr> \<and>
    fst (grpc_search_transactions lc (postgres_read_model lc) md tenant query filters pagination w) =
      Inr \<lparr>tr_transactions = [], tr_pagination = Some no_pages, tr_total_count = 0,
        tr_total_credits = no_money,
           tr_total_debits = no_money, tr_total_fees = no_money, tr_error = None\<rparr> \<and>
    fst (grpc_get_account_summary lc (postgres_read_model lc) md tenant as_of w) =
      Inr \<lparr>pas_tenant_id = uuid_to_string lc t, pas_total_accounts = 0, pas_balances = [],
        pas_total_liabilities = no_money,
           pas_total_assets = no_money, pas_as_of = Some (chrono_to_prost (clock w (clock_reads w))),
             pas_error = None\<rparr> \<and>
    fst (grpc_get_movement_legs lc (postgres_read_model lc) md i tenant w) = Inr \<lparr>lqk_id = i,
      lqk_items = [], lqk_error = None\<rparr> \<and>
    fst (grpc_verify_double_entry lc (postgres_read_model lc) md i tenant w) =
      Inr \<lparr>de_transaction_id = i, de_is_balanced = True, de_total_debits = no_money,
        de_total_credits = no_money,
           de_difference = no_money, de_error = None\<rparr> \<and>
    fst (grpc_get_virtual_account lc (postgres_read_model lc) md i tenant w) =
      Inr (default_virtual_account\<lparr>pva_virtual_account_id := i,
      pva_error := not_found lc md (VirtualAccountNotFound (uuid_to_string lc u))\<rparr>) \<and>
    fst (grpc_list_virtual_accounts lc (postgres_read_model lc) md tenant [] va_types va_statuses pagination w) =
      Inr \<lparr>lqp_items = [], lqp_pagination = Some no_pages, lqp_error = None\<rparr> \<and>
    fst (grpc_get_virtual_account_summary lc (postgres_read_model lc) md i tenant w) = Inr \<lparr>lqk_id = i,
      lqk_items = [], lqk_error = None\<rparr> \<and>
    fst (grpc_get_virtual_account_transactions lc
      (postgres_read_model lc) md i tenant from_date to_date pagination w) =
      Inr \<lparr>tr_transactions = [], tr_pagination = Some no_pages, tr_total_count = 0,
        tr_total_credits = no_money,
           tr_total_debits = no_money, tr_total_fees = no_money, tr_error = None\<rparr> \<and>
    fst (grpc_get_liquidity_position lc (postgres_read_model lc) md i tenant w) =
      Inr (default_liquidity_position\<lparr>plp_position_id := i,
      plp_error := not_found lc md (LiquidityPositionNotFound (uuid_to_string lc u))\<rparr>) \<and>
    fst (grpc_list_liquidity_positions lc (postgres_read_model lc) md tenant [] lp_types lp_statuses pagination w) =
      Inr \<lparr>lqp_items = [], lqp_pagination = Some no_pages, lqp_error = None\<rparr> \<and>
    fst (grpc_get_liquidity_summary lc (postgres_read_model lc) md i tenant w) = Inr \<lparr>lqk_id = i,
      lqk_items = [], lqk_error = None\<rparr> \<and>
    fst (grpc_get_expiring_positions lc (postgres_read_model lc) md tenant lookahead_minutes w) =
      Inr \<lparr>lqi_items = [], lqi_error = None\<rparr> \<and>
    fst (grpc_get_settlement_instruction lc (postgres_read_model lc) md i tenant w) =
      Inr (default_settlement_instruction\<lparr>psi_settlement_id := i,
      psi_error := not_found lc md (SettlementNotFound (uuid_to_string lc u))\<rparr>) \<and>
    fst (grpc_list_settlement_instructions lc
      (postgres_read_model lc) md tenant settlement_type statuses from_date to_date pagination w) =
      Inr \<lparr>lqp_items = [], lqp_pagination = Some no_pages, lqp_error = None\<rparr> \<and>
    fst (grpc_get_pending_settlements lc (postgres_read_model lc) md tenant w) = Inr \<lparr>lqi_items = [],
      lqi_error = None\<rparr> \<and>
    fst (grpc_get_settlement_summary lc (postgres_read_model lc) md tenant from_date to_date w) =
      Inr \<lparr>lqi_items = [], lqi_error = None\<rparr> \<and>
    fst (grpc_get_suspense_item lc (postgres_read_model lc) md i tenant w) =
      Inr (default_suspense_item\<lparr>psu_suspense_id := i,
      psu_error := not_found lc md (SuspenseItemNotFound (uuid_to_string lc u))\<rparr>) \<and>
    fst (grpc_list_suspense_items lc (postgres_read_model lc) md tenant statuses categories priority pagination w) =
      Inr \<lparr>lqp_items = [], lqp_pagination = Some no_pages, lqp_error = None\<rparr> \<and>
    fst (grpc_get_suspense_aging_report lc (postgres_read_model lc) md tenant w) = Inr \<lparr>lqi_items = [],
      lqi_error = None\<rparr> \<and>
    fst (grpc_get_suspense_activity_log lc (postgres_read_model lc) md i tenant pagination w) =
      Inr \<lparr>lqp_items = [], lqp_pagination = Some no_pages, lqp_error = None\<rparr> \<and>
    fst (grpc_get_coa_entry lc (postgres_read_model lc) md coa_code tenant w) =
      Inr (default_coa_entry\<lparr>pce_coa_code := coa_code,
      pce_error := not_found lc md (CoaEntryNotFound coa_code)\<rparr>) \<and>
    fst (grpc_list_coa_entries lc (postgres_read_model lc) md tenant parent_code account_category pagination w) =
      Inr \<lparr>lqp_items = [], lqp_pagination = Some no_pages, lqp_error = None\<rparr> \<and>
    fst (grpc_get_period_end_balance lc (postgres_read_model lc) md i tenant fiscal_period_id w) =
      Inr (default_period_end_balance\<lparr>ppb_account_id := i, ppb_tenant_id := tenant,
        ppb_fiscal_period_id := fiscal_period_id,
        ppb_error := not_found lc md (PeriodEndBalanceNotFound
          (''account:'' @ uuid_to_string lc u @ '' period:'' @ fiscal_period_id))\<rparr>) \<and>
    fst (grpc_list_period_end_balances lc (postgres_read_model lc) md tenant fiscal_period_id pagination w) =
      Inr \<lparr>lqp_items = [], lqp_pagination = Some no_pages, lqp_error = None\<rparr> \<and>
    fst (grpc_rebuild_account_view lc (postgres_read_model lc) md i tenant dry_run w) =
      Inr (default_rebuild_reply\<lparr>rb_account_id := i,
        rb_error := not_found lc md (AccountNotFound (uuid_to_string lc u))\<rparr>)"
  using assms
  by (simp add: grpc_defs handler_defs pg_defs postgres_read_model_def Let_def lq_parse_uuid_def required_date_def
      respond_def eff_simps optional_uuid_def money_zero map_error_not_found transactions_to_reply_def
      map_domain_pagination_def account_summary_to_proto_def utc_now_def no_pages_def)

lemma ledger_service_empty_example:
  "fst (grpc_verify_double_entry example_ledger_crates
      (postgres_read_model example_ledger_crates) Map.empty ''x'' ''ab''
      \<lparr>db_calls = 0, db_fault = (\<lambda>_. None), clock_reads = 0, clock = (\<lambda>_. 0),
        uuids_made = 0, uuid_supply = (\<lambda>_. 0)\<rparr>) =
     Inr \<lparr>de_transaction_id = ''x'', de_is_balanced = True, de_total_debits = no_money,
       de_total_credits = no_money,
          de_difference = no_money, de_error = None\<rparr>"
proof (rule ledger_service_empty [THEN conjunct2, THEN conjunct2, THEN conjunct2, THEN conjunct2,
      THEN conjunct2, THEN conjunct2, THEN conjunct2, THEN conjunct1])
  show "uuid_parse example_ledger_crates ''x'' = Some 1" "uuid_parse example_ledger_crates ''ab'' = Some 2"
    by (simp_all add: example_ledger_crates_def example_crates_def crates.defs)
  show "prost_to_chrono example_ledger_crates (Some \<lparr>seconds = 1, nanos = 0\<rparr>) = Some 1000000000"
    "prost_to_chrono example_ledger_crates (Some \<lparr>seconds = 2, nanos = 0\<rparr>) = Some 2000000000"
    by (simp_all add: prost_to_chrono_def example_ledger_crates_def nanos_per_second_def as_u32_def crates.defs)
qed simp_all

end
