(* ===== verification/Rpc_Common.thy ===== *)
theory Rpc_Common
  imports Wire
begin

text \<open>
  What the gRPC servers have in common: the \<open>Health\<close> procedure of each service, the procedures that
  are declared but answer \<open>UNIMPLEMENTED\<close>, and the request interceptor and trace extraction of
  common/src.
\<close>

section \<open>Health\<close>

record health_response =
  hl_status :: int
  hl_version :: string
  hl_timestamp :: timestamp
  hl_dependencies :: "(string \<times> string) list"
  hl_metadata :: "(string \<times> string) list"

text \<open>\<open>ServingStatus::Serving\<close> and the version of the workspace; \<open>SystemTime::now()\<close> reads the clock.\<close>

abbreviation serving_response :: "(string \<times> string) list \<Rightarrow> ('x db_world_scheme, status, health_response) eff" where
  "serving_response deps \<equiv>
     bindE utc_now (\<lambda>now.
     okE \<lparr>hl_status = 1, hl_version = ''0.1.0'', hl_timestamp = to_timestamp now, hl_dependencies = deps,
          hl_metadata = []\<rparr>)"

definition payment_health :: "('x db_world_scheme, status, health_response) eff" where
  "payment_health = serving_response []"

definition audit_health :: "('x db_world_scheme, status, health_response) eff" where
  "audit_health = serving_response []"

definition messaging_health :: "('x db_world_scheme, status, health_response) eff" where
  "messaging_health = serving_response []"

definition reconciliation_health :: "('x db_world_scheme, status, health_response) eff" where
  "reconciliation_health = serving_response []"

definition ledger_health :: "('x db_world_scheme, status, health_response) eff" where
  "ledger_health = serving_response []"

definition session_health :: "('x db_world_scheme, status, health_response) eff" where
  "session_health = serving_response [(''postgres'', ''ok'')]"

lemmas health_defs = payment_health_def audit_health_def messaging_health_def reconciliation_health_def
  ledger_health_def session_health_def

text \<open>
  No health procedure asks the database: each answers \<open>SERVING\<close> whatever the state of the
  connection, and the session service reports its database as \<open>ok\<close> without a statement to it.
\<close>

lemma health_asks_nothing:
  assumes "h \<in> {payment_health, audit_health, messaging_health, reconciliation_health, ledger_health, session_health}"
  shows "\<exists>r. h w = (Inr r, w\<lparr>clock_reads := Suc (clock_reads w)\<rparr>) \<and> hl_status r = 1"
  using assms by (auto simp: health_defs eff_simps utc_now_def)

lemma session_health_claims_database:
  "\<exists>r. session_health w = (Inr r, w\<lparr>clock_reads := Suc (clock_reads w)\<rparr>) \<and> hl_dependencies r = [(''postgres'', ''ok'')]"
  by (simp add: health_defs eff_simps utc_now_def)

section \<open>Declared procedures without an implementation\<close>

abbreviation unimplemented :: "string \<Rightarrow> ('w, status, 'a) eff" where
  "unimplemented rpc \<equiv> failE (mk_status Code_Unimplemented (rpc @ '' not implemented''))"

definition payment_unimplemented :: "string list" where
  "payment_unimplemented =
     [''preview_payment'', ''bulk_initiate_payment'', ''initiate_disbursement'', ''bulk_initiate_disbursement'',
      ''get_payment_details'', ''refund_payment'', ''reverse_payment'', ''list_payments'', ''get_payment_analytics'',
      ''validate_phone_number'', ''get_provider_balance'', ''get_provider_capabilities'', ''report_dispute'',
      ''update_dispute'', ''upload_dispute_evidence'', ''get_dispute_status'', ''list_disputes'',
      ''generate_settlement_file'', ''get_settlement_file'', ''list_settlement_files'']"

definition session_unimplemented :: "string list" where
  "session_unimplemented =
     [''reconstruct_sessions'', ''get_session_events'', ''create_checkpoint'', ''restore_checkpoint'',
      ''list_active_sessions'', ''search_sessions'', ''get_concurrent_sessions'', ''merge_sessions'', ''get_session_metrics'']"

text \<open>The call of a procedure by name; \<open>None\<close> for one the tables above do not list.\<close>

definition unimplemented_call :: "string list \<Rightarrow> string \<Rightarrow> ('w, status, 'a) eff option" where
  "unimplemented_call rpcs rpc = (if rpc \<in> set rpcs then Some (unimplemented rpc) else None)"

lemma refunds_unimplemented:
  "\<exists>m. unimplemented_call payment_unimplemented ''refund_payment'' = Some m \<and>
     m w = (Inl (mk_status Code_Unimplemented ''refund_payment not implemented''), w)"
  by (simp add: unimplemented_call_def payment_unimplemented_def failE_def)

section \<open>Interceptors\<close>

text \<open>
  \<open>tracing_auth_interceptor\<close> on the metadata of a request, an association of keys and values: a
  request without an identifier gets a random one.  The text of a UUID is always a valid metadata
  value, so the conversion error of the source cannot occur.
\<close>

definition tracing_auth_interceptor ::
  "(uuid \<Rightarrow> string) \<Rightarrow> (string \<times> string) list \<Rightarrow> ('x db_world_scheme, status, (string \<times> string) list) eff" where
  "tracing_auth_interceptor show_uuid md =
     (case map_of md ''x-request-id'' of
        Some _ \<Rightarrow> okE md
      | None \<Rightarrow> bindE new_v4 (\<lambda>u. okE (md @ [(''x-request-id'', show_uuid u)])))"

text \<open>\<open>extract_trace_context\<close>: the trace identifier of the span to create, if there is a readable one.\<close>

definition extract_trace_context :: "(string \<times> string option) list \<Rightarrow> string option" where
  "extract_trace_context md =
     (let trace_id = unwrap_or (Option.bind (map_of md ''x-trace-id'') id) []
      in if trace_id = [] then None else Some trace_id)"

text \<open>Every request leaves the interceptor with an identifier, its own if it had one, and otherwise unchanged.\<close>

lemma interceptor_identifies:
  "\<exists>md' w'. tracing_auth_interceptor show_uuid md w = (Inr md', w') \<and> map_of md' ''x-request-id'' \<noteq> None \<and>
     (k \<noteq> ''x-request-id'' \<or> map_of md k \<noteq> None \<longrightarrow> map_of md' k = map_of md k)"
  by (auto simp: tracing_auth_interceptor_def eff_simps new_v4_def map_add_def map_of_append split: option.splits)

end
