(* ===== verification/Spec2Isabelle.thy ===== *)
theory Spec2Isabelle
  imports Session Payment_Refinement Audit_Cron Startup Recon_Properties Messaging_Properties Ledger_Properties
    Rpc_Common
begin

text \<open>
  A verification of the Rust engines of the USSD kernel (src/rust-engine).

  \<^bold>\<open>The program.\<close>  Six services answer gRPC requests over one PostgreSQL database.  The
  session reconstructor folds a session's stored events into its state, checks their hash chain and
  proves inclusion in a Merkle tree.  The payment engine initiates mobile-money payments with a
  provider, takes the provider's signed callbacks, and publishes every change through an outbox table.
  The audit service computes and signs a Merkle root per day, proves inclusion, and verifies batches and
  transaction chains.  The reconciliation engine matches the kernel's transactions with a provider's
  statement and keeps the discrepancies until they are resolved.  The messaging engine sends texts by
  three mobile networks and logs the attempts.  The ledger query service answers read-only queries
  about accounts, transactions, settlements and suspense items.

  \<^bold>\<open>How it is modelled.\<close>  A service operation is a function of an explicit world: \<open>('w,
      'e, 'a) eff\<close>
  takes a world and returns an error or a value with the world after it, and \<open>bindE\<close> is the question-mark
  operator.  The world (\<open>db_world\<close>, extended by each service with its tables) carries a fault schedule
  that decides which SQL statements fail, the readings of the clock and the random identifiers, so a
  theorem about all worlds is a theorem about all faults and all times.  Strings are character lists
  over U+0000 to U+00FF, identifiers 128-bit words, instants integers in nanoseconds, and \<open>i32\<close>,
      \<open>i64\<close>
  and \<open>u32\<close> casts are written out (\<open>as_i32\<close>, \<open>as_i64\<close>,
      \<open>as_u32\<close>).  Third-party crates (hashing,
  hexadecimal, signatures, HTTP, number and date formats) are records of functions that the
  definitions take as an argument; what a theorem needs of them is a named law among its hypotheses,
  and its witness has a concrete record that satisfies it.

  \<^bold>\<open>The theories\<close> (paths are relative to src/rust-engine).

  \<^item> \<open>Rust_Prelude\<close>, \<open>Wire\<close>, \<open>Decimals\<close>,
      \<open>Tables\<close>: the standard-library operations used, effects and
    invariants of programs (\<open>preserves\<close>, \<open>keeps\<close>), JSON,
      protobuf values and gRPC status, exact decimal
    arithmetic with its meaning in the rationals, and tables with a key (locale \<open>keyed_table\<close>).
  \<^item> \<open>Merkle\<close> (audit/src/domain/merkle.rs): construction,
      proof and verification over the flat array of
    the source; every proof verifies, and proofs and roots bind the leaves when the hash does not
    collide on the hashed inputs.
  \<^item> \<open>Session\<close> (session-reconstructor/src): the fold of events with its error cases,
      the hash chain and
    what it protects, the cache (a moka parameter with its documented laws), the Merkle proofs, which
    are those of \<open>Merkle\<close>, and the RPCs, none of which indexes out of range.
  \<^item> \<open>Payment\<close>, \<open>Payment_Store\<close>, \<open>Payment_Service\<close>,
      \<open>Payment_Correct\<close>, \<open>Payment_Properties\<close>
    (payment-engine/src): the payment state machine (\<open>pay_step\<close>) with its reachability invariant, the
    payments and outbox tables, the EcoCash client over an HTTP transcript (locale
    \<open>provider_contract\<close>), initiation with retries, callbacks and RPCs; the outcome of each request, the
    table invariant under any faults, idempotency, signatures, and the bounds of the retry loop.
  \<^item> \<open>Audit_Engine\<close>, \<open>Audit_Correct\<close>,
      \<open>Audit_Properties\<close> (audit/src): repository, handlers, signing, RPCs
    and the daily job; proofs, stored batches and their links, signatures, batch verification and the
    chain report.
  \<^item> \<open>Recon\<close>, \<open>Recon_Store\<close>, \<open>Recon_Service\<close>,
      \<open>Recon_Correct\<close>, \<open>Recon_Properties\<close>
    (reconciliation-engine/src): the greedy matching, which is injective, sound and maximal and
    conserves the amounts, the store, runs over any statement source (locale \<open>statement_sources\<close>),
    resolution and RPCs.
  \<^item> \<open>Messaging\<close>, \<open>Messaging_Port\<close>,
      \<open>Messaging_Properties\<close> (messaging-engine/src): templates, routing, the
    three adapters (locale \<open>sms_adapter\<close>), the delivery log and its invariant, batches, the rate
    limiter and RPCs.
  \<^item> \<open>Ledger\<close>, \<open>Ledger_Port\<close>,
      \<open>Ledger_Properties\<close> (ledger-query-service/src and the reply messages of
    src/protos/v1/ledger/ledger.proto): eleven enumerations (locale \<open>proto_enum\<close>), the read-model port
    as a record of operations, the handler, the PostgreSQL read model and the 29 queries of the six
    services; tenant isolation, refused requests, money, search filters, and what the service
    answers over PostgreSQL.
  \<^item> \<open>Host\<close>: what a process sees of its machine before it serves: environment
    variables, files, random keys, HTTP replies, the database connection and ports, with the parser of
    socket addresses of the standard library.
  \<^item> \<open>Payment_Refinement\<close>: an abstract machine over payments (\<open>machine_step\<close>) and the proof that
    the payment service, its requests composed in any order under any faults, refines it.
  \<^item> \<open>Audit_Cron\<close> (audit/src/main.rs): the daily job as a step relation that interleaves with the rest
    of the service; locales \<open>stable_steps\<close> and \<open>deadline_steps\<close> for infinite runs, and that no day is missed.
  \<^item> \<open>Audit_Key\<close> (audit/src/infrastructure/signing_backend.rs, signing.rs): loading and generating the
    signing key, and signatures across a restart.
  \<^item> \<open>Payment_Vault\<close> (payment-engine/src/infrastructure/vault.rs): the Vault login and secrets, the
    fall-back to the environment, and where the credentials come from.
  \<^item> \<open>Startup\<close> (the six main.rs and common/src/tls.rs): every exit of a start-up as a value, and the
    endpoint a started service has (locale \<open>service_start\<close>).
  \<^item> \<open>Rpc_Common\<close> (the ports, common/src/interceptors.rs and telemetry.rs): health, the procedures
    without an implementation, and the request interceptor.
  \<^item> This theory: the properties that span services.

  \<^bold>\<open>Bounds and termination.\<close>  Loops over data are structural recursion or terminate by a measure (the
  level length of a Merkle tree, the digits of a number); there is no fuel.  The retry loop is bounded
  by its three attempts.  The daily job never ends: it is a step relation, and the claim about it is
  one about infinite runs, with the scheduling it needs as hypotheses.

  \<^bold>\<open>Not modelled.\<close>  Log lines, metrics and tracing spans, which nothing reads back; the client
  TLS channel of common/src/tls.rs, which no service opens; reading a .env file, the time-outs of the
  connection pools, the connection to Redis and the shut-down on a signal; the body of the PKCS#11
  backend beyond its constant errors, since there is none; the 96-bit limit of decimal mantissas
  (arithmetic is exact); row-level security, which the tables reflect by holding the rows visible to
  the connection; the query texts of the ledger read model, which the code never sends; concurrency
  inside one handler, whose statements are taken without another handler's between them, while whole
  requests and runs of the daily job interleave in any order.  The Go orchestrator, the Python gateway
  and the database migrations of the repository are outside this development.
\<close>

section \<open>Money on the wire\<close>







section \<open>Credentials and callbacks\<close>

lemma ecocash_prefix [simp]: "to_uppercase ''ecocash'' = ''ECOCASH''"
  by code_simp

lemma payment_main_credentials:
  assumes "payment_main sc w = (Inr (s, creds), w')"
  shows "fst (provider_credentials_at_start sc ''ecocash'' w) = Inr creds"
proof -
  obtain vault w1 w2 where "get_vault_client sc w = (Inr vault, w1)" "get_credentials sc vault ''ecocash'' w1 = (Inr creds, w2)"
    using assms unfolding payment_main_def
    by (auto simp: database_pool_started okE_def getE_def map_errE_def elim!: bindE_Inr_cases split: prod.splits sum.splits)
  then show ?thesis by (simp add: provider_credentials_at_start_def bindE_Inr)
qed

text \<open>C40: a payment engine that has started without a Vault role and without a secret key in its environment
  uses the empty key: it accepts, for every payload, the signature computed with that key, which anyone
  can compute.\<close>

theorem unconfigured_engine_accepts_forged_callbacks:
  assumes "ct_eq_laws pc" "payment_main sc w = (Inr (s, creds), w')" "\<not> vault_configured w"
    "env_vars w ''ECOCASH_SECRET_KEY'' = None"
  shows "cred_secret_key creds = [] \<and>
    pc_verify_callback_signature (ecocash_client pc creds) payload (hex_encode pc (hmac_sha256 pc [] payload))"
proof -
  have "Inr creds = fst (mock_get_credentials ''ecocash'' w)"
    using payment_main_credentials [OF assms(2)] credentials_from_environment [OF assms(3), of sc "''ecocash''"] by simp
  then have key: "cred_secret_key creds = []"
    using assms(4) by (auto simp: mock_get_credentials_def getE_def env_or_def)
  then have "generate_signature pc creds payload = hex_encode pc (hmac_sha256 pc [] payload)"
    by (simp add: generate_signature_def as_bytes_def)
  then show ?thesis using key assms(1) by (simp add: ecocash_client_def ecocash_verify_def ct_eq_laws_def)
qed

theorem unconfigured_engine_accepts_forged_callbacks_witness:
  "\<exists>s creds w'. payment_main example_startup_crates example_start_host = (Inr (s, creds), w') \<and> cred_secret_key creds = []"
proof -
  have local: "parse_socket_addr (''127.0.0.1:'' @ show_nat 50052) = Inr (SocketV4 (127, 0, 0, 1) 50052)"
    by (rule parse_localhost) simp
  have bare: "\<not> vault_configured example_start_host" "env_vars example_start_host ''ECOCASH_SECRET_KEY'' = None"
    by (simp_all add: env_or_def example_start_host_def example_host_def)
  obtain s creds w' where run: "payment_main example_startup_crates example_start_host = (Inr (s, creds), w')"
    using local
    by (simp add: payment_main_def database_pool_def connect_pool_def listen_addr_def serve_def bind_listener_def
        get_vault_client_def get_credentials_def mock_get_credentials_def
        eff_simps env_or_def env_port_def example_start_host_def example_host_def Let_def)
  from unconfigured_engine_accepts_forged_callbacks [OF example_ct_eq_laws run bare] run show ?thesis by blast
qed

end
